(* ===== verification/Prelude.thy ===== *)
theory Prelude
  imports Main "HOL-Library.Word" "HOL-Library.Monad_Syntax"
begin

text \<open>
  Shared vocabulary of the development: the widths of the C integer types, the collections of
  rewrite rules the component proofs use, the faults a C function can run into, and generic
  lemmas on lists, options and words.
\<close>

unbundle bit_operations_syntax

section \<open>Types\<close>

text \<open>
  The unsigned types of the sources are words. A C \<open>int\<close> that carries data (a brightness, a
  number of milliseconds, a command code) is a 32-bit word read by \<^const>\<open>sint\<close>; a C \<open>int\<close> that is only
  a return code, a file descriptor or an \<open>errno\<close> is a HOL integer.
\<close>

type_synonym u8 = "8 word"
type_synonym u16 = "16 word"
type_synonym u32 = "32 word"
type_synonym u64 = "64 word"
type_synonym i32 = "32 word"

text \<open>
  What a C function can run into besides returning. A function of the model that may do so
  returns a sum, with the fault on the left.
\<close>

datatype fault =
    Null_deref
  | Buffer_overflow
  | Out_of_bounds_read
  | Uninit_read

section \<open>Collections\<close>

text \<open>
  \<open>world_simps\<close>: what a system call does to the recorded world; \<open>step_defs\<close>: the definitions of
  the handlers that are unfolded together; \<open>frame_simps\<close>: which fields a call leaves alone.
\<close>

named_theorems world_simps "effect of a system call on the recorded world"
named_theorems step_defs "definitions of the operations of a component"
named_theorems frame_simps "fields an operation leaves alone"

section \<open>Lists\<close>

lemma take_replicate_pad:
  "length (take n (xs @ replicate n c)) = n"
  by simp

lemma in_set_take_nth: "i < length xs \<Longrightarrow> xs ! i \<in> set xs"
  by simp

lemma remove1_Cons_same [simp]: "remove1 x (x # xs) = xs"
  by simp

lemma list_update_take_append:
  "i < n \<Longrightarrow> n \<le> length xs \<Longrightarrow> take n (xs[i := v]) = (take n xs)[i := v]"
  by (simp add: take_update_swap)

section \<open>Options as results of calls that may not return\<close>

lemma bind_Some_iff:
  "Option.bind m f = Some y \<longleftrightarrow> (\<exists>x. m = Some x \<and> f x = Some y)"
  by (cases m) auto

lemma bind_Some_E:
  assumes "Option.bind m f = Some y"
  obtains x where "m = Some x" and "f x = Some y"
  using assms by (auto simp: bind_Some_iff)

lemma bind_Some_map: "Option.bind m (\<lambda>x. Some (f x)) = map_option f m"
  by (cases m) auto

lemma option_bind_ex:
  "\<exists>x. m = Some x \<Longrightarrow> (\<And>x. m = Some x \<Longrightarrow> \<exists>y. f x = Some y) \<Longrightarrow> \<exists>y. Option.bind m f = Some y"
  by auto

section \<open>Words\<close>

lemma unat_mask8: "unat ((w :: 32 word) AND 0xFF) = unat w mod 256"
proof -
  have "w AND 0xFF = take_bit 8 w"
    by (simp add: take_bit_eq_mask mask_eq_exp_minus_1)
  then have "unat (w AND 0xFF) = take_bit 8 (unat w)"
    by (simp only: unsigned_take_bit_eq)
  then show ?thesis
    by (simp add: take_bit_eq_mod)
qed

lemma unat_mask8_less: "unat ((w :: 32 word) AND 0xFF) < 256"
  by (simp add: unat_mask8)

lemma word_and_zero_unat: "(w :: 'a::len word) = 0 \<longleftrightarrow> unat w = 0"
  by (simp add: unat_eq_0)

lemma sint_of_small_unat:
  assumes "unat (w :: 32 word) < 2 ^ 31"
  shows "sint w = int (unat w)"
proof -
  have eq: "uint w = int (unat w)"
    by simp
  have "unat w < 2147483648"
    using assms by simp
  with eq have "- 2147483648 \<le> uint w \<and> uint w < 2147483648"
    by linarith
  then have "signed_take_bit 31 (uint w) = uint w"
    by (simp add: signed_take_bit_int_eq_self_iff)
  moreover have "sint w = signed_take_bit 31 (uint w)"
    by (simp add: sint_uint)
  ultimately show ?thesis
    using eq by (simp only:)
qed

section \<open>Reachable states and invariants\<close>

inductive reach :: "('s \<Rightarrow> bool) \<Rightarrow> ('s \<Rightarrow> 's \<Rightarrow> bool) \<Rightarrow> 's \<Rightarrow> bool"
  for init :: "'s \<Rightarrow> bool" and step :: "'s \<Rightarrow> 's \<Rightarrow> bool" where
  reach_init: "init s \<Longrightarrow> reach init step s"
| reach_step: "reach init step s \<Longrightarrow> step s t \<Longrightarrow> reach init step t"

text \<open>
  The contract between a component's operations and its clients: whatever sequence of operations a
  client issues, the invariant holds.
\<close>

locale invariant_system =
  fixes init :: "'s \<Rightarrow> bool" and step :: "'s \<Rightarrow> 's \<Rightarrow> bool" and inv :: "'s \<Rightarrow> bool"
  assumes inv_init: "init s \<Longrightarrow> inv s"
    and inv_step: "inv s \<Longrightarrow> step s t \<Longrightarrow> inv t"
begin

lemma inv_reach: "reach init step s \<Longrightarrow> inv s"
proof (induction rule: reach.induct)
  case (reach_init s)
  then show ?case by (rule inv_init)
next
  case (reach_step s t)
  then show ?case by (blast intro: inv_step)
qed

end

end
