(* ===== verification/CText.thy ===== *)
theory CText
  imports Prelude
begin

text \<open>
  The part of the C library's text functions that the sources use: decimal and hexadecimal
  conversions of \<open>printf\<close>, bounded copies into fixed buffers, comparisons up to a length with and
  without case, \<open>strstr\<close>, \<open>strtol\<close> and \<open>atoi\<close>. A C string is the list of its characters before the
  terminating zero; a buffer is the list of all its characters, terminator and padding included.
\<close>

section \<open>Buffers\<close>

definition NUL :: char where
  "NUL = CHR 0x00"

definition c_str :: "char list \<Rightarrow> string" where
  "c_str buf = takeWhile (\<lambda>c. c \<noteq> NUL) buf"

definition is_c_str :: "string \<Rightarrow> bool" where
  "is_c_str s \<longleftrightarrow> NUL \<notin> set s"

definition buf_write :: "char list \<Rightarrow> nat \<Rightarrow> char list \<Rightarrow> char list" where
  "buf_write buf pos s = take pos buf @ s @ drop (pos + length s) buf"

lemma c_str_terminated [simp]: "is_c_str s \<Longrightarrow> c_str (s @ NUL # rest) = s"
  unfolding c_str_def is_c_str_def by (subst takeWhile_append2) auto

lemma length_buf_write [simp]:
  "pos + length s \<le> length buf \<Longrightarrow> length (buf_write buf pos s) = length buf"
  by (simp add: buf_write_def)

lemma take_buf_write:
  "pos + length s \<le> length buf \<Longrightarrow>
    take (pos + length s) (buf_write buf pos s) = take pos buf @ s"
  by (simp add: buf_write_def)

lemma is_c_str_append [simp]: "is_c_str (s @ t) \<longleftrightarrow> is_c_str s \<and> is_c_str t"
  by (auto simp: is_c_str_def)

lemma is_c_str_Nil [simp]: "is_c_str []"
  by (simp add: is_c_str_def)

lemma is_c_str_Cons [simp]: "is_c_str (c # s) \<longleftrightarrow> c \<noteq> NUL \<and> is_c_str s"
  by (auto simp: is_c_str_def)

lemma is_c_str_take: "is_c_str s \<Longrightarrow> is_c_str (take n s)"
  by (auto simp: is_c_str_def dest: in_set_takeD)

text \<open>
  \<open>strncpy\<close> fills exactly \<open>n\<close> characters, padding with zeros, and leaves no terminator when the string is
  too long; \<open>strlcpy\<close> always terminates and leaves the rest of the buffer alone.
\<close>

definition strncpy :: "nat \<Rightarrow> string \<Rightarrow> char list" where
  "strncpy n s = take n (s @ replicate n NUL)"

definition strlcpy :: "char list \<Rightarrow> string \<Rightarrow> char list" where
  "strlcpy buf s = (if buf = [] then [] else buf_write buf 0 (take (length buf - 1) s @ [NUL]))"

lemma length_strncpy [simp]: "length (strncpy n s) = n"
  by (simp add: strncpy_def)

lemma strncpy_short: "length s \<le> n \<Longrightarrow> strncpy n s = s @ replicate (n - length s) NUL"
  by (simp add: strncpy_def)

lemma strncpy_long: "n \<le> length s \<Longrightarrow> strncpy n s = take n s"
  by (simp add: strncpy_def)

lemma c_str_replicate [simp]: "c_str (replicate n NUL) = []"
  by (cases n) (simp_all add: c_str_def)

lemma c_str_padded: "is_c_str s \<Longrightarrow> 0 < n \<Longrightarrow> c_str (s @ replicate n NUL) = s"
  by (cases n) auto

lemma replicate_update [simp]: "(replicate n c)[i := c] = replicate n c"
  by (cases "i < n") (simp_all add: list_update_same_conv list_update_beyond)

lemma strncpy_terminated:
  assumes "is_c_str s" and "0 < n"
  shows "c_str ((strncpy n s)[n - 1 := NUL]) = take (n - 1) s"
proof (cases "length s < n")
  case True
  then obtain k where k: "n = length s + Suc k"
    using less_imp_Suc_add by fastforce
  have "strncpy n s = s @ replicate (Suc k) NUL"
    using k by (simp add: strncpy_short)
  then have "(strncpy n s)[n - 1 := NUL] = s @ replicate (Suc k) NUL"
    using k by (simp add: list_update_append replicate_append_same [symmetric] del: replicate_Suc)
  with assms True k show ?thesis by (simp add: c_str_padded del: replicate_Suc)
next
  case False
  then have "strncpy n s = take (n - 1) s @ [s ! (n - 1)]"
    using assms(2) by (simp add: strncpy_long take_Suc_conv_app_nth [symmetric])
  then have "(strncpy n s)[n - 1 := NUL] = take (n - 1) s @ NUL # []"
    using False by (simp add: list_update_append)
  with assms show ?thesis by (simp add: is_c_str_take)
qed

lemma strlcpy_fits:
  "is_c_str s \<Longrightarrow> length s < length buf \<Longrightarrow> c_str (strlcpy buf s) = s"
  by (auto simp: strlcpy_def buf_write_def)

section \<open>Conversions of printf\<close>

definition digit_char :: "nat \<Rightarrow> char" where
  "digit_char d = char_of (48 + d)"

fun dec :: "nat \<Rightarrow> string" where
  "dec n = (if n < 10 then [digit_char n] else dec (n div 10) @ [digit_char (n mod 10)])"

declare dec.simps [simp del]

definition fmt_d :: "int \<Rightarrow> string" where
  "fmt_d v = (if v < 0 then CHR ''-'' # dec (nat (- v)) else dec (nat v))"

text \<open>A conversion with a minimal width is filled with blanks on the left.\<close>

definition fmt_wd :: "nat \<Rightarrow> int \<Rightarrow> string" where
  "fmt_wd w v = replicate (w - length (fmt_d v)) CHR '' '' @ fmt_d v"

definition hex_char :: "bool \<Rightarrow> nat \<Rightarrow> char" where
  "hex_char upper d = (if d < 10 then char_of (48 + d)
     else char_of ((if upper then 55 else 87) + d))"

fun hex_fixed :: "bool \<Rightarrow> nat \<Rightarrow> nat \<Rightarrow> string" where
  "hex_fixed upper 0 n = []"
| "hex_fixed upper (Suc w) n = hex_fixed upper w (n div 16) @ [hex_char upper (n mod 16)]"

definition fmt_02X :: "u8 \<Rightarrow> string" where
  "fmt_02X b = hex_fixed True 2 (unat b)"

definition fmt_08X :: "u32 \<Rightarrow> string" where
  "fmt_08X w = hex_fixed True 8 (unat w)"

text \<open>
  \<open>sprintf\<close> into an array of \<open>cap\<close> characters: there is no result when the text and its terminator do
  not fit, since the call then writes past the array.
\<close>

definition sprintf :: "nat \<Rightarrow> string \<Rightarrow> string option" where
  "sprintf cap text = (if length text < cap then Some text else None)"

lemma digit_chars [simp]:
  "digit_char 0 = CHR ''0''" "digit_char (Suc 0) = CHR ''1''" "digit_char 2 = CHR ''2''"
  "digit_char 3 = CHR ''3''" "digit_char 4 = CHR ''4''" "digit_char 5 = CHR ''5''"
  "digit_char 6 = CHR ''6''" "digit_char 7 = CHR ''7''" "digit_char 8 = CHR ''8''"
  "digit_char 9 = CHR ''9''"
  by (simp_all add: digit_char_def char_of_def bit_numeral_rec bit_1_iff bit_0)

lemma of_char_digit_char: "d < 10 \<Longrightarrow> of_char (digit_char d) = (48 + d :: nat)"
  by (simp add: digit_char_def)

lemma digit_char_not_NUL [simp]: "d < 10 \<Longrightarrow> digit_char d \<noteq> NUL"
  using of_char_digit_char [of d] by (auto simp: NUL_def)

lemma is_c_str_dec [simp]: "is_c_str (dec n)"
  by (induction n rule: dec.induct) (subst dec.simps, simp)

lemma is_c_str_fmt_d [simp]: "is_c_str (fmt_d v)"
  by (simp add: fmt_d_def NUL_def)

lemma length_dec_ge1: "1 \<le> length (dec n)"
  by (subst dec.simps) simp

lemma length_dec_le: "n < 10 ^ k \<Longrightarrow> 0 < k \<Longrightarrow> length (dec n) \<le> k"
proof (induction n arbitrary: k rule: dec.induct)
  case (1 n)
  show ?case
  proof (cases "n < 10")
    case True
    with "1.prems" show ?thesis by (subst dec.simps) simp
  next
    case False
    obtain j where k: "k = Suc j" and j: "0 < j"
    proof (cases k)
      case 0
      with "1.prems" show ?thesis by simp
    next
      case (Suc i)
      with "1.prems" False have "i \<noteq> 0" by (auto intro: ccontr)
      with Suc that show ?thesis by simp
    qed
    have "n div 10 < 10 ^ j"
      using "1.prems"(1) k by (simp add: less_mult_imp_div_less mult.commute)
    with False j have "length (dec (n div 10)) \<le> j"
      by (intro "1.IH") auto
    with False k show ?thesis by (subst dec.simps) simp
  qed
qed

lemma length_hex_fixed [simp]: "length (hex_fixed u w n) = w"
  by (induction u w n rule: hex_fixed.induct) auto

lemma length_fmt_02X [simp]: "length (fmt_02X b) = 2"
  by (simp add: fmt_02X_def)

lemma length_fmt_08X [simp]: "length (fmt_08X b) = 8"
  by (simp add: fmt_08X_def)

lemma length_fmt_d_le:
  assumes "- (2 ^ 31) \<le> v" and "v < 2 ^ 31"
  shows "length (fmt_d v) \<le> 11"
proof (cases "v < 0")
  case True
  have "nat (- v) < 10 ^ 10"
    using assms by simp
  then have "length (dec (nat (- v))) \<le> 10"
    by (rule length_dec_le) simp
  with True show ?thesis by (simp add: fmt_d_def)
next
  case False
  have "nat v < 10 ^ 10"
    using assms by simp
  then have "length (dec (nat v)) \<le> 10"
    by (rule length_dec_le) simp
  with False show ?thesis by (simp add: fmt_d_def)
qed

lemma length_fmt_d_sint: "length (fmt_d (sint (w :: 32 word))) \<le> 11"
  using sint_ge [of w] sint_lt [of w] by (intro length_fmt_d_le) simp_all

lemma length_fmt_d_ge1: "1 \<le> length (fmt_d v)"
  using length_dec_ge1 by (simp add: fmt_d_def)

section \<open>Comparisons\<close>

text \<open>
  \<open>strncmp\<close> and \<open>strncasecmp\<close> return zero when the strings, terminators included, agree on their first
  \<open>n\<close> characters; \<open>strcmp\<close> is equality.
\<close>

definition strncmp_eq :: "nat \<Rightarrow> string \<Rightarrow> string \<Rightarrow> bool" where
  "strncmp_eq n s t \<longleftrightarrow> take n (s @ [NUL]) = take n (t @ [NUL])"

definition tolower :: "char \<Rightarrow> char" where
  "tolower c = (let n = of_char c :: nat in if 65 \<le> n \<and> n \<le> 90 then char_of (n + 32) else c)"

definition strcasecmp_eq :: "string \<Rightarrow> string \<Rightarrow> bool" where
  "strcasecmp_eq s t \<longleftrightarrow> map tolower s = map tolower t"

definition strncasecmp_eq :: "nat \<Rightarrow> string \<Rightarrow> string \<Rightarrow> bool" where
  "strncasecmp_eq n s t \<longleftrightarrow> strncmp_eq n (map tolower s) (map tolower t)"

text \<open>The part of the string from the first occurrence on.\<close>

fun strstr :: "string \<Rightarrow> string \<Rightarrow> string option" where
  "strstr s t =
     (if take (length t) s = t then Some s
      else case s of [] \<Rightarrow> None | c # s' \<Rightarrow> strstr s' t)"

declare strstr.simps [simp del]

lemma strncmp_eq_prefix: "is_c_str t \<Longrightarrow> strncmp_eq (length t) s t \<longleftrightarrow> take (length t) s = t"
proof (cases "length s < length t")
  case True
  assume "is_c_str t"
  show ?thesis
  proof
    assume "strncmp_eq (length t) s t"
    then have "t = s @ [NUL]"
      using True by (simp add: strncmp_eq_def)
    with \<open>is_c_str t\<close> show "take (length t) s = t" by simp
  next
    assume "take (length t) s = t"
    with True show "strncmp_eq (length t) s t" by simp
  qed
qed (simp add: strncmp_eq_def)

section \<open>strtol\<close>

definition is_space :: "char \<Rightarrow> bool" where
  "is_space c = (let n = of_char c :: nat in n = 32 \<or> 9 \<le> n \<and> n \<le> 13)"

definition digit_value :: "char \<Rightarrow> nat" where
  "digit_value c = (let n = of_char c in
     if 48 \<le> n \<and> n \<le> 57 then n - 48
     else if 97 \<le> n \<and> n \<le> 122 then n - 87
     else if 65 \<le> n \<and> n \<le> 90 then n - 55 else 36)"

definition digits_value :: "nat \<Rightarrow> string \<Rightarrow> nat" where
  "digits_value base ds = foldl (\<lambda>v c. base * v + digit_value c) 0 ds"

definition has_0x :: "string \<Rightarrow> bool" where
  "has_0x s \<longleftrightarrow> length s \<ge> 3 \<and> s ! 0 = CHR ''0'' \<and> tolower (s ! 1) = CHR ''x'' \<and> digit_value (s ! 2) < 16"

definition clamp :: "nat \<Rightarrow> int \<Rightarrow> int" where
  "clamp bits v = max (- (2 ^ (bits - 1))) (min (2 ^ (bits - 1) - 1) v)"

text \<open>
  The value, saturated to a \<open>long\<close> of the given width, and what follows the number: the whole string
  when there is none.
\<close>

definition strtol :: "nat \<Rightarrow> nat \<Rightarrow> string \<Rightarrow> int \<times> string" where
  "strtol bits base s =
     (let s1 = dropWhile is_space s;
          neg = (s1 \<noteq> [] \<and> hd s1 = CHR ''-'');
          s2 = (if s1 \<noteq> [] \<and> (hd s1 = CHR ''-'' \<or> hd s1 = CHR ''+'') then tl s1 else s1);
          hex = ((base = 0 \<or> base = 16) \<and> has_0x s2);
          b = (if base \<noteq> 0 then base else if hex then 16
               else if s2 \<noteq> [] \<and> hd s2 = CHR ''0'' then 8 else 10);
          s3 = (if hex then drop 2 s2 else s2);
          ds = takeWhile (\<lambda>c. digit_value c < b) s3;
          v = int (digits_value b ds)
      in if ds = [] then (0, s)
         else (clamp bits (if neg then - v else v), drop (length ds) s3))"

text \<open>\<open>atoi\<close> is \<open>strtol\<close> in base ten, cut to an \<open>int\<close>.\<close>

definition atoi :: "nat \<Rightarrow> string \<Rightarrow> i32" where
  "atoi bits s = word_of_int (fst (strtol bits 10 s))"

lemma digit_value_digit_char [simp]: "d < 10 \<Longrightarrow> digit_value (digit_char d) = d"
  by (simp add: digit_value_def of_char_digit_char)

lemma digits_value_append [simp]:
  "digits_value b (xs @ [c]) = b * digits_value b xs + digit_value c"
  by (simp add: digits_value_def)

lemma digits_value_dec [simp]: "digits_value 10 (dec n) = n"
proof (induction n rule: dec.induct)
  case (1 n)
  show ?case
  proof (cases "n < 10")
    case True
    then show ?thesis by (subst dec.simps) (simp add: digits_value_def)
  next
    case False
    with 1 show ?thesis by (subst dec.simps) simp
  qed
qed

lemma dec_digits: "c \<in> set (dec n) \<Longrightarrow> \<exists>d < 10. c = digit_char d"
proof (induction n rule: dec.induct)
  case (1 n)
  show ?case
  proof (cases "n < 10")
    case True
    with "1.prems" show ?thesis by (subst (asm) dec.simps) auto
  next
    case False
    with 1 show ?thesis by (subst (asm) dec.simps) (auto intro: exI [of _ "n mod 10"])
  qed
qed

lemma dec_nonempty [simp]: "dec n \<noteq> []"
  using length_dec_ge1 [of n] by auto

lemma digit_char_not_special:
  "d < 10 \<Longrightarrow> \<not> is_space (digit_char d) \<and> digit_char d \<noteq> CHR ''-'' \<and> digit_char d \<noteq> CHR ''+''"
  using of_char_digit_char [of d] by (auto simp: is_space_def)

text \<open>A decimal number reads back, whatever text follows that does not begin with a digit.\<close>

lemma strtol_fmt_d:
  assumes "rest = [] \<or> 10 \<le> digit_value (hd rest)" and "clamp bits v = v"
  shows "strtol bits 10 (fmt_d v @ rest) = (v, rest)"
proof -
  have tw: "takeWhile (\<lambda>c. digit_value c < 10) (dec n @ rest) = dec n" for n
  proof -
    have "\<forall>c \<in> set (dec n). digit_value c < 10"
      using dec_digits by fastforce
    then have "takeWhile (\<lambda>c. digit_value c < 10) (dec n @ rest) = dec n @ takeWhile (\<lambda>c. digit_value c < 10) rest"
      by (simp add: takeWhile_append2)
    also have "takeWhile (\<lambda>c. digit_value c < 10) rest = []"
      using assms(1) by (cases rest) auto
    finally show ?thesis by simp
  qed
  have hd: "\<exists>d < 10. hd (dec n @ rest) = digit_char d" for n
    using dec_digits [of "hd (dec n)" n] by simp
  have dw: "dropWhile is_space (dec n @ rest) = dec n @ rest" for n
    using hd [of n] digit_char_not_special by (cases "dec n @ rest") auto
  show ?thesis
  proof (cases "v < 0")
    case True
    then show ?thesis
      using tw [of "nat (- v)"] assms(2) by (simp add: strtol_def Let_def fmt_d_def is_space_def)
  next
    case False
    have "hd (dec (nat v)) \<noteq> CHR ''-''" "hd (dec (nat v)) \<noteq> CHR ''+''"
      using hd [of "nat v"] digit_char_not_special by fastforce+
    with False tw [of "nat v"] dw [of "nat v"] assms(2) show ?thesis
      by (simp add: strtol_def Let_def fmt_d_def)
  qed
qed

lemma clamp_id: "- (2 ^ (bits - 1)) \<le> v \<Longrightarrow> v < 2 ^ (bits - 1) \<Longrightarrow> clamp bits v = v"
  by (simp add: clamp_def)

section \<open>Lower case\<close>

text \<open>The case of the characters of command texts.\<close>

lemma tolower_chars:
  "tolower CHR ''A'' = CHR ''a''" "tolower CHR ''B'' = CHR ''b''" "tolower CHR ''C'' = CHR ''c''"
  "tolower CHR ''D'' = CHR ''d''" "tolower CHR ''E'' = CHR ''e''" "tolower CHR ''F'' = CHR ''f''"
  "tolower CHR ''G'' = CHR ''g''" "tolower CHR ''H'' = CHR ''h''" "tolower CHR ''I'' = CHR ''i''"
  "tolower CHR ''J'' = CHR ''j''" "tolower CHR ''K'' = CHR ''k''" "tolower CHR ''L'' = CHR ''l''"
  "tolower CHR ''M'' = CHR ''m''" "tolower CHR ''N'' = CHR ''n''" "tolower CHR ''O'' = CHR ''o''"
  "tolower CHR ''P'' = CHR ''p''" "tolower CHR ''Q'' = CHR ''q''" "tolower CHR ''R'' = CHR ''r''"
  "tolower CHR ''S'' = CHR ''s''" "tolower CHR ''T'' = CHR ''t''" "tolower CHR ''U'' = CHR ''u''"
  "tolower CHR ''V'' = CHR ''v''" "tolower CHR ''W'' = CHR ''w''" "tolower CHR ''X'' = CHR ''x''"
  "tolower CHR ''Y'' = CHR ''y''" "tolower CHR ''Z'' = CHR ''z''" "tolower CHR ''a'' = CHR ''a''"
  "tolower CHR ''b'' = CHR ''b''" "tolower CHR ''c'' = CHR ''c''" "tolower CHR ''d'' = CHR ''d''"
  "tolower CHR ''e'' = CHR ''e''" "tolower CHR ''f'' = CHR ''f''" "tolower CHR ''g'' = CHR ''g''"
  "tolower CHR ''h'' = CHR ''h''" "tolower CHR ''i'' = CHR ''i''" "tolower CHR ''j'' = CHR ''j''"
  "tolower CHR ''k'' = CHR ''k''" "tolower CHR ''l'' = CHR ''l''" "tolower CHR ''m'' = CHR ''m''"
  "tolower CHR ''n'' = CHR ''n''" "tolower CHR ''o'' = CHR ''o''" "tolower CHR ''p'' = CHR ''p''"
  "tolower CHR ''q'' = CHR ''q''" "tolower CHR ''r'' = CHR ''r''" "tolower CHR ''s'' = CHR ''s''"
  "tolower CHR ''t'' = CHR ''t''" "tolower CHR ''u'' = CHR ''u''" "tolower CHR ''v'' = CHR ''v''"
  "tolower CHR ''w'' = CHR ''w''" "tolower CHR ''x'' = CHR ''x''" "tolower CHR ''y'' = CHR ''y''"
  "tolower CHR ''z'' = CHR ''z''" "tolower CHR ''0'' = CHR ''0''" "tolower CHR ''1'' = CHR ''1''"
  "tolower CHR ''2'' = CHR ''2''" "tolower CHR ''3'' = CHR ''3''" "tolower CHR ''4'' = CHR ''4''"
  "tolower CHR ''5'' = CHR ''5''" "tolower CHR ''6'' = CHR ''6''" "tolower CHR ''7'' = CHR ''7''"
  "tolower CHR ''8'' = CHR ''8''" "tolower CHR ''9'' = CHR ''9''" "tolower CHR ''-'' = CHR ''-''"
  "tolower CHR ''_'' = CHR ''_''" "tolower CHR '' '' = CHR '' ''" "tolower CHR ''='' = CHR ''=''"
  "tolower NUL = NUL"
  by (simp_all add: tolower_def NUL_def char_of_def bit_numeral_rec bit_1_iff bit_0)

end
