(* ===== verification/Posix.thy ===== *)
theory Posix
  imports CText
begin

text \<open>
  The operating system as the sources see it. The kernel is not part of the repository: it is a
  record of functions over an abstract kernel state, a parameter of every operation that performs
  a system call. The world is the kernel state, \<open>errno\<close>, and the trace of the calls made so far with their
  results; descriptors in use, live heap blocks and file contents are read off the trace.
\<close>

section \<open>Calls and results\<close>

datatype oflag = O_RDWR | O_WRONLY

datatype amode = F_OK | W_OK | R_OK_W_OK

datatype sock_kind = Sock_unix_stream | Sock_inet_dgram

record timespec =
  tv_sec :: int
  tv_nsec :: int

text \<open>The argument blocks the sources pass to \<open>ioctl\<close>, reduced to the members they fill in.\<close>

datatype ioctl_arg =
    Ifreq_ivalue "char list" i32
  | Iwreq_data "char list" "char list"
  | Ifreq_priv "char list" "char list" int int

datatype stdio_op = Fprintf string | Fputc char | Fflush

definition EINTR :: int where "EINTR = 4"
definition EINVAL :: int where "EINVAL = 22"
definition ENOBUFS :: int where "ENOBUFS = 105"

text \<open>
  The calls below the line are calls into the program a driver library is linked with: a netlink message
  and the answer to it, an interface going up or down, and the events and timers of the event loop. A byte
  of a message that the sender never set is \<^const>\<open>None\<close>.
\<close>

datatype supplicant_event = Channel_list_changed "(int \<times> int \<times> char list) option"

datatype event =
    Ev_open string oflag int
  | Ev_write int string int
  | Ev_close int
  | Ev_access string amode int
  | Ev_nanosleep timespec int
  | Ev_malloc nat
  | Ev_free nat
  | Ev_socket sock_kind int
  | Ev_setsockopt int
  | Ev_connect int string int
  | Ev_ioctl int nat ioctl_arg int
  | Ev_fdopen int bool
  | Ev_stdio int stdio_op int
  | Ev_fread int string
  | Ev_fclose int
  | Ev_property_set string string
  | Ev_log "char option list"
  | Ev_netlink "8 word option list" int
  | Ev_iface_flags string bool int
  | Ev_deauthenticate int
  | Ev_supplicant supplicant_event
  | Ev_message string
  | Ev_cancel_timeout
  | Ev_register_timeout nat

text \<open>
  A kernel function returns the C result, the value it leaves in \<open>errno\<close> should the call fail, and the new
  kernel state. A heap block is named by a positive number; 0 is a null pointer.
\<close>

record 'k kernel =
  k_open :: "'k \<Rightarrow> string \<Rightarrow> oflag \<Rightarrow> int \<times> int \<times> 'k"
  k_write :: "'k \<Rightarrow> int \<Rightarrow> string \<Rightarrow> int \<times> int \<times> 'k"
  k_close :: "'k \<Rightarrow> int \<Rightarrow> int \<times> int \<times> 'k"
  k_access :: "'k \<Rightarrow> string \<Rightarrow> amode \<Rightarrow> int \<times> int \<times> 'k"
  k_nanosleep :: "'k \<Rightarrow> timespec \<Rightarrow> int \<times> int \<times> timespec \<times> 'k"
  k_malloc :: "'k \<Rightarrow> nat \<times> 'k"
  k_socket :: "'k \<Rightarrow> sock_kind \<Rightarrow> int \<times> int \<times> 'k"
  k_setsockopt :: "'k \<Rightarrow> int \<Rightarrow> int \<times> int \<times> 'k"
  k_connect :: "'k \<Rightarrow> int \<Rightarrow> string \<Rightarrow> int \<times> int \<times> 'k"
  k_ioctl :: "'k \<Rightarrow> int \<Rightarrow> nat \<Rightarrow> ioctl_arg \<Rightarrow> int \<times> int \<times> 'k"
  k_fdopen :: "'k \<Rightarrow> int \<Rightarrow> bool \<times> int \<times> 'k"
  k_stdio :: "'k \<Rightarrow> int \<Rightarrow> stdio_op \<Rightarrow> int \<times> int \<times> 'k"
  k_fread :: "'k \<Rightarrow> int \<Rightarrow> nat \<Rightarrow> string \<times> 'k"
  k_property_set :: "'k \<Rightarrow> string \<Rightarrow> string \<Rightarrow> 'k"

text \<open>The two constants of the kernel's headers for network devices.\<close>

record 'k linux_env = "'k kernel" +
  IFNAMSIZ :: nat
  SIOCDEVPRIVATE :: nat

record 'k world =
  kst :: 'k
  errno :: int
  trace :: "event list"

section \<open>System calls on the world\<close>

definition log_call :: "int \<Rightarrow> int \<Rightarrow> 'k \<Rightarrow> event \<Rightarrow> ('k, 'a) world_scheme \<Rightarrow> ('k, 'a) world_scheme" where
  "log_call r e k ev w =
     w\<lparr>kst := k, errno := (if r < 0 then e else errno w), trace := trace w @ [ev]\<rparr>"

definition sys_open ::
  "('k, 'x) kernel_scheme \<Rightarrow> string \<Rightarrow> oflag \<Rightarrow> ('k, 'a) world_scheme \<Rightarrow> int \<times> ('k, 'a) world_scheme" where
  "sys_open K path fl w =
     (let (r, e, k) = k_open K (kst w) path fl in (r, log_call r e k (Ev_open path fl r) w))"

definition sys_write ::
  "('k, 'x) kernel_scheme \<Rightarrow> int \<Rightarrow> string \<Rightarrow> ('k, 'a) world_scheme \<Rightarrow> int \<times> ('k, 'a) world_scheme" where
  "sys_write K fd bytes w =
     (let (r, e, k) = k_write K (kst w) fd bytes in (r, log_call r e k (Ev_write fd bytes r) w))"

definition sys_close :: "('k, 'x) kernel_scheme \<Rightarrow> int \<Rightarrow> ('k, 'a) world_scheme \<Rightarrow> ('k, 'a) world_scheme" where
  "sys_close K fd w =
     (let (r, e, k) = k_close K (kst w) fd in log_call r e k (Ev_close fd) w)"

definition sys_access ::
  "('k, 'x) kernel_scheme \<Rightarrow> string \<Rightarrow> amode \<Rightarrow> ('k, 'a) world_scheme \<Rightarrow> int \<times> ('k, 'a) world_scheme" where
  "sys_access K path m w =
     (let (r, e, k) = k_access K (kst w) path m in (r, log_call r e k (Ev_access path m r) w))"

definition sys_nanosleep ::
  "('k, 'x) kernel_scheme \<Rightarrow> timespec \<Rightarrow> ('k, 'a) world_scheme \<Rightarrow> int \<times> timespec \<times> ('k, 'a) world_scheme" where
  "sys_nanosleep K req w =
     (let (r, e, rem, k) = k_nanosleep K (kst w) req
      in (r, rem, log_call r e k (Ev_nanosleep req r) w))"

definition c_malloc :: "('k, 'x) kernel_scheme \<Rightarrow> ('k, 'a) world_scheme \<Rightarrow> nat \<times> ('k, 'a) world_scheme" where
  "c_malloc K w = (let (p, k) = k_malloc K (kst w) in (p, log_call 0 0 k (Ev_malloc p) w))"

definition c_free :: "nat \<Rightarrow> ('k, 'a) world_scheme \<Rightarrow> ('k, 'a) world_scheme" where
  "c_free p w = log_call 0 0 (kst w) (Ev_free p) w"

definition sys_socket ::
  "('k, 'x) kernel_scheme \<Rightarrow> sock_kind \<Rightarrow> ('k, 'a) world_scheme \<Rightarrow> int \<times> ('k, 'a) world_scheme" where
  "sys_socket K d w =
     (let (r, e, k) = k_socket K (kst w) d in (r, log_call r e k (Ev_socket d r) w))"

definition sys_connect ::
  "('k, 'x) kernel_scheme \<Rightarrow> int \<Rightarrow> string \<Rightarrow> ('k, 'a) world_scheme \<Rightarrow> int \<times> ('k, 'a) world_scheme" where
  "sys_connect K fd path w =
     (let (r, e, k) = k_connect K (kst w) fd path in (r, log_call r e k (Ev_connect fd path r) w))"

definition sys_ioctl ::
  "('k, 'x) kernel_scheme \<Rightarrow> int \<Rightarrow> nat \<Rightarrow> ioctl_arg \<Rightarrow> ('k, 'a) world_scheme \<Rightarrow> int \<times> ('k, 'a) world_scheme" where
  "sys_ioctl K fd req arg w =
     (let (r, e, k) = k_ioctl K (kst w) fd req arg in (r, log_call r e k (Ev_ioctl fd req arg r) w))"

definition sys_setsockopt :: "('k, 'x) kernel_scheme \<Rightarrow> int \<Rightarrow> ('k, 'a) world_scheme \<Rightarrow> ('k, 'a) world_scheme" where
  "sys_setsockopt K fd w =
     (let (r, e, k) = k_setsockopt K (kst w) fd in log_call r e k (Ev_setsockopt fd) w)"

text \<open>A stream is named by the descriptor it was opened on. Closing the stream closes the descriptor.\<close>

definition c_fdopen ::
  "('k, 'x) kernel_scheme \<Rightarrow> int \<Rightarrow> ('k, 'a) world_scheme \<Rightarrow> bool \<times> ('k, 'a) world_scheme" where
  "c_fdopen K fd w =
     (let (ok, e, k) = k_fdopen K (kst w) fd
      in (ok, log_call (if ok then 0 else - 1) e k (Ev_fdopen fd ok) w))"

definition c_stdio ::
  "('k, 'x) kernel_scheme \<Rightarrow> int \<Rightarrow> stdio_op \<Rightarrow> ('k, 'a) world_scheme \<Rightarrow> int \<times> ('k, 'a) world_scheme" where
  "c_stdio K fd op w =
     (let (r, e, k) = k_stdio K (kst w) fd op in (r, log_call r e k (Ev_stdio fd op r) w))"

definition c_fread ::
  "('k, 'x) kernel_scheme \<Rightarrow> int \<Rightarrow> nat \<Rightarrow> ('k, 'a) world_scheme \<Rightarrow> string \<times> ('k, 'a) world_scheme" where
  "c_fread K fd n w =
     (let (bytes, k) = k_fread K (kst w) fd n in (take n bytes, log_call 0 0 k (Ev_fread fd (take n bytes)) w))"

definition c_fclose :: "('k, 'x) kernel_scheme \<Rightarrow> int \<Rightarrow> ('k, 'a) world_scheme \<Rightarrow> ('k, 'a) world_scheme" where
  "c_fclose K fd w = (let (r, e, k) = k_close K (kst w) fd in log_call r e k (Ev_fclose fd) w)"

definition property_set ::
  "('k, 'x) kernel_scheme \<Rightarrow> string \<Rightarrow> string \<Rightarrow> ('k, 'a) world_scheme \<Rightarrow> ('k, 'a) world_scheme" where
  "property_set K key v w = log_call 0 0 (k_property_set K (kst w) key v) (Ev_property_set key v) w"

text \<open>
  A log call matters only where it reads memory: the cells it prints are recorded, an uninitialised one
  as \<^const>\<open>None\<close>.
\<close>

definition log_cells :: "char option list \<Rightarrow> ('k, 'a) world_scheme \<Rightarrow> ('k, 'a) world_scheme" where
  "log_cells cells w = log_call 0 0 (kst w) (Ev_log cells) w"

lemmas sys_defs = sys_open_def sys_write_def sys_close_def sys_access_def sys_nanosleep_def
  c_malloc_def c_free_def sys_socket_def sys_connect_def sys_ioctl_def sys_setsockopt_def
  c_fdopen_def c_stdio_def c_fread_def c_fclose_def property_set_def log_cells_def

section \<open>What a call leaves alone\<close>

text \<open>Whatever a component adds to the world is untouched by a system call.\<close>

lemma more_log_call [frame_simps]: "world.more (log_call r e k ev w) = world.more w"
  by (simp add: log_call_def)

lemma trace_log_call [world_simps]: "trace (log_call r e k ev w) = trace w @ [ev]"
  by (simp add: log_call_def)

lemma more_sys [frame_simps]:
  "world.more (snd (sys_open K path fl w)) = world.more w"
  "world.more (snd (sys_write K fd bytes w)) = world.more w"
  "world.more (sys_close K fd w) = world.more w"
  "world.more (snd (sys_access K path m w)) = world.more w"
  "world.more (snd (snd (sys_nanosleep K req w))) = world.more w"
  "world.more (snd (c_malloc K w)) = world.more w"
  "world.more (c_free p w) = world.more w"
  "world.more (snd (sys_socket K d w)) = world.more w"
  "world.more (snd (sys_connect K fd path w)) = world.more w"
  "world.more (snd (sys_ioctl K fd n arg w)) = world.more w"
  "world.more (sys_setsockopt K fd w) = world.more w"
  "world.more (snd (c_fdopen K fd w)) = world.more w"
  "world.more (snd (c_stdio K fd op w)) = world.more w"
  "world.more (snd (c_fread K fd len w)) = world.more w"
  "world.more (c_fclose K fd w) = world.more w"
  "world.more (property_set K key v w) = world.more w"
  "world.more (log_cells cells w) = world.more w"
  by (simp_all add: sys_defs frame_simps split: prod.split)

lemma trace_sys [world_simps]:
  "trace (snd (sys_open K path fl w)) = trace w @ [Ev_open path fl (fst (sys_open K path fl w))]"
  "trace (snd (sys_write K fd b w)) = trace w @ [Ev_write fd b (fst (sys_write K fd b w))]"
  "trace (sys_close K fd w) = trace w @ [Ev_close fd]"
  "trace (snd (sys_access K path m w)) = trace w @ [Ev_access path m (fst (sys_access K path m w))]"
  "trace (snd (snd (sys_nanosleep K req w))) =
     trace w @ [Ev_nanosleep req (fst (sys_nanosleep K req w))]"
  "trace (snd (c_malloc K w)) = trace w @ [Ev_malloc (fst (c_malloc K w))]"
  "trace (c_free p w) = trace w @ [Ev_free p]"
  "trace (snd (sys_socket K d w)) = trace w @ [Ev_socket d (fst (sys_socket K d w))]"
  "trace (snd (sys_connect K fd path w)) =
     trace w @ [Ev_connect fd path (fst (sys_connect K fd path w))]"
  "trace (snd (sys_ioctl K fd n arg w)) =
     trace w @ [Ev_ioctl fd n arg (fst (sys_ioctl K fd n arg w))]"
  "trace (sys_setsockopt K fd w) = trace w @ [Ev_setsockopt fd]"
  "trace (snd (c_fdopen K fd w)) = trace w @ [Ev_fdopen fd (fst (c_fdopen K fd w))]"
  "trace (snd (c_stdio K fd op w)) = trace w @ [Ev_stdio fd op (fst (c_stdio K fd op w))]"
  "trace (snd (c_fread K fd len w)) = trace w @ [Ev_fread fd (fst (c_fread K fd len w))]"
  "trace (c_fclose K fd w) = trace w @ [Ev_fclose fd]"
  "trace (property_set K key v w) = trace w @ [Ev_property_set key v]"
  "trace (log_cells cells w) = trace w @ [Ev_log cells]"
  by (simp_all add: sys_defs world_simps split: prod.split)

section \<open>Resources read off the trace\<close>

fun fds_step :: "int list \<Rightarrow> event \<Rightarrow> int list" where
  "fds_step L (Ev_open path fl r) = (if 0 \<le> r then r # L else L)"
| "fds_step L (Ev_socket d r) = (if 0 \<le> r then r # L else L)"
| "fds_step L (Ev_close fd) = remove1 fd L"
| "fds_step L (Ev_fclose fd) = remove1 fd L"
| "fds_step L ev = L"

definition open_fds :: "event list \<Rightarrow> int list" where
  "open_fds tr = foldl fds_step [] tr"

fun heap_step :: "nat list \<Rightarrow> event \<Rightarrow> nat list" where
  "heap_step L (Ev_malloc p) = (if p = 0 then L else p # L)"
| "heap_step L (Ev_free p) = remove1 p L"
| "heap_step L ev = L"

definition live_blocks :: "event list \<Rightarrow> nat list" where
  "live_blocks tr = foldl heap_step [] tr"

text \<open>
  Contents of the attribute files: a write stores the bytes the kernel accepted in the file the
  descriptor was opened on, replacing what was there (the rule for \<open>/sys\<close> and \<open>/proc\<close> attributes).
\<close>

type_synonym file_view = "(int \<Rightarrow> string option) \<times> (string \<Rightarrow> string option)"

fun file_step :: "file_view \<Rightarrow> event \<Rightarrow> file_view" where
  "file_step (m, c) (Ev_open path fl r) = (if 0 \<le> r then (m(r := Some path), c) else (m, c))"
| "file_step (m, c) (Ev_write fd b r) =
     (case m fd of
        None \<Rightarrow> (m, c)
      | Some path \<Rightarrow> (if 0 \<le> r then (m, c(path := Some (take (nat r) b))) else (m, c)))"
| "file_step (m, c) (Ev_close fd) = (m(fd := None), c)"
| "file_step v ev = v"

definition file_view :: "event list \<Rightarrow> file_view" where
  "file_view tr = foldl file_step (\<lambda>_. None, \<lambda>_. None) tr"

definition content :: "event list \<Rightarrow> string \<Rightarrow> string option" where
  "content tr path = snd (file_view tr) path"

lemma open_fds_append [world_simps]:
  "open_fds (tr @ es) = foldl fds_step (open_fds tr) es"
  by (simp add: open_fds_def)

lemma live_blocks_append [world_simps]:
  "live_blocks (tr @ es) = foldl heap_step (live_blocks tr) es"
  by (simp add: live_blocks_def)

lemma file_view_append [world_simps]:
  "file_view (tr @ es) = foldl file_step (file_view tr) es"
  by (simp add: file_view_def)

end
