(* ===== verification/Lights.thy ===== *)
theory Lights
  imports Posix
begin

text \<open>
  \<^verbatim>\<open>liblights/lights.c\<close>: the lights HAL. The static variables of the file, the two
  \<open>preStatus\<close> statics of the blink functions, the mutex and the once flag are the fields of the
  record \<open>lights\<close>, which extends the world. A function that performs I/O returns an option: no
  result means that the call does not return (it sleeps for ever, waits for a mutex that is never
  released, or writes past a stack buffer).
\<close>

section \<open>State\<close>

text \<open>
  The members of \<open>light_state_t\<close> that the file reads. The constants of \<^verbatim>\<open>hardware/lights.h\<close> come with the
  environment, which extends the kernel.
\<close>

record light_state_t =
  color :: u32
  flashMode :: i32
  flashOnMS :: i32
  flashOffMS :: i32

record 'k lights_env = "'k kernel" +
  LIGHT_FLASH_NONE :: i32
  LIGHT_FLASH_TIMED :: i32
  LIGHT_FLASH_HARDWARE :: i32
  LIGHT_ID_BACKLIGHT :: string
  LIGHT_ID_KEYBOARD :: string
  LIGHT_ID_BUTTONS :: string
  LIGHT_ID_BATTERY :: string
  LIGHT_ID_NOTIFICATIONS :: string
  LIGHT_ID_ATTENTION :: string

record 'k lights = "'k world" +
  g_init :: bool
  g_lock :: bool
  g_haveTrackballLight :: int
  g_notification :: light_state_t
  g_battery :: light_state_t
  g_backlight :: i32
  g_trackball :: i32
  g_buttons :: i32
  g_attention :: i32
  red_preStatus :: nat
  green_preStatus :: nat

definition zero_light :: light_state_t where
  "zero_light = \<lparr>color = 0, flashMode = 0, flashOnMS = 0, flashOffMS = 0\<rparr>"

definition init_lights :: "'k \<Rightarrow> 'k lights" where
  "init_lights k =
     \<lparr>kst = k, errno = 0, trace = [], g_init = False, g_lock = False,
      g_haveTrackballLight = 0, g_notification = zero_light, g_battery = zero_light,
      g_backlight = 255, g_trackball = - 1, g_buttons = 0, g_attention = 0,
      red_preStatus = 0, green_preStatus = 0\<rparr>"

text \<open>Two states agree beyond the world exactly when all the static variables agree.\<close>

lemma statics_eq:
  fixes s t :: "'k lights"
  shows "world.more t = world.more s \<longleftrightarrow>
    g_init t = g_init s \<and> g_lock t = g_lock s \<and> g_haveTrackballLight t = g_haveTrackballLight s \<and>
    g_notification t = g_notification s \<and> g_battery t = g_battery s \<and>
    g_backlight t = g_backlight s \<and> g_trackball t = g_trackball s \<and> g_buttons t = g_buttons s \<and>
    g_attention t = g_attention s \<and> red_preStatus t = red_preStatus s \<and>
    green_preStatus t = green_preStatus s"
  by (cases s; cases t) auto

section \<open>The files\<close>

definition TRACKBALL_FILE :: string where
  "TRACKBALL_FILE = ''/sys/class/leds/jogball-backlight/brightness''"

definition RED_LED_FILE :: string where
  "RED_LED_FILE = ''/sys/class/leds/red/brightness''"
definition RED_TRIGGER_FILE :: string where
  "RED_TRIGGER_FILE = ''/sys/class/leds/red/trigger''"
definition RED_DELAY_ON_FILE :: string where
  "RED_DELAY_ON_FILE = ''/sys/class/leds/red/delay_on''"
definition RED_DELAY_OFF_FILE :: string where
  "RED_DELAY_OFF_FILE = ''/sys/class/leds/red/delay_off''"

definition GREEN_LED_FILE :: string where
  "GREEN_LED_FILE = ''/sys/class/leds/green/brightness''"
definition GREEN_TRIGGER_FILE :: string where
  "GREEN_TRIGGER_FILE = ''/sys/class/leds/green/trigger''"
definition GREEN_DELAY_ON_FILE :: string where
  "GREEN_DELAY_ON_FILE = ''/sys/class/leds/green/delay_on''"
definition GREEN_DELAY_OFF_FILE :: string where
  "GREEN_DELAY_OFF_FILE = ''/sys/class/leds/green/delay_off''"

definition LCD_FILE :: string where
  "LCD_FILE = ''/sys/class/leds/lcd-backlight/brightness''"
definition KEYBOARD_FILE :: string where
  "KEYBOARD_FILE = ''/sys/class/leds/keyboard-backlight/brightness''"
definition BUTTON_FILE :: string where
  "BUTTON_FILE = ''/sys/class/leds/button-backlight/brightness''"

lemmas file_defs = TRACKBALL_FILE_def RED_LED_FILE_def RED_TRIGGER_FILE_def RED_DELAY_ON_FILE_def
  RED_DELAY_OFF_FILE_def GREEN_LED_FILE_def GREEN_TRIGGER_FILE_def GREEN_DELAY_ON_FILE_def
  GREEN_DELAY_OFF_FILE_def LCD_FILE_def KEYBOARD_FILE_def BUTTON_FILE_def

section \<open>Delay and file writes\<close>

text \<open>
  The retry loop of \<open>led_wait_delay\<close>: it ends when a sleep is not cut short by a signal, so it may run
  for ever.
\<close>

partial_function (option) nanosleep_retry ::
  "('k, 'x) kernel_scheme \<Rightarrow> timespec \<Rightarrow> ('k, 'a) world_scheme
     \<Rightarrow> (int \<times> ('k, 'a) world_scheme) option" where
  "nanosleep_retry K req s =
     (let (ret, rem, s1) = sys_nanosleep K req s in
      if ret = 0 then Some (0, s1)
      else if errno s1 = EINTR then nanosleep_retry K rem s1
      else Some (errno s1, s1))"

definition led_wait_delay ::
  "('k, 'x) kernel_scheme \<Rightarrow> i32 \<Rightarrow> ('k, 'a) world_scheme
     \<Rightarrow> (int \<times> ('k, 'a) world_scheme) option" where
  "led_wait_delay K ms s =
     nanosleep_retry K \<lparr>tv_sec = 0, tv_nsec = sint (ms * 1000000)\<rparr> s"

definition write_int ::
  "('k, 'x) kernel_scheme \<Rightarrow> string \<Rightarrow> i32 \<Rightarrow> ('k, 'a) world_scheme
     \<Rightarrow> (int \<times> ('k, 'a) world_scheme) option" where
  "write_int K path value s =
     (let (fd, s1) = sys_open K path O_RDWR s in
      if 0 \<le> fd then do {
        buffer \<leftarrow> sprintf 20 (fmt_d (sint value) @ [CHR 0x0A]);
        let (amt, s2) = sys_write K fd buffer s1;
        let s3 = sys_close K fd s2;
        Some (if amt = - 1 then - errno s3 else 0, s3)
      } else Some (- errno s1, s1))"

definition write_str ::
  "('k, 'x) kernel_scheme \<Rightarrow> string \<Rightarrow> string \<Rightarrow> ('k, 'a) world_scheme
     \<Rightarrow> (int \<times> ('k, 'a) world_scheme) option" where
  "write_str K path str s =
     (let (fd, s1) = sys_open K path O_WRONLY s in
      if 0 \<le> fd then do {
        buffer \<leftarrow> sprintf 20 str;
        let (amt, s2) = sys_write K fd buffer s1;
        let s3 = sys_close K fd s2;
        Some (if amt = - 1 then - errno s3 else 0, s3)
      } else Some (- errno s1, s1))"

definition is_lit :: "light_state_t \<Rightarrow> i32" where
  "is_lit state = color state AND 0x00ffffff"

section \<open>Blinking\<close>

text \<open>
  The wait of \<open>blink_red\<close> and \<open>blink_green\<close> for the kernel to create the timer's nodes: at most ten sleeps
  of 5 ms, the file being looked at once more after the last.
\<close>

definition node_missing ::
  "('k, 'x) kernel_scheme \<Rightarrow> string \<Rightarrow> ('k, 'a) world_scheme \<Rightarrow> bool \<times> ('k, 'a) world_scheme" where
  "node_missing K path s =
     (let (a, s1) = sys_access K path F_OK s in
      if a = - 1 then (True, s1)
      else let (b, s2) = sys_access K path R_OK_W_OK s1 in (b = - 1, s2))"

function wait_node ::
  "('k, 'x) kernel_scheme \<Rightarrow> string \<Rightarrow> nat \<Rightarrow> ('k, 'a) world_scheme \<Rightarrow> ('k, 'a) world_scheme option" where
  "wait_node K path i s =
     (let (missing, s1) = node_missing K path s in
      if missing \<and> i < 10 then do {
        (r, s2) \<leftarrow> led_wait_delay K 5 s1;
        wait_node K path (i + 1) s2
      } else Some s1)"
  by pat_completeness auto
termination
  by (relation "measure (\<lambda>(K, path, i, s). 10 - i)") auto

declare wait_node.simps [simp del]

definition blink_status :: "i32 \<Rightarrow> i32 \<Rightarrow> i32 \<Rightarrow> nat" where
  "blink_status level onMS offMS =
     (if level = 0 then 0 else if onMS \<noteq> 0 \<and> offMS \<noteq> 0 then 1 else 2)"

definition blink_red ::
  "('k, 'x) kernel_scheme \<Rightarrow> i32 \<Rightarrow> i32 \<Rightarrow> i32 \<Rightarrow> 'k lights \<Rightarrow> (int \<times> 'k lights) option" where
  "blink_red K level onMS offMS s =
     (let nowStatus = blink_status level onMS offMS in
      if red_preStatus s = nowStatus then Some (- 1, s)
      else do {
        s' \<leftarrow>
          (if nowStatus = 0 then do {
             (_, s1) \<leftarrow> write_int K RED_LED_FILE 0 s;
             Some s1
           } else if nowStatus = 1 then do {
             (_, s1) \<leftarrow> write_str K RED_TRIGGER_FILE ''timer'' s;
             s2 \<leftarrow> wait_node K RED_DELAY_OFF_FILE 0 s1;
             (_, s3) \<leftarrow> write_int K RED_DELAY_OFF_FILE offMS s2;
             (_, s4) \<leftarrow> write_int K RED_DELAY_ON_FILE onMS s3;
             Some s4
           } else do {
             (_, s1) \<leftarrow> write_str K RED_TRIGGER_FILE ''none'' s;
             (_, s2) \<leftarrow> write_int K RED_LED_FILE 255 s1;
             Some s2
           });
        Some (0, s'\<lparr>red_preStatus := nowStatus\<rparr>)
      })"

definition blink_green ::
  "('k, 'x) kernel_scheme \<Rightarrow> i32 \<Rightarrow> i32 \<Rightarrow> i32 \<Rightarrow> 'k lights \<Rightarrow> (int \<times> 'k lights) option" where
  "blink_green K level onMS offMS s =
     (let nowStatus = blink_status level onMS offMS in
      if green_preStatus s = nowStatus then Some (- 1, s)
      else do {
        s' \<leftarrow>
          (if nowStatus = 0 then do {
             (_, s1) \<leftarrow> write_int K GREEN_LED_FILE 0 s;
             Some s1
           } else if nowStatus = 1 then do {
             (_, s1) \<leftarrow> write_str K GREEN_TRIGGER_FILE ''timer'' s;
             s2 \<leftarrow> wait_node K GREEN_DELAY_OFF_FILE 0 s1;
             (_, s3) \<leftarrow> write_int K GREEN_DELAY_OFF_FILE offMS s2;
             (_, s4) \<leftarrow> write_int K GREEN_DELAY_ON_FILE onMS s3;
             Some s4
           } else do {
             (_, s1) \<leftarrow> write_str K GREEN_TRIGGER_FILE ''none'' s;
             (_, s2) \<leftarrow> write_int K GREEN_LED_FILE 255 s1;
             Some s2
           });
        Some (0, s'\<lparr>green_preStatus := nowStatus\<rparr>)
      })"

section \<open>The set_light functions\<close>

definition handle_trackball_light_locked ::
  "('k, 'x) kernel_scheme \<Rightarrow> 'k lights \<Rightarrow> (int \<times> 'k lights) option" where
  "handle_trackball_light_locked K s =
     (let mode = (if g_attention s = 7 \<and> g_backlight s \<noteq> 0 then 0 else g_attention s) in
      if g_trackball s = mode then Some (0, s)
      else write_int K TRACKBALL_FILE mode s)"

definition rgb_to_brightness :: "light_state_t \<Rightarrow> i32" where
  "rgb_to_brightness state =
     (let c = color state AND 0x00ffffff in
      signed_drop_bit 8
        (77 * (signed_drop_bit 16 c AND 0x00ff) + 150 * (signed_drop_bit 8 c AND 0x00ff)
           + 29 * (c AND 0x00ff)))"

definition set_speaker_light_locked ::
  "('k, 'x) lights_env_scheme \<Rightarrow> light_state_t \<Rightarrow> 'k lights \<Rightarrow> (int \<times> 'k lights) option" where
  "set_speaker_light_locked E state s =
     (let (onMS, offMS) =
            (if flashMode state = LIGHT_FLASH_TIMED E then (flashOnMS state, flashOffMS state)
             else (0, 0));
          colorRGB = color state;
          alpha = drop_bit 24 colorRGB AND 0xFF;
          (red, green) =
            (if alpha \<noteq> 0
             then (drop_bit 16 colorRGB AND 0xFF, drop_bit 8 colorRGB AND 0xFF)
             else (0, 0))
      in
      if red \<noteq> 0 then
        (if colorRGB = - 40448 then do {
           (_, s1) \<leftarrow> blink_green E red onMS offMS s;
           (_, s2) \<leftarrow> blink_red E red onMS offMS s1;
           Some (0, s2)
         } else do {
           (_, s1) \<leftarrow> blink_green E 0 0 0 s;
           (_, s2) \<leftarrow> blink_red E red onMS offMS s1;
           Some (0, s2)
         })
      else if green \<noteq> 0 then do {
        (_, s1) \<leftarrow> blink_red E 0 0 0 s;
        (_, s2) \<leftarrow> blink_green E green onMS offMS s1;
        Some (0, s2)
      } else do {
        (_, s1) \<leftarrow> blink_red E 0 0 0 s;
        (_, s2) \<leftarrow> blink_green E 0 0 0 s1;
        Some (0, s2)
      })"

definition handle_speaker_battery_locked ::
  "('k, 'x) lights_env_scheme \<Rightarrow> 'k lights \<Rightarrow> 'k lights option" where
  "handle_speaker_battery_locked E s =
     (if is_lit (g_battery s) \<noteq> 0 then do {
        (_, s1) \<leftarrow> set_speaker_light_locked E (g_battery s) s;
        Some s1
      } else do {
        (_, s1) \<leftarrow> set_speaker_light_locked E (g_battery s) s;
        (_, s2) \<leftarrow> set_speaker_light_locked E (g_notification s1) s1;
        Some s2
      })"

text \<open>The mutex is not recursive: locking it while it is held does not return.\<close>

definition mutex_lock :: "'k lights \<Rightarrow> 'k lights option" where
  "mutex_lock s = (if g_lock s then None else Some (s\<lparr>g_lock := True\<rparr>))"

definition mutex_unlock :: "'k lights \<Rightarrow> 'k lights" where
  "mutex_unlock s = s\<lparr>g_lock := False\<rparr>"

definition set_light_backlight ::
  "('k, 'x) lights_env_scheme \<Rightarrow> light_state_t \<Rightarrow> 'k lights \<Rightarrow> (int \<times> 'k lights) option" where
  "set_light_backlight E state s =
     (let brightness = rgb_to_brightness state in do {
        s1 \<leftarrow> mutex_lock s;
        let s2 = s1\<lparr>g_backlight := brightness\<rparr>;
        (err, s3) \<leftarrow> write_int E LCD_FILE brightness s2;
        s4 \<leftarrow> (if g_haveTrackballLight s3 \<noteq> 0
                then do { (_, s) \<leftarrow> handle_trackball_light_locked E s3; Some s }
                else Some s3);
        Some (err, mutex_unlock s4)
      })"

definition set_light_keyboard ::
  "('k, 'x) lights_env_scheme \<Rightarrow> light_state_t \<Rightarrow> 'k lights \<Rightarrow> (int \<times> 'k lights) option" where
  "set_light_keyboard E state s =
     (let on = is_lit state in do {
        s1 \<leftarrow> mutex_lock s;
        (err, s2) \<leftarrow> write_int E KEYBOARD_FILE (if on \<noteq> 0 then 255 else 0) s1;
        Some (err, mutex_unlock s2)
      })"

definition set_light_buttons ::
  "('k, 'x) lights_env_scheme \<Rightarrow> light_state_t \<Rightarrow> 'k lights \<Rightarrow> (int \<times> 'k lights) option" where
  "set_light_buttons E state s =
     (let on = is_lit state in do {
        s1 \<leftarrow> mutex_lock s;
        let s2 = s1\<lparr>g_buttons := on\<rparr>;
        (err, s3) \<leftarrow> write_int E BUTTON_FILE (if on \<noteq> 0 then 255 else 0) s2;
        Some (err, mutex_unlock s3)
      })"

definition set_light_battery ::
  "('k, 'x) lights_env_scheme \<Rightarrow> light_state_t \<Rightarrow> 'k lights \<Rightarrow> (int \<times> 'k lights) option" where
  "set_light_battery E state s = do {
     s1 \<leftarrow> mutex_lock s;
     let s2 = s1\<lparr>g_battery := state\<rparr>;
     s3 \<leftarrow> (if g_haveTrackballLight s2 \<noteq> 0
             then do { (_, s) \<leftarrow> set_speaker_light_locked E state s2; Some s }
             else Some s2);
     s4 \<leftarrow> handle_speaker_battery_locked E s3;
     Some (0, mutex_unlock s4)
   }"

definition set_light_notifications ::
  "('k, 'x) lights_env_scheme \<Rightarrow> light_state_t \<Rightarrow> 'k lights \<Rightarrow> (int \<times> 'k lights) option" where
  "set_light_notifications E state s = do {
     s1 \<leftarrow> mutex_lock s;
     let s2 = s1\<lparr>g_notification := state\<rparr>;
     s3 \<leftarrow> (if g_haveTrackballLight s2 \<noteq> 0
             then do { (_, s) \<leftarrow> handle_trackball_light_locked E s2; Some s }
             else Some s2);
     s4 \<leftarrow> handle_speaker_battery_locked E s3;
     Some (0, mutex_unlock s4)
   }"

definition set_light_attention ::
  "('k, 'x) lights_env_scheme \<Rightarrow> light_state_t \<Rightarrow> 'k lights \<Rightarrow> (int \<times> 'k lights) option" where
  "set_light_attention E state s = do {
     s1 \<leftarrow> mutex_lock s;
     let s2 = (if flashMode state = LIGHT_FLASH_HARDWARE E then s1\<lparr>g_attention := flashOnMS state\<rparr>
               else if flashMode state = LIGHT_FLASH_NONE E then s1\<lparr>g_attention := 0\<rparr>
               else s1);
     s3 \<leftarrow> (if g_haveTrackballLight s2 \<noteq> 0
             then do { (_, s) \<leftarrow> handle_trackball_light_locked E s2; Some s }
             else Some s2);
     Some (0, mutex_unlock s3)
   }"

section \<open>Opening and closing\<close>

datatype set_light_fn =
    Set_light_backlight | Set_light_keyboard | Set_light_buttons
  | Set_light_battery | Set_light_notifications | Set_light_attention

text \<open>A call through the device's function pointer.\<close>

fun call_set_light ::
  "('k, 'x) lights_env_scheme \<Rightarrow> set_light_fn \<Rightarrow> light_state_t \<Rightarrow> 'k lights
     \<Rightarrow> (int \<times> 'k lights) option" where
  "call_set_light E Set_light_backlight st s = set_light_backlight E st s"
| "call_set_light E Set_light_keyboard st s = set_light_keyboard E st s"
| "call_set_light E Set_light_buttons st s = set_light_buttons E st s"
| "call_set_light E Set_light_battery st s = set_light_battery E st s"
| "call_set_light E Set_light_notifications st s = set_light_notifications E st s"
| "call_set_light E Set_light_attention st s = set_light_attention E st s"

definition init_globals :: "('k, 'x) kernel_scheme \<Rightarrow> 'k lights \<Rightarrow> 'k lights" where
  "init_globals K s =
     (let (r, s1) = sys_access K TRACKBALL_FILE W_OK (s\<lparr>g_lock := False\<rparr>)
      in s1\<lparr>g_haveTrackballLight := (if r = 0 then 1 else 0)\<rparr>)"

record light_device =
  dev_block :: nat
  dev_set_light :: set_light_fn

definition choose_set_light :: "('k, 'x) lights_env_scheme \<Rightarrow> string \<Rightarrow> set_light_fn option" where
  "choose_set_light E name =
     (if LIGHT_ID_BACKLIGHT E = name then Some Set_light_backlight
      else if LIGHT_ID_KEYBOARD E = name then Some Set_light_keyboard
      else if LIGHT_ID_BUTTONS E = name then Some Set_light_buttons
      else if LIGHT_ID_BATTERY E = name then Some Set_light_battery
      else if LIGHT_ID_NOTIFICATIONS E = name then Some Set_light_notifications
      else if LIGHT_ID_ATTENTION E = name then Some Set_light_attention
      else None)"

text \<open>
  The result code, and the device on success. The block that \<open>malloc\<close> returns is not checked before it is
  cleared.
\<close>

definition open_lights ::
  "('k, 'x) lights_env_scheme \<Rightarrow> string \<Rightarrow> 'k lights
     \<Rightarrow> fault + int \<times> light_device option \<times> 'k lights" where
  "open_lights E name s =
     (case choose_set_light E name of
        None \<Rightarrow> Inr (- EINVAL, None, s)
      | Some set_light \<Rightarrow>
          (let s1 = (if g_init s then s else init_globals E (s\<lparr>g_init := True\<rparr>));
               (p, s2) = c_malloc E s1
           in if p = 0 then Inl Null_deref
              else Inr (0, Some \<lparr>dev_block = p, dev_set_light = set_light\<rparr>, s2)))"

definition close_lights :: "light_device option \<Rightarrow> 'k lights \<Rightarrow> int \<times> 'k lights" where
  "close_lights dev s =
     (case dev of None \<Rightarrow> (0, s) | Some d \<Rightarrow> (0, c_free (dev_block d) s))"

end
