(* ===== verification/Lights_Led.thy ===== *)
theory Lights_Led
  imports Lights
begin

text \<open>
  What a write to an attribute file, the retry loop of the delay, the wait for the timer's nodes
  and the two blink functions do: their effect on the static variables, on the trace of system
  calls, and when they return.
\<close>

section \<open>Writes\<close>

text \<open>Both write functions open, write and close; the buffer is large enough for every 32-bit value.\<close>

definition write_bytes ::
  "('k, 'x) kernel_scheme \<Rightarrow> string \<Rightarrow> oflag \<Rightarrow> string \<Rightarrow> ('k, 'a) world_scheme
     \<Rightarrow> int \<times> ('k, 'a) world_scheme" where
  "write_bytes K path fl bytes s =
     (let (fd, s1) = sys_open K path fl s in
      if 0 \<le> fd then
        let (amt, s2) = sys_write K fd bytes s1; s3 = sys_close K fd s2
        in (if amt = - 1 then - errno s3 else 0, s3)
      else (- errno s1, s1))"

definition int_line :: "i32 \<Rightarrow> string" where
  "int_line v = fmt_d (sint v) @ [CHR 0x0A]"

lemma sprintf_fits: "length t < cap \<Longrightarrow> sprintf cap t = Some t"
  by (simp add: sprintf_def)

lemma sprintf_int_line: "sprintf 20 (fmt_d (sint (v :: i32)) @ [CHR 0x0A]) = Some (int_line v)"
  using length_fmt_d_sint [of v] by (simp add: sprintf_def int_line_def)

lemma write_int_eq: "write_int K path v s = Some (write_bytes K path O_RDWR (int_line v) s)"
  by (simp add: write_int_def write_bytes_def sprintf_int_line split_beta Let_def)

lemma write_str_eq:
  "length str < 20 \<Longrightarrow> write_str K path str s = Some (write_bytes K path O_WRONLY str s)"
  by (simp add: write_str_def write_bytes_def sprintf_fits split_beta Let_def)

lemma more_write_bytes [frame_simps]:
  "world.more (snd (write_bytes K path fl bytes s)) = world.more s"
  by (simp add: write_bytes_def split_beta Let_def frame_simps)

lemma open_fds_write_bytes [world_simps]:
  "open_fds (trace (snd (write_bytes K path fl bytes s))) = open_fds (trace s)"
  by (simp add: write_bytes_def split_beta Let_def world_simps)

lemma write_bytes_ok:
  assumes "0 \<le> fst (sys_open K path fl s)"
    and "fst (sys_write K (fst (sys_open K path fl s)) bytes (snd (sys_open K path fl s))) \<noteq> - 1"
  shows "fst (write_bytes K path fl bytes s) = 0"
  using assms by (simp add: write_bytes_def split_beta Let_def)

section \<open>The delay\<close>

definition ts_ns :: "timespec \<Rightarrow> int" where
  "ts_ns t = tv_sec t * 1000000000 + tv_nsec t"

text \<open>
  The documented behaviour of \<open>nanosleep\<close> that the retry loop relies on: it returns 0 or -1, and when a
  signal cuts it short it stores the time that remains, less than was asked for.
\<close>

definition sleep_ok :: "('k, 'x) kernel_scheme \<Rightarrow> bool" where
  "sleep_ok K \<longleftrightarrow>
     (\<forall>k req r e rem k'. k_nanosleep K k req = (r, e, rem, k') \<longrightarrow>
        r = 0 \<or> (r = - 1 \<and> (e = EINTR \<longrightarrow> 0 \<le> ts_ns rem \<and> ts_ns rem < ts_ns req)))"

lemma sleep_okD:
  assumes "sleep_ok K" and "sys_nanosleep K req s = (r, rem, s1)" and "r \<noteq> 0"
    and "errno s1 = EINTR"
  shows "0 \<le> ts_ns rem \<and> ts_ns rem < ts_ns req"
proof -
  obtain e k where nano: "k_nanosleep K (kst s) req = (r, e, rem, k)"
    and s1: "s1 = log_call r e k (Ev_nanosleep req r) s"
    using assms(2) by (auto simp: sys_nanosleep_def split: prod.splits)
  from assms(1) nano have *: "r = 0 \<or> (r = - 1 \<and> (e = EINTR \<longrightarrow> 0 \<le> ts_ns rem \<and> ts_ns rem < ts_ns req))"
    unfolding sleep_ok_def by blast
  with assms(3) have r: "r = - 1" by blast
  with s1 assms(4) have "e = EINTR" by (simp add: log_call_def)
  with * r show ?thesis by simp
qed

lemma nanosleep_retry_returns:
  assumes "sleep_ok K"
  shows "\<exists>r s'. nanosleep_retry K req s = Some (r, s')"
proof (induction "nat (ts_ns req)" arbitrary: req s rule: less_induct)
  case less
  obtain r rem s1 where call: "sys_nanosleep K req s = (r, rem, s1)"
    by (cases "sys_nanosleep K req s") auto
  show ?case
  proof (cases "r \<noteq> 0 \<and> errno s1 = EINTR")
    case True
    with sleep_okD [OF assms call] have "nat (ts_ns rem) < nat (ts_ns req)"
      by simp
    then have "\<exists>r s'. nanosleep_retry K rem s1 = Some (r, s')"
      by (rule less)
    with True call show ?thesis by (simp add: nanosleep_retry.simps [of K req s])
  next
    case False
    with call show ?thesis by (auto simp: nanosleep_retry.simps [of K req s])
  qed
qed

text \<open>Facts that hold of every returning run, by fixed-point induction on the loop.\<close>

lemma nanosleep_retry_preserves:
  assumes step: "\<And>r e k req s. P s (log_call r e k (Ev_nanosleep req r) s)"
    and trans: "\<And>s t u. P s t \<Longrightarrow> P t u \<Longrightarrow> P s u"
    and ret: "nanosleep_retry K req s = Some (r, s')"
  shows "P s s'"
proof -
  have "P s (snd (r, s'))"
  proof (rule nanosleep_retry.raw_induct [where P = "\<lambda>K req s rs. P s (snd rs)", OF _ ret])
    fix f K req s rs
    assume IH: "\<And>K req s rs. f K req s = Some rs \<Longrightarrow> P s (snd rs)"
      and eq: "(let (ret, rem, s1) = sys_nanosleep K req s in
         if ret = 0 then Some (0, s1) else if errno s1 = EINTR then f K rem s1
         else Some (errno s1, s1)) = Some rs"
    obtain ret rem s1 where call: "sys_nanosleep K req s = (ret, rem, s1)"
      by (cases "sys_nanosleep K req s") auto
    then obtain e k where "s1 = log_call ret e k (Ev_nanosleep req ret) s"
      by (auto simp: sys_nanosleep_def split: prod.splits)
    with step have first: "P s s1" by simp
    show "P s (snd rs)"
    proof (cases "ret \<noteq> 0 \<and> errno s1 = EINTR")
      case True
      with eq call have "f K rem s1 = Some rs" by simp
      then have "P s1 (snd rs)" by (rule IH)
      with first show ?thesis by (rule trans)
    next
      case False
      with eq call have "snd rs = s1" by (auto split: if_splits)
      with first show ?thesis by simp
    qed
  qed
  then show ?thesis by simp
qed

text \<open>A run that only sleeps and looks at files, and so changes neither the statics nor any file.\<close>

fun is_probe :: "event \<Rightarrow> bool" where
  "is_probe (Ev_access path m r) = True"
| "is_probe (Ev_nanosleep t r) = True"
| "is_probe ev = False"

definition probing :: "('k, 'a) world_scheme \<Rightarrow> ('k, 'a) world_scheme \<Rightarrow> bool" where
  "probing s s' \<longleftrightarrow> world.more s' = world.more s \<and>
     (\<exists>es. trace s' = trace s @ es \<and> list_all is_probe es)"

lemma probing_refl [simp]: "probing s s"
  by (simp add: probing_def)

lemma probing_trans: "probing s t \<Longrightarrow> probing t u \<Longrightarrow> probing s u"
  by (auto simp: probing_def)

lemma probing_call: "is_probe ev \<Longrightarrow> probing s (log_call r e k ev s)"
  by (simp add: probing_def frame_simps world_simps)

lemma probes_keep:
  assumes "list_all is_probe es"
  shows "foldl fds_step L es = L" and "foldl heap_step H es = H" and "foldl file_step v es = v"
proof -
  have "foldl fds_step L es = L \<and> foldl heap_step H es = H \<and> foldl file_step v es = v"
    using assms
  proof (induction es)
    case Nil
    show ?case by simp
  next
    case (Cons e es)
    then show ?case by (cases e; cases v) auto
  qed
  then show "foldl fds_step L es = L" and "foldl heap_step H es = H" and "foldl file_step v es = v"
    by simp_all
qed

lemma probing_more: "probing s s' \<Longrightarrow> world.more s' = world.more s"
  by (simp add: probing_def)

lemma probing_fds: "probing s s' \<Longrightarrow> open_fds (trace s') = open_fds (trace s)"
  by (auto simp: probing_def world_simps probes_keep)

lemma probing_files: "probing s s' \<Longrightarrow> file_view (trace s') = file_view (trace s)"
  by (auto simp: probing_def world_simps probes_keep)

lemma led_wait_delay_probing: "led_wait_delay K ms s = Some (r, s') \<Longrightarrow> probing s s'"
  unfolding led_wait_delay_def
  by (erule nanosleep_retry_preserves [rotated -1]) (auto intro: probing_call probing_trans)

lemma led_wait_delay_returns: "sleep_ok K \<Longrightarrow> \<exists>r s'. led_wait_delay K ms s = Some (r, s')"
  unfolding led_wait_delay_def by (rule nanosleep_retry_returns)

lemma sys_access_probing: "probing s (snd (sys_access K path m s))"
  by (auto simp: sys_access_def split: prod.split intro: probing_call)

lemma node_missing_probing: "probing s (snd (node_missing K path s))"
  using probing_trans [OF sys_access_probing sys_access_probing]
  by (auto simp: node_missing_def split_beta Let_def sys_access_probing)

lemma wait_node_probing: "wait_node K path i s = Some s' \<Longrightarrow> probing s s'"
proof (induction K path i s arbitrary: s' rule: wait_node.induct)
  case (1 K path i s)
  obtain missing s1 where nm: "node_missing K path s = (missing, s1)"
    by (cases "node_missing K path s") auto
  with node_missing_probing [of s K path] have first: "probing s s1" by simp
  show ?case
  proof (cases "missing \<and> i < 10")
    case True
    with "1.prems" nm obtain r s2 where delay: "led_wait_delay K 5 s1 = Some (r, s2)"
      and rest: "wait_node K path (i + 1) s2 = Some s'"
      by (auto simp: wait_node.simps [of K path i s] bind_Some_iff)
    have "probing s2 s'"
      using "1.IH" [OF nm [symmetric] refl True delay refl rest] by simp
    with first led_wait_delay_probing [OF delay] show ?thesis
      by (blast intro: probing_trans)
  next
    case False
    with "1.prems" nm first show ?thesis
      by (auto simp: wait_node.simps [of K path i s])
  qed
qed

lemma wait_node_returns:
  assumes "sleep_ok K"
  shows "\<exists>s'. wait_node K path i s = Some s'"
proof (induction "10 - i" arbitrary: i s)
  case 0
  then show ?case by (simp add: wait_node.simps [of K path i s] split_beta Let_def)
next
  case (Suc d)
  obtain missing s1 where nm: "node_missing K path s = (missing, s1)"
    by (cases "node_missing K path s") auto
  obtain r s2 where "led_wait_delay K 5 s1 = Some (r, s2)"
    using led_wait_delay_returns [OF assms] by blast
  moreover have "d = 10 - (i + 1)"
    using Suc(2) by simp
  then obtain s' where "wait_node K path (i + 1) s2 = Some s'"
    using Suc(1) by blast
  ultimately show ?case
    using nm by (auto simp: wait_node.simps [of K path i s])
qed

section \<open>File contents\<close>

text \<open>The named nodes can be opened, and the kernel accepts whatever is written.\<close>

definition nodes_ok :: "('k, 'x) kernel_scheme \<Rightarrow> string set \<Rightarrow> bool" where
  "nodes_ok K paths \<longleftrightarrow>
     (\<forall>k path fl. path \<in> paths \<longrightarrow> 0 \<le> fst (k_open K k path fl)) \<and>
     (\<forall>k fd bytes. fst (k_write K k fd bytes) = int (length bytes))"

lemma content_write_bytes_other:
  "q \<noteq> path \<Longrightarrow>
    content (trace (snd (write_bytes K path fl bytes s))) q = content (trace s) q"
  by (cases "file_view (trace s)")
    (auto simp: write_bytes_def split_beta Let_def content_def world_simps)

lemma content_write_bytes_same:
  assumes "nodes_ok K paths" and "path \<in> paths"
  shows "content (trace (snd (write_bytes K path fl bytes s))) path = Some bytes"
proof -
  have op: "0 \<le> fst (sys_open K path fl s)" for s :: "('a, 'c) world_scheme"
    using assms by (simp add: nodes_ok_def sys_open_def split_beta Let_def)
  have wr: "fst (sys_write K fd bytes s) = int (length bytes)" for fd and s :: "('a, 'c) world_scheme"
    using assms by (simp add: nodes_ok_def sys_write_def split_beta Let_def)
  show ?thesis
    using op [of s] by (cases "file_view (trace s)")
      (simp add: write_bytes_def split_beta Let_def content_def world_simps wr)
qed

section \<open>One LED\<close>

record led_files =
  lf_led :: string
  lf_trigger :: string
  lf_on :: string
  lf_off :: string

definition red_files :: led_files where
  "red_files = \<lparr>lf_led = RED_LED_FILE, lf_trigger = RED_TRIGGER_FILE,
     lf_on = RED_DELAY_ON_FILE, lf_off = RED_DELAY_OFF_FILE\<rparr>"

definition green_files :: led_files where
  "green_files = \<lparr>lf_led = GREEN_LED_FILE, lf_trigger = GREEN_TRIGGER_FILE,
     lf_on = GREEN_DELAY_ON_FILE, lf_off = GREEN_DELAY_OFF_FILE\<rparr>"

definition paths_of :: "led_files \<Rightarrow> string set" where
  "paths_of F = {lf_led F, lf_trigger F, lf_on F, lf_off F}"

text \<open>The I/O that puts one LED into a new status: 0 off, 1 blinking, 2 steady.\<close>

definition drive ::
  "('k, 'x) kernel_scheme \<Rightarrow> led_files \<Rightarrow> nat \<Rightarrow> i32 \<Rightarrow> i32 \<Rightarrow> ('k, 'a) world_scheme
     \<Rightarrow> ('k, 'a) world_scheme option" where
  "drive K F status onMS offMS s =
     (if status = 0 then Some (snd (write_bytes K (lf_led F) O_RDWR (int_line 0) s))
      else if status = 1 then
        map_option
          (\<lambda>s2. snd (write_bytes K (lf_on F) O_RDWR (int_line onMS)
                  (snd (write_bytes K (lf_off F) O_RDWR (int_line offMS) s2))))
          (wait_node K (lf_off F) 0 (snd (write_bytes K (lf_trigger F) O_WRONLY ''timer'' s)))
      else Some (snd (write_bytes K (lf_led F) O_RDWR (int_line 255)
             (snd (write_bytes K (lf_trigger F) O_WRONLY ''none'' s)))))"

text \<open>What the files of an LED in a given status hold.\<close>

definition led_shows :: "led_files \<Rightarrow> nat \<Rightarrow> (string \<Rightarrow> string option) \<Rightarrow> bool" where
  "led_shows F status c \<longleftrightarrow>
     (if status = 0 then c (lf_led F) = None \<or> c (lf_led F) = Some (int_line 0)
      else if status = 1 then
        c (lf_trigger F) = Some ''timer'' \<and>
        (\<exists>onMS offMS. onMS \<noteq> 0 \<and> offMS \<noteq> 0 \<and>
           c (lf_on F) = Some (int_line onMS) \<and> c (lf_off F) = Some (int_line offMS))
      else c (lf_trigger F) = Some ''none'' \<and> c (lf_led F) = Some (int_line 255))"

text \<open>The same, with the times of a blinking LED given.\<close>

definition led_shows_exact :: "led_files \<Rightarrow> nat \<Rightarrow> i32 \<Rightarrow> i32 \<Rightarrow> (string \<Rightarrow> string option) \<Rightarrow> bool" where
  "led_shows_exact F status onMS offMS c \<longleftrightarrow>
     led_shows F status c \<and>
     (status = 1 \<longrightarrow> c (lf_on F) = Some (int_line onMS) \<and> c (lf_off F) = Some (int_line offMS))"

lemma drive_more: "drive K F n onMS offMS s = Some s' \<Longrightarrow> world.more s' = world.more s"
  by (auto simp: drive_def frame_simps split: if_splits dest!: wait_node_probing probing_more)

lemma drive_fds: "drive K F n onMS offMS s = Some s' \<Longrightarrow> open_fds (trace s') = open_fds (trace s)"
  by (auto simp: drive_def world_simps split: if_splits dest!: wait_node_probing probing_fds)

lemma drive_returns: "sleep_ok K \<Longrightarrow> \<exists>s'. drive K F n onMS offMS s = Some s'"
  using wait_node_returns by (fastforce simp: drive_def)

lemma probing_content: "probing s s' \<Longrightarrow> content (trace s') = content (trace s)"
  by (simp add: content_def probing_files fun_eq_iff)

lemma drive_other:
  "drive K F n onMS offMS s = Some s' \<Longrightarrow> q \<notin> paths_of F \<Longrightarrow>
    content (trace s') q = content (trace s) q"
  by (auto simp: drive_def paths_of_def content_write_bytes_other split: if_splits
      dest!: wait_node_probing probing_content)

lemma drive_shows:
  assumes "drive K F n onMS offMS s = Some s'" and "nodes_ok K (paths_of F)"
    and "distinct [lf_led F, lf_trigger F, lf_on F, lf_off F]"
    and "n = 1 \<Longrightarrow> onMS \<noteq> 0 \<and> offMS \<noteq> 0"
  shows "led_shows_exact F n onMS offMS (content (trace s'))"
proof -
  have same: "content (trace (snd (write_bytes K p fl b t))) p = Some b" if "p \<in> paths_of F" for p fl b t
    using content_write_bytes_same assms(2) that by blast
  note c = drive_def led_shows_exact_def led_shows_def paths_of_def same content_write_bytes_other
  show ?thesis
  proof (cases "n = 1")
    case True
    with assms(1) obtain z
      where z: "wait_node K (lf_off F) 0 (snd (write_bytes K (lf_trigger F) O_WRONLY ''timer'' s)) = Some z"
        and s': "s' = snd (write_bytes K (lf_on F) O_RDWR (int_line onMS)
                   (snd (write_bytes K (lf_off F) O_RDWR (int_line offMS) z)))"
      by (auto simp: drive_def)
    have "content (trace z) (lf_trigger F) = Some ''timer''"
      using probing_content [OF wait_node_probing [OF z]] by (simp add: same paths_of_def)
    then have "content (trace s') (lf_trigger F) = Some ''timer''"
      and "content (trace s') (lf_on F) = Some (int_line onMS)"
      and "content (trace s') (lf_off F) = Some (int_line offMS)"
      using assms(3) by (auto simp: s' c)
    with True assms(4) show ?thesis by (auto simp: led_shows_def led_shows_exact_def)
  next
    case False
    with assms(1,3) show ?thesis by (auto simp: c split: if_splits)
  qed
qed

section \<open>The contract of a blinking LED\<close>

text \<open>
  What the handlers rely on: each blink function keeps one status variable and drives one LED. The
  laws are the lens laws of the status variable, and the shape of the function. The client lemmas
  below hold for every such function; \<open>blink_red\<close> and \<open>blink_green\<close> are the two instances.
\<close>

locale led =
  fixes F :: led_files
    and pre :: "'k lights \<Rightarrow> nat"
    and put :: "nat \<Rightarrow> 'k lights \<Rightarrow> 'k lights"
    and blink :: "('k, 'x) kernel_scheme \<Rightarrow> i32 \<Rightarrow> i32 \<Rightarrow> i32 \<Rightarrow> 'k lights \<Rightarrow> (int \<times> 'k lights) option"
  assumes files_distinct: "distinct [lf_led F, lf_trigger F, lf_on F, lf_off F]"
    and pre_put: "pre (put v s) = v"
    and put_pre: "put (pre s) s = s"
    and trace_put: "trace (put v s) = trace s"
    and pre_more: "world.more s' = world.more s \<Longrightarrow> pre s' = pre s"
    and put_more: "world.more s' = world.more s \<Longrightarrow> world.more (put v s') = world.more (put v s)"
    and shape: "blink K level onMS offMS s =
      (let n = blink_status level onMS offMS in
       if pre s = n then Some (- 1, s)
       else map_option (\<lambda>s'. (0, put n s')) (drive K F n onMS offMS s))"
begin

lemma blink_same: "pre s = blink_status level onMS offMS \<Longrightarrow> blink K level onMS offMS s = Some (- 1, s)"
  by (simp add: shape)

lemma blink_statics:
  assumes "blink K level onMS offMS s = Some (r, s')"
  shows "world.more s' = world.more (put (blink_status level onMS offMS) s)"
proof (cases "pre s = blink_status level onMS offMS")
  case True
  with assms put_pre [of s] show ?thesis by (simp add: shape)
next
  case False
  with assms show ?thesis
    by (auto simp: shape Let_def intro!: put_more dest: drive_more)
qed

lemma blink_pre: "blink K level onMS offMS s = Some (r, s') \<Longrightarrow> pre s' = blink_status level onMS offMS"
  using blink_statics pre_more pre_put by metis

lemma blink_result:
  "blink K level onMS offMS s = Some (r, s') \<Longrightarrow>
    r = (if pre s = blink_status level onMS offMS then - 1 else 0)"
  by (auto simp: shape Let_def split: if_splits)

lemma blink_fds: "blink K level onMS offMS s = Some (r, s') \<Longrightarrow> open_fds (trace s') = open_fds (trace s)"
  by (auto simp: shape Let_def trace_put split: if_splits dest: drive_fds)

lemma blink_returns: "sleep_ok K \<Longrightarrow> \<exists>r s'. blink K level onMS offMS s = Some (r, s')"
  using drive_returns by (fastforce simp: shape Let_def)

lemma blink_other:
  "blink K level onMS offMS s = Some (r, s') \<Longrightarrow> q \<notin> paths_of F \<Longrightarrow>
    content (trace s') q = content (trace s) q"
  by (auto simp: shape Let_def trace_put split: if_splits dest: drive_other)

lemma blink_changed:
  assumes "blink K level onMS offMS s = Some (r, s')" and "pre s \<noteq> blink_status level onMS offMS"
    and "nodes_ok K (paths_of F)"
  shows "led_shows_exact F (pre s') onMS offMS (content (trace s'))"
proof -
  from assms(1,2) obtain t where t: "drive K F (blink_status level onMS offMS) onMS offMS s = Some t"
    and s': "s' = put (blink_status level onMS offMS) t"
    by (auto simp: shape Let_def)
  have "blink_status level onMS offMS = 1 \<Longrightarrow> onMS \<noteq> 0 \<and> offMS \<noteq> 0"
    by (auto simp: blink_status_def split: if_splits)
  with drive_shows [OF t assms(3) files_distinct] s' show ?thesis
    by (simp add: trace_put pre_put)
qed

lemma blink_shows:
  assumes "blink K level onMS offMS s = Some (r, s')" and "nodes_ok K (paths_of F)"
    and "led_shows F (pre s) (content (trace s))"
  shows "led_shows F (pre s') (content (trace s'))"
proof (cases "pre s = blink_status level onMS offMS")
  case True
  with assms show ?thesis by (simp add: blink_same)
next
  case False
  with assms blink_changed show ?thesis by (auto simp: led_shows_exact_def)
qed

text \<open>From off, the times of a call always reach the files.\<close>

lemma blink_exact:
  assumes "blink K level onMS offMS s = Some (r, s')" and "nodes_ok K (paths_of F)"
    and "led_shows F 0 (content (trace s))" and "pre s = 0"
  shows "led_shows_exact F (pre s') onMS offMS (content (trace s'))"
proof (cases "blink_status level onMS offMS = 0")
  case True
  with assms have "s' = s" by (simp add: blink_same)
  with assms show ?thesis by (simp add: led_shows_exact_def)
next
  case False
  with assms show ?thesis by (auto intro: blink_changed)
qed

end

interpretation red: led red_files red_preStatus "\<lambda>v s. s\<lparr>red_preStatus := v\<rparr>" blink_red
proof unfold_locales
  show "distinct [lf_led red_files, lf_trigger red_files, lf_on red_files, lf_off red_files]"
    by (simp add: red_files_def file_defs)
  fix K :: "('a, 'b) kernel_scheme" and level onMS offMS and s :: "'a lights"
  show "blink_red K level onMS offMS s =
      (let n = blink_status level onMS offMS in
       if red_preStatus s = n then Some (- 1, s)
       else map_option (\<lambda>s'. (0, s'\<lparr>red_preStatus := n\<rparr>)) (drive K red_files n onMS offMS s))"
    by (auto simp: blink_red_def drive_def red_files_def write_int_eq write_str_eq Let_def split_beta
        bind_Some_map option.map_comp comp_def)
qed (simp_all add: statics_eq)

interpretation green: led green_files green_preStatus "\<lambda>v s. s\<lparr>green_preStatus := v\<rparr>" blink_green
proof unfold_locales
  show "distinct [lf_led green_files, lf_trigger green_files, lf_on green_files, lf_off green_files]"
    by (simp add: green_files_def file_defs)
  fix K :: "('a, 'b) kernel_scheme" and level onMS offMS and s :: "'a lights"
  show "blink_green K level onMS offMS s =
      (let n = blink_status level onMS offMS in
       if green_preStatus s = n then Some (- 1, s)
       else map_option (\<lambda>s'. (0, s'\<lparr>green_preStatus := n\<rparr>)) (drive K green_files n onMS offMS s))"
    by (auto simp: blink_green_def drive_def green_files_def write_int_eq write_str_eq Let_def
        split_beta bind_Some_map option.map_comp comp_def)
qed (simp_all add: statics_eq)

end
