(* ===== verification/Lights_Hal.thy ===== *)
theory Lights_Hal
  imports Lights_Led
begin

text \<open>
  The lights HAL as its clients see it: which light the notification LEDs show, that every call
  returns with the mutex free and no descriptor left open, and what a sequence of calls keeps.
\<close>

section \<open>What the LEDs should show\<close>

text \<open>
  The light in force is the battery's when it is lit, else the notification's. A light is off when
  its alpha is zero; a red component lights the red LED, a green one without red the green LED, and
  the one orange of the battery lights both. A timed flash with both times set blinks.
\<close>

definition effective :: "'k lights \<Rightarrow> light_state_t" where
  "effective s = (if is_lit (g_battery s) \<noteq> 0 then g_battery s else g_notification s)"

definition blinks :: "('k, 'x) lights_env_scheme \<Rightarrow> light_state_t \<Rightarrow> bool" where
  "blinks E st \<longleftrightarrow> flashMode st = LIGHT_FLASH_TIMED E \<and> flashOnMS st \<noteq> 0 \<and> flashOffMS st \<noteq> 0"

definition alpha_of :: "u32 \<Rightarrow> u32" where "alpha_of c = drop_bit 24 c AND 0xFF"
definition red_of :: "u32 \<Rightarrow> u32" where "red_of c = drop_bit 16 c AND 0xFF"
definition green_of :: "u32 \<Rightarrow> u32" where "green_of c = drop_bit 8 c AND 0xFF"

definition orange :: u32 where "orange = 0xFFFF6200"

definition speaker_spec :: "('k, 'x) lights_env_scheme \<Rightarrow> light_state_t \<Rightarrow> nat \<times> nat" where
  "speaker_spec E st =
     (let c = color st; shade = (if blinks E st then 1 else 2) in
      (if alpha_of c \<noteq> 0 \<and> red_of c \<noteq> 0 then shade else 0,
       if alpha_of c \<noteq> 0 \<and> (red_of c = 0 \<and> green_of c \<noteq> 0 \<or> c = orange) then shade else 0))"

lemma orange_parts: "- 40448 = orange" "red_of orange \<noteq> 0" "alpha_of orange \<noteq> 0"
  by (simp_all add: orange_def red_of_def alpha_of_def)

section \<open>Effect on the static variables\<close>

lemmas red_statics = red.blink_statics [unfolded statics_eq, simplified]
lemmas green_statics = green.blink_statics [unfolded statics_eq, simplified]

text \<open>
  Whichever branch it takes, \<open>set_speaker_light_locked\<close> makes one call for each LED, and the calls ask for
  the specified statuses.
\<close>

definition asks :: "('k, 'x) lights_env_scheme \<Rightarrow> light_state_t \<Rightarrow> nat \<Rightarrow> i32 \<Rightarrow> i32 \<Rightarrow> i32 \<Rightarrow> bool" where
  "asks E st n level onMS offMS \<longleftrightarrow> blink_status level onMS offMS = n \<and>
     (n = 1 \<longrightarrow> onMS = flashOnMS st \<and> offMS = flashOffMS st)"

definition both ::
  "('s \<Rightarrow> (int \<times> 's) option) \<Rightarrow> ('s \<Rightarrow> (int \<times> 's) option) \<Rightarrow> 's \<Rightarrow> (int \<times> 's) option" where
  "both f g s = do { (_, s1) \<leftarrow> f s; (_, s2) \<leftarrow> g s1; Some (0, s2) }"

lemma both_E:
  assumes "both f g s = Some (r, s')"
  obtains a s1 b where "r = 0" and "f s = Some (a, s1)" and "g s1 = Some (b, s')"
  using assms by (auto simp: both_def bind_Some_iff split: prod.splits)

lemma set_speaker_shape:
  "set_speaker_light_locked E st s =
     (let c = color st;
          on = (if flashMode st = LIGHT_FLASH_TIMED E then flashOnMS st else 0);
          off = (if flashMode st = LIGHT_FLASH_TIMED E then flashOffMS st else 0) in
      if alpha_of c \<noteq> 0 \<and> red_of c \<noteq> 0 then
        (if c = orange then both (blink_green E (red_of c) on off) (blink_red E (red_of c) on off) s
         else both (blink_green E 0 0 0) (blink_red E (red_of c) on off) s)
      else if alpha_of c \<noteq> 0 \<and> green_of c \<noteq> 0
        then both (blink_red E 0 0 0) (blink_green E (green_of c) on off) s
      else both (blink_red E 0 0 0) (blink_green E 0 0 0) s)"
  unfolding set_speaker_light_locked_def Let_def both_def alpha_of_def [symmetric]
    red_of_def [symmetric] green_of_def [symmetric] orange_parts(1)
  by (cases "alpha_of (color st) = 0") simp_all

lemma set_speaker_E [consumes 1, case_names red_first green_first]:
  assumes "set_speaker_light_locked E st s = Some (r, s')"
  obtains (red_first) a s1 b l on off l' on' off'
    where "r = 0" and "blink_red E l on off s = Some (a, s1)"
      and "blink_green E l' on' off' s1 = Some (b, s')"
      and "asks E st (fst (speaker_spec E st)) l on off"
      and "asks E st (snd (speaker_spec E st)) l' on' off'"
  | (green_first) a s1 b l on off l' on' off'
    where "r = 0" and "blink_green E l' on' off' s = Some (a, s1)"
      and "blink_red E l on off s1 = Some (b, s')"
      and "asks E st (fst (speaker_spec E st)) l on off"
      and "asks E st (snd (speaker_spec E st)) l' on' off'"
proof -
  let ?c = "color st"
  let ?on = "if flashMode st = LIGHT_FLASH_TIMED E then flashOnMS st else 0"
  let ?off = "if flashMode st = LIGHT_FLASH_TIMED E then flashOffMS st else 0"
  have asks_lit: "asks E st (if blinks E st then 1 else 2) l ?on ?off" if "l \<noteq> 0" for l
    using that by (simp add: asks_def blinks_def blink_status_def)
  have asks_off: "asks E st 0 0 0 0"
    by (simp add: asks_def blink_status_def)
  note eq = assms [unfolded set_speaker_shape Let_def]
  show thesis
  proof (cases "alpha_of ?c \<noteq> 0 \<and> red_of ?c \<noteq> 0")
    case True
    show thesis
    proof (cases "?c = orange")
      case True': True
      have "speaker_spec E st = (if blinks E st then 1 else 2, if blinks E st then 1 else 2)"
        using True True' by (simp add: speaker_spec_def Let_def)
      moreover have "both (blink_green E (red_of ?c) ?on ?off) (blink_red E (red_of ?c) ?on ?off) s = Some (r, s')"
        using eq True True' by (simp only: if_True simp_thms)
      ultimately show thesis
        using asks_lit [of "red_of ?c"] True by (elim both_E) (rule green_first, simp_all)
    next
      case False
      have "speaker_spec E st = (if blinks E st then 1 else 2, 0)"
        using True False by (simp add: speaker_spec_def Let_def)
      moreover have "both (blink_green E 0 0 0) (blink_red E (red_of ?c) ?on ?off) s = Some (r, s')"
        using eq True False by (simp only: if_True if_False simp_thms)
      ultimately show thesis
        using asks_lit [of "red_of ?c"] asks_off True by (elim both_E) (rule green_first, simp_all)
    qed
  next
    case False
    show thesis
    proof (cases "alpha_of ?c \<noteq> 0 \<and> green_of ?c \<noteq> 0")
      case True
      have "speaker_spec E st = (0, if blinks E st then 1 else 2)"
        using True False by (simp add: speaker_spec_def Let_def)
      moreover have "both (blink_red E 0 0 0) (blink_green E (green_of ?c) ?on ?off) s = Some (r, s')"
        using eq True False by (simp only: if_True if_False simp_thms)
      ultimately show thesis
        using asks_lit [of "green_of ?c"] asks_off True by (elim both_E) (rule red_first, simp_all)
    next
      case False': False
      have "speaker_spec E st = (0, 0)"
        using False False' orange_parts by (auto simp: speaker_spec_def Let_def)
      moreover have "both (blink_red E 0 0 0) (blink_green E 0 0 0) s = Some (r, s')"
        using eq False False' by (simp only: if_False simp_thms)
      ultimately show thesis
        using asks_off by (elim both_E) (rule red_first, simp_all)
    qed
  qed
qed

lemma set_speaker_result: "set_speaker_light_locked E st s = Some (r, s') \<Longrightarrow> r = 0"
  by (cases rule: set_speaker_E) auto

lemma set_speaker_statics:
  assumes "set_speaker_light_locked E st s = Some (r, s')"
  shows "world.more s' =
    world.more (s\<lparr>red_preStatus := fst (speaker_spec E st), green_preStatus := snd (speaker_spec E st)\<rparr>)"
  using assms
proof (cases rule: set_speaker_E)
  case red_first
  then show ?thesis
    using red_statics [OF red_first(2)] green_statics [OF red_first(3)]
    by (simp add: statics_eq asks_def)
next
  case green_first
  then show ?thesis
    using green_statics [OF green_first(2)] red_statics [OF green_first(3)]
    by (simp add: statics_eq asks_def)
qed

lemma set_speaker_fds:
  "set_speaker_light_locked E st s = Some (r, s') \<Longrightarrow> open_fds (trace s') = open_fds (trace s)"
  by (cases rule: set_speaker_E) (auto dest!: red.blink_fds green.blink_fds)

lemma both_returns:
  assumes "\<exists>a t. f s = Some (a, t)" and "\<And>t. \<exists>b u. g t = Some (b, u)"
  shows "\<exists>r s'. both f g s = Some (r, s')"
proof -
  from assms(1) obtain a t where "f s = Some (a, t)" by blast
  moreover obtain b u where "g t = Some (b, u)" using assms(2) by blast
  ultimately show ?thesis by (simp add: both_def)
qed

lemma set_speaker_returns: "sleep_ok E \<Longrightarrow> \<exists>r s'. set_speaker_light_locked E st s = Some (r, s')"
  by (simp add: set_speaker_shape Let_def both_returns red.blink_returns green.blink_returns)

section \<open>Effect on the files\<close>

text \<open>The two LEDs have no file in common, and neither has a file of the other lights.\<close>

lemma paths_disjoint:
  "p \<in> paths_of red_files \<Longrightarrow> p \<notin> paths_of green_files"
  "p \<in> paths_of green_files \<Longrightarrow> p \<notin> paths_of red_files"
  "TRACKBALL_FILE \<notin> paths_of red_files \<union> paths_of green_files"
  "LCD_FILE \<notin> paths_of red_files \<union> paths_of green_files"
  "KEYBOARD_FILE \<notin> paths_of red_files \<union> paths_of green_files"
  "BUTTON_FILE \<notin> paths_of red_files \<union> paths_of green_files"
  by (auto simp: paths_of_def red_files_def green_files_def file_defs)

definition led_paths :: "string set" where
  "led_paths = paths_of red_files \<union> paths_of green_files"

lemma nodes_ok_subset: "nodes_ok K P \<Longrightarrow> Q \<subseteq> P \<Longrightarrow> nodes_ok K Q"
  by (auto simp: nodes_ok_def)

lemma led_shows_cong:
  assumes "\<And>p. p \<in> paths_of F \<Longrightarrow> c p = d p"
  shows "led_shows F n c = led_shows F n d"
    and "led_shows_exact F n a b c = led_shows_exact F n a b d"
  using assms by (simp_all add: led_shows_def led_shows_exact_def paths_of_def)

definition leds_show :: "'k lights \<Rightarrow> bool" where
  "leds_show s \<longleftrightarrow>
     led_shows red_files (red_preStatus s) (content (trace s)) \<and>
     led_shows green_files (green_preStatus s) (content (trace s))"

lemma leds_show_frame:
  assumes "leds_show s" and "red_preStatus s' = red_preStatus s" and "green_preStatus s' = green_preStatus s"
    and "\<And>p. p \<in> led_paths \<Longrightarrow> content (trace s') p = content (trace s) p"
  shows "leds_show s'"
proof -
  have "led_shows red_files n (content (trace s')) = led_shows red_files n (content (trace s))"
    and "led_shows green_files n (content (trace s')) = led_shows green_files n (content (trace s))" for n
    using assms(4) by (intro led_shows_cong(1); simp add: led_paths_def)+
  with assms(1-3) show ?thesis by (simp add: leds_show_def)
qed

lemma blink_red_leds:
  assumes "blink_red K l on off s = Some (r, s')" and "nodes_ok K led_paths" and "leds_show s"
  shows "leds_show s'"
proof -
  have "led_shows red_files (red_preStatus s') (content (trace s'))"
    using assms by (auto intro: red.blink_shows nodes_ok_subset simp: leds_show_def led_paths_def)
  moreover have "content (trace s') p = content (trace s) p" if "p \<in> paths_of green_files" for p
    using red.blink_other [OF assms(1)] that paths_disjoint(2) by blast
  then have "led_shows green_files n (content (trace s')) = led_shows green_files n (content (trace s))" for n
    by (rule led_shows_cong)
  ultimately show ?thesis
    using assms(3) red_statics [OF assms(1)] by (simp add: leds_show_def)
qed

lemma blink_green_leds:
  assumes "blink_green K l on off s = Some (r, s')" and "nodes_ok K led_paths" and "leds_show s"
  shows "leds_show s'"
proof -
  have "led_shows green_files (green_preStatus s') (content (trace s'))"
    using assms by (auto intro: green.blink_shows nodes_ok_subset simp: leds_show_def led_paths_def)
  moreover have "content (trace s') p = content (trace s) p" if "p \<in> paths_of red_files" for p
    using green.blink_other [OF assms(1)] that paths_disjoint(1) by blast
  then have "led_shows red_files n (content (trace s')) = led_shows red_files n (content (trace s))" for n
    by (rule led_shows_cong)
  ultimately show ?thesis
    using assms(3) green_statics [OF assms(1)] by (simp add: leds_show_def)
qed

lemma set_speaker_leds:
  assumes "set_speaker_light_locked E st s = Some (r, s')" and "nodes_ok E led_paths" and "leds_show s"
  shows "leds_show s'"
  using assms(1)
proof (cases rule: set_speaker_E)
  case red_first
  with assms(2,3) show ?thesis by (blast intro: blink_red_leds blink_green_leds)
next
  case green_first
  with assms(2,3) show ?thesis by (blast intro: blink_red_leds blink_green_leds)
qed

text \<open>A light whose statuses are shown already costs no I/O.\<close>

lemma set_speaker_same:
  assumes "(red_preStatus s, green_preStatus s) = speaker_spec E st"
  shows "set_speaker_light_locked E st s = Some (0, s)"
proof -
  have "blink_red E l on off s = Some (- 1, s)" if "asks E st (fst (speaker_spec E st)) l on off" for l on off
    using that assms red.blink_same [of s l on off E] by (auto simp: asks_def dest: arg_cong [of _ _ fst])
  moreover have "blink_green E l on off s = Some (- 1, s)" if "asks E st (snd (speaker_spec E st)) l on off" for l on off
    using that assms green.blink_same [of s l on off E] by (auto simp: asks_def dest: arg_cong [of _ _ snd])
  ultimately show ?thesis
    using orange_parts
    by (auto simp: set_speaker_shape both_def Let_def speaker_spec_def asks_def blink_status_def blinks_def)
qed

text \<open>From off, a light reaches the files with its own times.\<close>

definition leds_exact :: "light_state_t \<Rightarrow> 'k lights \<Rightarrow> bool" where
  "leds_exact st s \<longleftrightarrow>
     led_shows_exact red_files (red_preStatus s) (flashOnMS st) (flashOffMS st) (content (trace s)) \<and>
     led_shows_exact green_files (green_preStatus s) (flashOnMS st) (flashOffMS st) (content (trace s))"

lemma led_shows_exact_asked:
  "led_shows_exact F n on off c \<Longrightarrow> asks E st n l on off \<Longrightarrow>
    led_shows_exact F n (flashOnMS st) (flashOffMS st) c"
  by (auto simp: led_shows_exact_def asks_def)

lemma blink_red_exact:
  assumes "blink_red E l on off s = Some (r, s')" and "nodes_ok E led_paths" and "leds_show s"
    and "red_preStatus s = 0" and "asks E st n l on off"
  shows "led_shows_exact red_files n (flashOnMS st) (flashOffMS st) (content (trace s'))"
proof -
  have "nodes_ok E (paths_of red_files)"
    using assms(2) by (rule nodes_ok_subset) (auto simp: led_paths_def)
  from red.blink_exact [OF assms(1) this] assms(3,4) red.blink_pre [OF assms(1)] assms(5) show ?thesis
    by (intro led_shows_exact_asked [OF _ assms(5)]) (simp add: leds_show_def asks_def)
qed

lemma blink_green_exact:
  assumes "blink_green E l on off s = Some (r, s')" and "nodes_ok E led_paths" and "leds_show s"
    and "green_preStatus s = 0" and "asks E st n l on off"
  shows "led_shows_exact green_files n (flashOnMS st) (flashOffMS st) (content (trace s'))"
proof -
  have "nodes_ok E (paths_of green_files)"
    using assms(2) by (rule nodes_ok_subset) (auto simp: led_paths_def)
  from green.blink_exact [OF assms(1) this] assms(3,4) green.blink_pre [OF assms(1)] assms(5) show ?thesis
    by (intro led_shows_exact_asked [OF _ assms(5)]) (simp add: leds_show_def asks_def)
qed

lemma set_speaker_exact:
  assumes "set_speaker_light_locked E st s = Some (r, s')" and "nodes_ok E led_paths" and "leds_show s"
    and "red_preStatus s = 0" and "green_preStatus s = 0"
  shows "leds_exact st s'"
  using assms(1)
proof (cases rule: set_speaker_E)
  case (red_first a s1 b l on off l' on' off')
  note R = blink_red_exact [OF red_first(2) assms(2-4) red_first(4)]
  have G: "led_shows_exact green_files (snd (speaker_spec E st)) (flashOnMS st) (flashOffMS st) (content (trace s'))"
    using blink_green_exact [OF red_first(3) assms(2) blink_red_leds [OF red_first(2) assms(2,3)] _ red_first(5)]
      red_statics [OF red_first(2)] assms(5) by simp
  have "content (trace s') p = content (trace s1) p" if "p \<in> paths_of red_files" for p
    using green.blink_other [OF red_first(3)] that paths_disjoint(1) by blast
  with R have "led_shows_exact red_files (fst (speaker_spec E st)) (flashOnMS st) (flashOffMS st) (content (trace s'))"
    using led_shows_cong(2) by metis
  with G set_speaker_statics [OF assms(1)] show ?thesis by (simp add: leds_exact_def statics_eq)
next
  case (green_first a s1 b l on off l' on' off')
  note G = blink_green_exact [OF green_first(2) assms(2,3,5) green_first(5)]
  have R: "led_shows_exact red_files (fst (speaker_spec E st)) (flashOnMS st) (flashOffMS st) (content (trace s'))"
    using blink_red_exact [OF green_first(3) assms(2) blink_green_leds [OF green_first(2) assms(2,3)] _ green_first(4)]
      green_statics [OF green_first(2)] assms(4) by simp
  have "content (trace s') p = content (trace s1) p" if "p \<in> paths_of green_files" for p
    using red.blink_other [OF green_first(3)] that paths_disjoint(1) by blast
  with G have "led_shows_exact green_files (snd (speaker_spec E st)) (flashOnMS st) (flashOffMS st) (content (trace s'))"
    using led_shows_cong(2) by metis
  with R set_speaker_statics [OF assms(1)] show ?thesis by (simp add: leds_exact_def statics_eq)
qed

section \<open>The critical sections\<close>

text \<open>What each \<open>set_light\<close> function does between locking and unlocking the mutex.\<close>

definition trackball_if_any ::
  "('k, 'x) kernel_scheme \<Rightarrow> 'k lights \<Rightarrow> 'k lights option" where
  "trackball_if_any K s =
     (if g_haveTrackballLight s \<noteq> 0
      then do { (_, s) \<leftarrow> handle_trackball_light_locked K s; Some s }
      else Some s)"

fun section_of ::
  "('k, 'x) lights_env_scheme \<Rightarrow> set_light_fn \<Rightarrow> light_state_t \<Rightarrow> 'k lights
     \<Rightarrow> (int \<times> 'k lights) option" where
  "section_of E Set_light_backlight st s = do {
     (err, s1) \<leftarrow> write_int E LCD_FILE (rgb_to_brightness st) (s\<lparr>g_backlight := rgb_to_brightness st\<rparr>);
     s2 \<leftarrow> trackball_if_any E s1;
     Some (err, s2) }"
| "section_of E Set_light_keyboard st s =
     write_int E KEYBOARD_FILE (if is_lit st \<noteq> 0 then 255 else 0) s"
| "section_of E Set_light_buttons st s =
     write_int E BUTTON_FILE (if is_lit st \<noteq> 0 then 255 else 0) (s\<lparr>g_buttons := is_lit st\<rparr>)"
| "section_of E Set_light_battery st s = do {
     s1 \<leftarrow> (if g_haveTrackballLight s \<noteq> 0
            then do { (_, t) \<leftarrow> set_speaker_light_locked E st (s\<lparr>g_battery := st\<rparr>); Some t }
            else Some (s\<lparr>g_battery := st\<rparr>));
     s2 \<leftarrow> handle_speaker_battery_locked E s1;
     Some (0, s2) }"
| "section_of E Set_light_notifications st s = do {
     s1 \<leftarrow> trackball_if_any E (s\<lparr>g_notification := st\<rparr>);
     s2 \<leftarrow> handle_speaker_battery_locked E s1;
     Some (0, s2) }"
| "section_of E Set_light_attention st s = do {
     s1 \<leftarrow> trackball_if_any E
            (if flashMode st = LIGHT_FLASH_HARDWARE E then s\<lparr>g_attention := flashOnMS st\<rparr>
             else if flashMode st = LIGHT_FLASH_NONE E then s\<lparr>g_attention := 0\<rparr> else s);
     Some (0, s1) }"

text \<open>What the section leaves in the static variables.\<close>

definition show_effective :: "('k, 'x) lights_env_scheme \<Rightarrow> 'k lights \<Rightarrow> 'k lights" where
  "show_effective E s =
     s\<lparr>red_preStatus := fst (speaker_spec E (effective s)),
       green_preStatus := snd (speaker_spec E (effective s))\<rparr>"

fun statics_after ::
  "('k, 'x) lights_env_scheme \<Rightarrow> set_light_fn \<Rightarrow> light_state_t \<Rightarrow> 'k lights \<Rightarrow> 'k lights" where
  "statics_after E Set_light_backlight st s = s\<lparr>g_backlight := rgb_to_brightness st\<rparr>"
| "statics_after E Set_light_keyboard st s = s"
| "statics_after E Set_light_buttons st s = s\<lparr>g_buttons := is_lit st\<rparr>"
| "statics_after E Set_light_battery st s = show_effective E (s\<lparr>g_battery := st\<rparr>)"
| "statics_after E Set_light_notifications st s = show_effective E (s\<lparr>g_notification := st\<rparr>)"
| "statics_after E Set_light_attention st s =
     s\<lparr>g_attention := (if flashMode st = LIGHT_FLASH_HARDWARE E then flashOnMS st
       else if flashMode st = LIGHT_FLASH_NONE E then 0 else g_attention s)\<rparr>"

lemma trackball_eq:
  "handle_trackball_light_locked K s =
     (let mode = (if g_attention s = 7 \<and> g_backlight s \<noteq> 0 then 0 else g_attention s) in
      Some (if g_trackball s = mode then (0, s)
            else write_bytes K TRACKBALL_FILE O_RDWR (int_line mode) s))"
  by (simp add: handle_trackball_light_locked_def write_int_eq Let_def)

lemma trackball_if_any_returns: "\<exists>s'. trackball_if_any K s = Some s'"
  by (simp add: trackball_if_any_def trackball_eq Let_def split_beta)

lemma trackball_if_any_more: "trackball_if_any K s = Some s' \<Longrightarrow> world.more s' = world.more s"
  by (auto simp: trackball_if_any_def trackball_eq Let_def split_beta frame_simps split: if_splits)

lemma trackball_if_any_fds: "trackball_if_any K s = Some s' \<Longrightarrow> open_fds (trace s') = open_fds (trace s)"
  by (auto simp: trackball_if_any_def trackball_eq Let_def split_beta world_simps split: if_splits)

lemma other_file: "path \<notin> led_paths \<Longrightarrow> p \<in> led_paths \<Longrightarrow>
    content (trace (snd (write_bytes K path fl b s))) p = content (trace s) p"
  by (rule content_write_bytes_other) auto

lemma other_paths: "TRACKBALL_FILE \<notin> led_paths" "LCD_FILE \<notin> led_paths" "KEYBOARD_FILE \<notin> led_paths"
  "BUTTON_FILE \<notin> led_paths"
  using paths_disjoint by (simp_all add: led_paths_def)

lemma trackball_if_any_other:
  "trackball_if_any K s = Some s' \<Longrightarrow> p \<in> led_paths \<Longrightarrow> content (trace s') p = content (trace s) p"
  by (auto simp: trackball_if_any_def trackball_eq Let_def split_beta other_file other_paths
      split: if_splits)

text \<open>An unlit battery light turns both LEDs off, whatever its alpha and flash mode.\<close>

lemma low_bits_zero:
  assumes "(c :: u32) AND 0x00ffffff = 0"
  shows "red_of c = 0" and "green_of c = 0"
proof -
  have c0: "\<not> bit c n" if "n < 24" for n
  proof -
    have "bit (c AND mask 24) n = (n < 24 \<and> bit c n)"
      by (auto simp: bit_and_iff bit_mask_iff dest: bit_imp_le_length)
    moreover have "c AND mask 24 = 0"
      using assms by (simp add: mask_eq_exp_minus_1)
    ultimately show ?thesis using that by simp
  qed
  have m: "(0xFF :: u32) = mask 8"
    by (simp add: mask_eq_exp_minus_1)
  show "red_of c = 0"
    unfolding red_of_def m by (rule bit_eqI) (auto simp: bit_and_iff bit_drop_bit_eq bit_mask_iff c0)
  show "green_of c = 0"
    unfolding green_of_def m by (rule bit_eqI) (auto simp: bit_and_iff bit_drop_bit_eq bit_mask_iff c0)
qed

lemma unlit_off: "is_lit st = 0 \<Longrightarrow> speaker_spec E st = (0, 0)"
  using low_bits_zero [of "color st"] orange_parts
  by (auto simp: is_lit_def speaker_spec_def Let_def)

lemma speaker_battery_statics:
  assumes "handle_speaker_battery_locked E s = Some s'"
  shows "world.more s' = world.more (show_effective E s)"
proof (cases "is_lit (g_battery s) = 0")
  case True
  with assms obtain a b s1 where 1: "set_speaker_light_locked E (g_battery s) s = Some (a, s1)"
    and 2: "set_speaker_light_locked E (g_notification s1) s1 = Some (b, s')"
    by (auto simp: handle_speaker_battery_locked_def bind_Some_iff split: prod.splits)
  from True show ?thesis
    using set_speaker_statics [OF 1] set_speaker_statics [OF 2]
    by (simp add: statics_eq show_effective_def effective_def)
next
  case False
  with assms show ?thesis
    by (auto simp: handle_speaker_battery_locked_def bind_Some_iff show_effective_def effective_def
        dest: set_speaker_statics split: prod.splits)
qed

lemma speaker_battery_fds:
  "handle_speaker_battery_locked E s = Some s' \<Longrightarrow> open_fds (trace s') = open_fds (trace s)"
  by (auto simp: handle_speaker_battery_locked_def bind_Some_iff dest!: set_speaker_fds split: if_splits prod.splits)

lemma speaker_battery_leds:
  assumes "handle_speaker_battery_locked E s = Some s'" and "nodes_ok E led_paths" and "leds_show s"
  shows "leds_show s'"
  using assms
  by (auto simp: handle_speaker_battery_locked_def bind_Some_iff intro: set_speaker_leds
      split: if_splits prod.splits)

lemma speaker_battery_returns:
  assumes "sleep_ok E"
  shows "\<exists>s'. handle_speaker_battery_locked E s = Some s'"
  unfolding handle_speaker_battery_locked_def
  using set_speaker_returns [OF assms] by (auto intro!: option_bind_ex split: prod.splits)

lemma write_bytes_more:
  fixes s :: "'k lights"
  shows "write_bytes K path fl b s = (r, s') \<Longrightarrow> world.more s' = world.more s"
  using more_write_bytes [of K path fl b s] by simp

lemmas section_cases = trackball_if_any_more [unfolded statics_eq]
  set_speaker_statics [unfolded statics_eq] speaker_battery_statics [unfolded statics_eq]
  write_bytes_more [unfolded statics_eq]

lemma section_statics:
  assumes "section_of E f st s = Some (r, s')"
  shows "world.more s' = world.more (statics_after E f st s)"
proof (cases f)
  case Set_light_backlight
  with assms obtain s1
    where "write_bytes E LCD_FILE O_RDWR (int_line (rgb_to_brightness st))
        (s\<lparr>g_backlight := rgb_to_brightness st\<rparr>) = (r, s1)"
      and "trackball_if_any E s1 = Some s'"
    by (auto simp: write_int_eq split: prod.splits) (auto simp: bind_Some_iff)
  with Set_light_backlight show ?thesis
    by (auto simp: statics_eq dest!: section_cases)
next
  case Set_light_keyboard
  with assms show ?thesis by (auto simp: write_int_eq dest: write_bytes_more)
next
  case Set_light_buttons
  with assms show ?thesis by (auto simp: write_int_eq dest: write_bytes_more)
next
  case Set_light_battery
  with assms obtain s1
    where 1: "(if g_haveTrackballLight s \<noteq> 0
            then do { (_, t) \<leftarrow> set_speaker_light_locked E st (s\<lparr>g_battery := st\<rparr>); Some t }
            else Some (s\<lparr>g_battery := st\<rparr>)) = Some s1"
      and 2: "handle_speaker_battery_locked E s1 = Some s'"
    by (auto simp: bind_Some_iff)
  obtain m n where "world.more s1 =
      world.more (s\<lparr>g_battery := st, red_preStatus := m, green_preStatus := n\<rparr>)"
  proof (cases "g_haveTrackballLight s = 0")
    case True
    with 1 that [of "green_preStatus s" "red_preStatus s"] show ?thesis by (auto simp: statics_eq)
  next
    case False
    with 1 obtain a where "set_speaker_light_locked E st (s\<lparr>g_battery := st\<rparr>) = Some (a, s1)"
      by (auto simp: bind_Some_iff split: prod.splits)
    from set_speaker_statics [OF this] show ?thesis by (rule that)
  qed
  with speaker_battery_statics [OF 2] Set_light_battery show ?thesis
    by (simp add: statics_eq show_effective_def effective_def)
next
  case Set_light_notifications
  with assms obtain s1 where "trackball_if_any E (s\<lparr>g_notification := st\<rparr>) = Some s1"
    and "handle_speaker_battery_locked E s1 = Some s'"
    by (auto simp: bind_Some_iff)
  with Set_light_notifications show ?thesis
    using trackball_if_any_more speaker_battery_statics
    by (fastforce simp: statics_eq show_effective_def effective_def)
next
  case Set_light_attention
  with assms show ?thesis
    by (auto simp: bind_Some_iff statics_eq split: if_splits dest!: section_cases)
qed

lemma section_fds: "section_of E f st s = Some (r, s') \<Longrightarrow> open_fds (trace s') = open_fds (trace s)"
proof -
  have w: "write_bytes K p fl b t = (a, t') \<Longrightarrow> open_fds (trace t') = open_fds (trace t)"
    for K :: "('a, 'b) lights_env_scheme" and p fl b a and t t' :: "'a lights"
    using open_fds_write_bytes [of K p fl b t] by simp
  assume "section_of E f st s = Some (r, s')"
  then show ?thesis
    by (cases f; auto simp: write_int_eq bind_Some_iff split: if_splits prod.splits
        dest!: w trackball_if_any_fds speaker_battery_fds set_speaker_fds)
qed

lemma section_leds:
  assumes "section_of E f st s = Some (r, s')" and "nodes_ok E led_paths" and "leds_show s"
  shows "leds_show s'"
proof -
  have wr: "leds_show t'" if "write_bytes E p fl b t = (a, t')" and "p \<notin> led_paths" and "leds_show t"
    for p fl b a t t'
    using that other_file [of p _ E fl b t] write_bytes_more [OF that(1), unfolded statics_eq]
    by (auto intro: leds_show_frame)
  have tb: "leds_show t'" if "trackball_if_any E t = Some t'" and "leds_show t" for t t'
    using that trackball_if_any_other [OF that(1)] trackball_if_any_more [OF that(1), unfolded statics_eq]
    by (auto intro: leds_show_frame)
  have upd: "leds_show t \<Longrightarrow> leds_show (t\<lparr>g_backlight := v\<rparr>)" "leds_show t \<Longrightarrow> leds_show (t\<lparr>g_buttons := v\<rparr>)"
    "leds_show t \<Longrightarrow> leds_show (t\<lparr>g_battery := x\<rparr>)" "leds_show t \<Longrightarrow> leds_show (t\<lparr>g_notification := x\<rparr>)"
    "leds_show t \<Longrightarrow> leds_show (t\<lparr>g_attention := v\<rparr>)" for t :: "'a lights" and v x
    by (simp_all add: leds_show_def)
  note [intro] = wr tb upd set_speaker_leds speaker_battery_leds
  show ?thesis
    using assms other_paths
    by (cases f; auto simp: write_int_eq bind_Some_iff split: if_splits prod.splits) blast+
qed

lemma section_returns: "sleep_ok E \<Longrightarrow> \<exists>r s'. section_of E f st s = Some (r, s')"
proof -
  assume ok: "sleep_ok E"
  have tb: "\<exists>t'. trackball_if_any E t = Some t'" for t :: "'a lights"
    by (rule trackball_if_any_returns)
  have sp: "\<exists>t'. handle_speaker_battery_locked E t = Some t'" for t
    using ok by (rule speaker_battery_returns)
  show "\<exists>r s'. section_of E f st s = Some (r, s')"
  proof (cases f)
    case Set_light_backlight
    obtain a t where "write_bytes E LCD_FILE O_RDWR (int_line (rgb_to_brightness st))
        (s\<lparr>g_backlight := rgb_to_brightness st\<rparr>) = (a, t)"
      by (rule prod.exhaust)
    with tb [of t] Set_light_backlight show ?thesis by (auto simp: write_int_eq)
  next
    case Set_light_battery
    obtain a t where "set_speaker_light_locked E st (s\<lparr>g_battery := st\<rparr>) = Some (a, t)"
      using set_speaker_returns [OF ok] by blast
    with sp [of t] sp [of "s\<lparr>g_battery := st\<rparr>"] Set_light_battery show ?thesis by auto
  next
    case Set_light_notifications
    obtain t where "trackball_if_any E (s\<lparr>g_notification := st\<rparr>) = Some t"
      using tb by blast
    with sp [of t] Set_light_notifications show ?thesis by auto
  next
    case Set_light_attention
    obtain t where "trackball_if_any E
        (if flashMode st = LIGHT_FLASH_HARDWARE E then s\<lparr>g_attention := flashOnMS st\<rparr>
         else if flashMode st = LIGHT_FLASH_NONE E then s\<lparr>g_attention := 0\<rparr> else s) = Some t"
      using tb by blast
    with Set_light_attention show ?thesis by simp
  qed (simp_all add: write_int_eq split: prod.split)
qed

section \<open>The mutex\<close>

text \<open>
  The contract of a function that locks the mutex around its work: called with the mutex held it
  waits for ever, called with the mutex free it leaves it free. Every \<open>set_light\<close> function is one.
\<close>

locale critical_section =
  fixes op :: "'k lights \<Rightarrow> (int \<times> 'k lights) option"
    and body :: "'k lights \<Rightarrow> (int \<times> 'k lights) option"
  assumes op_shape: "op s = do {
      s1 \<leftarrow> mutex_lock s;
      (r, s2) \<leftarrow> body s1;
      Some (r, mutex_unlock s2) }"
begin

lemma blocked: "g_lock s \<Longrightarrow> op s = None"
  by (simp add: op_shape mutex_lock_def)

lemma enters:
  assumes "op s = Some (r, s')"
  obtains s2 where "\<not> g_lock s" and "body (s\<lparr>g_lock := True\<rparr>) = Some (r, s2)"
    and "s' = s2\<lparr>g_lock := False\<rparr>"
  using assms
  by (auto simp: op_shape mutex_lock_def mutex_unlock_def bind_Some_iff split: if_splits prod.splits)

lemma releases: "op s = Some (r, s') \<Longrightarrow> \<not> g_lock s \<and> \<not> g_lock s'"
  by (auto elim: enters)

lemma returns:
  assumes "\<not> g_lock s" and "\<And>t. \<exists>r t'. body t = Some (r, t')"
  shows "\<exists>r s'. op s = Some (r, s')"
proof -
  obtain r t where "body (s\<lparr>g_lock := True\<rparr>) = Some (r, t)"
    using assms(2) by blast
  with assms(1) show ?thesis by (simp add: op_shape mutex_lock_def)
qed

end

interpretation call: critical_section "call_set_light E f st" "section_of E f st" for E f st
proof unfold_locales
  fix s :: "'a lights"
  show "call_set_light E f st s =
      do { s1 \<leftarrow> mutex_lock s; (r, s2) \<leftarrow> section_of E f st s1; Some (r, mutex_unlock s2) }"
  proof (cases f)
    case Set_light_backlight
    show ?thesis
    proof (cases "mutex_lock s")
      case (Some s1)
      obtain a t where "write_bytes E LCD_FILE O_RDWR (int_line (rgb_to_brightness st))
          (s1\<lparr>g_backlight := rgb_to_brightness st\<rparr>) = (a, t)"
        by (rule prod.exhaust)
      with Some Set_light_backlight show ?thesis
        by (simp add: set_light_backlight_def trackball_if_any_def write_int_eq)
    qed (simp add: Set_light_backlight set_light_backlight_def)
  qed (simp_all add: set_light_keyboard_def set_light_buttons_def set_light_battery_def
      set_light_notifications_def set_light_attention_def trackball_if_any_def Let_def split: prod.split)
qed

end
