(* ===== verification/Lights_Props.thy ===== *)
theory Lights_Props
  imports Lights_Hal
begin

text \<open>The properties of the lights HAL.\<close>

section \<open>Sequences of calls\<close>

text \<open>
  A step of the HAL as its clients drive it: a device is opened or closed, a light is set through a
  device, or the kernel changes state by itself.
\<close>

inductive hal_step :: "('k, 'x) lights_env_scheme \<Rightarrow> 'k lights \<Rightarrow> 'k lights \<Rightarrow> bool"
  for E :: "('k, 'x) lights_env_scheme" where
  hal_open: "open_lights E name s = Inr (r, d, s') \<Longrightarrow> hal_step E s s'"
| hal_set: "call_set_light E f st s = Some (r, s') \<Longrightarrow> hal_step E s s'"
| hal_close: "close_lights d s = (r, s') \<Longrightarrow> hal_step E s s'"
| hal_env: "hal_step E s (s\<lparr>kst := k\<rparr>)"

definition hal_init :: "'k lights \<Rightarrow> bool" where
  "hal_init s \<longleftrightarrow> (\<exists>k. s = init_lights k)"

lemma open_lights_E:
  assumes "open_lights E name s = Inr (r, d, s')"
  obtains (unknown) "choose_set_light E name = None" and "r = - EINVAL" and "d = None" and "s' = s"
  | (opened) f p where "choose_set_light E name = Some f" and "r = 0" and "p \<noteq> 0"
      and "d = Some \<lparr>dev_block = p, dev_set_light = f\<rparr>"
      and "c_malloc E (if g_init s then s else init_globals E (s\<lparr>g_init := True\<rparr>)) = (p, s')"
  using assms by (auto simp: open_lights_def Let_def split: option.splits if_splits prod.splits)

lemma malloc_more:
  fixes s :: "'k lights"
  shows "c_malloc K s = (p, s') \<Longrightarrow> world.more s' = world.more s"
  using more_sys(6) [of K s] by simp

lemma malloc_trace: "c_malloc K s = (p, s') \<Longrightarrow> trace s' = trace s @ [Ev_malloc p]"
  using trace_sys(6) [of K s] by simp

lemma init_globals_statics:
  "world.more (init_globals K s) =
     world.more (s\<lparr>g_lock := False, g_haveTrackballLight := g_haveTrackballLight (init_globals K s)\<rparr>)"
proof -
  have "world.more (snd (sys_access K p m t)) = world.more t" for p m and t :: "'a lights"
    by (simp add: frame_simps)
  note * = this [unfolded statics_eq]
  show ?thesis by (simp add: init_globals_def Let_def split_beta statics_eq *)
qed

lemma init_globals_trace:
  "trace (init_globals K s) = trace s @ [Ev_access TRACKBALL_FILE W_OK
     (fst (sys_access K TRACKBALL_FILE W_OK (s\<lparr>g_lock := False\<rparr>)))]"
  by (simp add: init_globals_def Let_def split_beta world_simps)

text \<open>Opening changes no variable but the once flag, the mutex it initialises and the trackball flag.\<close>

definition opened_from :: "'k lights \<Rightarrow> 'k lights \<Rightarrow> bool" where
  "opened_from s s' \<longleftrightarrow>
     world.more s' = world.more (s\<lparr>g_init := g_init s', g_lock := g_lock s',
       g_haveTrackballLight := g_haveTrackballLight s'\<rparr>) \<and>
     (g_init s \<longrightarrow> world.more s' = world.more s) \<and> (\<not> g_lock s \<longrightarrow> \<not> g_lock s') \<and>
     open_fds (trace s') = open_fds (trace s) \<and> content (trace s') = content (trace s)"

lemma opened_from_malloc: "c_malloc K s = (p, s') \<Longrightarrow> opened_from t s \<Longrightarrow> opened_from t s'"
  using malloc_more [of K s p s', unfolded statics_eq] malloc_trace [of K s p s']
  by (cases "file_view (trace s)")
    (simp add: opened_from_def statics_eq world_simps content_def fun_eq_iff)

lemma opened_from_init: "\<not> g_init s \<Longrightarrow> opened_from s (init_globals K (s\<lparr>g_init := True\<rparr>))"
  using init_globals_statics [of K "s\<lparr>g_init := True\<rparr>", unfolded statics_eq]
  by (cases "file_view (trace s)")
    (simp add: opened_from_def statics_eq world_simps content_def fun_eq_iff init_globals_trace)

lemma opened_from_refl [simp]: "opened_from s s"
  by (simp add: opened_from_def)

lemma open_lights_opened:
  assumes "open_lights E name s = Inr (r, d, s')"
  shows "opened_from s s'"
  using assms
proof (cases rule: open_lights_E)
  case (opened f p)
  then show ?thesis
    using opened_from_malloc opened_from_init opened_from_refl by (metis (full_types))
qed simp

lemma close_lights_more:
  fixes s :: "'k lights"
  assumes "close_lights d s = (r, s')"
  shows "world.more s' = world.more s" and "open_fds (trace s') = open_fds (trace s)"
    and "content (trace s') = content (trace s)"
  using assms
  by (cases "file_view (trace s)";
      auto simp: close_lights_def frame_simps world_simps content_def fun_eq_iff split: option.splits)+

section \<open>The invariant of the static variables\<close>

definition hal_inv :: "('k, 'x) lights_env_scheme \<Rightarrow> 'k lights \<Rightarrow> bool" where
  "hal_inv E s \<longleftrightarrow>
     (red_preStatus s, green_preStatus s) = speaker_spec E (effective s) \<and>
     \<not> g_lock s \<and> g_trackball s = - 1 \<and> open_fds (trace s) = []"

lemma show_effective_inv:
  "(red_preStatus (show_effective E s), green_preStatus (show_effective E s)) =
     speaker_spec E (effective (show_effective E s))"
  by (simp add: show_effective_def effective_def)

lemma call_statics:
  assumes "call_set_light E f st s = Some (r, s')"
  shows "world.more s' = world.more (statics_after E f st s)"
  using assms
proof (cases rule: call.enters)
  case (1 s2)
  from section_statics [OF 1(2)] 1(1,3) show ?thesis
    by (cases f) (simp_all add: statics_eq show_effective_def effective_def)
qed

lemma call_fds: "call_set_light E f st s = Some (r, s') \<Longrightarrow> open_fds (trace s') = open_fds (trace s)"
  by (elim call.enters) (auto dest: section_fds)

lemma call_leds:
  assumes "call_set_light E f st s = Some (r, s')" and "nodes_ok E led_paths" and "leds_show s"
  shows "leds_show s'"
  using assms(1)
proof (cases rule: call.enters)
  case (1 s2)
  have "leds_show (s\<lparr>g_lock := True\<rparr>)"
    using assms(3) by (simp add: leds_show_def)
  with section_leds [OF 1(2) assms(2)] 1(3) show ?thesis by (simp add: leds_show_def)
qed

lemma hal_inv_cong:
  assumes "world.more s' = world.more s" and "open_fds (trace s') = open_fds (trace s)"
  shows "hal_inv E s' = hal_inv E s"
  using assms by (simp add: hal_inv_def effective_def statics_eq)

lemma statics_after_inv:
  assumes "hal_inv E s"
  shows "hal_inv E (statics_after E f st s)"
  using assms show_effective_inv [of E]
  by (cases f) (auto simp: hal_inv_def effective_def show_effective_def)

lemma trace_statics_after: "trace (statics_after E f st s) = trace s"
  by (cases f) (simp_all add: show_effective_def)

lemma hal_step_inv:
  assumes "hal_inv E s" and "hal_step E s s'"
  shows "hal_inv E s'"
  using assms(2)
proof (cases rule: hal_step.cases)
  case (hal_open name r d)
  with assms(1) open_lights_opened [OF hal_open] show ?thesis
    by (auto simp: hal_inv_def opened_from_def statics_eq effective_def)
next
  case (hal_set f st r)
  have "hal_inv E s' = hal_inv E (statics_after E f st s)"
    using call_statics [OF hal_set] call_fds [OF hal_set] by (intro hal_inv_cong) (simp_all add: trace_statics_after)
  with statics_after_inv [OF assms(1)] show ?thesis by simp
next
  case (hal_close d r)
  with assms(1) hal_inv_cong [OF close_lights_more(1,2) [OF hal_close], of E] show ?thesis by simp
next
  case (hal_env k)
  with assms(1) show ?thesis by (simp add: hal_inv_def effective_def)
qed

lemma init_speaker: "speaker_spec E zero_light = (0, 0)"
  by (rule unlit_off) (simp add: is_lit_def zero_light_def)

lemma hal_init_inv: "hal_init s \<Longrightarrow> hal_inv E s"
  by (auto simp: hal_init_def hal_inv_def init_lights_def effective_def init_speaker open_fds_def)

interpretation hal: invariant_system hal_init "hal_step E" "hal_inv E" for E
  by unfold_locales (auto intro: hal_init_inv hal_step_inv)

text \<open>A second invariant, on a kernel that has the LED nodes: the files show the statuses.\<close>

lemma hal_step_leds:
  assumes "nodes_ok E led_paths" and "leds_show s" and "hal_step E s s'"
  shows "leds_show s'"
  using assms(3)
proof (cases rule: hal_step.cases)
  case (hal_open name r d)
  with assms(2) open_lights_opened [OF hal_open] show ?thesis
    by (auto simp: leds_show_def opened_from_def statics_eq)
next
  case (hal_set f st r)
  with assms(1,2) show ?thesis by (blast intro: call_leds)
next
  case (hal_close d r)
  with assms(2) close_lights_more [OF hal_close] show ?thesis by (simp add: leds_show_def statics_eq)
next
  case (hal_env k)
  with assms(2) show ?thesis by (simp add: leds_show_def)
qed

interpretation hal_leds: invariant_system hal_init "hal_step E" "\<lambda>s. nodes_ok E led_paths \<longrightarrow> leds_show s" for E
proof unfold_locales
  show "hal_init s \<Longrightarrow> nodes_ok E led_paths \<longrightarrow> leds_show s" for s
    by (auto simp: hal_init_def leds_show_def led_shows_def init_lights_def content_def file_view_def)
qed (blast intro: hal_step_leds)

section \<open>The colour of the backlight\<close>

definition blue_of :: "u32 \<Rightarrow> u32" where "blue_of c = c AND 0xFF"

lemma masks: "(0x00ff :: u32) = mask 8" "(0x00ffffff :: u32) = mask 24"
  by (simp_all add: mask_eq_exp_minus_1)

lemma rgb_channels:
  "signed_drop_bit 16 ((c :: u32) AND 0x00ffffff) AND 0x00ff = red_of c"
  "signed_drop_bit 8 (c AND 0x00ffffff) AND 0x00ff = green_of c"
  "(c AND 0x00ffffff) AND 0x00ff = blue_of c"
  unfolding red_of_def green_of_def blue_of_def masks
  by (rule bit_eqI, auto simp: bit_and_iff bit_signed_drop_bit_iff bit_drop_bit_eq bit_mask_iff)+

lemma channel_bounds: "unat (red_of c) < 256" "unat (green_of c) < 256" "unat (blue_of c) < 256"
  by (simp_all add: red_of_def green_of_def blue_of_def unat_mask8_less)

lemma unat_drop_bit_div: "unat (drop_bit n (w :: 'a::len word)) = unat w div 2 ^ n"
  unfolding unat_drop_bit_eq by (rule drop_bit_eq_div)

lemma signed_drop_bit_small:
  assumes "unat (w :: u32) < 2 ^ 31"
  shows "signed_drop_bit n w = drop_bit n w"
proof -
  have "unat (drop_bit 31 w) = 0"
    using assms by (simp add: unat_drop_bit_div)
  then have "drop_bit 31 w = 0"
    by (simp add: unat_eq_0)
  then have "\<not> bit w 31"
    by (simp add: bit_iff_odd_drop_bit)
  then show ?thesis
    by (intro bit_word_eqI) (auto simp: bit_signed_drop_bit_iff bit_drop_bit_eq dest: bit_imp_le_length)
qed

definition luma :: "nat \<Rightarrow> nat \<Rightarrow> nat \<Rightarrow> nat" where
  "luma r g b = (77 * r + 150 * g + 29 * b) div 256"

lemma unat_rgb_to_brightness:
  "unat (rgb_to_brightness st) =
     luma (unat (red_of (color st))) (unat (green_of (color st))) (unat (blue_of (color st)))"
proof -
  let ?r = "red_of (color st)" and ?g = "green_of (color st)" and ?b = "blue_of (color st)"
  let ?sum = "77 * ?r + 150 * ?g + 29 * ?b"
  have bound: "77 * unat ?r + 150 * unat ?g + 29 * unat ?b \<le> 65280"
    using channel_bounds [of "color st"] by linarith
  have sum: "unat ?sum = 77 * unat ?r + 150 * unat ?g + 29 * unat ?b"
    using bound by (simp add: unat_word_ariths)
  with bound have "signed_drop_bit 8 ?sum = drop_bit 8 ?sum"
    by (intro signed_drop_bit_small) simp
  moreover have "unat (drop_bit 8 ?sum) = luma (unat ?r) (unat ?g) (unat ?b)"
    unfolding unat_drop_bit_div sum luma_def by simp
  ultimately show ?thesis
    by (simp add: rgb_to_brightness_def Let_def rgb_channels)
qed

text \<open>
  The brightness written for a colour is the weighted sum of its three channels, computed
  without overflow; it lies between 0 and 255, so it is a legal brightness, and it does not decrease
  when a channel increases.
\<close>

theorem rgb_to_brightness_correct:
  "unat (rgb_to_brightness st) =
     (77 * unat (red_of (color st)) + 150 * unat (green_of (color st)) + 29 * unat (blue_of (color st))) div 256
   \<and> unat (rgb_to_brightness st) \<le> 255
   \<and> (unat (red_of (color st)) \<le> unat (red_of (color st')) \<longrightarrow>
      unat (green_of (color st)) \<le> unat (green_of (color st')) \<longrightarrow>
      unat (blue_of (color st)) \<le> unat (blue_of (color st')) \<longrightarrow>
      unat (rgb_to_brightness st) \<le> unat (rgb_to_brightness st'))"
  using channel_bounds [of "color st"]
  by (auto simp: unat_rgb_to_brightness luma_def intro!: div_le_mono add_mono mult_le_mono)

theorem rgb_to_brightness_correct_witness:
  "unat (rgb_to_brightness \<lparr>color = 0xFF804020, flashMode = 0, flashOnMS = 0, flashOffMS = 0\<rparr>)
     \<le> unat (rgb_to_brightness \<lparr>color = 0xFFFFFFFF, flashMode = 0, flashOnMS = 0, flashOffMS = 0\<rparr>)"
  using rgb_to_brightness_correct [of "\<lparr>color = 0xFF804020, flashMode = 0, flashOnMS = 0, flashOffMS = 0\<rparr>"
      "\<lparr>color = 0xFFFFFFFF, flashMode = 0, flashOnMS = 0, flashOffMS = 0\<rparr>"]
  by (simp add: red_of_def green_of_def blue_of_def)

section \<open>A kernel to run the model on\<close>

text \<open>
  A kernel on which every call succeeds at once, with the constants of \<^verbatim>\<open>hardware/lights.h\<close>: the closed
  instances below are evaluated on it.
\<close>

definition demo_env :: "unit lights_env" where
  "demo_env =
     \<lparr>k_open = (\<lambda>k path fl. (3, 0, k)),
      k_write = (\<lambda>k fd bytes. (int (length bytes), 0, k)),
      k_close = (\<lambda>k fd. (0, 0, k)),
      k_access = (\<lambda>k path m. (0, 0, k)),
      k_nanosleep = (\<lambda>k req. (0, 0, req, k)),
      k_malloc = (\<lambda>k. (1, k)),
      k_socket = (\<lambda>k d. (4, 0, k)),
      k_setsockopt = (\<lambda>k fd. (0, 0, k)),
      k_connect = (\<lambda>k fd path. (0, 0, k)),
      k_ioctl = (\<lambda>k fd n arg. (0, 0, k)),
      k_fdopen = (\<lambda>k fd. (True, 0, k)),
      k_stdio = (\<lambda>k fd op. (0, 0, k)),
      k_fread = (\<lambda>k fd n. ([], k)),
      k_property_set = (\<lambda>k key v. k),
      LIGHT_FLASH_NONE = 0, LIGHT_FLASH_TIMED = 1, LIGHT_FLASH_HARDWARE = 2,
      LIGHT_ID_BACKLIGHT = ''backlight'', LIGHT_ID_KEYBOARD = ''keyboard'',
      LIGHT_ID_BUTTONS = ''buttons'', LIGHT_ID_BATTERY = ''battery'',
      LIGHT_ID_NOTIFICATIONS = ''notifications'', LIGHT_ID_ATTENTION = ''attention''\<rparr>"

lemma demo_sleep_ok: "sleep_ok demo_env"
  by (simp add: sleep_ok_def demo_env_def)

lemma demo_nodes_ok: "nodes_ok demo_env P"
  by (simp add: nodes_ok_def demo_env_def)

definition red_blink :: light_state_t where
  "red_blink = \<lparr>color = 0xFFFF0000, flashMode = 1, flashOnMS = 300, flashOffMS = 700\<rparr>"

definition green_steady :: light_state_t where
  "green_steady = \<lparr>color = 0xFF00FF00, flashMode = 0, flashOnMS = 0, flashOffMS = 0\<rparr>"

lemma demo_lights:
  "speaker_spec demo_env red_blink = (1, 0)" "speaker_spec demo_env green_steady = (0, 2)"
  "is_lit red_blink \<noteq> 0" "is_lit green_steady \<noteq> 0"
  by (simp_all add: speaker_spec_def Let_def blinks_def red_blink_def green_steady_def demo_env_def
      alpha_of_def red_of_def green_of_def orange_def is_lit_def)

lemma call_returns:
  assumes "sleep_ok E" and "\<not> g_lock s"
  shows "\<exists>r s'. call_set_light E f st s = Some (r, s')"
  using assms(2) section_returns [OF assms(1)] by (rule call.returns)

lemma init_unlocked: "\<not> g_lock (init_lights k)"
  by (simp add: init_lights_def)

text \<open>A state after a notification in blinking red.\<close>

lemma demo_run:
  obtains s where "reach hal_init (hal_step demo_env) s" and "g_notification s = red_blink"
    and "is_lit (g_battery s) = 0"
proof -
  let ?i = "init_lights () :: unit lights"
  obtain r s where call: "call_set_light demo_env Set_light_notifications red_blink ?i = Some (r, s)"
    using call_returns [OF demo_sleep_ok init_unlocked] by blast
  have "reach hal_init (hal_step demo_env) ?i"
    by (rule reach_init) (auto simp: hal_init_def)
  then have "reach hal_init (hal_step demo_env) s"
    by (rule reach_step) (rule hal_set [OF call])
  moreover have "g_notification s = red_blink \<and> g_battery s = g_battery ?i"
    using call_statics [OF call] unfolding statics_eq by (simp add: show_effective_def)
  moreover have "is_lit (g_battery ?i) = 0"
    by (simp add: init_lights_def zero_light_def is_lit_def)
  ultimately show thesis using that [of s] by simp
qed

section \<open>What every sequence of calls keeps\<close>

lemma reach_statuses:
  "reach hal_init (hal_step E) s \<Longrightarrow> (red_preStatus s, green_preStatus s) = speaker_spec E (effective s)"
  by (drule hal.inv_reach) (simp add: hal_inv_def)

text \<open>
  C1: whatever sequence of opens, closes and set_light calls a client makes, whatever the kernel
  answers, the two blink statuses are those of the light in force: the battery's light when it is
  lit, else the notification's.
\<close>

theorem leds_follow_effective_light:
  assumes "reach hal_init (hal_step E) s"
  shows "(red_preStatus s, green_preStatus s) = speaker_spec E (effective s)"
  using assms by (rule reach_statuses)

theorem leds_follow_effective_light_witness:
  "\<exists>s. reach hal_init (hal_step demo_env) s \<and> g_notification s = red_blink \<and>
     (red_preStatus s, green_preStatus s) = (1, 0)"
proof -
  obtain s where s: "reach hal_init (hal_step demo_env) s" "g_notification s = red_blink"
    "is_lit (g_battery s) = 0"
    by (rule demo_run)
  with leds_follow_effective_light [OF s(1)] show ?thesis
    by (auto simp: effective_def demo_lights)
qed

text \<open>
  C3: on a kernel that has the LED nodes and accepts what is written to them, the files show the
  statuses in every reachable state: a steady LED has trigger none and brightness 255, a blinking one
  the timer trigger and two non-zero delays, an LED that is off has brightness 0 (or was never
  touched).
\<close>

theorem led_files_follow_statuses:
  assumes "reach hal_init (hal_step E) s" and "nodes_ok E led_paths"
  shows "led_shows red_files (red_preStatus s) (content (trace s)) \<and>
    led_shows green_files (green_preStatus s) (content (trace s))"
  using hal_leds.inv_reach [OF assms(1)] assms(2) by (simp add: leds_show_def)

theorem led_files_follow_statuses_witness:
  "\<exists>s. reach hal_init (hal_step demo_env) s \<and>
     content (trace s) RED_TRIGGER_FILE = Some ''timer''"
proof -
  obtain s where s: "reach hal_init (hal_step demo_env) s" "g_notification s = red_blink"
    "is_lit (g_battery s) = 0"
    by (rule demo_run)
  have "red_preStatus s = 1"
    using reach_statuses [OF s(1)] s by (simp add: effective_def demo_lights)
  with led_files_follow_statuses [OF s(1) demo_nodes_ok] s(1) show ?thesis
    by (auto simp: led_shows_def red_files_def)
qed

text \<open>
  No descriptor is left open: in every reachable state each descriptor that the file obtained has been
  closed again, on every error path too, and the mutex is free.
\<close>

theorem no_descriptor_leak:
  assumes "reach hal_init (hal_step E) s"
  shows "open_fds (trace s) = [] \<and> \<not> g_lock s"
  using hal.inv_reach [OF assms] by (simp add: hal_inv_def)

theorem no_descriptor_leak_witness:
  "\<exists>s. reach hal_init (hal_step demo_env) s \<and> g_notification s = red_blink \<and> open_fds (trace s) = []"
proof -
  obtain s where s: "reach hal_init (hal_step demo_env) s" "g_notification s = red_blink"
    "is_lit (g_battery s) = 0"
    by (rule demo_run)
  with no_descriptor_leak [OF s(1)] show ?thesis by blast
qed

section \<open>What one call does\<close>

text \<open>A notification that finds the battery light off goes through off to its own times.\<close>

lemma notification_exact:
  assumes "hal_inv E s" and "leds_show s" and "nodes_ok E led_paths"
    and "is_lit (g_battery s) = 0"
    and "call_set_light E Set_light_notifications st s = Some (r, s')"
  shows "leds_exact st s'"
  using assms(5)
proof (cases rule: call.enters)
  case (1 s2)
  let ?s1 = "s\<lparr>g_lock := True, g_notification := st\<rparr>"
  from 1(2) obtain t where t: "trackball_if_any E ?s1 = Some t" and h: "handle_speaker_battery_locked E t = Some s2"
    by (auto simp: bind_Some_iff)
  note st = trackball_if_any_more [OF t, unfolded statics_eq]
  have "leds_show t"
  proof (rule leds_show_frame [of ?s1])
    show "leds_show ?s1" using assms(2) by (simp add: leds_show_def)
    show "red_preStatus t = red_preStatus ?s1" and "green_preStatus t = green_preStatus ?s1"
      using st by simp_all
  qed (rule trackball_if_any_other [OF t])
  have "is_lit (g_battery t) = 0"
    using st assms(4) by simp
  with h obtain a u b where u: "set_speaker_light_locked E (g_battery t) t = Some (a, u)"
    and v: "set_speaker_light_locked E (g_notification u) u = Some (b, s2)"
    by (auto simp: handle_speaker_battery_locked_def bind_Some_iff split: prod.splits)
  note su = set_speaker_statics [OF u, unfolded statics_eq]
  have off: "red_preStatus u = 0" "green_preStatus u = 0"
    using su \<open>is_lit (g_battery t) = 0\<close> by (simp_all add: unlit_off)
  have "leds_exact (g_notification u) s2"
    using set_speaker_exact [OF v assms(3) set_speaker_leds [OF u assms(3) \<open>leds_show t\<close>] off] .
  with 1(3) su st show ?thesis by (simp add: leds_exact_def)
qed

lemma call_statuses:
  assumes "call_set_light E Set_light_notifications st s = Some (r, s')" and "is_lit (g_battery s) = 0"
  shows "(red_preStatus s', green_preStatus s') = speaker_spec E st"
  using call_statics [OF assms(1)] assms(2) by (simp add: statics_eq show_effective_def effective_def)

text \<open>
  C7: with the battery light off, a notification always takes effect: its LEDs end in the statuses of the
  new light, and the delay files of an LED that blinks hold exactly the times of this call, even when
  the LED was blinking with other times before.
\<close>

theorem notification_reaches_leds:
  assumes "reach hal_init (hal_step E) s" and "nodes_ok E led_paths"
    and "is_lit (g_battery s) = 0"
    and "call_set_light E Set_light_notifications st s = Some (r, s')"
  shows "(red_preStatus s', green_preStatus s') = speaker_spec E st \<and>
    led_shows_exact red_files (red_preStatus s') (flashOnMS st) (flashOffMS st) (content (trace s')) \<and>
    led_shows_exact green_files (green_preStatus s') (flashOnMS st) (flashOffMS st) (content (trace s'))"
proof -
  have "leds_show s"
    using hal_leds.inv_reach [OF assms(1)] assms(2) by blast
  from notification_exact [OF hal.inv_reach [OF assms(1)] this assms(2-4)] call_statuses [OF assms(4,3)]
  show ?thesis by (simp add: leds_exact_def)
qed

theorem notification_reaches_leds_witness:
  "\<exists>s s' :: unit lights. \<exists>r. call_set_light demo_env Set_light_notifications (red_blink\<lparr>flashOnMS := 50\<rparr>) s = Some (r, s') \<and>
     g_notification s = red_blink \<and> content (trace s') RED_DELAY_ON_FILE = Some ''50\<newline>''"
proof -
  obtain s where s: "reach hal_init (hal_step demo_env) s" "g_notification s = red_blink"
    "is_lit (g_battery s) = 0"
    by (rule demo_run)
  have "\<not> g_lock s" using hal.inv_reach [OF s(1)] by (simp add: hal_inv_def)
  then obtain r s' where c: "call_set_light demo_env Set_light_notifications (red_blink\<lparr>flashOnMS := 50\<rparr>) s = Some (r, s')"
    using call_returns [OF demo_sleep_ok] by blast
  have "speaker_spec demo_env (red_blink\<lparr>flashOnMS := 50\<rparr>) = (1, 0)"
    by (simp add: speaker_spec_def Let_def blinks_def red_blink_def demo_env_def
        alpha_of_def red_of_def green_of_def orange_def)
  with notification_reaches_leds [OF s(1) demo_nodes_ok s(3) c]
  have "content (trace s') RED_DELAY_ON_FILE = Some (int_line 50)"
    by (simp add: led_shows_exact_def red_files_def)
  also have "int_line 50 = ''50\<newline>''"
    by (simp add: int_line_def fmt_d_def dec.simps)
  finally show ?thesis using c s(2) by blast
qed

text \<open>What a call that shows the same statuses as before does with the speaker LEDs: nothing.\<close>

lemma relock: "\<not> g_lock s \<Longrightarrow> s\<lparr>g_lock := False\<rparr> = (s :: 'k lights)"
  by (cases s) simp

lemma battery_same_aux:
  assumes "\<not> g_lock s" and "is_lit st \<noteq> 0" and "(red_preStatus s, green_preStatus s) = speaker_spec E st"
  shows "call_set_light E Set_light_battery st s = Some (0, s\<lparr>g_battery := st\<rparr>)"
proof -
  let ?t = "s\<lparr>g_lock := True, g_battery := st\<rparr>"
  have "set_speaker_light_locked E st ?t = Some (0, ?t)"
    using assms(3) by (intro set_speaker_same) simp
  then show ?thesis
    using assms(1,2)
    by (simp add: set_light_battery_def mutex_lock_def mutex_unlock_def handle_speaker_battery_locked_def
        Let_def relock)
qed

text \<open>
  A battery light whose statuses are shown already performs no I/O whatever: it is stored, and
  nothing else changes. New blink times of a battery light that keeps blinking are therefore not
  written to the LED.
\<close>

theorem battery_times_ignored:
  assumes "\<not> g_lock s" and "is_lit st \<noteq> 0"
    and "(red_preStatus s, green_preStatus s) = speaker_spec E st"
  shows "call_set_light E Set_light_battery st s = Some (0, s\<lparr>g_battery := st\<rparr>)"
  using assms by (rule battery_same_aux)

theorem battery_times_ignored_witness:
  "\<exists>s :: unit lights. reach hal_init (hal_step demo_env) s \<and> g_notification s = red_blink \<and>
     call_set_light demo_env Set_light_battery (red_blink\<lparr>flashOnMS := 50\<rparr>) s =
       Some (0, s\<lparr>g_battery := red_blink\<lparr>flashOnMS := 50\<rparr>\<rparr>)"
proof -
  obtain s where s: "reach hal_init (hal_step demo_env) s" "g_notification s = red_blink"
    "is_lit (g_battery s) = 0"
    by (rule demo_run)
  let ?st = "red_blink\<lparr>flashOnMS := 50\<rparr>"
  have "\<not> g_lock s" using hal.inv_reach [OF s(1)] by (simp add: hal_inv_def)
  moreover have "(red_preStatus s, green_preStatus s) = speaker_spec demo_env ?st"
    using reach_statuses [OF s(1)] s
    by (simp add: effective_def speaker_spec_def Let_def blinks_def red_blink_def demo_env_def
        alpha_of_def red_of_def green_of_def orange_def)
  moreover have "is_lit ?st \<noteq> 0" by (simp add: is_lit_def red_blink_def)
  ultimately show ?thesis using battery_times_ignored s(1,2) by blast
qed

text \<open>
  While the battery light is lit a notification does not touch the LEDs: without a trackball the
  call only stores the light, whose turn comes when the battery light goes out.
\<close>

theorem notification_waits_for_battery:
  assumes "reach hal_init (hal_step E) s" and "is_lit (g_battery s) \<noteq> 0"
    and "g_haveTrackballLight s = 0"
  shows "call_set_light E Set_light_notifications st s = Some (0, s\<lparr>g_notification := st\<rparr>)"
proof -
  let ?t = "s\<lparr>g_lock := True, g_notification := st\<rparr>"
  have "(red_preStatus s, green_preStatus s) = speaker_spec E (g_battery s)"
    using reach_statuses [OF assms(1)] assms(2) by (simp add: effective_def)
  then have "set_speaker_light_locked E (g_battery ?t) ?t = Some (0, ?t)"
    by (intro set_speaker_same) simp
  moreover have "\<not> g_lock s" using hal.inv_reach [OF assms(1)] by (simp add: hal_inv_def)
  ultimately show ?thesis
    using assms(2,3)
    by (simp add: set_light_notifications_def mutex_lock_def mutex_unlock_def handle_speaker_battery_locked_def
        Let_def relock)
qed

lemma demo_battery_run:
  obtains s :: "unit lights" where "reach hal_init (hal_step demo_env) s" and "g_battery s = green_steady"
    and "g_haveTrackballLight s = 0"
proof -
  let ?i = "init_lights () :: unit lights"
  obtain r s where call: "call_set_light demo_env Set_light_battery green_steady ?i = Some (r, s)"
    using call_returns [OF demo_sleep_ok init_unlocked] by blast
  have "reach hal_init (hal_step demo_env) ?i"
    by (rule reach_init) (auto simp: hal_init_def)
  then have "reach hal_init (hal_step demo_env) s"
    by (rule reach_step) (rule hal_set [OF call])
  moreover have "g_battery s = green_steady \<and> g_haveTrackballLight s = g_haveTrackballLight ?i"
    using call_statics [OF call] unfolding statics_eq by (simp add: show_effective_def)
  ultimately show thesis using that [of s] by (simp add: init_lights_def)
qed

theorem notification_waits_for_battery_witness:
  "\<exists>s :: unit lights. g_battery s = green_steady \<and>
     call_set_light demo_env Set_light_notifications red_blink s = Some (0, s\<lparr>g_notification := red_blink\<rparr>)"
proof -
  obtain s :: "unit lights" where s: "reach hal_init (hal_step demo_env) s" "g_battery s = green_steady"
    "g_haveTrackballLight s = 0"
    by (rule demo_battery_run)
  with notification_waits_for_battery [OF s(1) _ s(3)] demo_lights(4) show ?thesis by auto
qed

text \<open>
  C8: on a kernel whose sleeps end, a set_light call returns exactly when the mutex is free; called
  while it is held, on the same thread, it waits for ever. When it returns the mutex is free again.
\<close>

theorem call_returns_iff_unlocked:
  assumes "sleep_ok E"
  shows "if g_lock s then call_set_light E f st s = None
    else \<exists>r s'. call_set_light E f st s = Some (r, s') \<and> \<not> g_lock s'"
proof (cases "g_lock s")
  case True
  then show ?thesis by (simp add: call.blocked)
next
  case False
  then obtain r s' where "call_set_light E f st s = Some (r, s')"
    using call_returns [OF assms] by blast
  with call.releases [OF this] show ?thesis by auto
qed

theorem call_returns_iff_unlocked_witness:
  "\<exists>r s'. call_set_light demo_env Set_light_battery red_blink (init_lights ()) = Some (r, s') \<and> \<not> g_lock s'"
  using call_returns_iff_unlocked [OF demo_sleep_ok, of "init_lights ()" Set_light_battery red_blink]
  by (simp only: if_False simp_thms init_unlocked)

section \<open>The specification a call refines\<close>

text \<open>
  The specification of the HAL on its variables alone: the light or level the call is about is stored
  and the two statuses follow the light in force.
\<close>

lemma section_result:
  "section_of E f st s = Some (r, s') \<Longrightarrow>
    f \<in> {Set_light_battery, Set_light_notifications, Set_light_attention} \<Longrightarrow> r = 0"
  by (auto simp: bind_Some_iff)

text \<open>
  C2: every call refines the specification: it leaves exactly the variables the specification computes,
  whatever the kernel answers and however the blink functions and the waits go; and the battery,
  notification and attention calls report success whatever happened to the writes.
\<close>

theorem call_refines_statics:
  assumes "call_set_light E f st s = Some (r, s')"
  shows "world.more s' = world.more (statics_after E f st s) \<and>
    (f \<in> {Set_light_battery, Set_light_notifications, Set_light_attention} \<longrightarrow> r = 0)"
proof
  show "world.more s' = world.more (statics_after E f st s)"
    using assms by (rule call_statics)
  show "f \<in> {Set_light_battery, Set_light_notifications, Set_light_attention} \<longrightarrow> r = 0"
    using assms by (auto elim!: call.enters dest: section_result)
qed

theorem call_refines_statics_witness:
  "\<exists>r s'. call_set_light demo_env Set_light_battery green_steady (init_lights ()) = Some (r, s') \<and>
     g_battery s' = green_steady \<and> r = 0"
proof -
  obtain r s' where c: "call_set_light demo_env Set_light_battery green_steady (init_lights ()) = Some (r, s')"
    using call_returns [OF demo_sleep_ok init_unlocked] by blast
  have "g_battery s' = green_steady \<and> r = 0"
    using call_refines_statics [OF c] unfolding statics_eq by (simp add: show_effective_def)
  with c show ?thesis by blast
qed

section \<open>The wait for the timer's nodes\<close>

fun is_poll :: "string \<Rightarrow> event \<Rightarrow> bool" where
  "is_poll path (Ev_access p m r) = (p = path \<and> m = F_OK)"
| "is_poll path ev = False"

definition polls :: "string \<Rightarrow> event list \<Rightarrow> nat" where
  "polls path es = length (filter (is_poll path) es)"

lemma polls_append [simp]: "polls path (es @ fs) = polls path es + polls path fs"
  by (simp add: polls_def)

lemma led_wait_delay_polls:
  assumes "led_wait_delay K ms s = Some (r, s')"
  shows "\<exists>es. trace s' = trace s @ es \<and> polls path es = 0"
proof -
  have "\<exists>es. trace s' = trace s @ es \<and> filter (is_poll path) es = []"
    using assms unfolding led_wait_delay_def
    by (rule nanosleep_retry_preserves [rotated -1]) (auto simp: trace_log_call)
  then show ?thesis by (auto simp: polls_def)
qed

lemma node_missing_polls:
  assumes "node_missing K path s = (missing, s1)"
  shows "\<exists>es. trace s1 = trace s @ es \<and> polls path es = 1"
  using assms by (auto simp: node_missing_def split_beta Let_def world_simps polls_def split: if_splits)

lemma wait_node_polls:
  assumes "i \<le> 10" and "wait_node K path i s = Some s'"
  shows "\<exists>es. trace s' = trace s @ es \<and> polls path es \<le> 11 - i"
  using assms
proof (induction "10 - i" arbitrary: i s)
  case 0
  then have "i = 10" by simp
  obtain missing s1 where nm: "node_missing K path s = (missing, s1)"
    by (cases "node_missing K path s") auto
  with 0 \<open>i = 10\<close> have "s' = s1"
    by (simp add: wait_node.simps [of K path 10 s])
  with node_missing_polls [OF nm] \<open>i = 10\<close> show ?case by auto
next
  case (Suc d)
  obtain missing s1 where nm: "node_missing K path s = (missing, s1)"
    by (cases "node_missing K path s") auto
  from node_missing_polls [OF nm] obtain es where es: "trace s1 = trace s @ es" "polls path es = 1"
    by blast
  show ?case
  proof (cases "missing \<and> i < 10")
    case True
    with Suc(4) nm obtain r s2 where delay: "led_wait_delay K 5 s1 = Some (r, s2)"
      and rest: "wait_node K path (i + 1) s2 = Some s'"
      by (auto simp: wait_node.simps [of K path i s] bind_Some_iff)
    from led_wait_delay_polls [OF delay] obtain fs where "trace s2 = trace s1 @ fs" "polls path fs = 0"
      by blast
    moreover have "d = 10 - (i + 1)" "i + 1 \<le> 10"
      using Suc(2) True by simp_all
    from Suc(1) [OF this rest] obtain gs where "trace s' = trace s2 @ gs" "polls path gs \<le> 11 - (i + 1)"
      by blast
    ultimately have "trace s' = trace s @ (es @ fs @ gs)" "polls path (es @ fs @ gs) \<le> 11 - i"
      using es True by simp_all arith
    then show ?thesis by blast
  next
    case False
    with Suc(4) nm have "s' = s1"
      by (auto simp: wait_node.simps [of K path i s])
    with es Suc(3) show ?thesis by auto
  qed
qed

text \<open>
  C36: the wait for the node that the timer trigger creates ends: on a kernel whose sleeps end it returns after
  at most eleven looks at the node, and it changes none of the variables.
\<close>

theorem wait_node_ends:
  assumes "sleep_ok K"
  shows "\<exists>s' es. wait_node K path 0 s = Some s' \<and> trace s' = trace s @ es \<and>
    length (filter (is_poll path) es) \<le> 11 \<and> world.more s' = world.more s"
proof -
  obtain s' where s': "wait_node K path 0 s = Some s'"
    using wait_node_returns [OF assms] by blast
  from wait_node_polls [OF _ s'] probing_more [OF wait_node_probing [OF s']] s' show ?thesis
    by (auto simp: polls_def)
qed

theorem wait_node_ends_witness:
  "\<exists>s' es. wait_node demo_env RED_DELAY_OFF_FILE 0 (init_lights ()) = Some s' \<and>
     trace s' = es \<and> length (filter (is_poll RED_DELAY_OFF_FILE) es) \<le> 11"
  using wait_node_ends [OF demo_sleep_ok, of RED_DELAY_OFF_FILE "init_lights ()"]
  by (auto simp: init_lights_def)

section \<open>The trackball\<close>

definition trackball_mode :: "'k lights \<Rightarrow> i32" where
  "trackball_mode s = (if g_attention s = 7 \<and> g_backlight s \<noteq> 0 then 0 else g_attention s)"

text \<open>
  The guard against rewriting an unchanged trackball value never applies: no operation stores
  what was written, so in every reachable state each call writes the file, unless the mode asked for is
  the initial value -1.
\<close>

theorem trackball_always_rewritten:
  assumes "reach hal_init (hal_step E) s" and "trackball_mode s \<noteq> - 1"
  shows "handle_trackball_light_locked E s = write_int E TRACKBALL_FILE (trackball_mode s) s"
  using hal.inv_reach [OF assms(1)] assms(2)
  by (auto simp: hal_inv_def trackball_mode_def handle_trackball_light_locked_def Let_def)

theorem trackball_always_rewritten_witness:
  "\<exists>s. reach hal_init (hal_step demo_env) s \<and> g_notification s = red_blink \<and>
     handle_trackball_light_locked demo_env s = write_int demo_env TRACKBALL_FILE 0 s"
proof -
  let ?i = "init_lights () :: unit lights"
  obtain r s where call: "call_set_light demo_env Set_light_notifications red_blink ?i = Some (r, s)"
    using call_returns [OF demo_sleep_ok init_unlocked] by blast
  have "reach hal_init (hal_step demo_env) ?i"
    by (rule reach_init) (auto simp: hal_init_def)
  then have reach: "reach hal_init (hal_step demo_env) s"
    by (rule reach_step) (rule hal_set [OF call])
  have st: "g_notification s = red_blink \<and> g_attention s = g_attention ?i"
    using call_statics [OF call] unfolding statics_eq by (simp add: show_effective_def)
  then have "trackball_mode s = 0"
    by (simp add: trackball_mode_def init_lights_def)
  with trackball_always_rewritten [OF reach] reach st show ?thesis by auto
qed

section \<open>Opening and closing devices\<close>

fun light_id :: "('k, 'x) lights_env_scheme \<Rightarrow> set_light_fn \<Rightarrow> string" where
  "light_id E Set_light_backlight = LIGHT_ID_BACKLIGHT E"
| "light_id E Set_light_keyboard = LIGHT_ID_KEYBOARD E"
| "light_id E Set_light_buttons = LIGHT_ID_BUTTONS E"
| "light_id E Set_light_battery = LIGHT_ID_BATTERY E"
| "light_id E Set_light_notifications = LIGHT_ID_NOTIFICATIONS E"
| "light_id E Set_light_attention = LIGHT_ID_ATTENTION E"

lemma choose_set_light_None: "choose_set_light E name = None \<longleftrightarrow> (\<forall>f. light_id E f \<noteq> name)"
proof
  assume "choose_set_light E name = None"
  then show "\<forall>f. light_id E f \<noteq> name"
    by (intro allI, case_tac f) (auto simp: choose_set_light_def split: if_splits)
next
  assume "\<forall>f. light_id E f \<noteq> name"
  then have "light_id E f \<noteq> name" for f by blast
  from this [of Set_light_backlight] this [of Set_light_keyboard] this [of Set_light_buttons]
    this [of Set_light_battery] this [of Set_light_notifications] this [of Set_light_attention]
  show "choose_set_light E name = None" by (simp add: choose_set_light_def)
qed

lemma choose_set_light_Some: "choose_set_light E name = Some f \<Longrightarrow> light_id E f = name"
  by (auto simp: choose_set_light_def split: if_splits)

lemma init_globals_heap: "live_blocks (trace (init_globals K s)) = live_blocks (trace s)"
  by (simp add: init_globals_trace world_simps)

text \<open>
  Opening a device by a name that is none of the six light names fails with \<open>-EINVAL\<close> and changes
  nothing; opening one of the six succeeds with a device whose function is that of the name and whose block is
  the one new block of the heap, unless \<open>malloc\<close> fails, when the call dereferences a null pointer. Closing
  the device gives the block back.
\<close>

theorem open_close_lights:
  "case open_lights E name s of
     Inl flt \<Rightarrow> flt = Null_deref \<and> (\<exists>f. light_id E f = name)
   | Inr (r, None, s') \<Rightarrow> r = - EINVAL \<and> (\<forall>f. light_id E f \<noteq> name) \<and> s' = s
   | Inr (r, Some d, s') \<Rightarrow>
       r = 0 \<and> light_id E (dev_set_light d) = name \<and>
       live_blocks (trace s') = dev_block d # live_blocks (trace s) \<and>
       fst (close_lights (Some d) s') = 0 \<and>
       live_blocks (trace (snd (close_lights (Some d) s'))) = live_blocks (trace s)"
proof (cases "choose_set_light E name")
  case None
  then have "\<forall>f. light_id E f \<noteq> name" by (rule choose_set_light_None [THEN iffD1])
  with None show ?thesis by (simp add: open_lights_def)
next
  case (Some f)
  let ?s1 = "if g_init s then s else init_globals E (s\<lparr>g_init := True\<rparr>)"
  have heap: "live_blocks (trace ?s1) = live_blocks (trace s)"
    by (simp add: init_globals_heap)
  obtain p s2 where malloc: "c_malloc E ?s1 = (p, s2)"
    by (cases "c_malloc E ?s1") auto
  show ?thesis
    using Some malloc heap choose_set_light_Some [OF Some] malloc_trace [OF malloc]
    by (auto simp: open_lights_def Let_def close_lights_def world_simps)
qed

section \<open>The buffers of the write functions\<close>

text \<open>
  The 20-byte buffer of \<open>write_int\<close> holds every 32-bit value with its newline and terminator, so the call
  always returns; that of \<open>write_str\<close> is written past exactly when the file opens and the string
  has 20 characters or more.
\<close>

theorem write_buffers_fit:
  "(\<exists>r s'. write_int K path v s = Some (r, s')) \<and>
   (write_str K path str s = None \<longleftrightarrow>
      0 \<le> fst (sys_open K path O_WRONLY s) \<and> 20 \<le> length str)"
  by (auto simp: write_int_eq write_str_def sprintf_def Let_def split_beta)

end
