(* ===== verification/Power_Hal.thy ===== *)
theory Power_Hal
  imports Posix
begin

text \<open>
  \<^verbatim>\<open>power/power.c\<close>: the power HAL. A hint selects a performance profile, which the HAL publishes as
  a system property. The constants of \<^verbatim>\<open>hardware/power.h\<close> come with the environment.
\<close>

section \<open>Model\<close>

record 'k power_env = "'k kernel" +
  POWER_HINT_SET_PROFILE :: int
  POWER_FEATURE_SUPPORTED_PROFILES :: int

definition PROFILE_POWER_SAVE :: i32 where "PROFILE_POWER_SAVE = 0"
definition PROFILE_BALANCED :: i32 where "PROFILE_BALANCED = 1"
definition PROFILE_HIGH_PERFORMANCE :: i32 where "PROFILE_HIGH_PERFORMANCE = 2"
definition PROFILE_BIAS_POWER :: i32 where "PROFILE_BIAS_POWER = 3"
definition POWER_NR_OF_SUPPORTED_PROFILES :: int where "POWER_NR_OF_SUPPORTED_PROFILES = 4"
definition POWER_PROFILE_PROPERTY :: string where "POWER_PROFILE_PROPERTY = ''sys.perf.profile''"
definition POWER_SAVE_PROP :: string where "POWER_SAVE_PROP = ''0''"
definition BALANCED_PROP :: string where "BALANCED_PROP = ''1''"
definition HIGH_PERFORMANCE_PROP :: string where "HIGH_PERFORMANCE_PROP = ''2''"
definition BIAS_POWER_PROP :: string where "BIAS_POWER_PROP = ''3''"

lemmas profile_defs = PROFILE_POWER_SAVE_def PROFILE_BALANCED_def PROFILE_HIGH_PERFORMANCE_def
  PROFILE_BIAS_POWER_def POWER_SAVE_PROP_def BALANCED_PROP_def HIGH_PERFORMANCE_PROP_def
  BIAS_POWER_PROP_def

record 'k power = "'k world" +
  current_power_profile :: i32

definition init_power :: "'k \<Rightarrow> 'k power" where
  "init_power k = \<lparr>kst = k, errno = 0, trace = [], current_power_profile = PROFILE_BALANCED\<rparr>"

text \<open>The descriptor is not closed when the write fails.\<close>

definition sysfs_write ::
  "('k, 'x) kernel_scheme \<Rightarrow> string \<Rightarrow> string \<Rightarrow> ('k, 'a) world_scheme \<Rightarrow> int \<times> ('k, 'a) world_scheme" where
  "sysfs_write K path str s =
     (let (fd, s1) = sys_open K path O_WRONLY s in
      if fd < 0 then (- 1, s1)
      else let (len, s2) = sys_write K fd str s1 in
        if len < 0 then (- 1, s2)
        else (0, sys_close K fd s2))"

definition power_init :: "'k power \<Rightarrow> 'k power" where
  "power_init s = s"

definition power_set_interactive :: "int \<Rightarrow> 'k power \<Rightarrow> 'k power" where
  "power_set_interactive on s = s"

definition set_power_profile :: "('k, 'x) kernel_scheme \<Rightarrow> i32 \<Rightarrow> 'k power \<Rightarrow> 'k power" where
  "set_power_profile K profile s =
     (if profile = current_power_profile s then s
      else let s1 =
          (if profile = PROFILE_POWER_SAVE then property_set K POWER_PROFILE_PROPERTY POWER_SAVE_PROP s
           else if profile = PROFILE_BALANCED then property_set K POWER_PROFILE_PROPERTY BALANCED_PROP s
           else if profile = PROFILE_HIGH_PERFORMANCE
             then property_set K POWER_PROFILE_PROPERTY HIGH_PERFORMANCE_PROP s
           else if profile = PROFILE_BIAS_POWER then property_set K POWER_PROFILE_PROPERTY BIAS_POWER_PROP s
           else s)
        in s1\<lparr>current_power_profile := profile\<rparr>)"

text \<open>The data of a hint is a pointer: \<^const>\<open>None\<close> is the null pointer, which the profile hint dereferences.\<close>

definition power_hint ::
  "('k, 'x) power_env_scheme \<Rightarrow> int \<Rightarrow> i32 option \<Rightarrow> 'k power \<Rightarrow> fault + 'k power" where
  "power_hint E hint data s =
     (if hint = POWER_HINT_SET_PROFILE E then
        (case data of None \<Rightarrow> Inl Null_deref | Some profile \<Rightarrow> Inr (set_power_profile E profile s))
      else Inr s)"

definition set_feature :: "int \<Rightarrow> int \<Rightarrow> 'k power \<Rightarrow> 'k power" where
  "set_feature feature state s = s"

definition get_feature :: "('k, 'x) power_env_scheme \<Rightarrow> int \<Rightarrow> int" where
  "get_feature E feature =
     (if feature = POWER_FEATURE_SUPPORTED_PROFILES E then POWER_NR_OF_SUPPORTED_PROFILES else - 1)"

section \<open>Profiles and the property\<close>

text \<open>The value the property has for each of the four profiles.\<close>

definition prop_of :: "i32 \<Rightarrow> string option" where
  "prop_of p =
     (if p = 0 then Some ''0'' else if p = 1 then Some ''1''
      else if p = 2 then Some ''2'' else if p = 3 then Some ''3'' else None)"

definition valid_profile :: "i32 \<Rightarrow> bool" where
  "valid_profile p \<longleftrightarrow> uint p < POWER_NR_OF_SUPPORTED_PROFILES"

fun prop_event :: "event \<Rightarrow> string list" where
  "prop_event (Ev_property_set key v) = (if key = POWER_PROFILE_PROPERTY then [v] else [])"
| "prop_event ev = []"

definition published :: "event list \<Rightarrow> string list" where
  "published tr = concat (map prop_event tr)"

lemma published_append [simp]: "published (tr @ es) = published tr @ published es"
  by (simp add: published_def)

lemma valid_profile_iff: "valid_profile p \<longleftrightarrow> p = 0 \<or> p = 1 \<or> p = 2 \<or> p = 3"
proof
  assume "valid_profile p"
  then have "uint p < 4" by (simp add: valid_profile_def POWER_NR_OF_SUPPORTED_PROFILES_def)
  moreover have "0 \<le> uint p" by simp
  ultimately have "uint p = 0 \<or> uint p = 1 \<or> uint p = 2 \<or> uint p = 3" by linarith
  then have "uint p = uint (0 :: i32) \<or> uint p = uint (1 :: i32) \<or> uint p = uint (2 :: i32) \<or> uint p = uint (3 :: i32)"
    by simp
  then show "p = 0 \<or> p = 1 \<or> p = 2 \<or> p = 3"
    unfolding word_uint_eq_iff .
qed (auto simp: valid_profile_def POWER_NR_OF_SUPPORTED_PROFILES_def)

lemma prop_of_valid: "prop_of p \<noteq> None \<longleftrightarrow> valid_profile p"
  by (simp add: prop_of_def valid_profile_iff)

lemma prop_of_inj: "prop_of p = Some v \<Longrightarrow> prop_of q = Some v \<Longrightarrow> p = q"
  by (auto simp: prop_of_def split: if_splits)

text \<open>One profile change, as the observer of the property sees it.\<close>

lemma set_power_profile_eq:
  "set_power_profile K p s =
     (if p = current_power_profile s then s
      else (case prop_of p of
          None \<Rightarrow> s
        | Some v \<Rightarrow> property_set K POWER_PROFILE_PROPERTY v s)\<lparr>current_power_profile := p\<rparr>)"
  by (simp add: set_power_profile_def prop_of_def profile_defs)

lemma set_power_profile_current: "current_power_profile (set_power_profile K p s) = p"
  by (simp add: set_power_profile_eq)

lemma set_power_profile_published:
  "published (trace (set_power_profile K p s)) =
     published (trace s) @
     (if p = current_power_profile s then [] else case prop_of p of None \<Rightarrow> [] | Some v \<Rightarrow> [v])"
  by (simp add: set_power_profile_eq world_simps published_def split: option.split)

end
