(* ===== verification/Power_Props.thy ===== *)
theory Power_Props
  imports Power_Hal
begin

text \<open>
  The properties of the power HAL: the published property follows the profile, no value is published
  twice in a row, hints other than the profile hint have no effect, and what \<open>sysfs_write\<close> leaves open.
\<close>

section \<open>Sequences of calls\<close>

text \<open>
  A step of the HAL: the framework calls one of the functions of the module, or the kernel changes
  state by itself. The parameter says which profiles the framework asks for.
\<close>

inductive power_step ::
  "('k, 'x) power_env_scheme \<Rightarrow> (i32 \<Rightarrow> bool) \<Rightarrow> 'k power \<Rightarrow> 'k power \<Rightarrow> bool"
  for E :: "('k, 'x) power_env_scheme" and asked :: "i32 \<Rightarrow> bool" where
  power_step_hint: "power_hint E hint data s = Inr s' \<Longrightarrow>
    (\<And>p. hint = POWER_HINT_SET_PROFILE E \<Longrightarrow> data = Some p \<Longrightarrow> asked p) \<Longrightarrow> power_step E asked s s'"
| power_step_init: "power_step E asked s (power_init s)"
| power_step_interactive: "power_step E asked s (power_set_interactive on s)"
| power_step_feature: "power_step E asked s (set_feature feature state s)"
| power_step_env: "power_step E asked s (s\<lparr>kst := k\<rparr>)"

definition power_start :: "'k power \<Rightarrow> bool" where
  "power_start s \<longleftrightarrow> (\<exists>k. s = init_power k)"

text \<open>A step changes the profile and the published values as one profile change does, or not at all.\<close>

lemma power_step_E:
  assumes "power_step E asked s s'"
  obtains (change) p where "asked p" and "s' = set_power_profile E p s"
  | (same) "current_power_profile s' = current_power_profile s" and "trace s' = trace s"
  using assms
  by (cases rule: power_step.cases)
    (auto simp: power_hint_def power_init_def power_set_interactive_def set_feature_def
      split: if_splits option.splits)

section \<open>Invariants\<close>

definition synced :: "'k power \<Rightarrow> bool" where
  "synced s \<longleftrightarrow>
     (\<forall>v. prop_of (current_power_profile s) = Some v \<longrightarrow>
        last (''1'' # published (trace s)) = v)"

definition alternating :: "'k power \<Rightarrow> bool" where
  "alternating s \<longleftrightarrow>
     prop_of (current_power_profile s) = Some (last (''1'' # published (trace s))) \<and>
     distinct_adj (''1'' # published (trace s))"

lemma power_start_facts:
  "power_start s \<Longrightarrow> current_power_profile s = 1 \<and> published (trace s) = []"
  by (auto simp: power_start_def init_power_def PROFILE_BALANCED_def published_def)

lemma set_power_profile_synced: "synced s \<Longrightarrow> synced (set_power_profile K p s)"
  by (auto simp: synced_def set_power_profile_published set_power_profile_current split: option.splits)

lemma distinct_adj_snoc: "distinct_adj (x # xs) \<Longrightarrow> last (x # xs) \<noteq> y \<Longrightarrow> distinct_adj (x # xs @ [y])"
  using distinct_adj_append_iff [of "x # xs" "[y]"] by simp

lemma set_power_profile_alternating:
  assumes "alternating s" and "valid_profile p"
  shows "alternating (set_power_profile K p s)"
proof (cases "p = current_power_profile s")
  case True
  with assms show ?thesis by (simp add: set_power_profile_eq)
next
  case False
  obtain v where v: "prop_of p = Some v"
    using assms(2) prop_of_valid by blast
  have "last (''1'' # published (trace s)) \<noteq> v"
    using assms(1) False v prop_of_inj by (auto simp: alternating_def)
  with assms(1) False v show ?thesis
    by (auto simp: alternating_def set_power_profile_published set_power_profile_current
        dest: distinct_adj_snoc)
qed

interpretation sync: invariant_system power_start "power_step E asked" synced for E asked
proof unfold_locales
  show "power_start s \<Longrightarrow> synced s" for s
    by (auto simp: synced_def prop_of_def dest!: power_start_facts)
  show "synced s \<Longrightarrow> power_step E asked s t \<Longrightarrow> synced t" for s t
  proof (erule power_step_E)
    show "synced s \<Longrightarrow> t = set_power_profile E p s \<Longrightarrow> synced t" for p
      by (simp add: set_power_profile_synced)
  qed (simp add: synced_def)
qed

interpretation alternate: invariant_system power_start "power_step E valid_profile" alternating for E
proof unfold_locales
  show "power_start s \<Longrightarrow> alternating s" for s
    by (auto simp: alternating_def prop_of_def dest!: power_start_facts)
  show "alternating s \<Longrightarrow> power_step E valid_profile s t \<Longrightarrow> alternating t" for s t
  proof (erule power_step_E)
    show "alternating s \<Longrightarrow> valid_profile p \<Longrightarrow> t = set_power_profile E p s \<Longrightarrow> alternating t" for p
      by (simp add: set_power_profile_alternating)
  qed (simp add: alternating_def)
qed

section \<open>A kernel to run the model on\<close>

definition power_demo :: "unit power_env" where
  "power_demo =
     \<lparr>k_open = (\<lambda>k path fl. (3, 0, k)),
      k_write = (\<lambda>k fd bytes. (- 1, 5, k)),
      k_close = (\<lambda>k fd. (0, 0, k)),
      k_access = (\<lambda>k path m. (0, 0, k)),
      k_nanosleep = (\<lambda>k req. (0, 0, req, k)),
      k_malloc = (\<lambda>k. (1, k)),
      k_socket = (\<lambda>k d. (4, 0, k)),
      k_setsockopt = (\<lambda>k fd. (0, 0, k)),
      k_connect = (\<lambda>k fd path. (0, 0, k)),
      k_ioctl = (\<lambda>k fd n arg. (0, 0, k)),
      k_fdopen = (\<lambda>k fd. (True, 0, k)),
      k_stdio = (\<lambda>k fd op. (0, 0, k)),
      k_fread = (\<lambda>k fd n. ([], k)),
      k_property_set = (\<lambda>k key v. k),
      POWER_HINT_SET_PROFILE = 9, POWER_FEATURE_SUPPORTED_PROFILES = 4096\<rparr>"

text \<open>The state after the hints for power saving and for high performance.\<close>

definition demo_power :: "unit power" where
  "demo_power = set_power_profile power_demo 2 (set_power_profile power_demo 0 (init_power ()))"

lemma demo_power_reach: "reach power_start (power_step power_demo valid_profile) demo_power"
proof -
  have hint: "power_step power_demo valid_profile s (set_power_profile power_demo p s)"
    if "valid_profile p" for s p
    using that by (intro power_step_hint [of _ 9 "Some p"]) (auto simp: power_hint_def power_demo_def)
  have "reach power_start (power_step power_demo valid_profile) (init_power ())"
    by (rule reach_init) (auto simp: power_start_def)
  then have "reach power_start (power_step power_demo valid_profile) (set_power_profile power_demo 0 (init_power ()))"
    by (rule reach_step) (rule hint, simp add: valid_profile_iff)
  then show ?thesis
    unfolding demo_power_def by (rule reach_step) (rule hint, simp add: valid_profile_iff)
qed

lemma demo_power_current: "current_power_profile demo_power = 2"
  by (simp add: demo_power_def set_power_profile_current)

section \<open>Properties\<close>

text \<open>
  C25: whatever hints the framework sends, in every reachable state in which the recorded profile is
  one of the four, the last value published for it (or the initial \<open>1\<close>, when nothing was published) is the
  value of that profile.
\<close>

theorem profile_property_synced:
  assumes "reach power_start (power_step E asked) s"
    and "prop_of (current_power_profile s) = Some v"
  shows "last (''1'' # published (trace s)) = v"
  using sync.inv_reach [OF assms(1)] assms(2) by (simp add: synced_def)

theorem profile_property_synced_witness:
  "last (''1'' # published (trace demo_power)) = ''2''"
  using profile_property_synced [OF demo_power_reach] demo_power_current by (simp add: prop_of_def)

text \<open>
  As long as the framework asks for the four profiles only, no value is published twice in a row:
  each write of the property changes it.
\<close>

theorem no_redundant_publication:
  assumes "reach power_start (power_step E valid_profile) s"
  shows "distinct_adj (''1'' # published (trace s)) \<and> valid_profile (current_power_profile s)"
  using alternate.inv_reach [OF assms] prop_of_valid by (auto simp: alternating_def)

theorem no_redundant_publication_witness:
  "distinct_adj (''1'' # published (trace demo_power)) \<and> current_power_profile demo_power = 2"
  using no_redundant_publication [OF demo_power_reach] demo_power_current by simp

text \<open>
  A hint for a profile that does not exist is stored without being published: the recorded profile then
  differs from the published one, and asking for the published one again publishes it a second time.
\<close>

theorem invalid_profile_accepted:
  assumes "\<not> valid_profile p" and "prop_of (current_power_profile s) = Some v"
  shows "set_power_profile K p s = s\<lparr>current_power_profile := p\<rparr> \<and>
    published (trace (set_power_profile K (current_power_profile s) (set_power_profile K p s))) =
      published (trace s) @ [v]"
proof -
  have "prop_of p = None" and "p \<noteq> current_power_profile s"
    using assms prop_of_valid by (metis option.exhaust, metis option.distinct(1))
  then show ?thesis
    using assms(2) by (simp add: set_power_profile_eq world_simps published_def)
qed

theorem invalid_profile_accepted_witness:
  "published (trace (set_power_profile power_demo 2 (set_power_profile power_demo 7 demo_power))) =
     published (trace demo_power) @ [''2'']"
  using invalid_profile_accepted [of 7 demo_power "''2''" power_demo, THEN conjunct2] demo_power_current
  by (simp add: valid_profile_iff prop_of_def)

text \<open>
  A hint fails only when it is the profile hint without data, which dereferences a null pointer;
  any other hint changes nothing, and the one feature that is answered is the number of profiles.
\<close>

theorem power_hint_contract:
  "(power_hint E hint data s = Inl f \<longleftrightarrow>
      f = Null_deref \<and> hint = POWER_HINT_SET_PROFILE E \<and> data = None) \<and>
   (hint \<noteq> POWER_HINT_SET_PROFILE E \<longrightarrow> power_hint E hint data s = Inr s) \<and>
   (power_hint E (POWER_HINT_SET_PROFILE E) (Some p) s = Inr (set_power_profile E p s)) \<and>
   get_feature E (POWER_FEATURE_SUPPORTED_PROFILES E) = int (card {p. prop_of p \<noteq> None})"
proof -
  have "{p. prop_of p \<noteq> None} = {0, 1, 2, 3}"
    unfolding prop_of_valid by (auto simp: valid_profile_iff)
  then show ?thesis
    by (auto simp: power_hint_def get_feature_def POWER_NR_OF_SUPPORTED_PROFILES_def split: option.splits)
qed

theorem power_hint_contract_witness:
  "power_hint power_demo 5 None demo_power = Inr demo_power"
  using power_hint_contract [of power_demo 5 None demo_power Null_deref 0] by (simp add: power_demo_def)

text \<open>
  \<open>sysfs_write\<close> succeeds exactly when the file opens and the write does not fail. It leaves no
  descriptor open when it succeeds or cannot open the file; when the write fails the descriptor stays
  open.
\<close>

theorem sysfs_write_contract:
  assumes "sysfs_write K path str s = (r, s')" and "sys_open K path O_WRONLY s = (fd, s1)"
    and "fst (sys_write K fd str s1) = len"
  shows "r = (if 0 \<le> fd \<and> 0 \<le> len then 0 else - 1) \<and>
    open_fds (trace s') = (if 0 \<le> fd \<and> len < 0 then fd # open_fds (trace s) else open_fds (trace s))"
  using assms trace_sys(1) [of K path O_WRONLY s] trace_sys(2) [of K fd str s1]
  by (auto simp: sysfs_write_def Let_def split_beta world_simps)

theorem sysfs_write_contract_witness:
  "fst (sysfs_write power_demo ''/f'' ''1'' (init_power ())) = - 1 \<and>
   open_fds (trace (snd (sysfs_write power_demo ''/f'' ''1'' (init_power ())))) = [3]"
proof -
  obtain r s' where w: "sysfs_write power_demo ''/f'' ''1'' (init_power ()) = (r, s')"
    by (rule prod.exhaust)
  obtain fd s1 where o: "sys_open power_demo ''/f'' O_WRONLY (init_power ()) = (fd, s1)"
    by (rule prod.exhaust)
  have "fd = 3" using o by (simp add: sys_open_def power_demo_def)
  moreover have "fst (sys_write power_demo fd ''1'' s1) = - 1"
    by (simp add: sys_write_def power_demo_def)
  ultimately show ?thesis
    using sysfs_write_contract [OF w o, of "- 1"] w by (simp add: init_power_def open_fds_def)
qed

end
