(* ===== verification/NetUtils.thy ===== *)
theory NetUtils
  imports Posix
begin

text \<open>
  \<^verbatim>\<open>libshims/netutils.c\<close>: commands to the network daemon and to the modem's network device.
  \<open>IFNAMSIZ\<close> and \<open>SIOCDEVPRIVATE\<close> come from the kernel headers and are part of the environment. No result
  means that a call does not return: only the retry loop around \<open>connect\<close> may run for ever.
\<close>

section \<open>Model\<close>

definition SIOCSTXQSTATE :: "('k, 'x) linux_env_scheme \<Rightarrow> nat" where
  "SIOCSTXQSTATE E = SIOCDEVPRIVATE E + 0"

definition SIOCSCCMNICFG :: "('k, 'x) linux_env_scheme \<Rightarrow> nat" where
  "SIOCSCCMNICFG E = SIOCDEVPRIVATE E + 1"

definition ipv6_proc_path :: string where
  "ipv6_proc_path = ''/proc/sys/net/ipv6/conf''"

text \<open>The \<open>TEMP_FAILURE_RETRY\<close> loop around \<open>connect\<close>.\<close>

partial_function (option) connect_retry ::
  "('k, 'x) kernel_scheme \<Rightarrow> int \<Rightarrow> string \<Rightarrow> ('k, 'a) world_scheme \<Rightarrow> (int \<times> ('k, 'a) world_scheme) option" where
  "connect_retry K fd path s =
     (let (r, s1) = sys_connect K fd path s in
      if r = - 1 \<and> errno s1 = EINTR then connect_retry K fd path s1 else Some (r, s1))"

definition sun_path_len :: nat where "sun_path_len = 108"

definition ifc_netd_sock_init ::
  "('k, 'x) kernel_scheme \<Rightarrow> ('k, 'a) world_scheme \<Rightarrow> (int \<times> ('k, 'a) world_scheme) option" where
  "ifc_netd_sock_init K s =
     (let (ifc_netd_sock, s1) = sys_socket K Sock_unix_stream s in
      if ifc_netd_sock < 0 then Some (- 1, s1)
      else
        let s2 = sys_setsockopt K ifc_netd_sock s1;
            sun_path = strlcpy (replicate sun_path_len NUL) ''/dev/socket/netd''
        in do {
          (r, s3) \<leftarrow> connect_retry K ifc_netd_sock (c_str sun_path) s2;
          if r \<noteq> 0 then Some (- 1, sys_close K ifc_netd_sock s3)
          else Some (ifc_netd_sock, s3)
        })"

text \<open>
  The cells that the last log call of \<open>ifc_set_throttle\<close> prints: the buffer of 24 characters, of which
  \<open>fread\<close> has set the first ones, up to the first zero. \<^const>\<open>None\<close> is a cell that was never set.
\<close>

definition rcv_cells :: "string \<Rightarrow> char option list" where
  "rcv_cells data = (map Some data @ replicate (24 - length data) None)[23 := Some NUL]"

definition logged :: "char option list \<Rightarrow> char option list" where
  "logged cells = takeWhile (\<lambda>c. c \<noteq> Some NUL) cells"

definition throttle_text :: "string \<Rightarrow> i32 \<Rightarrow> i32 \<Rightarrow> string" where
  "throttle_text ifname rxKbps txKbps =
     fmt_d 1 @ '' interface setthrottle '' @ ifname @ '' '' @ fmt_d (sint rxKbps) @ '' ''
       @ fmt_d (sint txKbps)"

definition ifc_set_throttle ::
  "('k, 'x) kernel_scheme \<Rightarrow> string \<Rightarrow> i32 \<Rightarrow> i32 \<Rightarrow> ('k, 'a) world_scheme
     \<Rightarrow> (int \<times> ('k, 'a) world_scheme) option" where
  "ifc_set_throttle K ifname rxKbps txKbps s = do {
     (netd_sock, s1) \<leftarrow> ifc_netd_sock_init K s;
     if netd_sock \<le> 0 then Some (- 1, s1)
     else
       let (fnetd, s2) = c_fdopen K netd_sock s1 in
       if \<not> fnetd then Some (- 1, s2)
       else
         let (r, s3) = c_stdio K netd_sock (Fprintf (throttle_text ifname rxKbps txKbps)) s2 in
         if r < 0 then Some (- 1, c_fclose K netd_sock s3)
         else
           let (r, s4) = c_stdio K netd_sock (Fputc NUL) s3 in
           if r = - 1 then Some (- 1, c_fclose K netd_sock s4)
           else
             let (r, s5) = c_stdio K netd_sock Fflush s4 in
             if r \<noteq> 0 then Some (- 1, c_fclose K netd_sock s5)
             else
               let (data, s6) = c_fread K netd_sock 20 s5;
                   s7 = log_cells (logged (rcv_cells data)) s6
               in Some (0, c_fclose K netd_sock s7)
   }"

text \<open>The request block: the name is cut to the array and always terminated.\<close>

definition ifr_name_of :: "('k, 'x) linux_env_scheme \<Rightarrow> string \<Rightarrow> char list" where
  "ifr_name_of E ifname = (strncpy (IFNAMSIZ E) ifname)[IFNAMSIZ E - 1 := NUL]"

definition ifc_set_txq_state ::
  "('k, 'x) linux_env_scheme \<Rightarrow> string \<Rightarrow> i32 \<Rightarrow> ('k, 'a) world_scheme \<Rightarrow> int \<times> ('k, 'a) world_scheme" where
  "ifc_set_txq_state E ifname state s =
     (let ifr = Ifreq_ivalue (ifr_name_of E ifname) state;
          (ctl_sock, s1) = sys_socket E Sock_inet_dgram s
      in if ctl_sock < 0 then (- 1, s1)
         else let (ret, s2) = sys_ioctl E ctl_sock (SIOCSTXQSTATE E) ifr s1
           in (ret, sys_close E ctl_sock s2))"

definition ifc_ccmni_md_cfg ::
  "('k, 'x) linux_env_scheme \<Rightarrow> string \<Rightarrow> i32 \<Rightarrow> ('k, 'a) world_scheme \<Rightarrow> int \<times> ('k, 'a) world_scheme" where
  "ifc_ccmni_md_cfg E ifname md_id s =
     (let ifr = Ifreq_ivalue (ifr_name_of E ifname) md_id;
          (ctl_sock, s1) = sys_socket E Sock_inet_dgram s
      in if ctl_sock < 0 then (- 1, s1)
         else let (r, s2) = sys_ioctl E ctl_sock (SIOCSCCMNICFG E) ifr s1;
                  ret = (if r < 0 then - 1 else 0)
           in (ret, sys_close E ctl_sock s2))"

text \<open>
  \<open>asprintf\<close> allocates the string. Its failure is not checked, and then the pointer that is used
  afterwards has no value.
\<close>

definition c_asprintf ::
  "('k, 'x) kernel_scheme \<Rightarrow> ('k, 'a) world_scheme \<Rightarrow> nat \<times> ('k, 'a) world_scheme" where
  "c_asprintf K s = c_malloc K s"

definition setEnableIPv6 ::
  "('k, 'x) kernel_scheme \<Rightarrow> string \<Rightarrow> int \<Rightarrow> ('k, 'a) world_scheme \<Rightarrow> fault + int \<times> ('k, 'a) world_scheme" where
  "setEnableIPv6 K ifname on s =
     (let value = (if on \<noteq> 0 then ''0'' else ''1'');
          size = int (length value);
          path = ipv6_proc_path @ ''/'' @ ifname @ ''/'' @ ''disable_ipv6'';
          (p, s1) = c_asprintf K s
      in if p = 0 then Inl Uninit_read
         else let (fd, s2) = sys_open K path O_WRONLY s1 in
           if fd < 0 then Inr (- 1, s2)
           else let (len, s3) = sys_write K fd value s2 in
             if len \<noteq> size then Inr (- 1, sys_close K fd s3)
             else Inr (0, c_free p (sys_close K fd s3)))"

definition setIPv6DefaultRoute ::
  "('k, 'x) kernel_scheme \<Rightarrow> string \<Rightarrow> int \<Rightarrow> ('k, 'a) world_scheme \<Rightarrow> fault + int \<times> ('k, 'a) world_scheme" where
  "setIPv6DefaultRoute K ifname on s =
     (let value = (if on \<noteq> 0 then ''1'' else ''0'');
          size = int (length value);
          path = ipv6_proc_path @ ''/'' @ ifname @ ''/'' @ ''accept_ra_defrtr'';
          (p, s1) = c_asprintf K s
      in if p = 0 then Inl Uninit_read
         else let (fd, s2) = sys_open K path O_WRONLY s1 in
           if fd < 0 then Inr (- 1, s2)
           else let (len, s3) = sys_write K fd value s2 in
             if len \<noteq> size then Inr (- 1, sys_close K fd s3)
             else Inr (0, c_free p (sys_close K fd s3)))"

definition ifc_ipv6_trigger_rs ::
  "('k, 'x) kernel_scheme \<Rightarrow> string \<Rightarrow> ('k, 'a) world_scheme \<Rightarrow> fault + int \<times> ('k, 'a) world_scheme" where
  "ifc_ipv6_trigger_rs K ifname s =
     (case setEnableIPv6 K ifname 0 s of
        Inl f \<Rightarrow> Inl f
      | Inr (errNo, s1) \<Rightarrow>
          (case setEnableIPv6 K ifname 1 s1 of
             Inl f \<Rightarrow> Inl f
           | Inr (errNo, s2) \<Rightarrow>
               (case setIPv6DefaultRoute K ifname 1 s2 of
                  Inl f \<Rightarrow> Inl f
                | Inr (errNo, s3) \<Rightarrow> Inr (0, s3))))"

end
