(* ===== verification/NetUtils_Props.thy ===== *)
theory NetUtils_Props
  imports NetUtils
begin

text \<open>
  The properties of the network commands: what is sent, which descriptors and heap blocks are left
  behind on each path, and the order of the writes that make the kernel solicit a router again.
\<close>

section \<open>The daemon's socket\<close>

lemma connect_retry_preserves:
  assumes step: "\<And>r e k s. P s (log_call r e k (Ev_connect fd path r) s)"
    and trans: "\<And>s t u. P s t \<Longrightarrow> P t u \<Longrightarrow> P s u"
    and ret: "connect_retry K fd path s = Some (r, s')"
  shows "P s s'"
proof -
  have "fd' = fd \<longrightarrow> path' = path \<longrightarrow> P s (snd rs)"
    if "connect_retry K fd' path' s = Some rs" for fd' path' s rs
  proof (rule connect_retry.raw_induct [where P = "\<lambda>K fd' path' s rs. fd' = fd \<longrightarrow> path' = path \<longrightarrow> P s (snd rs)",
        OF _ that], intro impI)
    fix f K fd' path' s rs
    assume IH: "\<And>K fd' path' s rs. f K fd' path' s = Some rs \<Longrightarrow> fd' = fd \<longrightarrow> path' = path \<longrightarrow> P s (snd rs)"
      and eq: "(let (r, s1) = sys_connect K fd' path' s in
         if r = - 1 \<and> errno s1 = EINTR then f K fd' path' s1 else Some (r, s1)) = Some rs"
      and same: "fd' = fd" "path' = path"
    obtain r s1 where call: "sys_connect K fd path s = (r, s1)"
      by (cases "sys_connect K fd path s") auto
    then obtain e k where "s1 = log_call r e k (Ev_connect fd path r) s"
      by (auto simp: sys_connect_def split: prod.splits)
    with step have first: "P s s1" by simp
    show "P s (snd rs)"
    proof (cases "r = - 1 \<and> errno s1 = EINTR")
      case True
      with eq call same have "f K fd path s1 = Some rs" by simp
      with IH have "P s1 (snd rs)" by blast
      with first show ?thesis by (rule trans)
    next
      case False
      with eq call same have "snd rs = s1" by (auto split: if_splits)
      with first show ?thesis by simp
    qed
  qed
  from this [OF ret] show ?thesis by simp
qed

definition connecting :: "int \<Rightarrow> string \<Rightarrow> ('k, 'a) world_scheme \<Rightarrow> ('k, 'a) world_scheme \<Rightarrow> bool" where
  "connecting fd path s s' \<longleftrightarrow>
     world.more s' = world.more s \<and>
     (\<exists>rs. trace s' = trace s @ map (Ev_connect fd path) rs)"

lemma connecting_call: "connecting fd path s (log_call r e k (Ev_connect fd path r) s)"
  by (auto simp: connecting_def frame_simps world_simps intro: exI [of _ "[r]"])

lemma connecting_trans: "connecting fd path s t \<Longrightarrow> connecting fd path t u \<Longrightarrow> connecting fd path s u"
  by (auto simp: connecting_def map_append [symmetric] simp del: map_append)

lemma connect_retry_connecting:
  "connect_retry K fd path s = Some (r, s') \<Longrightarrow> connecting fd path s s'"
  by (erule connect_retry_preserves [rotated -1]) (auto intro: connecting_call connecting_trans)

lemma connects_keep:
  "foldl fds_step L (map (Ev_connect fd path) rs) = L"
  "foldl heap_step H (map (Ev_connect fd path) rs) = H"
  by (induction rs) auto

lemma connecting_fds: "connecting fd path s s' \<Longrightarrow> open_fds (trace s') = open_fds (trace s)"
  by (auto simp: connecting_def world_simps connects_keep)

lemma sun_path: "c_str (strlcpy (replicate sun_path_len NUL) ''/dev/socket/netd'') = ''/dev/socket/netd''"
  by (rule strlcpy_fits) (simp_all add: sun_path_len_def NUL_def)

lemma netd_sock_fds:
  assumes "ifc_netd_sock_init K s = Some (fd, s')"
  shows "fd = - 1 \<and> open_fds (trace s') = open_fds (trace s) \<or>
    0 \<le> fd \<and> open_fds (trace s') = fd # open_fds (trace s)"
proof -
  obtain sock s1 where sock: "sys_socket K Sock_unix_stream s = (sock, s1)"
    by (cases "sys_socket K Sock_unix_stream s") auto
  have tr: "trace s1 = trace s @ [Ev_socket Sock_unix_stream sock]"
    using trace_sys(8) [of K Sock_unix_stream s] sock by simp
  show ?thesis
    using assms sock tr
    by (auto simp: ifc_netd_sock_init_def Let_def bind_Some_iff world_simps
        split: if_splits dest!: connect_retry_connecting connecting_fds)
qed

section \<open>The throttle command\<close>

text \<open>
  What a \<open>stdio\<close> stream holds back and what it has handed to its descriptor: output that was accepted waits in the
  buffer of the stream, and only a flush that succeeds passes it on. The buffer starts empty.
\<close>

fun stream_step :: "int \<Rightarrow> string \<times> string \<Rightarrow> event \<Rightarrow> string \<times> string" where
  "stream_step fd (held, passed) (Ev_stdio fd' (Fprintf t) r) =
     (if fd' = fd \<and> 0 \<le> r then (held @ t, passed) else (held, passed))"
| "stream_step fd (held, passed) (Ev_stdio fd' (Fputc c) r) =
     (if fd' = fd \<and> r \<noteq> - 1 then (held @ [c], passed) else (held, passed))"
| "stream_step fd (held, passed) (Ev_stdio fd' Fflush r) =
     (if fd' = fd \<and> r = 0 then ([], passed @ held) else (held, passed))"
| "stream_step fd (held, passed) ev = (held, passed)"

definition passed_on :: "int \<Rightarrow> event list \<Rightarrow> string" where
  "passed_on fd es = snd (foldl (stream_step fd) ([], []) es)"

definition quiet :: "event \<Rightarrow> bool" where
  "quiet ev \<longleftrightarrow> (\<forall>fd op r. ev \<noteq> Ev_stdio fd op r) \<and> (\<forall>fd. ev \<noteq> Ev_fdopen fd False)"

lemma quiet_step: "quiet ev \<Longrightarrow> stream_step fd st ev = st"
  by (cases st; cases ev) (auto simp: quiet_def)

lemma quiet_stream: "list_all quiet es \<Longrightarrow> foldl (stream_step fd) st es = st"
  by (induction es) (simp_all add: quiet_step)

lemma connect_retry_last:
  assumes "connect_retry K fd path s = Some (r, s')"
  shows "\<exists>es. trace s' = es @ [Ev_connect fd path r]"
proof -
  have "fd' = fd \<longrightarrow> path' = path \<longrightarrow> (\<exists>es. trace (snd rs) = es @ [Ev_connect fd path (fst rs)])"
    if "connect_retry K fd' path' s = Some rs" for fd' path' rs
  proof (rule connect_retry.raw_induct [where P = "\<lambda>K fd' path' s rs. fd' = fd \<longrightarrow> path' = path \<longrightarrow>
      (\<exists>es. trace (snd rs) = es @ [Ev_connect fd path (fst rs)])", OF _ that], intro impI)
    fix f K fd' path' s rs
    assume IH: "\<And>K fd' path' s rs. f K fd' path' s = Some rs \<Longrightarrow> fd' = fd \<longrightarrow> path' = path \<longrightarrow>
        (\<exists>es. trace (snd rs) = es @ [Ev_connect fd path (fst rs)])"
      and eq: "(let (r, s1) = sys_connect K fd' path' s in
         if r = - 1 \<and> errno s1 = EINTR then f K fd' path' s1 else Some (r, s1)) = Some rs"
      and same: "fd' = fd" "path' = path"
    obtain r s1 where call: "sys_connect K fd path s = (r, s1)"
      by (cases "sys_connect K fd path s") auto
    then have tr: "trace s1 = trace s @ [Ev_connect fd path r]"
      by (auto simp: sys_connect_def world_simps split: prod.splits)
    show "\<exists>es. trace (snd rs) = es @ [Ev_connect fd path (fst rs)]"
    proof (cases "r = - 1 \<and> errno s1 = EINTR")
      case True
      with eq call same have "f K fd path s1 = Some rs" by simp
      with IH show ?thesis by blast
    next
      case False
      with eq call same tr show ?thesis by (auto split: if_splits)
    qed
  qed
  from this [OF assms] show ?thesis by simp
qed

lemma netd_sock_quiet:
  assumes "ifc_netd_sock_init K s = Some (fd, s')"
  shows "\<exists>es. trace s' = trace s @ es \<and> es \<noteq> [] \<and> list_all quiet es
    \<and> (0 \<le> fd \<longrightarrow> last es = Ev_connect fd ''/dev/socket/netd'' 0)"
proof -
  obtain sock s1 where sock: "sys_socket K Sock_unix_stream s = (sock, s1)"
    by (rule prod.exhaust)
  have tr: "trace s1 = trace s @ [Ev_socket Sock_unix_stream sock]"
    using trace_sys(8) [of K Sock_unix_stream s] sock by simp
  show ?thesis
  proof (cases "sock < 0")
    case True
    with assms sock tr show ?thesis by (auto simp: ifc_netd_sock_init_def quiet_def)
  next
    case False
    let ?s2 = "sys_setsockopt K sock s1"
    from False assms sock obtain r s3
      where retry: "connect_retry K sock ''/dev/socket/netd'' ?s2 = Some (r, s3)"
        and res: "(fd, s') = (if r \<noteq> 0 then (- 1, sys_close K sock s3) else (sock, s3))"
      by (auto simp: ifc_netd_sock_init_def Let_def bind_Some_iff sun_path split: if_splits)
    from connect_retry_connecting [OF retry] obtain rs
      where rs: "trace s3 = trace ?s2 @ map (Ev_connect sock ''/dev/socket/netd'') rs"
      by (auto simp: connecting_def)
    let ?es = "trace ?s2 @ map (Ev_connect sock ''/dev/socket/netd'') rs"
    have quiet_rs: "list_all quiet (map (Ev_connect sock path) rs)" for path
      by (induction rs) (simp_all add: quiet_def)
    from connect_retry_last [OF retry] have last3: "last (trace s3) = Ev_connect sock ''/dev/socket/netd'' r"
      by auto
    show ?thesis
    proof (cases "r = 0")
      case True
      with res have eq: "fd = sock" "s' = s3" by simp_all
      from rs tr have "\<exists>es. trace s3 = trace s @ es \<and> es \<noteq> [] \<and> list_all quiet es"
        using quiet_rs by (auto simp: world_simps quiet_def)
      then obtain es where "trace s3 = trace s @ es" "es \<noteq> []" "list_all quiet es" by blast
      moreover from this last3 True have "last es = Ev_connect sock ''/dev/socket/netd'' 0" by simp
      ultimately show ?thesis using eq by blast
    next
      case False
      with res rs tr quiet_rs show ?thesis
        by (auto simp: world_simps quiet_def)
    qed
  qed
qed

lemma quiet_last: "es \<noteq> [] \<Longrightarrow> list_all quiet es \<Longrightarrow> last (tr @ es) \<noteq> Ev_fdopen fd False"
  using last_in_set [of es] by (auto simp: list_all_iff quiet_def)

lemma stdio_trace: "c_stdio K fd op s = (r, s') \<Longrightarrow> trace s' = trace s @ [Ev_stdio fd op r]"
  using trace_sys(13) [of K fd op s] by simp

lemma fdopen_trace: "c_fdopen K fd s = (ok, s') \<Longrightarrow> trace s' = trace s @ [Ev_fdopen fd ok]"
  using trace_sys(12) [of K fd s] by simp

lemma fread_trace: "c_fread K fd n s = (data, s') \<Longrightarrow> trace s' = trace s @ [Ev_fread fd data] \<and> length data \<le> n"
  using trace_sys(14) [of K fd n s] by (auto simp: c_fread_def split: prod.splits)

lemmas net_traces = stdio_trace fdopen_trace fread_trace

text \<open>The ways the command can end.\<close>

lemma set_throttle_E:
  assumes "ifc_set_throttle K ifname rx tx s = Some (r, s')"
  obtains (no_socket) fd s1 where "ifc_netd_sock_init K s = Some (fd, s1)" and "fd \<le> 0" and "r = - 1" and "s' = s1"
  | (no_stream) fd s1 where "ifc_netd_sock_init K s = Some (fd, s1)" and "0 < fd" and "r = - 1"
      and "trace s' = trace s1 @ [Ev_fdopen fd False]"
  | (failed) fd s1 es where "ifc_netd_sock_init K s = Some (fd, s1)" and "0 < fd" and "r = - 1"
      and "trace s' = trace s1 @ Ev_fdopen fd True # es @ [Ev_fclose fd]"
      and "\<forall>e \<in> set es. \<exists>op a. e = Ev_stdio fd op a"
  | (done_all) fd s1 a b data where "ifc_netd_sock_init K s = Some (fd, s1)" and "0 < fd" and "r = 0"
      and "0 \<le> a" and "b \<noteq> - 1" and "length data \<le> 20"
      and "trace s' = trace s1 @ [Ev_fdopen fd True, Ev_stdio fd (Fprintf (throttle_text ifname rx tx)) a,
        Ev_stdio fd (Fputc NUL) b, Ev_stdio fd Fflush 0, Ev_fread fd data,
        Ev_log (logged (rcv_cells data)), Ev_fclose fd]"
proof -
  obtain fd s1 where init: "ifc_netd_sock_init K s = Some (fd, s1)"
    using assms by (auto simp: ifc_set_throttle_def bind_Some_iff)
  obtain ok s2 where open_s: "c_fdopen K fd s1 = (ok, s2)" by (rule prod.exhaust)
  obtain a s3 where a: "c_stdio K fd (Fprintf (throttle_text ifname rx tx)) s2 = (a, s3)" by (rule prod.exhaust)
  obtain b s4 where b: "c_stdio K fd (Fputc NUL) s3 = (b, s4)" by (rule prod.exhaust)
  obtain c s5 where c: "c_stdio K fd Fflush s4 = (c, s5)" by (rule prod.exhaust)
  obtain data s6 where d: "c_fread K fd 20 s5 = (data, s6)" by (rule prod.exhaust)
  note tr = fdopen_trace [OF open_s] stdio_trace [OF a] stdio_trace [OF b] stdio_trace [OF c] fread_trace [OF d]
  note eq = assms [unfolded ifc_set_throttle_def, simplified init, simplified open_s a b c d Let_def, simplified]
  consider "fd \<le> 0" | "0 < fd" "\<not> ok" | "0 < fd" "ok" "a < 0" | "0 < fd" "ok" "0 \<le> a" "b = - 1"
    | "0 < fd" "ok" "0 \<le> a" "b \<noteq> - 1" "c \<noteq> 0" | "0 < fd" "ok" "0 \<le> a" "b \<noteq> - 1" "c = 0"
    by linarith
  then show thesis
  proof cases
    case 1
    with eq open_s init show ?thesis by (intro no_socket) auto
  next
    case 2
    with eq open_s init tr show ?thesis by (intro no_stream) auto
  next
    case 3
    with eq open_s a init tr show ?thesis
      by (intro failed [of fd s1 "[Ev_stdio fd (Fprintf (throttle_text ifname rx tx)) a]"]) (auto simp: world_simps)
  next
    case 4
    with eq open_s a b init tr show ?thesis
      by (intro failed [of fd s1 "[Ev_stdio fd (Fprintf (throttle_text ifname rx tx)) a, Ev_stdio fd (Fputc NUL) b]"])
        (auto simp: world_simps)
  next
    case 5
    with eq open_s a b c init tr show ?thesis
      by (intro failed [of fd s1 "[Ev_stdio fd (Fprintf (throttle_text ifname rx tx)) a, Ev_stdio fd (Fputc NUL) b,
          Ev_stdio fd Fflush c]"]) (auto simp: world_simps)
  next
    case 6
    with eq open_s a b c d init tr show ?thesis
      by (intro done_all [of fd s1 a b data]) (auto simp: world_simps)
  qed
qed

text \<open>What the descriptors and the traffic of a call are, on each of its paths.\<close>

lemma failed_events:
  assumes "\<forall>e \<in> set es. \<exists>op a. e = Ev_stdio fd op a"
  shows "foldl fds_step L es = L"
  using assms by (induction es arbitrary: L) auto

lemma set_throttle_fds:
  assumes "ifc_set_throttle K ifname rx tx s = Some (r, s')"
  shows "if \<exists>fd. last (trace s') = Ev_fdopen fd False
    then \<exists>fd. last (trace s') = Ev_fdopen fd False \<and> open_fds (trace s') = fd # open_fds (trace s)
    else open_fds (trace s') = open_fds (trace s) \<or> r = - 1 \<and> open_fds (trace s') = 0 # open_fds (trace s)"
  using assms
proof (cases rule: set_throttle_E)
  case (no_socket fd s1)
  from netd_sock_quiet [OF no_socket(1)] no_socket(4) have "last (trace s') \<noteq> Ev_fdopen fd False" for fd
    using quiet_last by metis
  with netd_sock_fds [OF no_socket(1)] no_socket(2-) show ?thesis by auto
next
  case (no_stream fd s1)
  with netd_sock_fds [OF no_stream(1)] show ?thesis by (auto simp: world_simps)
next
  case (failed fd s1 es)
  with netd_sock_fds [OF failed(1)] failed_events [OF failed(5)] show ?thesis by (auto simp: world_simps)
next
  case (done_all fd s1 a b data)
  with netd_sock_fds [OF done_all(1)] show ?thesis by (auto simp: world_simps)
qed

lemma logged_cells:
  assumes "length data \<le> 20"
  shows "None \<in> set (logged (rcv_cells data)) \<longleftrightarrow> NUL \<notin> set data" and "length (logged (rcv_cells data)) \<le> 23"
proof -
  define k where "k = 23 - length data"
  have k: "24 - length data = Suc k" "0 < k" "23 = length data + k" using assms by (auto simp: k_def)
  have cells: "rcv_cells data = map Some data @ replicate k None @ [Some NUL]"
    unfolding rcv_cells_def k(1) replicate_Suc replicate_append_same [symmetric]
    using k(3) by (simp add: list_update_append)
  have tw: "takeWhile (\<lambda>c. c \<noteq> Some NUL) (replicate k None @ [Some NUL]) = replicate k None"
    by (subst takeWhile_append2) auto
  have len: "length (rcv_cells data) = 24" using assms by (simp add: rcv_cells_def)
  show "None \<in> set (logged (rcv_cells data)) \<longleftrightarrow> NUL \<notin> set data"
  proof (cases "NUL \<in> set data")
    case True
    then have "logged (rcv_cells data) = takeWhile (\<lambda>c. c \<noteq> Some NUL) (map Some data)"
      unfolding logged_def cells by (intro takeWhile_append1) auto
    moreover have "None \<notin> set (takeWhile (\<lambda>c. c \<noteq> Some NUL) (map Some data))"
      by (auto dest!: set_takeWhileD)
    ultimately show ?thesis using True by simp
  next
    case False
    then have "logged (rcv_cells data) =
        map Some data @ takeWhile (\<lambda>c. c \<noteq> Some NUL) (replicate k None @ [Some NUL])"
      unfolding logged_def cells by (intro takeWhile_append2) auto
    then have "logged (rcv_cells data) = map Some data @ replicate k None"
      by (simp only: tw)
    with False k(2) show ?thesis by simp
  qed
  have "logged (rcv_cells data) \<noteq> rcv_cells data"
  proof
    assume "logged (rcv_cells data) = rcv_cells data"
    then have "Some NUL \<in> set (logged (rcv_cells data))" by (simp add: cells)
    then show False by (auto simp: logged_def dest: set_takeWhileD)
  qed
  moreover have "length (logged (rcv_cells data)) \<le> 24"
    using length_takeWhile_le [of _ "rcv_cells data"] len by (simp add: logged_def)
  ultimately show "length (logged (rcv_cells data)) \<le> 23"
    using takeWhile_eq_take [of "\<lambda>c. c \<noteq> Some NUL" "rcv_cells data"] len
    by (cases "length (logged (rcv_cells data)) = 24") (auto simp: logged_def)
qed

section \<open>The control socket\<close>

text \<open>
  The contract of the two functions that pass a request block to the network device: the interface's
  name, cut and terminated, the value, one socket that is closed again on every path.
\<close>

locale control_call =
  fixes op :: "('k, 'x) linux_env_scheme \<Rightarrow> string \<Rightarrow> i32 \<Rightarrow> ('k, 'a) world_scheme \<Rightarrow> int \<times> ('k, 'a) world_scheme"
    and req :: "('k, 'x) linux_env_scheme \<Rightarrow> nat"
    and result :: "int \<Rightarrow> int"
  assumes shape: "op E ifname v s =
      (let (fd, s1) = sys_socket E Sock_inet_dgram s in
       if fd < 0 then (- 1, s1)
       else let (r, s2) = sys_ioctl E fd (req E) (Ifreq_ivalue (ifr_name_of E ifname) v) s1
         in (result r, sys_close E fd s2))"
begin

lemma events:
  assumes "op E ifname v s = (r, s')"
  shows "(\<exists>fd < 0. r = - 1 \<and> trace s' = trace s @ [Ev_socket Sock_inet_dgram fd]) \<or>
    (\<exists>fd \<ge> 0. \<exists>a. r = result a \<and> trace s' = trace s @ [Ev_socket Sock_inet_dgram fd,
       Ev_ioctl fd (req E) (Ifreq_ivalue (ifr_name_of E ifname) v) a, Ev_close fd])"
proof -
  obtain fd s1 where sock: "sys_socket E Sock_inet_dgram s = (fd, s1)" by (rule prod.exhaust)
  obtain a s2 where io: "sys_ioctl E fd (req E) (Ifreq_ivalue (ifr_name_of E ifname) v) s1 = (a, s2)"
    by (rule prod.exhaust)
  have "trace s1 = trace s @ [Ev_socket Sock_inet_dgram fd]"
    using trace_sys(8) [of E Sock_inet_dgram s] sock by simp
  moreover have "trace s2 = trace s1 @ [Ev_ioctl fd (req E) (Ifreq_ivalue (ifr_name_of E ifname) v) a]"
    using trace_sys(10) [of E fd "req E" "Ifreq_ivalue (ifr_name_of E ifname) v" s1] io by simp
  ultimately show ?thesis
    using assms sock io by (auto simp: shape world_simps split: if_splits)
qed

lemma fds: "op E ifname v s = (r, s') \<Longrightarrow> open_fds (trace s') = open_fds (trace s)"
  by (drule events) (auto simp: world_simps)

end

interpretation txq: control_call ifc_set_txq_state SIOCSTXQSTATE "\<lambda>r. r"
  by unfold_locales (simp add: ifc_set_txq_state_def Let_def)

interpretation md_cfg: control_call ifc_ccmni_md_cfg SIOCSCCMNICFG "\<lambda>r. if r < 0 then - 1 else 0"
  by unfold_locales (simp add: ifc_ccmni_md_cfg_def Let_def split_beta)

lemma ifr_name_facts:
  assumes "is_c_str ifname" and "0 < IFNAMSIZ E"
  shows "length (ifr_name_of E ifname) = IFNAMSIZ E" and "c_str (ifr_name_of E ifname) = take (IFNAMSIZ E - 1) ifname"
  unfolding ifr_name_of_def using assms by (simp, intro strncpy_terminated)

section \<open>The switches below /proc\<close>

text \<open>The contract of the two functions that write a switch of an interface.\<close>

definition switch_path :: "string \<Rightarrow> string \<Rightarrow> string" where
  "switch_path ifname leaf = ipv6_proc_path @ ''/'' @ ifname @ ''/'' @ leaf"

definition switch_events :: "string \<Rightarrow> string \<Rightarrow> nat \<times> int \<Rightarrow> event list" where
  "switch_events path value pf =
     [Ev_malloc (fst pf), Ev_open path O_WRONLY (snd pf), Ev_write (snd pf) value (int (length value)),
      Ev_close (snd pf), Ev_free (fst pf)]"

definition malloc_ok :: "('k, 'x) kernel_scheme \<Rightarrow> bool" where
  "malloc_ok K \<longleftrightarrow> (\<forall>k. fst (k_malloc K k) \<noteq> 0)"

definition accepts :: "('k, 'x) kernel_scheme \<Rightarrow> string set \<Rightarrow> bool" where
  "accepts K paths \<longleftrightarrow>
     (\<forall>k path fl. path \<in> paths \<longrightarrow> 0 \<le> fst (k_open K k path fl)) \<and>
     (\<forall>k fd bytes. fst (k_write K k fd bytes) = int (length bytes))"

locale switch =
  fixes op :: "('k, 'x) kernel_scheme \<Rightarrow> string \<Rightarrow> int \<Rightarrow> ('k, 'a) world_scheme \<Rightarrow> fault + int \<times> ('k, 'a) world_scheme"
    and leaf :: string and on off :: string
  assumes shape: "op K ifname v s =
      (let value = (if v \<noteq> 0 then on else off); (p, s1) = c_malloc K s in
       if p = 0 then Inl Uninit_read
       else let (fd, s2) = sys_open K (switch_path ifname leaf) O_WRONLY s1 in
         if fd < 0 then Inr (- 1, s2)
         else let (len, s3) = sys_write K fd value s2 in
           if len \<noteq> int (length value) then Inr (- 1, sys_close K fd s3)
           else Inr (0, c_free p (sys_close K fd s3)))"
begin

lemma events:
  assumes "op K ifname v s = Inr (r, s')"
  obtains (refused) p fd where "p \<noteq> 0" and "fd < 0" and "r = - 1"
      and "trace s' = trace s @ [Ev_malloc p, Ev_open (switch_path ifname leaf) O_WRONLY fd]"
  | (short) p fd len where "p \<noteq> 0" and "0 \<le> fd" and "r = - 1"
      and "len \<noteq> int (length (if v \<noteq> 0 then on else off))"
      and "trace s' = trace s @ [Ev_malloc p, Ev_open (switch_path ifname leaf) O_WRONLY fd,
        Ev_write fd (if v \<noteq> 0 then on else off) len, Ev_close fd]"
  | (written) p fd where "p \<noteq> 0" and "0 \<le> fd" and "r = 0"
      and "trace s' = trace s @ switch_events (switch_path ifname leaf) (if v \<noteq> 0 then on else off) (p, fd)"
proof -
  let ?digit = "if v \<noteq> 0 then on else off"
  obtain p s1 where m: "c_malloc K s = (p, s1)" by (rule prod.exhaust)
  obtain fd s2 where o: "sys_open K (switch_path ifname leaf) O_WRONLY s1 = (fd, s2)" by (rule prod.exhaust)
  obtain len s3 where w: "sys_write K fd ?digit s2 = (len, s3)" by (rule prod.exhaust)
  have tr: "trace s1 = trace s @ [Ev_malloc p]" "trace s2 = trace s1 @ [Ev_open (switch_path ifname leaf) O_WRONLY fd]"
    "trace s3 = trace s2 @ [Ev_write fd ?digit len]"
    using trace_sys(6) [of K s] trace_sys(1) [of K "switch_path ifname leaf" O_WRONLY s1]
      trace_sys(2) [of K fd ?digit s2] m o w by simp_all
  note eq = assms [unfolded shape Let_def m prod.case o w]
  consider "p \<noteq> 0" "fd < 0" | "p \<noteq> 0" "0 \<le> fd" "len \<noteq> int (length ?digit)"
    | "p \<noteq> 0" "0 \<le> fd" "len = int (length ?digit)"
    using eq by (auto split: if_splits)
  then show thesis
  proof cases
    case 1
    with eq tr show ?thesis by (intro refused) auto
  next
    case 2
    with eq tr show ?thesis by (intro short [of p fd len]) (auto simp: world_simps)
  next
    case 3
    with eq tr show ?thesis by (intro written [of p fd]) (auto simp: world_simps switch_events_def)
  qed
qed

lemma resources:
  assumes "op K ifname v s = Inr (r, s')"
  shows "open_fds (trace s') = open_fds (trace s) \<and>
    (if r = 0 then live_blocks (trace s') = live_blocks (trace s)
     else r = - 1 \<and> (\<exists>p. live_blocks (trace s') = p # live_blocks (trace s)))"
  using assms
  by (cases rule: events) (auto simp: world_simps switch_events_def)

lemma works:
  assumes "malloc_ok K" and "accepts K {switch_path ifname leaf}"
  shows "\<exists>s' pf. op K ifname v s = Inr (0, s') \<and> 0 \<le> snd pf \<and>
    trace s' = trace s @ switch_events (switch_path ifname leaf) (if v \<noteq> 0 then on else off) pf"
proof -
  let ?digit = "if v \<noteq> 0 then on else off"
  obtain p s1 where m: "c_malloc K s = (p, s1)" by (rule prod.exhaust)
  obtain fd s2 where o: "sys_open K (switch_path ifname leaf) O_WRONLY s1 = (fd, s2)" by (rule prod.exhaust)
  obtain len s3 where w: "sys_write K fd ?digit s2 = (len, s3)" by (rule prod.exhaust)
  have p: "p \<noteq> 0" using assms(1) m by (auto simp: malloc_ok_def c_malloc_def split: prod.splits) (metis fst_conv)
  have fd: "\<not> fd < 0" using assms(2) o by (auto simp: accepts_def sys_open_def split: prod.splits) (metis fst_conv not_less)
  have len: "len = int (length ?digit)"
    using assms(2) w by (simp add: accepts_def sys_write_def split: prod.splits) (metis fst_conv)
  have eq: "op K ifname v s = Inr (0, c_free p (sys_close K fd s3))"
    unfolding shape using m o w p fd len by simp
  then have "\<exists>pf. 0 \<le> snd pf \<and>
      trace (c_free p (sys_close K fd s3)) = trace s @ switch_events (switch_path ifname leaf) ?digit pf"
    by (cases rule: events) (auto intro!: exI [of _ "(_, _)"])
  with eq show ?thesis by blast
qed

end

interpretation enable: switch setEnableIPv6 "''disable_ipv6''" "''0''" "''1''"
  by unfold_locales (simp only: setEnableIPv6_def c_asprintf_def switch_path_def Let_def)

interpretation default_route: switch setIPv6DefaultRoute "''accept_ra_defrtr''" "''1''" "''0''"
  by unfold_locales (simp only: setIPv6DefaultRoute_def c_asprintf_def switch_path_def Let_def)

section \<open>A kernel to run the model on\<close>

definition net_demo :: "unit linux_env" where
  "net_demo =
     \<lparr>k_open = (\<lambda>k path fl. (5, 0, k)),
      k_write = (\<lambda>k fd bytes. (int (length bytes), 0, k)),
      k_close = (\<lambda>k fd. (0, 0, k)),
      k_access = (\<lambda>k path m. (0, 0, k)),
      k_nanosleep = (\<lambda>k req. (0, 0, req, k)),
      k_malloc = (\<lambda>k. (1, k)),
      k_socket = (\<lambda>k d. (4, 0, k)),
      k_setsockopt = (\<lambda>k fd. (0, 0, k)),
      k_connect = (\<lambda>k fd path. (0, 0, k)),
      k_ioctl = (\<lambda>k fd n arg. (0, 0, k)),
      k_fdopen = (\<lambda>k fd. (True, 0, k)),
      k_stdio = (\<lambda>k fd op. (0, 0, k)),
      k_fread = (\<lambda>k fd n. (''200 0'', k)),
      k_property_set = (\<lambda>k key v. k),
      IFNAMSIZ = 16, SIOCDEVPRIVATE = 35312\<rparr>"

definition net_start :: "unit world" where
  "net_start = \<lparr>kst = (), errno = 0, trace = []\<rparr>"

lemma net_start_clean: "open_fds (trace net_start) = []" "live_blocks (trace net_start) = []"
  by (simp_all add: net_start_def open_fds_def live_blocks_def)

lemma net_demo_throttle: "\<exists>s'. ifc_set_throttle net_demo ifname rx tx s = Some (0, s')"
  by (simp add: ifc_set_throttle_def ifc_netd_sock_init_def Let_def net_demo_def connect_retry.simps
      sys_socket_def sys_connect_def c_fdopen_def c_stdio_def c_fread_def split_beta)

lemma net_demo_ok: "malloc_ok net_demo" "accepts net_demo P"
  by (simp_all add: malloc_ok_def accepts_def net_demo_def)

section \<open>Properties\<close>

text \<open>
  C33: when \<open>ifc_set_throttle\<close> reports success, it has connected a socket to the daemon and handed exactly one command to
  it: the words \<open>1 interface setthrottle\<close>, the name and the two rates in decimal, and one terminating zero.
  Every part of it was accepted by the stream and the flush that passed it on succeeded. For
  every interface name that is a C string the first zero of the traffic is that terminator, so the
  daemon reads the whole command.
\<close>

theorem throttle_command_sent:
  assumes "ifc_set_throttle K ifname rx tx s = Some (0, s')" and "is_c_str ifname"
  shows "\<exists>fd es. trace s' = trace s @ es
    \<and> Ev_connect fd ''/dev/socket/netd'' 0 \<in> set es
    \<and> passed_on fd es =
        ''1 interface setthrottle '' @ ifname @ '' '' @ fmt_d (sint rx) @ '' '' @ fmt_d (sint tx) @ [NUL]
    \<and> c_str (passed_on fd es) =
        ''1 interface setthrottle '' @ ifname @ '' '' @ fmt_d (sint rx) @ '' '' @ fmt_d (sint tx)"
  using assms(1)
proof (cases rule: set_throttle_E)
  case (done_all fd s1 a b data)
  from netd_sock_quiet [OF done_all(1)] \<open>0 < fd\<close> obtain es
    where es: "trace s1 = trace s @ es" "es \<noteq> []" "list_all quiet es"
      and conn: "last es = Ev_connect fd ''/dev/socket/netd'' 0"
    by auto
  let ?t = "''1 interface setthrottle '' @ ifname @ '' '' @ fmt_d (sint rx) @ '' '' @ fmt_d (sint tx)"
  let ?es = "es @ [Ev_fdopen fd True, Ev_stdio fd (Fprintf (throttle_text ifname rx tx)) a,
        Ev_stdio fd (Fputc NUL) b, Ev_stdio fd Fflush 0, Ev_fread fd data,
        Ev_log (logged (rcv_cells data)), Ev_fclose fd]"
  have t: "throttle_text ifname rx tx = ?t"
    by (simp add: throttle_text_def fmt_d_def dec.simps)
  have "is_c_str ?t"
    using assms(2) by (simp add: NUL_def)
  moreover have "passed_on fd ?es = ?t @ [NUL]"
    using done_all(4,5) by (simp add: passed_on_def quiet_stream [OF es(3)] t)
  moreover have "Ev_connect fd ''/dev/socket/netd'' 0 \<in> set ?es"
    using last_in_set [OF es(2)] conn by simp
  moreover have "trace s' = trace s @ ?es"
    using done_all(7) es by simp
  ultimately show ?thesis by (metis append_assoc c_str_terminated)
qed simp_all

theorem throttle_command_sent_witness:
  "\<exists>s' fd. passed_on fd (trace s') = ''1 interface setthrottle ccmni0 -1 200'' @ [NUL] \<and>
     ifc_set_throttle net_demo ''ccmni0'' (- 1) 200 net_start = Some (0, s')"
proof -
  obtain s' where s': "ifc_set_throttle net_demo ''ccmni0'' (- 1) 200 net_start = Some (0, s')"
    using net_demo_throttle by blast
  have "is_c_str ''ccmni0''" by (simp add: NUL_def)
  from throttle_command_sent [OF s' this] s' show ?thesis
    by (auto simp: net_start_def fmt_d_def dec.simps)
qed

text \<open>
  C34: \<open>ifc_set_throttle\<close> closes its socket on every path but two: when \<open>fdopen\<close> fails, and when the socket it got
  is descriptor 0, one descriptor stays open.
\<close>

theorem throttle_descriptors:
  assumes "ifc_set_throttle K ifname rx tx s = Some (r, s')"
  shows "if \<exists>fd. last (trace s') = Ev_fdopen fd False
    then \<exists>fd. last (trace s') = Ev_fdopen fd False \<and> open_fds (trace s') = fd # open_fds (trace s)
    else open_fds (trace s') = open_fds (trace s) \<or> r = - 1 \<and> open_fds (trace s') = 0 # open_fds (trace s)"
  using assms by (rule set_throttle_fds)

theorem throttle_descriptors_witness:
  "\<exists>s'. ifc_set_throttle (net_demo\<lparr>k_fdopen := \<lambda>k fd. (False, 12, k)\<rparr>) ''ccmni0'' 1 1 net_start = Some (- 1, s')
     \<and> last (trace s') = Ev_fdopen 4 False \<and> open_fds (trace s') = [4]"
proof -
  let ?K = "net_demo\<lparr>k_fdopen := \<lambda>k fd. (False, 12, k)\<rparr>"
  have ex: "\<exists>s'. ifc_set_throttle ?K ''ccmni0'' 1 1 net_start = Some (- 1, s') \<and> last (trace s') = Ev_fdopen 4 False"
    by (simp add: ifc_set_throttle_def ifc_netd_sock_init_def Let_def net_demo_def connect_retry.simps
        sys_socket_def sys_connect_def c_fdopen_def split_beta log_call_def)
  then obtain s' where s': "ifc_set_throttle ?K ''ccmni0'' 1 1 net_start = Some (- 1, s')" "last (trace s') = Ev_fdopen 4 False"
    by blast
  from throttle_descriptors [OF s'(1)] s' show ?thesis
    by (simp add: net_start_clean)
qed

text \<open>
  After a command that succeeded the response is logged up to the first zero of the buffer. The log never runs
  past the buffer, but it reads cells that were never written unless the daemon's response
  contains a zero.
\<close>

theorem throttle_response_log:
  assumes "ifc_set_throttle K ifname rx tx s = Some (0, s')"
  shows "\<exists>es fd data cells. trace s' = es @ [Ev_fread fd data, Ev_log cells, Ev_fclose fd] \<and>
    length data \<le> 20 \<and> length cells \<le> 23 \<and> (None \<in> set cells \<longleftrightarrow> NUL \<notin> set data)"
  using assms
proof (cases rule: set_throttle_E)
  case (done_all fd s1 a b data)
  then have "trace s' = (trace s1 @ [Ev_fdopen fd True, Ev_stdio fd (Fprintf (throttle_text ifname rx tx)) a,
      Ev_stdio fd (Fputc NUL) b, Ev_stdio fd Fflush 0]) @
      [Ev_fread fd data, Ev_log (logged (rcv_cells data)), Ev_fclose fd]"
    by simp
  with done_all(6) logged_cells [OF done_all(6)] show ?thesis by blast
qed simp_all

theorem throttle_response_log_witness:
  "\<exists>s' es fd data cells. ifc_set_throttle net_demo ''ccmni0'' 1 1 net_start = Some (0, s') \<and>
     trace s' = es @ [Ev_fread fd data, Ev_log cells, Ev_fclose fd] \<and> (None \<in> set cells \<longleftrightarrow> NUL \<notin> set data)"
proof -
  obtain s' where s': "ifc_set_throttle net_demo ''ccmni0'' 1 1 net_start = Some (0, s')"
    using net_demo_throttle by blast
  with throttle_response_log [OF s'] show ?thesis by blast
qed

text \<open>
  The two functions that configure the modem's network device send one request with the interface's name cut to the
  array and terminated, and the value; the socket is closed again on every path, and the
  result is negative when no socket could be made.
\<close>

theorem control_socket_contract:
  assumes "is_c_str ifname" and "0 < IFNAMSIZ E"
    and "ifc_set_txq_state E ifname v s = (r, s')" and "ifc_ccmni_md_cfg E ifname v s = (q, t')"
  shows "open_fds (trace s') = open_fds (trace s) \<and> open_fds (trace t') = open_fds (trace s) \<and>
    (\<forall>fd n name w a. Ev_ioctl fd n (Ifreq_ivalue name w) a \<in> set (drop (length (trace s)) (trace s')) \<longrightarrow>
       n = SIOCDEVPRIVATE E \<and> w = v \<and> a = r \<and>
       length name = IFNAMSIZ E \<and> c_str name = take (IFNAMSIZ E - 1) ifname) \<and>
    (\<forall>fd n name w a. Ev_ioctl fd n (Ifreq_ivalue name w) a \<in> set (drop (length (trace s)) (trace t')) \<longrightarrow>
       n = SIOCDEVPRIVATE E + 1 \<and> w = v \<and> (q = 0 \<longleftrightarrow> 0 \<le> a) \<and>
       length name = IFNAMSIZ E \<and> c_str name = take (IFNAMSIZ E - 1) ifname)"
  using txq.fds [OF assms(3)] md_cfg.fds [OF assms(4)] txq.events [OF assms(3)] md_cfg.events [OF assms(4)]
    ifr_name_facts [OF assms(1,2)]
  by (auto simp: SIOCSTXQSTATE_def SIOCSCCMNICFG_def split: if_splits)

theorem control_socket_contract_witness:
  "open_fds (trace (snd (ifc_set_txq_state net_demo ''ccmni0'' 1 net_start))) = []"
proof -
  obtain r s' where s: "ifc_set_txq_state net_demo ''ccmni0'' 1 net_start = (r, s')"
    by (rule prod.exhaust)
  obtain q t' where t: "ifc_ccmni_md_cfg net_demo ''ccmni0'' 1 net_start = (q, t')"
    by (rule prod.exhaust)
  have "is_c_str ''ccmni0''" "0 < IFNAMSIZ net_demo"
    by (simp_all add: NUL_def net_demo_def)
  from control_socket_contract [OF this s t, THEN conjunct1] s show ?thesis
    by (simp add: net_start_clean)
qed

text \<open>
  C35: the two functions that write a switch of an interface never leave a descriptor open, but only success
  frees the path: each failure leaves exactly one block of the heap behind.
\<close>

theorem switch_resources:
  assumes "setEnableIPv6 K ifname on s = Inr (r, s') \<or> setIPv6DefaultRoute K ifname on s = Inr (r, s')"
  shows "open_fds (trace s') = open_fds (trace s) \<and>
    (if r = 0 then live_blocks (trace s') = live_blocks (trace s)
     else r = - 1 \<and> (\<exists>p. live_blocks (trace s') = p # live_blocks (trace s)))"
  using assms by (elim disjE) (erule enable.resources, erule default_route.resources)

theorem switch_resources_witness:
  "\<exists>s' p. setEnableIPv6 (net_demo\<lparr>k_open := \<lambda>k path fl. (- 1, 2, k)\<rparr>) ''ccmni0'' 0 net_start = Inr (- 1, s') \<and>
     open_fds (trace s') = [] \<and> live_blocks (trace s') = [p]"
proof -
  let ?K = "net_demo\<lparr>k_open := \<lambda>k path fl. (- 1, 2, k)\<rparr>"
  have "\<exists>s'. setEnableIPv6 ?K ''ccmni0'' 0 net_start = Inr (- 1, s')"
    by (simp add: setEnableIPv6_def c_asprintf_def c_malloc_def sys_open_def net_demo_def Let_def)
  then obtain s' where s': "setEnableIPv6 ?K ''ccmni0'' 0 net_start = Inr (- 1, s')" by blast
  with switch_resources [OF disjI1, OF s'] show ?thesis by (auto simp: net_start_clean)
qed

text \<open>
  Where memory can be had and the switches accept writes, \<open>ifc_ipv6_trigger_rs\<close> turns IPv6 of the interface off
  and on again and then lets it accept a default route, in this order, each step complete before the
  next; it returns 0, as it does when its steps fail.
\<close>

theorem trigger_rs_order:
  assumes "malloc_ok K"
    and "accepts K {switch_path ifname ''disable_ipv6'', switch_path ifname ''accept_ra_defrtr''}"
  shows "\<exists>s' a b c. ifc_ipv6_trigger_rs K ifname s = Inr (0, s') \<and>
    trace s' = trace s @ switch_events (switch_path ifname ''disable_ipv6'') ''1'' a
      @ switch_events (switch_path ifname ''disable_ipv6'') ''0'' b
      @ switch_events (switch_path ifname ''accept_ra_defrtr'') ''1'' c"
proof -
  have 1: "accepts K {switch_path ifname ''disable_ipv6''}" and 2: "accepts K {switch_path ifname ''accept_ra_defrtr''}"
    using assms(2) by (simp_all add: accepts_def)
  from enable.works [OF assms(1) 1, of 0 s] obtain s1 a where a: "setEnableIPv6 K ifname 0 s = Inr (0, s1)"
    "trace s1 = trace s @ switch_events (switch_path ifname ''disable_ipv6'') ''1'' a" by auto
  from enable.works [OF assms(1) 1, of 1 s1] obtain s2 b where b: "setEnableIPv6 K ifname 1 s1 = Inr (0, s2)"
    "trace s2 = trace s1 @ switch_events (switch_path ifname ''disable_ipv6'') ''0'' b" by auto
  from default_route.works [OF assms(1) 2, of 1 s2] obtain s3 c where c: "setIPv6DefaultRoute K ifname 1 s2 = Inr (0, s3)"
    "trace s3 = trace s2 @ switch_events (switch_path ifname ''accept_ra_defrtr'') ''1'' c" by auto
  have "ifc_ipv6_trigger_rs K ifname s = Inr (0, s3)"
    using a b c by (simp add: ifc_ipv6_trigger_rs_def)
  moreover have "trace s3 = trace s @ switch_events (switch_path ifname ''disable_ipv6'') ''1'' a
      @ switch_events (switch_path ifname ''disable_ipv6'') ''0'' b
      @ switch_events (switch_path ifname ''accept_ra_defrtr'') ''1'' c"
    using a b c by simp
  ultimately show ?thesis by blast
qed

theorem trigger_rs_order_witness:
  "\<exists>s' a b c. ifc_ipv6_trigger_rs net_demo ''ccmni0'' net_start = Inr (0, s') \<and>
    trace s' = switch_events (switch_path ''ccmni0'' ''disable_ipv6'') ''1'' a
      @ switch_events (switch_path ''ccmni0'' ''disable_ipv6'') ''0'' b
      @ switch_events (switch_path ''ccmni0'' ''accept_ra_defrtr'') ''1'' c"
  using trigger_rs_order [OF net_demo_ok, of "''ccmni0''" net_start] by (simp add: net_start_def)

end
