(* ===== verification/Wifi_Data.thy ===== *)
theory Wifi_Data
  imports Complex_Main Posix "HOL-Library.Signed_Division"
begin

text \<open>
  The data of the Wi-Fi driver library: the structures of
  \<^verbatim>\<open>wpa_supplicant_8_lib/mediatek_driver_nl80211.h\<close>, their layout in memory, the environment the library is linked
  into, and its state. Memory is little endian; a byte that was never set, or that lies outside
  the object, is \<^const>\<open>None\<close>.
\<close>

section \<open>Bytes\<close>

type_synonym cell = "u8 option"

definition le32 :: "u32 \<Rightarrow> u8 list" where
  "le32 w = [ucast w, ucast (drop_bit 8 w), ucast (drop_bit 16 w), ucast (drop_bit 24 w)]"

definition of_le :: "u8 list \<Rightarrow> nat" where
  "of_le bs = foldr (\<lambda>b v. unat b + 256 * v) bs 0"

definition of_le32 :: "u8 list \<Rightarrow> u32" where
  "of_le32 bs = of_nat (of_le (take 4 bs))"

definition ETH_ALEN :: nat where "ETH_ALEN = 6"

definition cells :: "u8 list \<Rightarrow> cell list" where
  "cells bs = map Some bs"

lemma length_le32 [simp]: "length (le32 w) = 4"
  by (simp add: le32_def)

lemma length_cells [simp]: "length (cells bs) = length bs"
  by (simp add: cells_def)

lemma of_le_Nil [simp]: "of_le [] = 0"
  by (simp add: of_le_def)

lemma of_le_Cons [simp]: "of_le (b # bs) = unat b + 256 * of_le bs"
  by (simp add: of_le_def)

lemma of_le_bound: "of_le bs < 256 ^ length bs"
proof (induction bs)
  case (Cons b bs)
  have "unat b < 2 ^ LENGTH(8)" by (rule unsigned_less)
  then have "unat b < 256" by simp
  moreover have "256 * of_le bs + 256 \<le> 256 * 256 ^ length bs"
    using Cons by simp
  ultimately show ?case by simp
qed simp

lemma unat_ucast8: "unat (ucast (w :: u32) :: u8) = unat w mod 256"
  by (simp add: unsigned_ucast_eq take_bit_eq_mod)

lemma unat_drop_bit_u32: "unat (drop_bit n (w :: u32)) = unat w div 2 ^ n"
  unfolding unat_drop_bit_eq by (rule drop_bit_eq_div)

lemma of_le_le32: "of_le (le32 w) = unat w"
proof -
  have "unat w < 2 ^ LENGTH(32)" by (rule unsigned_less)
  then have "unat w div 16777216 mod 256 = unat w div 16777216"
    by simp
  then have "of_le (le32 w) = unat w mod 256 + 256 * (unat w div 256 mod 256 +
      256 * (unat w div 65536 mod 256 + 256 * (unat w div 16777216)))"
    by (simp add: le32_def unat_ucast8 unat_drop_bit_u32)
  also have "unat w div 65536 mod 256 + 256 * (unat w div 16777216) = unat w div 65536"
    using div_mult2_eq [of "unat w" 65536 256] by simp
  also have "unat w div 256 mod 256 + 256 * (unat w div 65536) = unat w div 256"
    using div_mult2_eq [of "unat w" 256 256] by simp
  also have "unat w mod 256 + 256 * (unat w div 256) = unat w"
    by simp
  finally show ?thesis .
qed

lemma of_le32_le32 [simp]: "of_le32 (le32 w @ rest) = w"
  by (simp add: of_le32_def of_le_le32)

lemma of_le32_le32' [simp]: "of_le32 (le32 w) = w"
  using of_le32_le32 [of w "[]"] by simp

section \<open>Bit ranges\<close>

definition BIT :: "nat \<Rightarrow> u32" where
  "BIT n = push_bit n 1"

definition BITS :: "nat \<Rightarrow> nat \<Rightarrow> u32" where
  "BITS m n = NOT (BIT m - 1) AND ((BIT n - 1) OR BIT n)"

lemma BITS_0_23: "BITS 0 23 = 0x00FFFFFF"
  by (simp add: BITS_def BIT_def)

section \<open>Attributes and structures\<close>

text \<open>The attributes of the station statistics, in the order of their numbers, which begin at one.\<close>

datatype sta_attr =
    STA_STATISTICS_VERSION | STA_STATISTICS_MAC | STA_STATISTICS_LINK_SCORE | STA_STATISTICS_FLAG
  | STA_STATISTICS_PER | STA_STATISTICS_RSSI | STA_STATISTICS_PHY_MODE | STA_STATISTICS_TX_RATE
  | STA_STATISTICS_TOTAL_CNT | STA_STATISTICS_THRESHOLD_CNT
  | STA_STATISTICS_AVG_PROCESS_TIME | STA_STATISTICS_MAX_PROCESS_TIME
  | STA_STATISTICS_AVG_HIF_PROCESS_TIME | STA_STATISTICS_MAX_HIF_PROCESS_TIME
  | STA_STATISTICS_FAIL_CNT | STA_STATISTICS_TIMEOUT_CNT | STA_STATISTICS_AVG_AIR_TIME
  | STA_STATISTICS_TC_EMPTY_CNT_ARRAY | STA_STATISTICS_TC_QUE_LEN_ARRAY
  | STA_STATISTICS_TC_AVG_QUE_LEN_ARRAY | STA_STATISTICS_TC_CUR_QUE_LEN_ARRAY
  | STA_STATISTICS_ENQUEUE | STA_STATISTICS_STA_ENQUEUE | STA_STATISTICS_DEQUEUE | STA_STATISTICS_STA_DEQUEUE
  | STA_STATISTICS_RB_ARRAY | STA_STATISTICS_NO_TC_ARRAY | STA_STATISTICS_TC_USED_ARRAY
  | STA_STATISTICS_TC_WANTED_ARRAY
  | STA_STATISTICS_IRQ_ISR_CNT | STA_STATISTICS_IRQ_ISR_PASS_CNT | STA_STATISTICS_IRQ_TASK_CNT
  | STA_STATISTICS_IRQ_AB_CNT | STA_STATISTICS_IRQ_SW_CNT | STA_STATISTICS_IRQ_TX_CNT
  | STA_STATISTICS_IRQ_RX_CNT | STA_STATISTICS_RESERVED_ARRAY

definition sta_attrs :: "sta_attr list" where
  "sta_attrs =
     [STA_STATISTICS_VERSION, STA_STATISTICS_MAC, STA_STATISTICS_LINK_SCORE, STA_STATISTICS_FLAG,
      STA_STATISTICS_PER, STA_STATISTICS_RSSI, STA_STATISTICS_PHY_MODE, STA_STATISTICS_TX_RATE,
      STA_STATISTICS_TOTAL_CNT, STA_STATISTICS_THRESHOLD_CNT,
      STA_STATISTICS_AVG_PROCESS_TIME, STA_STATISTICS_MAX_PROCESS_TIME,
      STA_STATISTICS_AVG_HIF_PROCESS_TIME, STA_STATISTICS_MAX_HIF_PROCESS_TIME,
      STA_STATISTICS_FAIL_CNT, STA_STATISTICS_TIMEOUT_CNT, STA_STATISTICS_AVG_AIR_TIME,
      STA_STATISTICS_TC_EMPTY_CNT_ARRAY, STA_STATISTICS_TC_QUE_LEN_ARRAY,
      STA_STATISTICS_TC_AVG_QUE_LEN_ARRAY, STA_STATISTICS_TC_CUR_QUE_LEN_ARRAY,
      STA_STATISTICS_ENQUEUE, STA_STATISTICS_STA_ENQUEUE, STA_STATISTICS_DEQUEUE, STA_STATISTICS_STA_DEQUEUE,
      STA_STATISTICS_RB_ARRAY, STA_STATISTICS_NO_TC_ARRAY, STA_STATISTICS_TC_USED_ARRAY,
      STA_STATISTICS_TC_WANTED_ARRAY,
      STA_STATISTICS_IRQ_ISR_CNT, STA_STATISTICS_IRQ_ISR_PASS_CNT, STA_STATISTICS_IRQ_TASK_CNT,
      STA_STATISTICS_IRQ_AB_CNT, STA_STATISTICS_IRQ_SW_CNT, STA_STATISTICS_IRQ_TX_CNT,
      STA_STATISTICS_IRQ_RX_CNT, STA_STATISTICS_RESERVED_ARRAY]"

definition STA_STATISTICS_NUM :: nat where
  "STA_STATISTICS_NUM = Suc (length sta_attrs)"

definition sta_attr_of :: "nat \<Rightarrow> sta_attr" where
  "sta_attr_of i = sta_attrs ! (i - 1)"

definition TC_DATA_NUM :: nat where "TC_DATA_NUM = 4"

record wpa_driver_sta_statistics_s =
  version :: u8
  addr :: "u8 list"
  flag :: u32
  link_score :: u32
  per :: u8
  rssi :: int
  phy_mode :: u32
  tx_rate :: rat
  tx_total_cnt :: u32
  enqueue_total_cnt :: u32
  dequeue_total_cnt :: u32
  enqueue_sta_total_cnt :: u32
  dequeue_sta_total_cnt :: u32
  tx_exc_threshold_cnt :: u32
  tx_avg_process_time :: u32
  tx_max_process_time :: u32
  tx_avg_hif_process_time :: u32
  tx_max_hif_process_time :: u32
  tx_fail_cnt :: u32
  tx_timeout_cnt :: u32
  tx_avg_air_time :: u32
  tc_buf_full_cnt :: "u32 list"
  tc_que_len :: "u32 list"
  tc_back_count :: "u32 list"
  dequeue_no_tc_res :: "u32 list"
  tc_wanted_res :: "u32 list"
  tc_used_res :: "u32 list"
  isr_cnt :: u32
  isr_pass_cnt :: u32
  isr_task_cnt :: u32
  isr_ab_cnt :: u32
  isr_sw_cnt :: u32
  isr_tx_cnt :: u32
  isr_rx_cnt :: u32
  tc_avg_que_len :: "u32 list"
  tc_cur_que_len :: "u32 list"
  reserved :: "u8 list"

definition zero_stats :: wpa_driver_sta_statistics_s where
  "zero_stats =
     \<lparr>version = 0, addr = replicate ETH_ALEN 0, flag = 0, link_score = 0, per = 0, rssi = 0, phy_mode = 0,
      tx_rate = 0, tx_total_cnt = 0, enqueue_total_cnt = 0, dequeue_total_cnt = 0,
      enqueue_sta_total_cnt = 0, dequeue_sta_total_cnt = 0, tx_exc_threshold_cnt = 0,
      tx_avg_process_time = 0, tx_max_process_time = 0, tx_avg_hif_process_time = 0,
      tx_max_hif_process_time = 0, tx_fail_cnt = 0, tx_timeout_cnt = 0, tx_avg_air_time = 0,
      tc_buf_full_cnt = replicate TC_DATA_NUM 0, tc_que_len = replicate TC_DATA_NUM 0,
      tc_back_count = replicate TC_DATA_NUM 0, dequeue_no_tc_res = replicate TC_DATA_NUM 0,
      tc_wanted_res = replicate TC_DATA_NUM 0, tc_used_res = replicate TC_DATA_NUM 0,
      isr_cnt = 0, isr_pass_cnt = 0, isr_task_cnt = 0, isr_ab_cnt = 0, isr_sw_cnt = 0, isr_tx_cnt = 0,
      isr_rx_cnt = 0, tc_avg_que_len = replicate TC_DATA_NUM 0, tc_cur_que_len = replicate TC_DATA_NUM 0,
      reserved = replicate 32 0\<rparr>"

text \<open>The commands of the test mode.\<close>

definition NL80211_TESTMODE_SW_CMD :: u32 where "NL80211_TESTMODE_SW_CMD = 1"
definition NL80211_TESTMODE_HS20 :: u32 where "NL80211_TESTMODE_HS20 = 3"
definition NL80211_TESTMODE_STATISTICS :: u32 where "NL80211_TESTMODE_STATISTICS = 0x10"
definition NL80211_TESTMODE_SUSPEND :: u32 where "NL80211_TESTMODE_SUSPEND = 101"
definition NL80211_TESTMODE_STR_CMD :: u32 where "NL80211_TESTMODE_STR_CMD = 102"
definition NL80211_TESTMODE_RXFILTER :: u32 where "NL80211_TESTMODE_RXFILTER = 103"

lemmas testmode_ids = NL80211_TESTMODE_SW_CMD_def NL80211_TESTMODE_HS20_def NL80211_TESTMODE_STATISTICS_def
  NL80211_TESTMODE_SUSPEND_def NL80211_TESTMODE_STR_CMD_def NL80211_TESTMODE_RXFILTER_def

text \<open>
  The message structures as bytes: the header with index and length, then the members at their natural
  alignment. Padding of a structure that was cleared first is zero, else it is not set.
\<close>

definition hdr_bytes :: "u32 \<Rightarrow> nat \<Rightarrow> u8 list" where
  "hdr_bytes index buflen = le32 index @ le32 (of_nat buflen)"

definition sw_cmd_params :: "u32 \<Rightarrow> u8 \<Rightarrow> u32 \<Rightarrow> u32 \<Rightarrow> u8 list" where
  "sw_cmd_params index st adr dat =
     hdr_bytes index 20 @ [st, 0, 0, 0] @ le32 adr @ le32 dat"

definition hotspot_params :: "u32 \<Rightarrow> u8 \<Rightarrow> u8 list \<Rightarrow> u8 list" where
  "hotspot_params index blocked bssid = hdr_bytes index 16 @ [blocked] @ bssid @ [0]"

definition suspendmode_params :: "u32 \<Rightarrow> u8 \<Rightarrow> cell list" where
  "suspendmode_params index suspend =
     cells (hdr_bytes index 12 @ [suspend]) @ [None, None, None]"

definition rx_filter_params :: "u32 \<Rightarrow> u32 list \<Rightarrow> u8 list" where
  "rx_filter_params index filters = hdr_bytes index 32 @ concat (map le32 filters)"

text \<open>The statistics request ends in a pointer, whose size and bytes depend on the machine.\<close>

definition get_sta_statistics_params :: "u32 \<Rightarrow> u8 list \<Rightarrow> u8 list \<Rightarrow> u8 list" where
  "get_sta_statistics_params index mac ptr =
     hdr_bytes index (24 + length ptr) @ le32 0 @ le32 0 @ mac @ [0, 0] @ ptr"

lemma length_hdr_bytes [simp]: "length (hdr_bytes index n) = 8"
  by (simp add: hdr_bytes_def)

lemma length_params [simp]:
  "length (sw_cmd_params index st adr dat) = 20"
  "length bssid = ETH_ALEN \<Longrightarrow> length (hotspot_params index blocked bssid) = 16"
  "length (suspendmode_params index v) = 12"
  "length filters = 6 \<Longrightarrow> length (rx_filter_params index filters) = 32"
  "length mac = ETH_ALEN \<Longrightarrow> length (get_sta_statistics_params index mac ptr) = 24 + length ptr"
proof -
  show "length filters = 6 \<Longrightarrow> length (rx_filter_params index filters) = 32"
    by (simp add: rx_filter_params_def length_concat comp_def sum_list_triv)
qed (simp_all add: sw_cmd_params_def hotspot_params_def suspendmode_params_def
    get_sta_statistics_params_def ETH_ALEN_def)

end
