(* ===== verification/Wifi_Testmode.thy ===== *)
theory Wifi_Testmode
  imports Wifi_Data
begin

text \<open>
  The netlink test mode of \<^verbatim>\<open>wpa_supplicant_8_lib/mediatek_driver_cmd_nl80211.c\<close>: the environment and the
  state of the library, the message that carries a command to the driver, the handler of the
  statistics it answers with, and the text that is printed for them.
\<close>

section \<open>Environment and state\<close>

text \<open>
  The environment: libnl (allocation of a message, room for the payload, sending and receiving, parsing of an
  answer), the parts of wpa_supplicant that are called, the constants of its headers, the build
  options, and the machine's widths of a pointer and of \<open>long\<close>. The attribute types of the policy table are
  those of libnl.
\<close>

datatype nla_type = NLA_UNSPEC | NLA_U8 | NLA_U16 | NLA_U32

record 'k wifi_env = "'k linux_env" +
  k_nlmsg_alloc :: "'k \<Rightarrow> bool \<times> 'k"
  nla_put_ok :: "cell list \<Rightarrow> bool"
  k_send_recv :: "'k \<Rightarrow> cell list \<Rightarrow> int \<times> u8 list list \<times> 'k"
  nla_testdata :: "u8 list \<Rightarrow> u8 list option"
  nla_parse_nested :: "u8 list \<Rightarrow> (sta_attr \<Rightarrow> nla_type) \<Rightarrow> (sta_attr \<Rightarrow> u8 list option) option"
  hwaddr_aton :: "string \<Rightarrow> u8 list option"
  mac_text :: "u8 list \<Rightarrow> string"
  ptr_bytes :: "u8 list"
  LONG_BITS :: nat
  DRV_NUMBER_SEQUENTIAL_ERRORS :: int
  WPAS_MODE_INFRA :: int
  WPAS_MODE_AP :: int
  WPAS_MODE_P2P_GO :: int
  WPA_FREQ_USED_BY_INFRA_STATION :: int
  WPA_FREQ_USED_BY_P2P_CLIENT :: int
  REGDOM_SET_BY_USER :: int
  REGDOM_TYPE_COUNTRY :: int
  drv_get_bssid :: "'k \<Rightarrow> string \<Rightarrow> int"
  k_random :: "'k \<Rightarrow> u32 \<times> 'k"
  k_iface_flags :: "'k \<Rightarrow> string \<Rightarrow> bool \<Rightarrow> int \<times> 'k"
  k_deauthenticate :: "'k \<Rightarrow> int \<times> 'k"
  CONFIG_HOTSPOT_MGR_SUPPORT :: bool
  CONFIG_MTK_WFD_SINK :: bool
  CONFIG_MTK_SCC_MCC :: bool
  CONFIG_MTK_STAGE_SCAN :: bool
  MTK_TC1_FEATURE :: bool

text \<open>
  The objects of wpa_supplicant that the library reads and writes. A member that was set from an
  uninitialised variable has no value.
\<close>

record p2p_channels =
  reg_classes :: nat
  reg_class0 :: "cell"
  channels0 :: nat
  channel00 :: "cell"

record p2p_data =
  dev_capab :: u8
  op_reg_class :: cell
  op_channel :: cell
  channels :: p2p_channels
  cfg_channels :: p2p_channels
  cfg_op_channel :: u8
  p2p_use_mcc :: u8

record wpa_ssid =
  ssid_mode :: int
  ssid_frequency :: int
  ssid_p2p_group :: int

record wpa_iface =
  if_name :: string
  current_ssid :: "wpa_ssid option"
  assoc_freq :: int

text \<open>
  The state: the two static variables of the file, the supplicant's objects that change, the number of netlink
  messages that are allocated, and the undefined behaviours that the machine survives, such as
  a read of bytes that were never set.
\<close>

record 'k wifi = "'k world" +
  drv_errors :: int
  user_force_band :: int
  p2p :: "p2p_data option"
  nl_msgs :: int
  ub :: "fault list"

definition note_ub :: "fault \<Rightarrow> 'k wifi \<Rightarrow> 'k wifi" where
  "note_ub f s = s\<lparr>ub := ub s @ [f]\<rparr>"

section \<open>The answer to a statistics request\<close>

definition sta_policy :: "sta_attr \<Rightarrow> nla_type" where
  "sta_policy a =
     (if a \<in> {STA_STATISTICS_MAC, STA_STATISTICS_TC_EMPTY_CNT_ARRAY, STA_STATISTICS_TC_QUE_LEN_ARRAY,
              STA_STATISTICS_TC_AVG_QUE_LEN_ARRAY, STA_STATISTICS_TC_CUR_QUE_LEN_ARRAY,
              STA_STATISTICS_RB_ARRAY, STA_STATISTICS_NO_TC_ARRAY, STA_STATISTICS_TC_USED_ARRAY,
              STA_STATISTICS_TC_WANTED_ARRAY, STA_STATISTICS_RESERVED_ARRAY} then NLA_UNSPEC
      else if a \<in> {STA_STATISTICS_VERSION, STA_STATISTICS_PER, STA_STATISTICS_RSSI} then NLA_U8
      else if a = STA_STATISTICS_TX_RATE then NLA_U16
      else NLA_U32)"

text \<open>
  The accessors of libnl read the first bytes of the payload; \<open>nla_memcpy\<close> copies as many bytes as the payload has
  and the count allows and leaves the rest of the destination alone.
\<close>

definition nla_get_u8 :: "u8 list \<Rightarrow> u8" where
  "nla_get_u8 bs = bs ! 0"

definition nla_get_u16 :: "u8 list \<Rightarrow> u16" where
  "nla_get_u16 bs = of_nat (of_le (take 2 bs))"

definition nla_get_u32 :: "u8 list \<Rightarrow> u32" where
  "nla_get_u32 bs = of_le32 bs"

definition nla_memcpy :: "u8 list \<Rightarrow> u8 list \<Rightarrow> nat \<Rightarrow> u8 list" where
  "nla_memcpy dst bs count =
     (let n = min count (length bs) in take n bs @ drop n dst)"

definition words_bytes :: "u32 list \<Rightarrow> u8 list" where
  "words_bytes ws = concat (map le32 ws)"

fun bytes_words :: "nat \<Rightarrow> u8 list \<Rightarrow> u32 list" where
  "bytes_words 0 bs = []"
| "bytes_words (Suc n) bs = of_le32 bs # bytes_words n (drop 4 bs)"

text \<open>
  The destination of a copy may be an array of words. A copy whose count is larger than the array
  leaves more bytes than the array has: what it returns is then longer than the member it was meant for, and the
  surplus is what C would have written over the members behind it.
\<close>

definition nla_memcpy_u32 :: "u32 list \<Rightarrow> u8 list \<Rightarrow> nat \<Rightarrow> u32 list" where
  "nla_memcpy_u32 ws bs count =
     (let r = nla_memcpy (words_bytes ws) bs count in bytes_words ((length r + 3) div 4) r)"

text \<open>The \<open>sizeof\<close> of a member that is an array of words, one for each traffic class.\<close>

definition sizeof_tc :: nat where "sizeof_tc = 4 * TC_DATA_NUM"

text \<open>One turn of the handler's loop: the attribute's payload goes to its member.\<close>

fun set_attr :: "sta_attr \<Rightarrow> u8 list \<Rightarrow> wpa_driver_sta_statistics_s \<Rightarrow> wpa_driver_sta_statistics_s" where
  "set_attr STA_STATISTICS_VERSION b s = s\<lparr>version := nla_get_u8 b\<rparr>"
| "set_attr STA_STATISTICS_MAC b s = s\<lparr>addr := nla_memcpy (addr s) b ETH_ALEN\<rparr>"
| "set_attr STA_STATISTICS_LINK_SCORE b s = s\<lparr>link_score := nla_get_u32 b\<rparr>"
| "set_attr STA_STATISTICS_FLAG b s = s\<lparr>flag := nla_get_u32 b\<rparr>"
| "set_attr STA_STATISTICS_PER b s = s\<lparr>per := nla_get_u8 b\<rparr>"
| "set_attr STA_STATISTICS_RSSI b s = s\<lparr>rssi := (int (unat (nla_get_u8 b)) - 220) sdiv 2\<rparr>"
| "set_attr STA_STATISTICS_PHY_MODE b s = s\<lparr>phy_mode := nla_get_u32 b\<rparr>"
| "set_attr STA_STATISTICS_TX_RATE b s = s\<lparr>tx_rate := of_nat (unat (nla_get_u16 b)) / 2\<rparr>"
| "set_attr STA_STATISTICS_FAIL_CNT b s = s\<lparr>tx_fail_cnt := nla_get_u32 b\<rparr>"
| "set_attr STA_STATISTICS_TIMEOUT_CNT b s = s\<lparr>tx_timeout_cnt := nla_get_u32 b\<rparr>"
| "set_attr STA_STATISTICS_AVG_AIR_TIME b s = s\<lparr>tx_avg_air_time := nla_get_u32 b\<rparr>"
| "set_attr STA_STATISTICS_TOTAL_CNT b s = s\<lparr>tx_total_cnt := nla_get_u32 b\<rparr>"
| "set_attr STA_STATISTICS_THRESHOLD_CNT b s = s\<lparr>tx_exc_threshold_cnt := nla_get_u32 b\<rparr>"
| "set_attr STA_STATISTICS_AVG_PROCESS_TIME b s = s\<lparr>tx_avg_process_time := nla_get_u32 b\<rparr>"
| "set_attr STA_STATISTICS_MAX_PROCESS_TIME b s = s\<lparr>tx_max_process_time := nla_get_u32 b\<rparr>"
| "set_attr STA_STATISTICS_AVG_HIF_PROCESS_TIME b s = s\<lparr>tx_avg_hif_process_time := nla_get_u32 b\<rparr>"
| "set_attr STA_STATISTICS_MAX_HIF_PROCESS_TIME b s = s\<lparr>tx_max_hif_process_time := nla_get_u32 b\<rparr>"
| "set_attr STA_STATISTICS_TC_EMPTY_CNT_ARRAY b s =
     s\<lparr>tc_buf_full_cnt := nla_memcpy_u32 (tc_buf_full_cnt s) b sizeof_tc\<rparr>"
| "set_attr STA_STATISTICS_TC_QUE_LEN_ARRAY b s =
     s\<lparr>tc_que_len := nla_memcpy_u32 (tc_que_len s) b sizeof_tc\<rparr>"
| "set_attr STA_STATISTICS_TC_AVG_QUE_LEN_ARRAY b s =
     s\<lparr>tc_avg_que_len := nla_memcpy_u32 (tc_avg_que_len s) b sizeof_tc\<rparr>"
| "set_attr STA_STATISTICS_TC_CUR_QUE_LEN_ARRAY b s =
     s\<lparr>tc_cur_que_len := nla_memcpy_u32 (tc_cur_que_len s) b sizeof_tc\<rparr>"
| "set_attr STA_STATISTICS_ENQUEUE b s = s\<lparr>enqueue_total_cnt := nla_get_u32 b\<rparr>"
| "set_attr STA_STATISTICS_DEQUEUE b s = s\<lparr>dequeue_total_cnt := nla_get_u32 b\<rparr>"
| "set_attr STA_STATISTICS_STA_ENQUEUE b s = s\<lparr>enqueue_sta_total_cnt := nla_get_u32 b\<rparr>"
| "set_attr STA_STATISTICS_STA_DEQUEUE b s = s\<lparr>dequeue_sta_total_cnt := nla_get_u32 b\<rparr>"
| "set_attr STA_STATISTICS_IRQ_ISR_CNT b s = s\<lparr>isr_cnt := nla_get_u32 b\<rparr>"
| "set_attr STA_STATISTICS_IRQ_ISR_PASS_CNT b s = s\<lparr>isr_pass_cnt := nla_get_u32 b\<rparr>"
| "set_attr STA_STATISTICS_IRQ_TASK_CNT b s = s\<lparr>isr_task_cnt := nla_get_u32 b\<rparr>"
| "set_attr STA_STATISTICS_IRQ_AB_CNT b s = s\<lparr>isr_ab_cnt := nla_get_u32 b\<rparr>"
| "set_attr STA_STATISTICS_IRQ_SW_CNT b s = s\<lparr>isr_sw_cnt := nla_get_u32 b\<rparr>"
| "set_attr STA_STATISTICS_IRQ_TX_CNT b s = s\<lparr>isr_tx_cnt := nla_get_u32 b\<rparr>"
| "set_attr STA_STATISTICS_IRQ_RX_CNT b s = s\<lparr>isr_rx_cnt := nla_get_u32 b\<rparr>"
| "set_attr STA_STATISTICS_NO_TC_ARRAY b s =
     s\<lparr>dequeue_no_tc_res := nla_memcpy_u32 (dequeue_no_tc_res s) b sizeof_tc\<rparr>"
| "set_attr STA_STATISTICS_TC_USED_ARRAY b s =
     s\<lparr>tc_used_res := nla_memcpy_u32 (tc_used_res s) b sizeof_tc\<rparr>"
| "set_attr STA_STATISTICS_TC_WANTED_ARRAY b s =
     s\<lparr>tc_wanted_res := nla_memcpy_u32 (tc_wanted_res s) b sizeof_tc\<rparr>"
| "set_attr STA_STATISTICS_RB_ARRAY b s =
     s\<lparr>tc_back_count := nla_memcpy_u32 (tc_back_count s) b sizeof_tc\<rparr>"
| "set_attr STA_STATISTICS_RESERVED_ARRAY b s = s\<lparr>reserved := nla_memcpy (reserved s) b 32\<rparr>"

definition set_attr_if ::
  "(sta_attr \<Rightarrow> u8 list option) \<Rightarrow> sta_attr \<Rightarrow> wpa_driver_sta_statistics_s \<Rightarrow> wpa_driver_sta_statistics_s" where
  "set_attr_if sinfo a s = (case sinfo a of None \<Rightarrow> s | Some b \<Rightarrow> set_attr a b s)"

text \<open>The loop runs over the attribute numbers from one on.\<close>

definition testmode_sta_statistics_handler ::
  "('k, 'x) wifi_env_scheme \<Rightarrow> u8 list \<Rightarrow> wpa_driver_sta_statistics_s \<Rightarrow> wpa_driver_sta_statistics_s" where
  "testmode_sta_statistics_handler E msg s =
     (case nla_testdata E msg of
        None \<Rightarrow> s
      | Some nested \<Rightarrow>
          (case nla_parse_nested E nested sta_policy of
             None \<Rightarrow> s
           | Some sinfo \<Rightarrow>
               fold (\<lambda>i. set_attr_if sinfo (sta_attr_of i)) [1..<STA_STATISTICS_NUM] s))"

section \<open>Sending a test mode message\<close>

text \<open>
  The index is read back from the message. A statistics request carries the address of the
  structure that the handler fills; here the structure is passed and returned.
\<close>

definition hdr_index :: "cell list \<Rightarrow> u32" where
  "hdr_index data = of_le32 (map (\<lambda>c. case c of None \<Rightarrow> 0 | Some b \<Rightarrow> b) (take 4 data)) AND BITS 0 23"

text \<open>
  A message belongs to the caller from \<open>nlmsg_alloc\<close> on, until it is freed or handed over: \<open>send_and_recv_msgs\<close> frees the
  message it is given whatever the result, as wpa_supplicant documents.
\<close>

definition nlmsg_alloc :: "('k, 'x) wifi_env_scheme \<Rightarrow> 'k wifi \<Rightarrow> bool \<times> 'k wifi" where
  "nlmsg_alloc E s =
     (let (msg, k) = k_nlmsg_alloc E (kst s)
      in (msg, s\<lparr>kst := k, nl_msgs := (if msg then nl_msgs s + 1 else nl_msgs s)\<rparr>))"

definition nlmsg_free :: "'k wifi \<Rightarrow> 'k wifi" where
  "nlmsg_free s = s\<lparr>nl_msgs := nl_msgs s - 1\<rparr>"

definition send_and_recv_msgs ::
  "('k, 'x) wifi_env_scheme \<Rightarrow> cell list \<Rightarrow> 'k wifi \<Rightarrow> int \<times> u8 list list \<times> 'k wifi" where
  "send_and_recv_msgs E data s =
     (let (r, replies, k) = k_send_recv E (kst s) data
      in (r, replies, nlmsg_free (s\<lparr>kst := k, trace := trace s @ [Ev_netlink data r]\<rparr>)))"

definition wpa_driver_nl80211_testmode ::
  "('k, 'x) wifi_env_scheme \<Rightarrow> cell list \<Rightarrow> wpa_driver_sta_statistics_s \<Rightarrow> 'k wifi
     \<Rightarrow> int \<times> wpa_driver_sta_statistics_s \<times> 'k wifi" where
  "wpa_driver_nl80211_testmode E data stats s =
     (let (msg, s1) = nlmsg_alloc E s in
      if \<not> msg then (- 1, stats, s1)
      else if \<not> nla_put_ok E data then (- ENOBUFS, stats, nlmsg_free s1)
      else
        let index = hdr_index data;
            (ret, replies, s2) = send_and_recv_msgs E data s1
        in if index = 0x10
           then (ret, fold (testmode_sta_statistics_handler E) replies stats, s2)
           else (ret, stats, s2))"

definition testmode_send :: "('k, 'x) wifi_env_scheme \<Rightarrow> cell list \<Rightarrow> 'k wifi \<Rightarrow> int \<times> 'k wifi" where
  "testmode_send E data s =
     (let (ret, _, s1) = wpa_driver_nl80211_testmode E data zero_stats s in (ret, s1))"

definition with_version :: "u32 \<Rightarrow> u32" where
  "with_version index = index OR push_bit 24 1"

definition wpa_driver_nl80211_driver_sw_cmd ::
  "('k, 'x) wifi_env_scheme \<Rightarrow> bool \<Rightarrow> u32 \<Rightarrow> u32 \<Rightarrow> 'k wifi \<Rightarrow> int \<times> 'k wifi" where
  "wpa_driver_nl80211_driver_sw_cmd E st adr dat s =
     (let params = sw_cmd_params (with_version NL80211_TESTMODE_SW_CMD) (if st then 1 else 0) adr dat;
          (_, s1) = testmode_send E (cells params) s
      in (0, s1))"

definition wpa_driver_hotspot_block_list_update ::
  "('k, 'x) wifi_env_scheme \<Rightarrow> u8 list \<Rightarrow> int \<Rightarrow> 'k wifi \<Rightarrow> int \<times> 'k wifi" where
  "wpa_driver_hotspot_block_list_update E bssid blocked s =
     testmode_send E (cells (hotspot_params (with_version NL80211_TESTMODE_HS20) (word_of_int blocked) bssid)) s"

definition wpa_driver_sta_block ::
  "('k, 'x) wifi_env_scheme \<Rightarrow> string \<Rightarrow> 'k wifi \<Rightarrow> int \<times> 'k wifi" where
  "wpa_driver_sta_block E cmd s =
     (case hwaddr_aton E cmd of
        None \<Rightarrow> (- 1, s)
      | Some bssid \<Rightarrow> wpa_driver_hotspot_block_list_update E bssid 1 s)"

definition wpa_driver_sta_unblock ::
  "('k, 'x) wifi_env_scheme \<Rightarrow> string \<Rightarrow> 'k wifi \<Rightarrow> int \<times> 'k wifi" where
  "wpa_driver_sta_unblock E cmd s =
     (case hwaddr_aton E cmd of
        None \<Rightarrow> (- 1, s)
      | Some bssid \<Rightarrow> wpa_driver_hotspot_block_list_update E bssid 0 s)"

section \<open>Station statistics\<close>

definition wpas_get_sta_statistics ::
  "('k, 'x) wifi_env_scheme \<Rightarrow> u8 list \<Rightarrow> wpa_driver_sta_statistics_s \<Rightarrow> 'k wifi
     \<Rightarrow> int \<times> wpa_driver_sta_statistics_s \<times> 'k wifi" where
  "wpas_get_sta_statistics E sta_addr stats s =
     wpa_driver_nl80211_testmode E
       (cells (get_sta_statistics_params (with_version NL80211_TESTMODE_STATISTICS) sta_addr (ptr_bytes E))) stats s"

text \<open>
  One decimal place of a non-negative number. The rates are halves, so nothing is rounded.
\<close>

definition fmt_1f :: "rat \<Rightarrow> string" where
  "fmt_1f r = (let t = nat \<lfloor>r * 10 + 1 / 2\<rfloor> in dec (t div 10) @ ''.'' @ dec (t mod 10))"

definition four_d :: "string \<Rightarrow> u32 list \<Rightarrow> string" where
  "four_d name ws =
     name @ ''='' @ fmt_d (sint (ws ! 0)) @ '':'' @ fmt_d (sint (ws ! 1)) @ '':'' @ fmt_d (sint (ws ! 2))
       @ '':'' @ fmt_d (sint (ws ! 3)) @ ''\<newline>''"

definition line_d :: "string \<Rightarrow> int \<Rightarrow> string" where
  "line_d name v = name @ ''='' @ fmt_d v @ ''\<newline>''"

text \<open>
  The pieces that \<open>print_sta_statistics\<close> appends one after the other. A piece is marked where the call
  that appends it also reads the member behind the end of \<open>reserved\<close>.
\<close>

definition reserved_pieces :: "u8 list \<Rightarrow> nat \<Rightarrow> nat \<Rightarrow> (string \<times> fault option) list" where
  "reserved_pieces res from to =
     concat (map (\<lambda>i. (fmt_02X (res ! i), None) # (if (i + 1) mod 4 = 0 then [('' '', None)] else [])) [from..<to])"

definition stat_pieces ::
  "('k, 'x) wifi_env_scheme \<Rightarrow> wpa_driver_sta_statistics_s \<Rightarrow> (string \<times> fault option) list" where
  "stat_pieces E st =
     map (\<lambda>t. (t, None))
       [''sta_addr='' @ mac_text E (addr st) @ ''\<newline>'',
        line_d ''link_score'' (sint (link_score st)),
        line_d ''per'' (int (unat (per st))),
        line_d ''rssi'' (rssi st),
        ''phy=0x'' @ fmt_08X (phy_mode st) @ ''\<newline>'',
        ''rate='' @ fmt_1f (tx_rate st) @ ''\<newline>'',
        line_d ''total_cnt'' (sint (tx_total_cnt st)),
        line_d ''threshold_cnt'' (sint (tx_exc_threshold_cnt st)),
        line_d ''fail_cnt'' (sint (tx_fail_cnt st)),
        line_d ''timeout_cnt'' (sint (tx_timeout_cnt st)),
        line_d ''apt'' (sint (tx_avg_process_time st)),
        line_d ''aat'' (sint (tx_avg_air_time st)),
        four_d ''TC_buf_full_cnt'' (tc_buf_full_cnt st),
        four_d ''TC_sta_que_len'' (tc_que_len st),
        four_d ''TC_avg_que_len'' (tc_avg_que_len st),
        four_d ''TC_cur_que_len'' (tc_cur_que_len st),
        ''flag=0x'' @ fmt_08X (flag st) @ ''\<newline>'',
        ''reserved0='']
     @ reserved_pieces (reserved st) 0 16
     @ [(''\<newline>'', None), (''reserved1='', None)]
     @ reserved_pieces (reserved st) 16 32
     @ [(''\<newline>'', Some Out_of_bounds_read), (''====\<newline>'', None)]"

text \<open>
  The chain of \<open>snprintf\<close> calls: each writes what fits, the first that does not fit ends the chain with result
  zero. The result, the text in the buffer, and the bad reads made on the way.
\<close>

fun append_pieces :: "nat \<Rightarrow> (string \<times> fault option) list \<Rightarrow> string \<Rightarrow> int \<times> string \<times> fault list" where
  "append_pieces buflen [] acc = (int (length acc), acc, [])"
| "append_pieces buflen ((t, f) # ps) acc =
     (let bad = (case f of None \<Rightarrow> [] | Some x \<Rightarrow> [x]) in
      if length t \<ge> buflen - length acc then (0, take (buflen - 1) (acc @ t), bad)
      else let (r, out, fs) = append_pieces buflen ps (acc @ t) in (r, out, bad @ fs))"

definition print_sta_statistics ::
  "('k, 'x) wifi_env_scheme \<Rightarrow> wpa_driver_sta_statistics_s \<Rightarrow> nat \<Rightarrow> int \<times> string \<times> fault list" where
  "print_sta_statistics E st buflen = append_pieces buflen (stat_pieces E st) []"

definition wpas_p2p_get_sta_mac :: "u8 list \<Rightarrow> u8 list option" where
  "wpas_p2p_get_sta_mac org_addr = None"

text \<open>
  The five lines of the debug log. The counters are printed as signed numbers of at least four places, the
  resources of the traffic classes with at least five.
\<close>

definition log_counts :: "(string \<times> u32) list \<Rightarrow> string" where
  "log_counts cs = concat (map (\<lambda>(name, v). name @ fmt_wd 4 (sint v)) cs)"

definition log_class :: "wpa_driver_sta_statistics_s \<Rightarrow> nat \<Rightarrow> string" where
  "log_class st i =
     ''#'' @ fmt_wd 5 (sint (tc_wanted_res st ! i)) @ '':'' @ fmt_wd 5 (sint (tc_used_res st ! i)) @ '':'' @
     fmt_wd 5 (sint (tc_back_count st ! i)) @ ''#''"

definition stat_log :: "wpa_driver_sta_statistics_s \<Rightarrow> string list" where
  "stat_log st =
     [''NWFD: Basic info*'' @ log_counts
        [('' AVG:'', tx_avg_process_time st), ('':EN:'', enqueue_total_cnt st), ('':DE:'', dequeue_total_cnt st),
         ('':SEN:'', enqueue_sta_total_cnt st), ('':SDE:'', dequeue_sta_total_cnt st), ('':HIF:'', tx_total_cnt st)],
      ''NWFD: Time info*'' @ log_counts
        [('' TTL:'', tx_total_cnt st), ('':AVG:'', tx_avg_process_time st), ('':MAX:'', tx_max_process_time st),
         ('':HIFAVG:'', tx_avg_hif_process_time st), ('':HIFMAX:'', tx_max_hif_process_time st)],
      ''NWFD: No TC RES*'' @ log_counts
        [('' Score:'', link_score st),
         ('':EN:'', tc_buf_full_cnt st ! 0), (''#'', tc_buf_full_cnt st ! 1),
         (''#'', tc_buf_full_cnt st ! 2), (''#'', tc_buf_full_cnt st ! 3),
         ('':DE:'', dequeue_no_tc_res st ! 0), (''#'', dequeue_no_tc_res st ! 1),
         (''#'', dequeue_no_tc_res st ! 2), (''#'', dequeue_no_tc_res st ! 3)],
      ''NWFD: Irq info*'' @ log_counts
        [('' T:'', isr_cnt st), ('':P:'', isr_pass_cnt st), ('':TT:'', isr_task_cnt st), ('':A:'', isr_ab_cnt st),
         ('':S:'', isr_sw_cnt st), ('':R:'', isr_rx_cnt st), ('':T:'', isr_tx_cnt st)],
      ''NWFD: TC Res info[W:U:B]*'' @ log_counts [('' Score:'', link_score st)] @ '':'' @
        log_class st 0 @ log_class st 1 @ log_class st 2 @ log_class st 3]"

definition format_sta_statistics :: "wpa_driver_sta_statistics_s \<Rightarrow> 'k wifi \<Rightarrow> 'k wifi" where
  "format_sta_statistics st s = s\<lparr>trace := trace s @ map (\<lambda>t. Ev_log (map Some t)) (stat_log st)\<rparr>"

text \<open>The result, the reply text when one was written, and the state.\<close>

definition wpa_driver_get_sta_statistics ::
  "('k, 'x) wifi_env_scheme \<Rightarrow> string \<Rightarrow> nat \<Rightarrow> 'k wifi \<Rightarrow> int \<times> string option \<times> 'k wifi" where
  "wpa_driver_get_sta_statistics E address buflen s =
     (case hwaddr_aton E address of
        None \<Rightarrow> (- 1, None, s)
      | Some sta_addr \<Rightarrow>
          (let mac = wpas_p2p_get_sta_mac sta_addr;
               (ret, stats, s1) =
                 wpas_get_sta_statistics E (case mac of None \<Rightarrow> sta_addr | Some m \<Rightarrow> m) zero_stats s
           in if ret < 0 then (- 1, None, s1)
              else let (len, text, bad) = print_sta_statistics E stats buflen
                in (len, Some text, format_sta_statistics stats (s1\<lparr>ub := ub s1 @ bad\<rparr>))))"

end
