(* ===== verification/Wifi_Stats_Props.thy ===== *)
theory Wifi_Stats_Props
  imports Wifi_Testmode
begin

text \<open>
  The station statistics: what the handler of an answer leaves in each member, the invariant of the
  structure, and the text printed for it.
\<close>

section \<open>The loop of the handler\<close>

lemma sta_attrs_distinct: "distinct sta_attrs"
  by (simp add: sta_attrs_def)

lemma sta_attrs_all: "a \<in> set sta_attrs"
  by (cases a) (simp_all add: sta_attrs_def)

text \<open>The loop counter runs through all attributes, each once, in the order of their numbers.\<close>

lemma sta_attr_numbers: "map sta_attr_of [1..<STA_STATISTICS_NUM] = sta_attrs"
proof (rule nth_equalityI)
  show "length (map sta_attr_of [1..<STA_STATISTICS_NUM]) = length sta_attrs"
    by (simp add: STA_STATISTICS_NUM_def del: upt_Suc)
qed (simp add: STA_STATISTICS_NUM_def sta_attr_of_def nth_map_upt del: upt_Suc)

lemma handler_loop:
  "fold (\<lambda>i. set_attr_if sinfo (sta_attr_of i)) [1..<STA_STATISTICS_NUM] s = fold (set_attr_if sinfo) sta_attrs s"
  unfolding sta_attr_numbers [symmetric] fold_map by (simp add: comp_def)

text \<open>
  The contract between a member of the structure and the attribute that sets it: no other attribute
  touches the member. What the loop leaves in the member then depends on that attribute alone, and not on
  the order of the attributes.
\<close>

locale stat_field =
  fixes field :: "wpa_driver_sta_statistics_s \<Rightarrow> 'f"
    and attr :: sta_attr
    and value_of :: "u8 list \<Rightarrow> 'f \<Rightarrow> 'f"
  assumes own: "field (set_attr attr b s) = value_of b (field s)"
    and other: "a \<noteq> attr \<Longrightarrow> field (set_attr a b s) = field s"
begin

lemma step:
  "field (set_attr_if sinfo a s) =
     (if a = attr then (case sinfo a of None \<Rightarrow> field s | Some b \<Rightarrow> value_of b (field s)) else field s)"
  by (simp add: set_attr_if_def own other split: option.split)

lemma untouched: "attr \<notin> set as \<Longrightarrow> field (fold (set_attr_if sinfo) as s) = field s"
  by (induction as arbitrary: s) (auto simp: step)

lemma once:
  assumes "distinct as" and "attr \<in> set as"
  shows "field (fold (set_attr_if sinfo) as s) =
    (case sinfo attr of None \<Rightarrow> field s | Some b \<Rightarrow> value_of b (field s))"
  using assms
proof (induction as arbitrary: s)
  case (Cons a as)
  show ?case
  proof (cases "a = attr")
    case True
    with Cons.prems have "attr \<notin> set as" by simp
    with True show ?thesis by (simp add: untouched step)
  next
    case False
    with Cons show ?thesis by (simp add: step split: option.split)
  qed
qed simp

lemma loop:
  "field (fold (set_attr_if sinfo) sta_attrs s) =
    (case sinfo attr of None \<Rightarrow> field s | Some b \<Rightarrow> value_of b (field s))"
  by (rule once [OF sta_attrs_distinct sta_attrs_all])

end

definition rssi_of :: "u8 list \<Rightarrow> int" where
  "rssi_of b = (int (unat (nla_get_u8 b)) - 220) sdiv 2"

definition rate_of :: "u8 list \<Rightarrow> rat" where
  "rate_of b = of_nat (unat (nla_get_u16 b)) / 2"

interpretation version_field: stat_field version STA_STATISTICS_VERSION "\<lambda>b _. nla_get_u8 b"
proof unfold_locales
  show "a \<noteq> STA_STATISTICS_VERSION \<Longrightarrow> version (set_attr a b s) = version s" for a b s
    by (cases a) simp_all
qed simp

interpretation addr_field: stat_field addr STA_STATISTICS_MAC "\<lambda>b old. nla_memcpy old b ETH_ALEN"
proof unfold_locales
  show "a \<noteq> STA_STATISTICS_MAC \<Longrightarrow> addr (set_attr a b s) = addr s" for a b s
    by (cases a) simp_all
qed simp

interpretation link_score_field: stat_field link_score STA_STATISTICS_LINK_SCORE "\<lambda>b _. nla_get_u32 b"
proof unfold_locales
  show "a \<noteq> STA_STATISTICS_LINK_SCORE \<Longrightarrow> link_score (set_attr a b s) = link_score s" for a b s
    by (cases a) simp_all
qed simp

interpretation flag_field: stat_field flag STA_STATISTICS_FLAG "\<lambda>b _. nla_get_u32 b"
proof unfold_locales
  show "a \<noteq> STA_STATISTICS_FLAG \<Longrightarrow> flag (set_attr a b s) = flag s" for a b s
    by (cases a) simp_all
qed simp

interpretation per_field: stat_field per STA_STATISTICS_PER "\<lambda>b _. nla_get_u8 b"
proof unfold_locales
  show "a \<noteq> STA_STATISTICS_PER \<Longrightarrow> per (set_attr a b s) = per s" for a b s
    by (cases a) simp_all
qed simp

interpretation rssi_field: stat_field rssi STA_STATISTICS_RSSI "\<lambda>b _. rssi_of b"
proof unfold_locales
  show "a \<noteq> STA_STATISTICS_RSSI \<Longrightarrow> rssi (set_attr a b s) = rssi s" for a b s
    by (cases a) simp_all
qed (simp add: rssi_of_def)

interpretation phy_mode_field: stat_field phy_mode STA_STATISTICS_PHY_MODE "\<lambda>b _. nla_get_u32 b"
proof unfold_locales
  show "a \<noteq> STA_STATISTICS_PHY_MODE \<Longrightarrow> phy_mode (set_attr a b s) = phy_mode s" for a b s
    by (cases a) simp_all
qed simp

interpretation tx_rate_field: stat_field tx_rate STA_STATISTICS_TX_RATE "\<lambda>b _. rate_of b"
proof unfold_locales
  show "a \<noteq> STA_STATISTICS_TX_RATE \<Longrightarrow> tx_rate (set_attr a b s) = tx_rate s" for a b s
    by (cases a) simp_all
qed (simp add: rate_of_def)

interpretation tx_fail_cnt_field: stat_field tx_fail_cnt STA_STATISTICS_FAIL_CNT "\<lambda>b _. nla_get_u32 b"
proof unfold_locales
  show "a \<noteq> STA_STATISTICS_FAIL_CNT \<Longrightarrow> tx_fail_cnt (set_attr a b s) = tx_fail_cnt s" for a b s
    by (cases a) simp_all
qed simp

interpretation tx_timeout_cnt_field: stat_field tx_timeout_cnt STA_STATISTICS_TIMEOUT_CNT "\<lambda>b _. nla_get_u32 b"
proof unfold_locales
  show "a \<noteq> STA_STATISTICS_TIMEOUT_CNT \<Longrightarrow> tx_timeout_cnt (set_attr a b s) = tx_timeout_cnt s" for a b s
    by (cases a) simp_all
qed simp

interpretation tx_avg_air_time_field: stat_field tx_avg_air_time STA_STATISTICS_AVG_AIR_TIME "\<lambda>b _. nla_get_u32 b"
proof unfold_locales
  show "a \<noteq> STA_STATISTICS_AVG_AIR_TIME \<Longrightarrow> tx_avg_air_time (set_attr a b s) = tx_avg_air_time s" for a b s
    by (cases a) simp_all
qed simp

interpretation tx_total_cnt_field: stat_field tx_total_cnt STA_STATISTICS_TOTAL_CNT "\<lambda>b _. nla_get_u32 b"
proof unfold_locales
  show "a \<noteq> STA_STATISTICS_TOTAL_CNT \<Longrightarrow> tx_total_cnt (set_attr a b s) = tx_total_cnt s" for a b s
    by (cases a) simp_all
qed simp

interpretation tx_exc_threshold_cnt_field: stat_field tx_exc_threshold_cnt STA_STATISTICS_THRESHOLD_CNT "\<lambda>b _. nla_get_u32 b"
proof unfold_locales
  show "a \<noteq> STA_STATISTICS_THRESHOLD_CNT \<Longrightarrow> tx_exc_threshold_cnt (set_attr a b s) = tx_exc_threshold_cnt s" for a b s
    by (cases a) simp_all
qed simp

interpretation tx_avg_process_time_field: stat_field tx_avg_process_time STA_STATISTICS_AVG_PROCESS_TIME "\<lambda>b _. nla_get_u32 b"
proof unfold_locales
  show "a \<noteq> STA_STATISTICS_AVG_PROCESS_TIME \<Longrightarrow> tx_avg_process_time (set_attr a b s) = tx_avg_process_time s" for a b s
    by (cases a) simp_all
qed simp

interpretation tx_max_process_time_field: stat_field tx_max_process_time STA_STATISTICS_MAX_PROCESS_TIME "\<lambda>b _. nla_get_u32 b"
proof unfold_locales
  show "a \<noteq> STA_STATISTICS_MAX_PROCESS_TIME \<Longrightarrow> tx_max_process_time (set_attr a b s) = tx_max_process_time s" for a b s
    by (cases a) simp_all
qed simp

interpretation tx_avg_hif_process_time_field: stat_field tx_avg_hif_process_time STA_STATISTICS_AVG_HIF_PROCESS_TIME "\<lambda>b _. nla_get_u32 b"
proof unfold_locales
  show "a \<noteq> STA_STATISTICS_AVG_HIF_PROCESS_TIME \<Longrightarrow> tx_avg_hif_process_time (set_attr a b s) = tx_avg_hif_process_time s" for a b s
    by (cases a) simp_all
qed simp

interpretation tx_max_hif_process_time_field: stat_field tx_max_hif_process_time STA_STATISTICS_MAX_HIF_PROCESS_TIME "\<lambda>b _. nla_get_u32 b"
proof unfold_locales
  show "a \<noteq> STA_STATISTICS_MAX_HIF_PROCESS_TIME \<Longrightarrow> tx_max_hif_process_time (set_attr a b s) = tx_max_hif_process_time s" for a b s
    by (cases a) simp_all
qed simp

interpretation tc_buf_full_cnt_field: stat_field tc_buf_full_cnt STA_STATISTICS_TC_EMPTY_CNT_ARRAY "\<lambda>b old. nla_memcpy_u32 old b sizeof_tc"
proof unfold_locales
  show "a \<noteq> STA_STATISTICS_TC_EMPTY_CNT_ARRAY \<Longrightarrow> tc_buf_full_cnt (set_attr a b s) = tc_buf_full_cnt s" for a b s
    by (cases a) simp_all
qed simp

interpretation tc_que_len_field: stat_field tc_que_len STA_STATISTICS_TC_QUE_LEN_ARRAY "\<lambda>b old. nla_memcpy_u32 old b sizeof_tc"
proof unfold_locales
  show "a \<noteq> STA_STATISTICS_TC_QUE_LEN_ARRAY \<Longrightarrow> tc_que_len (set_attr a b s) = tc_que_len s" for a b s
    by (cases a) simp_all
qed simp

interpretation tc_avg_que_len_field: stat_field tc_avg_que_len STA_STATISTICS_TC_AVG_QUE_LEN_ARRAY "\<lambda>b old. nla_memcpy_u32 old b sizeof_tc"
proof unfold_locales
  show "a \<noteq> STA_STATISTICS_TC_AVG_QUE_LEN_ARRAY \<Longrightarrow> tc_avg_que_len (set_attr a b s) = tc_avg_que_len s" for a b s
    by (cases a) simp_all
qed simp

interpretation tc_cur_que_len_field: stat_field tc_cur_que_len STA_STATISTICS_TC_CUR_QUE_LEN_ARRAY "\<lambda>b old. nla_memcpy_u32 old b sizeof_tc"
proof unfold_locales
  show "a \<noteq> STA_STATISTICS_TC_CUR_QUE_LEN_ARRAY \<Longrightarrow> tc_cur_que_len (set_attr a b s) = tc_cur_que_len s" for a b s
    by (cases a) simp_all
qed simp

interpretation enqueue_total_cnt_field: stat_field enqueue_total_cnt STA_STATISTICS_ENQUEUE "\<lambda>b _. nla_get_u32 b"
proof unfold_locales
  show "a \<noteq> STA_STATISTICS_ENQUEUE \<Longrightarrow> enqueue_total_cnt (set_attr a b s) = enqueue_total_cnt s" for a b s
    by (cases a) simp_all
qed simp

interpretation dequeue_total_cnt_field: stat_field dequeue_total_cnt STA_STATISTICS_DEQUEUE "\<lambda>b _. nla_get_u32 b"
proof unfold_locales
  show "a \<noteq> STA_STATISTICS_DEQUEUE \<Longrightarrow> dequeue_total_cnt (set_attr a b s) = dequeue_total_cnt s" for a b s
    by (cases a) simp_all
qed simp

interpretation enqueue_sta_total_cnt_field: stat_field enqueue_sta_total_cnt STA_STATISTICS_STA_ENQUEUE "\<lambda>b _. nla_get_u32 b"
proof unfold_locales
  show "a \<noteq> STA_STATISTICS_STA_ENQUEUE \<Longrightarrow> enqueue_sta_total_cnt (set_attr a b s) = enqueue_sta_total_cnt s" for a b s
    by (cases a) simp_all
qed simp

interpretation dequeue_sta_total_cnt_field: stat_field dequeue_sta_total_cnt STA_STATISTICS_STA_DEQUEUE "\<lambda>b _. nla_get_u32 b"
proof unfold_locales
  show "a \<noteq> STA_STATISTICS_STA_DEQUEUE \<Longrightarrow> dequeue_sta_total_cnt (set_attr a b s) = dequeue_sta_total_cnt s" for a b s
    by (cases a) simp_all
qed simp

interpretation isr_cnt_field: stat_field isr_cnt STA_STATISTICS_IRQ_ISR_CNT "\<lambda>b _. nla_get_u32 b"
proof unfold_locales
  show "a \<noteq> STA_STATISTICS_IRQ_ISR_CNT \<Longrightarrow> isr_cnt (set_attr a b s) = isr_cnt s" for a b s
    by (cases a) simp_all
qed simp

interpretation isr_pass_cnt_field: stat_field isr_pass_cnt STA_STATISTICS_IRQ_ISR_PASS_CNT "\<lambda>b _. nla_get_u32 b"
proof unfold_locales
  show "a \<noteq> STA_STATISTICS_IRQ_ISR_PASS_CNT \<Longrightarrow> isr_pass_cnt (set_attr a b s) = isr_pass_cnt s" for a b s
    by (cases a) simp_all
qed simp

interpretation isr_task_cnt_field: stat_field isr_task_cnt STA_STATISTICS_IRQ_TASK_CNT "\<lambda>b _. nla_get_u32 b"
proof unfold_locales
  show "a \<noteq> STA_STATISTICS_IRQ_TASK_CNT \<Longrightarrow> isr_task_cnt (set_attr a b s) = isr_task_cnt s" for a b s
    by (cases a) simp_all
qed simp

interpretation isr_ab_cnt_field: stat_field isr_ab_cnt STA_STATISTICS_IRQ_AB_CNT "\<lambda>b _. nla_get_u32 b"
proof unfold_locales
  show "a \<noteq> STA_STATISTICS_IRQ_AB_CNT \<Longrightarrow> isr_ab_cnt (set_attr a b s) = isr_ab_cnt s" for a b s
    by (cases a) simp_all
qed simp

interpretation isr_sw_cnt_field: stat_field isr_sw_cnt STA_STATISTICS_IRQ_SW_CNT "\<lambda>b _. nla_get_u32 b"
proof unfold_locales
  show "a \<noteq> STA_STATISTICS_IRQ_SW_CNT \<Longrightarrow> isr_sw_cnt (set_attr a b s) = isr_sw_cnt s" for a b s
    by (cases a) simp_all
qed simp

interpretation isr_tx_cnt_field: stat_field isr_tx_cnt STA_STATISTICS_IRQ_TX_CNT "\<lambda>b _. nla_get_u32 b"
proof unfold_locales
  show "a \<noteq> STA_STATISTICS_IRQ_TX_CNT \<Longrightarrow> isr_tx_cnt (set_attr a b s) = isr_tx_cnt s" for a b s
    by (cases a) simp_all
qed simp

interpretation isr_rx_cnt_field: stat_field isr_rx_cnt STA_STATISTICS_IRQ_RX_CNT "\<lambda>b _. nla_get_u32 b"
proof unfold_locales
  show "a \<noteq> STA_STATISTICS_IRQ_RX_CNT \<Longrightarrow> isr_rx_cnt (set_attr a b s) = isr_rx_cnt s" for a b s
    by (cases a) simp_all
qed simp

interpretation dequeue_no_tc_res_field: stat_field dequeue_no_tc_res STA_STATISTICS_NO_TC_ARRAY "\<lambda>b old. nla_memcpy_u32 old b sizeof_tc"
proof unfold_locales
  show "a \<noteq> STA_STATISTICS_NO_TC_ARRAY \<Longrightarrow> dequeue_no_tc_res (set_attr a b s) = dequeue_no_tc_res s" for a b s
    by (cases a) simp_all
qed simp

interpretation tc_used_res_field: stat_field tc_used_res STA_STATISTICS_TC_USED_ARRAY "\<lambda>b old. nla_memcpy_u32 old b sizeof_tc"
proof unfold_locales
  show "a \<noteq> STA_STATISTICS_TC_USED_ARRAY \<Longrightarrow> tc_used_res (set_attr a b s) = tc_used_res s" for a b s
    by (cases a) simp_all
qed simp

interpretation tc_wanted_res_field: stat_field tc_wanted_res STA_STATISTICS_TC_WANTED_ARRAY "\<lambda>b old. nla_memcpy_u32 old b sizeof_tc"
proof unfold_locales
  show "a \<noteq> STA_STATISTICS_TC_WANTED_ARRAY \<Longrightarrow> tc_wanted_res (set_attr a b s) = tc_wanted_res s" for a b s
    by (cases a) simp_all
qed simp

interpretation tc_back_count_field: stat_field tc_back_count STA_STATISTICS_RB_ARRAY "\<lambda>b old. nla_memcpy_u32 old b sizeof_tc"
proof unfold_locales
  show "a \<noteq> STA_STATISTICS_RB_ARRAY \<Longrightarrow> tc_back_count (set_attr a b s) = tc_back_count s" for a b s
    by (cases a) simp_all
qed simp

interpretation reserved_field: stat_field reserved STA_STATISTICS_RESERVED_ARRAY "\<lambda>b old. nla_memcpy old b 32"
proof unfold_locales
  show "a \<noteq> STA_STATISTICS_RESERVED_ARRAY \<Longrightarrow> reserved (set_attr a b s) = reserved s" for a b s
    by (cases a) simp_all
qed simp

lemmas field_loops =
  version_field.loop addr_field.loop link_score_field.loop flag_field.loop per_field.loop rssi_field.loop phy_mode_field.loop tx_rate_field.loop tx_fail_cnt_field.loop tx_timeout_cnt_field.loop tx_avg_air_time_field.loop tx_total_cnt_field.loop tx_exc_threshold_cnt_field.loop tx_avg_process_time_field.loop tx_max_process_time_field.loop tx_avg_hif_process_time_field.loop tx_max_hif_process_time_field.loop tc_buf_full_cnt_field.loop tc_que_len_field.loop tc_avg_que_len_field.loop tc_cur_que_len_field.loop enqueue_total_cnt_field.loop dequeue_total_cnt_field.loop enqueue_sta_total_cnt_field.loop dequeue_sta_total_cnt_field.loop isr_cnt_field.loop isr_pass_cnt_field.loop isr_task_cnt_field.loop isr_ab_cnt_field.loop isr_sw_cnt_field.loop isr_tx_cnt_field.loop isr_rx_cnt_field.loop dequeue_no_tc_res_field.loop tc_used_res_field.loop tc_wanted_res_field.loop tc_back_count_field.loop reserved_field.loop

text \<open>
  C27: an answer that parses sets each member of the statistics from its own attribute, when the answer has it, and
  leaves it alone otherwise; an answer without the test data, or one that does not parse,
  changes nothing.
\<close>

theorem statistics_handler_fields:
  "let s2 = testmode_sta_statistics_handler E msg s in
    case nla_testdata E msg of
      None \<Rightarrow> s2 = s
    | Some nested \<Rightarrow>
        (case nla_parse_nested E nested sta_policy of
           None \<Rightarrow> s2 = s
         | Some sinfo \<Rightarrow>
             version s2 = (case sinfo STA_STATISTICS_VERSION of None \<Rightarrow> version s | Some b \<Rightarrow> nla_get_u8 b) \<and>
             addr s2 = (case sinfo STA_STATISTICS_MAC of None \<Rightarrow> addr s | Some b \<Rightarrow> nla_memcpy (addr s) b ETH_ALEN) \<and>
             link_score s2 = (case sinfo STA_STATISTICS_LINK_SCORE of None \<Rightarrow> link_score s | Some b \<Rightarrow> nla_get_u32 b) \<and>
             flag s2 = (case sinfo STA_STATISTICS_FLAG of None \<Rightarrow> flag s | Some b \<Rightarrow> nla_get_u32 b) \<and>
             per s2 = (case sinfo STA_STATISTICS_PER of None \<Rightarrow> per s | Some b \<Rightarrow> nla_get_u8 b) \<and>
             rssi s2 = (case sinfo STA_STATISTICS_RSSI of None \<Rightarrow> rssi s | Some b \<Rightarrow> (int (unat (nla_get_u8 b)) - 220) sdiv 2) \<and>
             phy_mode s2 = (case sinfo STA_STATISTICS_PHY_MODE of None \<Rightarrow> phy_mode s | Some b \<Rightarrow> nla_get_u32 b) \<and>
             tx_rate s2 = (case sinfo STA_STATISTICS_TX_RATE of None \<Rightarrow> tx_rate s | Some b \<Rightarrow> of_nat (unat (nla_get_u16 b)) / 2) \<and>
             tx_fail_cnt s2 = (case sinfo STA_STATISTICS_FAIL_CNT of None \<Rightarrow> tx_fail_cnt s | Some b \<Rightarrow> nla_get_u32 b) \<and>
             tx_timeout_cnt s2 = (case sinfo STA_STATISTICS_TIMEOUT_CNT of None \<Rightarrow> tx_timeout_cnt s | Some b \<Rightarrow> nla_get_u32 b) \<and>
             tx_avg_air_time s2 = (case sinfo STA_STATISTICS_AVG_AIR_TIME of None \<Rightarrow> tx_avg_air_time s | Some b \<Rightarrow> nla_get_u32 b) \<and>
             tx_total_cnt s2 = (case sinfo STA_STATISTICS_TOTAL_CNT of None \<Rightarrow> tx_total_cnt s | Some b \<Rightarrow> nla_get_u32 b) \<and>
             tx_exc_threshold_cnt s2 = (case sinfo STA_STATISTICS_THRESHOLD_CNT of None \<Rightarrow> tx_exc_threshold_cnt s | Some b \<Rightarrow> nla_get_u32 b) \<and>
             tx_avg_process_time s2 = (case sinfo STA_STATISTICS_AVG_PROCESS_TIME of None \<Rightarrow> tx_avg_process_time s | Some b \<Rightarrow> nla_get_u32 b) \<and>
             tx_max_process_time s2 = (case sinfo STA_STATISTICS_MAX_PROCESS_TIME of None \<Rightarrow> tx_max_process_time s | Some b \<Rightarrow> nla_get_u32 b) \<and>
             tx_avg_hif_process_time s2 = (case sinfo STA_STATISTICS_AVG_HIF_PROCESS_TIME of None \<Rightarrow> tx_avg_hif_process_time s | Some b \<Rightarrow> nla_get_u32 b) \<and>
             tx_max_hif_process_time s2 = (case sinfo STA_STATISTICS_MAX_HIF_PROCESS_TIME of None \<Rightarrow> tx_max_hif_process_time s | Some b \<Rightarrow> nla_get_u32 b) \<and>
             tc_buf_full_cnt s2 = (case sinfo STA_STATISTICS_TC_EMPTY_CNT_ARRAY of None \<Rightarrow> tc_buf_full_cnt s | Some b \<Rightarrow> nla_memcpy_u32 (tc_buf_full_cnt s) b (4 * 4)) \<and>
             tc_que_len s2 = (case sinfo STA_STATISTICS_TC_QUE_LEN_ARRAY of None \<Rightarrow> tc_que_len s | Some b \<Rightarrow> nla_memcpy_u32 (tc_que_len s) b (4 * 4)) \<and>
             tc_avg_que_len s2 = (case sinfo STA_STATISTICS_TC_AVG_QUE_LEN_ARRAY of None \<Rightarrow> tc_avg_que_len s | Some b \<Rightarrow> nla_memcpy_u32 (tc_avg_que_len s) b (4 * 4)) \<and>
             tc_cur_que_len s2 = (case sinfo STA_STATISTICS_TC_CUR_QUE_LEN_ARRAY of None \<Rightarrow> tc_cur_que_len s | Some b \<Rightarrow> nla_memcpy_u32 (tc_cur_que_len s) b (4 * 4)) \<and>
             enqueue_total_cnt s2 = (case sinfo STA_STATISTICS_ENQUEUE of None \<Rightarrow> enqueue_total_cnt s | Some b \<Rightarrow> nla_get_u32 b) \<and>
             dequeue_total_cnt s2 = (case sinfo STA_STATISTICS_DEQUEUE of None \<Rightarrow> dequeue_total_cnt s | Some b \<Rightarrow> nla_get_u32 b) \<and>
             enqueue_sta_total_cnt s2 = (case sinfo STA_STATISTICS_STA_ENQUEUE of None \<Rightarrow> enqueue_sta_total_cnt s | Some b \<Rightarrow> nla_get_u32 b) \<and>
             dequeue_sta_total_cnt s2 = (case sinfo STA_STATISTICS_STA_DEQUEUE of None \<Rightarrow> dequeue_sta_total_cnt s | Some b \<Rightarrow> nla_get_u32 b) \<and>
             isr_cnt s2 = (case sinfo STA_STATISTICS_IRQ_ISR_CNT of None \<Rightarrow> isr_cnt s | Some b \<Rightarrow> nla_get_u32 b) \<and>
             isr_pass_cnt s2 = (case sinfo STA_STATISTICS_IRQ_ISR_PASS_CNT of None \<Rightarrow> isr_pass_cnt s | Some b \<Rightarrow> nla_get_u32 b) \<and>
             isr_task_cnt s2 = (case sinfo STA_STATISTICS_IRQ_TASK_CNT of None \<Rightarrow> isr_task_cnt s | Some b \<Rightarrow> nla_get_u32 b) \<and>
             isr_ab_cnt s2 = (case sinfo STA_STATISTICS_IRQ_AB_CNT of None \<Rightarrow> isr_ab_cnt s | Some b \<Rightarrow> nla_get_u32 b) \<and>
             isr_sw_cnt s2 = (case sinfo STA_STATISTICS_IRQ_SW_CNT of None \<Rightarrow> isr_sw_cnt s | Some b \<Rightarrow> nla_get_u32 b) \<and>
             isr_tx_cnt s2 = (case sinfo STA_STATISTICS_IRQ_TX_CNT of None \<Rightarrow> isr_tx_cnt s | Some b \<Rightarrow> nla_get_u32 b) \<and>
             isr_rx_cnt s2 = (case sinfo STA_STATISTICS_IRQ_RX_CNT of None \<Rightarrow> isr_rx_cnt s | Some b \<Rightarrow> nla_get_u32 b) \<and>
             dequeue_no_tc_res s2 = (case sinfo STA_STATISTICS_NO_TC_ARRAY of None \<Rightarrow> dequeue_no_tc_res s | Some b \<Rightarrow> nla_memcpy_u32 (dequeue_no_tc_res s) b (4 * 4)) \<and>
             tc_used_res s2 = (case sinfo STA_STATISTICS_TC_USED_ARRAY of None \<Rightarrow> tc_used_res s | Some b \<Rightarrow> nla_memcpy_u32 (tc_used_res s) b (4 * 4)) \<and>
             tc_wanted_res s2 = (case sinfo STA_STATISTICS_TC_WANTED_ARRAY of None \<Rightarrow> tc_wanted_res s | Some b \<Rightarrow> nla_memcpy_u32 (tc_wanted_res s) b (4 * 4)) \<and>
             tc_back_count s2 = (case sinfo STA_STATISTICS_RB_ARRAY of None \<Rightarrow> tc_back_count s | Some b \<Rightarrow> nla_memcpy_u32 (tc_back_count s) b (4 * 4)) \<and>
             reserved s2 = (case sinfo STA_STATISTICS_RESERVED_ARRAY of None \<Rightarrow> reserved s | Some b \<Rightarrow> nla_memcpy (reserved s) b 32))"
proof (cases "nla_testdata E msg")
  case None
  then show ?thesis by (simp add: testmode_sta_statistics_handler_def)
next
  case testdata: (Some nested)
  show ?thesis
  proof (cases "nla_parse_nested E nested sta_policy")
    case None
    with testdata show ?thesis by (simp add: testmode_sta_statistics_handler_def)
  next
    case (Some sinfo)
    with testdata have "testmode_sta_statistics_handler E msg s = fold (set_attr_if sinfo) sta_attrs s"
      by (simp add: testmode_sta_statistics_handler_def handler_loop [simplified])
    then show ?thesis
      unfolding Let_def testdata Some option.case
      by (simp only: field_loops rssi_of_def rate_of_def sizeof_tc_def TC_DATA_NUM_def simp_thms)
  qed
qed

section \<open>The invariant of the statistics\<close>

text \<open>
  What each array of the structure holds is as long as the header declares it, so that nothing was written past it; the
  signal strength fits the scale of the driver's byte, and the rate is a half of a 16-bit number.
\<close>

definition stats_wf :: "wpa_driver_sta_statistics_s \<Rightarrow> bool" where
  "stats_wf st \<longleftrightarrow>
     length (addr st) = 6 \<and> length (reserved st) = 32 \<and>
     (\<forall>ws \<in> {tc_buf_full_cnt st, tc_que_len st, tc_back_count st, dequeue_no_tc_res st, tc_wanted_res st,
        tc_used_res st, tc_avg_que_len st, tc_cur_que_len st}. length ws = 4) \<and>
     - 110 \<le> rssi st \<and> rssi st \<le> 17 \<and> (\<exists>n < 65536. tx_rate st = of_nat n / 2)"

lemma length_nla_memcpy: "count \<le> length dst \<Longrightarrow> length (nla_memcpy dst b count) = length dst"
  by (simp add: nla_memcpy_def Let_def)

lemma length_bytes_words [simp]: "length (bytes_words n b) = n"
  by (induction n arbitrary: b) simp_all

lemma length_words_bytes [simp]: "length (words_bytes ws) = 4 * length ws"
  by (induction ws) (simp_all add: words_bytes_def)

text \<open>A copy fits when its count is at most the size of the array; a longer one does not.\<close>

lemma length_nla_memcpy_u32:
  "count \<le> 4 * length ws \<Longrightarrow> length (nla_memcpy_u32 ws b count) = length ws"
  by (simp add: nla_memcpy_u32_def length_nla_memcpy)

lemma nla_memcpy_u32_overrun:
  "4 * length ws < count \<Longrightarrow> 4 * length ws < length b \<Longrightarrow> length ws < length (nla_memcpy_u32 ws b count)"
  by (simp add: nla_memcpy_u32_def nla_memcpy_def)

lemma rssi_scale: "- 110 \<le> (uint (x :: u8) - 220) sdiv 2 \<and> (uint x - 220) sdiv 2 \<le> 17"
proof -
  have "uint x < 2 ^ LENGTH(8)" by (rule unsigned_less)
  then have "0 \<le> uint x" "uint x \<le> 255" by simp_all
  moreover from this have "(220 - uint x) div 2 \<le> 110" by presburger
  ultimately show ?thesis
    by (cases "uint x < 220") (auto simp: signed_divide_int_def sgn_if)
qed

lemma rate_scale: "\<exists>n < 65536. (unsigned (x :: u16) :: rat) = of_nat n"
proof -
  have "unat x < 2 ^ LENGTH(16)" by (rule unsigned_less)
  then show ?thesis by (intro exI [of _ "unat x"]) simp
qed

lemma set_attr_wf: "stats_wf s \<Longrightarrow> stats_wf (set_attr a b s)"
  by (cases a) (simp_all add: stats_wf_def length_nla_memcpy length_nla_memcpy_u32 rssi_scale rate_scale
    ETH_ALEN_def sizeof_tc_def TC_DATA_NUM_def)

lemma handler_wf: "stats_wf s \<Longrightarrow> stats_wf (testmode_sta_statistics_handler E msg s)"
proof -
  have "stats_wf (fold (set_attr_if sinfo) as s)" if "stats_wf s" for sinfo as and s
    using that by (induction as arbitrary: s) (simp_all add: set_attr_if_def set_attr_wf split: option.split)
  then show "stats_wf s \<Longrightarrow> stats_wf (testmode_sta_statistics_handler E msg s)"
    by (simp add: testmode_sta_statistics_handler_def handler_loop [simplified] split: option.split)
qed

lemma replies_wf: "stats_wf s \<Longrightarrow> stats_wf (fold (testmode_sta_statistics_handler E) replies s)"
  by (induction replies arbitrary: s) (simp_all add: handler_wf)

lemma zero_stats_wf: "stats_wf zero_stats"
  by (simp add: stats_wf_def zero_stats_def ETH_ALEN_def TC_DATA_NUM_def exI [of _ 0])

text \<open>
  C28: no answer makes a copy run past its member: however many answers the driver sends, and however long
  their attributes are, each of the eight arrays of words takes at most its four words, the address its six bytes and the
  reserved block its 32 bytes. The signal strength lies between -110 and 17, and the rate is a half of a 16-bit
  number.
\<close>

theorem statistics_copies_fit:
  assumes "stats_wf st" and "wpa_driver_nl80211_testmode E data st s = (r, st', s')"
  shows "stats_wf st'"
  using assms(2) replies_wf [OF assms(1)] assms(1)
  by (auto simp: wpa_driver_nl80211_testmode_def Let_def split: if_splits prod.splits)

section \<open>The text\<close>

definition set_option_list :: "'a option \<Rightarrow> 'a list" where
  "set_option_list f = (case f of None \<Rightarrow> [] | Some x \<Rightarrow> [x])"

lemma set_option_list_simps [simp]: "set_option_list None = []" "set_option_list (Some x) = [x]"
  by (simp_all add: set_option_list_def)

text \<open>The text of the statistics, and the bad reads of printing all of it.\<close>

definition stat_text :: "('k, 'x) wifi_env_scheme \<Rightarrow> wpa_driver_sta_statistics_s \<Rightarrow> string" where
  "stat_text E st = concat (map fst (stat_pieces E st))"

lemma stat_pieces_faults: "concat (map (set_option_list \<circ> snd) (stat_pieces E st)) = [Out_of_bounds_read]"
proof -
  have "concat (map (set_option_list \<circ> snd) (reserved_pieces res i j)) = []" for res i j
    by (auto simp: reserved_pieces_def)
  then show ?thesis by (simp add: stat_pieces_def)
qed

lemma append_pieces_fits:
  assumes "length (acc @ concat (map fst ps)) < buflen"
  shows "append_pieces buflen ps acc =
    (int (length (acc @ concat (map fst ps))), acc @ concat (map fst ps), concat (map (set_option_list \<circ> snd) ps))"
  using assms
proof (induction ps arbitrary: acc)
  case (Cons p ps)
  obtain t f where p: "p = (t, f)" by (cases p)
  have "length t < buflen - length acc" using Cons.prems p by simp
  moreover have "append_pieces buflen ps (acc @ t) =
      (int (length ((acc @ t) @ concat (map fst ps))), (acc @ t) @ concat (map fst ps),
       concat (map (set_option_list \<circ> snd) ps))"
    using Cons.prems p by (intro Cons.IH) simp
  ultimately show ?case by (cases f) (simp_all add: p comp_def)
qed simp

lemma append_pieces_full:
  assumes "buflen \<le> length (acc @ concat (map fst ps))" and "length acc < buflen \<or> ps \<noteq> []"
  shows "fst (append_pieces buflen ps acc) = 0"
    and "fst (snd (append_pieces buflen ps acc)) = take (buflen - 1) (acc @ concat (map fst ps))"
proof -
  have "fst (append_pieces buflen ps acc) = 0 \<and>
      fst (snd (append_pieces buflen ps acc)) = take (buflen - 1) (acc @ concat (map fst ps))"
    using assms
  proof (induction ps arbitrary: acc)
    case (Cons p ps)
    obtain t f where p: "p = (t, f)" by (cases p)
    show ?case
    proof (cases "length t \<ge> buflen - length acc")
      case True
      then show ?thesis by (simp add: p Let_def)
    next
      case False
      then have "length (acc @ t) < buflen" by simp
      with Cons.IH [of "acc @ t"] Cons.prems(1) p False show ?thesis
        by (simp add: Let_def split_beta)
    qed
  qed simp
  then show "fst (append_pieces buflen ps acc) = 0"
    and "fst (snd (append_pieces buflen ps acc)) = take (buflen - 1) (acc @ concat (map fst ps))"
    by simp_all
qed

text \<open>The length of the text: no member prints longer than its type allows.\<close>

lemma length_line_d [simp]: "length (line_d name v) = length name + length (fmt_d v) + 2"
  by (simp add: line_d_def)

lemma length_four_d_le: "length (four_d name ws) \<le> length name + 49"
  using length_fmt_d_sint [of "ws ! 0"] length_fmt_d_sint [of "ws ! 1"] length_fmt_d_sint [of "ws ! 2"]
    length_fmt_d_sint [of "ws ! 3"] by (simp add: four_d_def)

lemma length_fmt_1f_le:
  assumes "n < 65536"
  shows "length (fmt_1f (of_nat n / 2)) \<le> 7"
proof -
  have "\<lfloor>(of_nat n / 2 :: rat) * 10 + 1 / 2\<rfloor> = int (5 * n)"
    by (rule floor_unique) simp_all
  then have "fmt_1f (of_nat n / 2) = dec (5 * n div 10) @ ''.'' @ dec (5 * n mod 10)"
    by (simp add: fmt_1f_def Let_def nat_mult_distrib)
  moreover have "length (dec (5 * n div 10)) \<le> 5"
    using assms by (intro length_dec_le) simp_all
  moreover have "length (dec (5 * n mod 10)) \<le> 1"
    by (intro length_dec_le) simp_all
  ultimately show ?thesis by simp
qed

lemma length_reserved_pieces:
  "length (concat (map fst (reserved_pieces res 0 16))) = 36"
  "length (concat (map fst (reserved_pieces res 16 32))) = 36"
  by (simp_all add: reserved_pieces_def upt_rec)

lemma stat_text_bound:
  assumes "stats_wf st" and "length (mac_text E (addr st)) \<le> 17"
  shows "length (stat_text E st) < 605"
proof -
  obtain n where n: "n < 65536" "tx_rate st = of_nat n / 2"
    using assms(1) by (auto simp: stats_wf_def)
  have "length (fmt_d (rssi st)) \<le> 11"
    using assms(1) by (intro length_fmt_d_le) (simp_all add: stats_wf_def)
  moreover have "length (fmt_d (int (unat (per st)))) \<le> 11"
  proof (rule length_fmt_d_le)
    have "uint (per st) < 2 ^ LENGTH(8)" by (rule unsigned_less)
    then show "int (unat (per st)) < 2 ^ 31" by simp
    show "- (2 ^ 31) \<le> int (unat (per st))" by (rule order_trans [of _ 0]) simp_all
  qed
  moreover have "length (fmt_1f (tx_rate st)) \<le> 7"
    unfolding n(2) by (rule length_fmt_1f_le [OF n(1)])
  moreover note assms(2)
    length_fmt_d_sint [of "link_score st"] length_fmt_d_sint [of "tx_total_cnt st"]
    length_fmt_d_sint [of "tx_exc_threshold_cnt st"] length_fmt_d_sint [of "tx_fail_cnt st"]
    length_fmt_d_sint [of "tx_timeout_cnt st"] length_fmt_d_sint [of "tx_avg_process_time st"]
    length_fmt_d_sint [of "tx_avg_air_time st"]
    length_four_d_le [of "''TC_buf_full_cnt''" "tc_buf_full_cnt st"]
    length_four_d_le [of "''TC_sta_que_len''" "tc_que_len st"]
    length_four_d_le [of "''TC_avg_que_len''" "tc_avg_que_len st"]
    length_four_d_le [of "''TC_cur_que_len''" "tc_cur_que_len st"]
  ultimately show ?thesis
    using length_reserved_pieces [of "reserved st"]
    by (simp add: stat_text_def stat_pieces_def)
qed

section \<open>A supplicant to run the model on\<close>

text \<open>A machine with 64-bit pointers and \<open>long\<close>, on which every call succeeds, with all build options set.\<close>

definition wifi_demo :: "unit wifi_env" where
  "wifi_demo =
     \<lparr>k_open = (\<lambda>k path fl. (5, 0, k)),
      k_write = (\<lambda>k fd bytes. (int (length bytes), 0, k)),
      k_close = (\<lambda>k fd. (0, 0, k)),
      k_access = (\<lambda>k path m. (0, 0, k)),
      k_nanosleep = (\<lambda>k req. (0, 0, req, k)),
      k_malloc = (\<lambda>k. (1, k)),
      k_socket = (\<lambda>k d. (4, 0, k)),
      k_setsockopt = (\<lambda>k fd. (0, 0, k)),
      k_connect = (\<lambda>k fd path. (0, 0, k)),
      k_ioctl = (\<lambda>k fd n arg. (0, 0, k)),
      k_fdopen = (\<lambda>k fd. (True, 0, k)),
      k_stdio = (\<lambda>k fd op. (0, 0, k)),
      k_fread = (\<lambda>k fd n. ([], k)),
      k_property_set = (\<lambda>k key v. k),
      IFNAMSIZ = 16, SIOCDEVPRIVATE = 35312,
      k_nlmsg_alloc = (\<lambda>k. (True, k)),
      nla_put_ok = (\<lambda>data. length data < 4000),
      k_send_recv = (\<lambda>k data. (0, [], k)),
      nla_testdata = (\<lambda>msg. None),
      nla_parse_nested = (\<lambda>nested pol. None),
      hwaddr_aton = (\<lambda>t. if length t = 17 then Some [2, 0, 0, 0, 0, 1] else None),
      mac_text = (\<lambda>mac. ''02:00:00:00:00:01''),
      ptr_bytes = [0, 1, 2, 3, 4, 5, 6, 7],
      LONG_BITS = 64,
      DRV_NUMBER_SEQUENTIAL_ERRORS = 4,
      WPAS_MODE_INFRA = 0, WPAS_MODE_AP = 2, WPAS_MODE_P2P_GO = 3,
      WPA_FREQ_USED_BY_INFRA_STATION = 1, WPA_FREQ_USED_BY_P2P_CLIENT = 2,
      REGDOM_SET_BY_USER = 1, REGDOM_TYPE_COUNTRY = 2,
      drv_get_bssid = (\<lambda>k ifname. 0),
      k_random = (\<lambda>k. (7, k)),
      k_iface_flags = (\<lambda>k ifname up. (0, k)),
      k_deauthenticate = (\<lambda>k. (0, k)),
      CONFIG_HOTSPOT_MGR_SUPPORT = True, CONFIG_MTK_WFD_SINK = True, CONFIG_MTK_SCC_MCC = True,
      CONFIG_MTK_STAGE_SCAN = True, MTK_TC1_FEATURE = False\<rparr>"

definition wifi_start :: "'k \<Rightarrow> 'k wifi" where
  "wifi_start k = \<lparr>kst = k, errno = 0, trace = [], drv_errors = 0, user_force_band = 0, p2p = None, nl_msgs = 0,
     ub = []\<rparr>"

text \<open>A driver whose answers are twice as long as the largest member.\<close>

definition long_answers :: "unit wifi_env" where
  "long_answers = wifi_demo\<lparr>k_send_recv := \<lambda>k data. (0, [[]], k), nla_testdata := \<lambda>msg. Some msg,
     nla_parse_nested := \<lambda>nested pol. Some (\<lambda>a. Some (replicate 64 7))\<rparr>"

theorem statistics_copies_fit_witness:
  "\<exists>st'. fst (snd (wpa_driver_nl80211_testmode long_answers (cells (le32 0x01000010)) zero_stats (wifi_start ()))) = st'
     \<and> stats_wf st'"
proof -
  obtain r st' s' where "wpa_driver_nl80211_testmode long_answers (cells (le32 0x01000010)) zero_stats (wifi_start ()) = (r, st', s')"
    by (rule prod_cases3)
  with statistics_copies_fit [OF zero_stats_wf this] show ?thesis by simp
qed

section \<open>What is printed\<close>

text \<open>
  C30: the text is printed completely or reported as nothing: with a buffer that holds the text and its
  terminator the result is the length of the text; with a smaller one the result is zero and the buffer
  holds a prefix. Printing all of it reads one byte behind the reserved bytes.
\<close>

theorem print_all_or_nothing:
  "case print_sta_statistics E st buflen of (r, text, bad) \<Rightarrow>
     if length (stat_text E st) < buflen
     then r = int (length (stat_text E st)) \<and> text = stat_text E st \<and> bad = [Out_of_bounds_read]
     else r = 0 \<and> text = take (buflen - 1) (stat_text E st)"
proof (cases "length (stat_text E st) < buflen")
  case True
  then show ?thesis
    using append_pieces_fits [of "[]" "stat_pieces E st" buflen] stat_pieces_faults [of E st]
    by (simp add: print_sta_statistics_def stat_text_def)
next
  case False
  have "stat_pieces E st \<noteq> []" by (simp add: stat_pieces_def)
  with False append_pieces_full [of buflen "[]" "stat_pieces E st"] show ?thesis
    by (simp add: print_sta_statistics_def stat_text_def split_beta)
qed

lemma print_complete:
  assumes "stats_wf st" and "length (mac_text E (addr st)) \<le> 17" and "605 \<le> buflen"
  shows "print_sta_statistics E st buflen = (int (length (stat_text E st)), stat_text E st, [Out_of_bounds_read])"
  using append_pieces_fits [of "[]" "stat_pieces E st" buflen] stat_pieces_faults [of E st]
    stat_text_bound [OF assms(1,2)] assms(3)
  by (simp add: print_sta_statistics_def stat_text_def)

lemma stat_text_nonempty: "0 < length (stat_text E st)"
  by (simp add: stat_text_def stat_pieces_def)

text \<open>
  A reply buffer of 605 bytes is always large enough: the request for the statistics of a station
  then fails with -1, or its reply is the whole text of well-formed statistics and its result the
  length of that text, never the zero of a text that did not fit.
\<close>

theorem statistics_reply_complete:
  assumes "\<And>mac. length (mac_text E mac) \<le> 17" and "605 \<le> buflen"
    and "wpa_driver_get_sta_statistics E address buflen s = (r, reply, s')"
  shows "r = - 1 \<and> reply = None \<or>
    (\<exists>st. stats_wf st \<and> reply = Some (stat_text E st) \<and> r = int (length (stat_text E st)) \<and> 0 < r \<and>
      hwaddr_aton E address \<noteq> None)"
proof (cases "hwaddr_aton E address")
  case None
  with assms(3) show ?thesis by (simp add: wpa_driver_get_sta_statistics_def)
next
  case (Some mac)
  obtain q st s1 where call: "wpas_get_sta_statistics E mac zero_stats s = (q, st, s1)"
    by (rule prod_cases3)
  have "stats_wf st"
    using call replies_wf [OF zero_stats_wf] zero_stats_wf
    by (auto simp: wpas_get_sta_statistics_def wpa_driver_nl80211_testmode_def Let_def split: if_splits prod.splits)
  then show ?thesis
    using assms(3) Some call print_complete [OF _ assms(1,2)] stat_text_nonempty [of E st]
    by (auto simp: wpa_driver_get_sta_statistics_def wpas_p2p_get_sta_mac_def split: if_splits)
qed

theorem statistics_reply_complete_witness:
  "\<exists>st. fst (wpa_driver_get_sta_statistics wifi_demo ''02:00:00:00:00:01'' 4096 (wifi_start ())) =
     int (length (stat_text wifi_demo st))"
proof -
  let ?call = "wpa_driver_get_sta_statistics wifi_demo ''02:00:00:00:00:01'' 4096 (wifi_start ())"
  obtain r reply s' where c: "?call = (r, reply, s')" by (rule prod_cases3)
  have "length (mac_text wifi_demo mac) \<le> 17" for mac by (simp add: wifi_demo_def)
  note * = statistics_reply_complete [OF this _ c]
  have "fst (wpas_get_sta_statistics wifi_demo [2, 0, 0, 0, 0, 1] zero_stats (wifi_start ())) = 0"
    by (simp add: wpas_get_sta_statistics_def wpa_driver_nl80211_testmode_def send_and_recv_msgs_def nlmsg_alloc_def Let_def
        wifi_demo_def get_sta_statistics_params_def split_beta)
  then obtain st s1 where a: "wpas_get_sta_statistics wifi_demo [2, 0, 0, 0, 0, 1] zero_stats (wifi_start ()) = (0, st, s1)"
    by (metis prod.collapse)
  obtain len out bad where p: "print_sta_statistics wifi_demo st 4096 = (len, out, bad)"
    by (rule prod_cases3)
  have "hwaddr_aton wifi_demo ''02:00:00:00:00:01'' = Some [2, 0, 0, 0, 0, 1]"
    by (simp add: wifi_demo_def)
  with c a p have "reply = Some out"
    by (simp add: wpa_driver_get_sta_statistics_def wpas_p2p_get_sta_mac_def)
  with * c show ?thesis by auto
qed

end
