(* ===== verification/Wifi_P2p.thy ===== *)
theory Wifi_P2p
  imports Wifi_Testmode
begin

text \<open>
  The peer-to-peer part of \<^verbatim>\<open>wpa_supplicant_8_lib/mediatek_driver_cmd_nl80211.c\<close>: capabilities, channels of
  frequencies, the choice of an operating channel, and the frequencies in use on the shared radio.
\<close>

section \<open>Capabilities\<close>

text \<open>
  \<open>snprintf\<close> returns the length of the whole text and stores what fits. The buffer is a C string; no
  text means that the buffer was not written.
\<close>

definition snprintf_reply :: "nat \<Rightarrow> string \<Rightarrow> int \<times> string option" where
  "snprintf_reply buflen text =
     (int (length text), if buflen = 0 then None else Some (take (buflen - 1) text))"

definition p2p_get_capability :: "p2p_data \<Rightarrow> string \<Rightarrow> nat \<Rightarrow> int \<times> string option" where
  "p2p_get_capability p cmd buflen =
     (if strncmp_eq (length ''p2p_dev_capa'') cmd ''p2p_dev_capa''
      then snprintf_reply buflen (''p2p_dev_capa='' @ fmt_d (int (unat (dev_capab p))) @ ''\<newline>'')
      else if strncmp_eq (length ''p2p_group_capa'') cmd ''p2p_group_capa'' then (- 1, None)
      else (0, None))"

definition p2p_set_capability :: "('k, 'x) wifi_env_scheme \<Rightarrow> p2p_data \<Rightarrow> string \<Rightarrow> int \<times> p2p_data" where
  "p2p_set_capability E p cmd =
     (if strncmp_eq (length ''p2p_dev_capa '') cmd ''p2p_dev_capa '' then
        let dev_cap = atoi (LONG_BITS E) (drop (length ''p2p_dev_capa '') cmd)
        in (0, p\<lparr>dev_capab := ucast (dev_cap AND 0xff)\<rparr>)
      else if strncmp_eq (length ''p2p_group_capa '') cmd ''p2p_group_capa '' then (- 1, p)
      else (0, p))"

section \<open>Channels\<close>

text \<open>The operating class and the channel of a frequency in MHz; none when the result is -1.\<close>

definition priv_p2p_freq_to_channel :: "u32 \<Rightarrow> (u8 \<times> u8) option" where
  "priv_p2p_freq_to_channel freq =
     (if 2412 \<le> freq \<and> freq \<le> 2472 then
        (if (freq - 2407) mod 5 \<noteq> 0 then None else Some (81, ucast ((freq - 2407) div 5)))
      else if freq = 2484 then Some (82, 14)
      else if 5180 \<le> freq \<and> freq \<le> 5240 then
        (if (freq - 5000) mod 5 \<noteq> 0 then None else Some (115, ucast ((freq - 5000) div 5)))
      else if 5745 \<le> freq \<and> freq \<le> 5805 then
        (if (freq - 5000) mod 5 \<noteq> 0 then None else Some (124, ucast ((freq - 5000) div 5)))
      else None)"

text \<open>The settings of the supplicant's configuration file: zero means not set.\<close>

record p2p_conf =
  p2p_oper_reg_class :: u8
  p2p_oper_channel :: u8

text \<open>
  The result of the conversion is not checked: for a frequency without a channel the two variables
  are read uninitialised. The random number is that of the supplicant.
\<close>

definition p2p_wfd_sink_config_scc ::
  "('k, 'x) wifi_env_scheme \<Rightarrow> p2p_conf \<Rightarrow> bool \<Rightarrow> u32 \<Rightarrow> 'k wifi \<Rightarrow> int \<times> 'k wifi" where
  "p2p_wfd_sink_config_scc E conf scc oper_freq s =
     (case p2p s of
        None \<Rightarrow> (0, s)
      | Some p \<Rightarrow>
          if scc \<and> oper_freq \<noteq> 0 then
            let found = priv_p2p_freq_to_channel oper_freq;
                cls = map_option fst found;
                ch = map_option snd found;
                p' = p\<lparr>op_channel := ch, op_reg_class := cls,
                  channels := (channels p)\<lparr>reg_classes := 1, channels0 := 1, reg_class0 := cls, channel00 := ch\<rparr>\<rparr>;
                s' = s\<lparr>p2p := Some p'\<rparr>
            in (0, if found = None then note_ub Uninit_read s' else s')
          else
            let (p', s') =
              (if p2p_oper_reg_class conf \<noteq> 0 \<and> p2p_oper_channel conf \<noteq> 0 then
                 (p\<lparr>op_reg_class := Some (p2p_oper_reg_class conf),
                    op_channel := Some (p2p_oper_channel conf), cfg_op_channel := 1\<rparr>, s)
               else
                 let (r, k) = k_random E (kst s)
                 in (p\<lparr>op_reg_class := Some 81, op_channel := Some (ucast (1 + (r mod 3) * 5)),
                       cfg_op_channel := 0\<rparr>, s\<lparr>kst := k\<rparr>))
            in (0, s'\<lparr>p2p := Some (p'\<lparr>channels := cfg_channels p'\<rparr>)\<rparr>))"

section \<open>Frequencies in use\<close>

record used_freq =
  uf_freq :: int
  uf_flags :: int

text \<open>The frequency an interface contributes, if any.\<close>

definition iface_freq ::
  "('k, 'x) wifi_env_scheme \<Rightarrow> 'k \<Rightarrow> wpa_iface \<Rightarrow> (int \<times> wpa_ssid) option" where
  "iface_freq E k ifs =
     (case current_ssid ifs of
        None \<Rightarrow> None
      | Some ssid \<Rightarrow>
          if assoc_freq ifs = 0 then None
          else if ssid_mode ssid = WPAS_MODE_AP E \<or> ssid_mode ssid = WPAS_MODE_P2P_GO E
            then Some (ssid_frequency ssid, ssid)
          else if drv_get_bssid E k (if_name ifs) = 0 then Some (assoc_freq ifs, ssid)
          else None)"

text \<open>The first entry with the frequency, or the number of entries.\<close>

fun find_freq :: "int \<Rightarrow> used_freq list \<Rightarrow> nat" where
  "find_freq f [] = 0"
| "find_freq f (u # us) = (if uf_freq u = f then 0 else Suc (find_freq f us))"

text \<open>One turn of the loop over the interfaces, on the entries collected so far.\<close>

definition add_freq ::
  "('k, 'x) wifi_env_scheme \<Rightarrow> int \<Rightarrow> wpa_ssid \<Rightarrow> used_freq list \<Rightarrow> used_freq list" where
  "add_freq E f ssid us =
     (let i = find_freq f us;
          us1 = (if i = length us then us @ [\<lparr>uf_freq = f, uf_flags = 0\<rparr>] else us)
      in if ssid_mode ssid = WPAS_MODE_INFRA E
         then us1[i := (us1 ! i)\<lparr>uf_flags := (if ssid_p2p_group ssid \<noteq> 0
                then WPA_FREQ_USED_BY_P2P_CLIENT E else WPA_FREQ_USED_BY_INFRA_STATION E)\<rparr>]
         else us1)"

fun mtk_get_shared_radio_freqs_data ::
  "('k, 'x) wifi_env_scheme \<Rightarrow> 'k \<Rightarrow> nat \<Rightarrow> wpa_iface list \<Rightarrow> used_freq list \<Rightarrow> used_freq list" where
  "mtk_get_shared_radio_freqs_data E k len [] us = us"
| "mtk_get_shared_radio_freqs_data E k len (ifs # rest) us =
     (if length us = len then us
      else case iface_freq E k ifs of
          None \<Rightarrow> mtk_get_shared_radio_freqs_data E k len rest us
        | Some (f, ssid) \<Rightarrow> mtk_get_shared_radio_freqs_data E k len rest (add_freq E f ssid us))"

text \<open>
  The number of frequencies and the array, whose entries behind them stay zero. The temporary array
  is freed again.
\<close>

definition mtk_get_shared_radio_freqs ::
  "('k, 'x) wifi_env_scheme \<Rightarrow> wpa_iface list \<Rightarrow> nat \<Rightarrow> 'k wifi \<Rightarrow> int \<times> int list \<times> 'k wifi" where
  "mtk_get_shared_radio_freqs E ifaces len s =
     (let (p, s1) = c_malloc E s in
      if p = 0 then (- 1, replicate len 0, s1)
      else let us = mtk_get_shared_radio_freqs_data E (kst s1) len ifaces [];
               arr = map uf_freq us @ replicate (len - length us) 0
        in (int (length us), arr, c_free p s1))"

end
