(* ===== verification/Wifi_P2p_Props.thy ===== *)
theory Wifi_P2p_Props
  imports Wifi_P2p Wifi_Stats_Props
begin

text \<open>
  The peer-to-peer part: the capability reads back as it was set, which channel a frequency is, which
  channels the sink mode chooses, and which frequencies of the shared radio are reported.
\<close>

section \<open>Channels\<close>

text \<open>The arithmetic of the conversion on numbers.\<close>

lemma channel_arith:
  fixes b freq :: u32
  assumes "b \<le> freq"
  shows "(freq - b) mod 5 = 0 \<longleftrightarrow> (unat freq - unat b) mod 5 = 0"
    and "unat (ucast ((freq - b) div 5) :: u8) = (unat freq - unat b) div 5 mod 256"
proof -
  have sub: "unat (freq - b) = unat freq - unat (b :: u32)"
    using assms by (rule unat_sub)
  have "unat ((freq - b) mod 5) = (unat freq - unat b) mod 5"
    by (simp add: unat_mod_distrib sub)
  then show "(freq - b) mod 5 = 0 \<longleftrightarrow> (unat freq - unat b) mod 5 = 0"
    by (metis unat_eq_0)
  show "unat (ucast ((freq - b) div 5) :: u8) = (unat freq - unat b) div 5 mod 256"
    by (simp add: unat_ucast8 unat_div_distrib sub)
qed

definition channel_freq :: "u8 \<Rightarrow> u8 \<Rightarrow> nat option" where
  "channel_freq cls ch =
     (let c = unat ch in
      if cls = 81 \<and> 1 \<le> c \<and> c \<le> 13 then Some (2407 + 5 * c)
      else if cls = 82 \<and> c = 14 then Some 2484
      else if cls = 115 \<and> 36 \<le> c \<and> c \<le> 48 then Some (5000 + 5 * c)
      else if cls = 124 \<and> 149 \<le> c \<and> c \<le> 161 then Some (5000 + 5 * c)
      else None)"

lemma u8_eqI: "unat (x :: u8) = unat y \<Longrightarrow> x = y"
  by (simp only: word_unat_eq_iff)

lemma freq_to_channel_sound:
  assumes "priv_p2p_freq_to_channel freq = Some (cls, ch)"
  shows "channel_freq cls ch = Some (unat freq)"
proof -
  let ?n = "unat freq"
  note le = word_le_nat_alt
  consider (a) "2412 \<le> freq" "freq \<le> 2472" | (b) "freq = 2484" | (c) "5180 \<le> freq" "freq \<le> 5240"
    | (d) "5745 \<le> freq" "freq \<le> 5805"
    using assms by (auto simp: priv_p2p_freq_to_channel_def split: if_splits)
  then show ?thesis
  proof cases
    case a
    then have n: "2412 \<le> ?n" "?n \<le> 2472" and b: "2407 \<le> freq" by (simp_all add: le)
    from assms a have m: "(?n - 2407) mod 5 = 0" and ch: "unat ch = (?n - 2407) div 5 mod 256" and cls: "cls = 81"
      using channel_arith [OF b] by (auto simp: priv_p2p_freq_to_channel_def split: if_splits)
    from m obtain k where "?n - 2407 = 5 * k" by auto
    with n ch cls show ?thesis by (auto simp: channel_freq_def Let_def)
  next
    case b
    with assms show ?thesis by (auto simp: priv_p2p_freq_to_channel_def channel_freq_def le)
  next
    case c
    then have n: "5180 \<le> ?n" "?n \<le> 5240" and b: "5000 \<le> freq" by (simp_all add: le)
    from c have "\<not> freq \<le> 2472" "freq \<noteq> 2484" by (auto simp: le)
    with assms c have m: "(?n - 5000) mod 5 = 0" and ch: "unat ch = (?n - 5000) div 5 mod 256" and cls: "cls = 115"
      using channel_arith [OF b] by (auto simp: priv_p2p_freq_to_channel_def split: if_splits)
    from m obtain k where "?n - 5000 = 5 * k" by auto
    with n ch cls show ?thesis by (auto simp: channel_freq_def Let_def)
  next
    case d
    then have n: "5745 \<le> ?n" "?n \<le> 5805" and b: "5000 \<le> freq" by (simp_all add: le)
    from d have "\<not> freq \<le> 2472" "freq \<noteq> 2484" "\<not> freq \<le> 5240" by (auto simp: le)
    with assms d have m: "(?n - 5000) mod 5 = 0" and ch: "unat ch = (?n - 5000) div 5 mod 256" and cls: "cls = 124"
      using channel_arith [OF b] by (auto simp: priv_p2p_freq_to_channel_def split: if_splits)
    from m obtain k where "?n - 5000 = 5 * k" by auto
    with n ch cls show ?thesis by (auto simp: channel_freq_def Let_def)
  qed
qed

lemma freq_to_channel_complete:
  assumes "channel_freq cls ch = Some (unat freq)"
  shows "priv_p2p_freq_to_channel freq = Some (cls, ch)"
proof -
  let ?n = "unat freq" and ?c = "unat ch"
  note le = word_le_nat_alt
  consider (a) "cls = 81" "1 \<le> ?c" "?c \<le> 13" "?n = 2407 + 5 * ?c" | (b) "cls = 82" "?c = 14" "?n = 2484"
    | (c) "cls = 115" "36 \<le> ?c" "?c \<le> 48" "?n = 5000 + 5 * ?c"
    | (d) "cls = 124" "149 \<le> ?c" "?c \<le> 161" "?n = 5000 + 5 * ?c"
    using assms by (auto simp: channel_freq_def Let_def split: if_splits)
  then show ?thesis
  proof cases
    case a
    then have "2412 \<le> freq" "freq \<le> 2472" and b: "2407 \<le> freq" by (simp_all add: le)
    moreover have "ucast ((freq - 2407) div 5) = ch"
      using channel_arith(2) [OF b] a by (intro u8_eqI) simp
    ultimately show ?thesis
      using channel_arith(1) [OF b] a by (simp add: priv_p2p_freq_to_channel_def)
  next
    case b
    then have "unat freq = unat (2484 :: u32)" "unat ch = unat (14 :: u8)" by simp_all
    then have "freq = 2484" "ch = 14" by (simp_all only: word_unat_eq_iff)
    with b(1) show ?thesis by (simp add: priv_p2p_freq_to_channel_def le)
  next
    case c
    then have "5180 \<le> freq" "freq \<le> 5240" "\<not> freq \<le> 2472" "freq \<noteq> 2484" and b: "5000 \<le> freq"
      by (auto simp: le)
    moreover have "ucast ((freq - 5000) div 5) = ch"
      using channel_arith(2) [OF b] c by (intro u8_eqI) simp
    ultimately show ?thesis
      using channel_arith(1) [OF b] c by (simp add: priv_p2p_freq_to_channel_def)
  next
    case d
    then have "5745 \<le> freq" "freq \<le> 5805" "\<not> freq \<le> 2472" "freq \<noteq> 2484" "\<not> freq \<le> 5240" and b: "5000 \<le> freq"
      by (auto simp: le)
    moreover have "ucast ((freq - 5000) div 5) = ch"
      using channel_arith(2) [OF b] d by (intro u8_eqI) simp
    ultimately show ?thesis
      using channel_arith(1) [OF b] d by (simp add: priv_p2p_freq_to_channel_def)
  qed
qed

text \<open>
  C31: a frequency converts to an operating class and a channel exactly when it is the frequency of that
  channel in the four bands: the conversion is the inverse of the channel table, and every other
  frequency is refused.
\<close>

theorem freq_to_channel_inverse:
  "priv_p2p_freq_to_channel freq = Some (cls, ch) \<longleftrightarrow> channel_freq cls ch = Some (unat freq)"
  using freq_to_channel_sound freq_to_channel_complete by blast

section \<open>The operating channel of the sink mode\<close>

text \<open>The data of the peer-to-peer module after the call, and the undefined reads it made.\<close>

lemma random_channel: "(ucast (1 + (r mod 3) * 5 :: u32) :: u8) \<in> {1, 6, 11}"
proof -
  have "unat (r mod 3) < 3"
    by (simp add: unat_mod_distrib)
  then consider "unat (r mod 3) = unat (0 :: u32)" | "unat (r mod 3) = unat (1 :: u32)" | "unat (r mod 3) = unat (2 :: u32)"
    by (simp, linarith)
  then show ?thesis
    by cases (simp_all only: word_unat_eq_iff [symmetric], simp_all)
qed

text \<open>
  In the single-channel mode the operating class and channel, and the only channel offered, are
  those of the given frequency; a frequency without a channel leaves all of them without a value, read
  from variables that were never set. In the multi-channel mode the configured channel is used, or else one of
  the channels 1, 6 and 11, and the configured channels are offered; nothing undefined is read.
\<close>

theorem sink_channel:
  assumes "p2p s = Some p" and "p2p_wfd_sink_config_scc E conf scc freq s = (r, s')"
  shows "\<exists>q. p2p s' = Some q \<and> r = 0 \<and>
    (if scc \<and> freq \<noteq> 0 then
       op_reg_class q = map_option fst (priv_p2p_freq_to_channel freq) \<and>
       op_channel q = map_option snd (priv_p2p_freq_to_channel freq) \<and>
       channels q = (channels p)\<lparr>reg_classes := 1, channels0 := 1, reg_class0 := op_reg_class q, channel00 := op_channel q\<rparr> \<and>
       ub s' = ub s @ (if priv_p2p_freq_to_channel freq = None then [Uninit_read] else [])
     else
       (if p2p_oper_reg_class conf \<noteq> 0 \<and> p2p_oper_channel conf \<noteq> 0
        then op_reg_class q = Some (p2p_oper_reg_class conf) \<and> op_channel q = Some (p2p_oper_channel conf)
        else op_reg_class q = Some 81 \<and> op_channel q \<in> {Some 1, Some 6, Some 11}) \<and>
       channels q = cfg_channels p \<and> ub s' = ub s)"
proof (cases "scc \<and> freq \<noteq> 0")
  case True
  with assms show ?thesis
    by (auto simp: p2p_wfd_sink_config_scc_def Let_def note_ub_def)
next
  case False
  show ?thesis
  proof (cases "p2p_oper_reg_class conf \<noteq> 0 \<and> p2p_oper_channel conf \<noteq> 0")
    case True
    with False assms show ?thesis
      by (auto simp: p2p_wfd_sink_config_scc_def)
  next
    case mcc: False
    obtain x k where rnd: "k_random E (kst s) = (x, k)" by (rule prod.exhaust)
    with False mcc assms random_channel [of x] show ?thesis
      by (auto simp: p2p_wfd_sink_config_scc_def)
  qed
qed

definition demo_channels :: p2p_channels where
  "demo_channels = \<lparr>reg_classes = 2, reg_class0 = Some 81, channels0 = 13, channel00 = Some 1\<rparr>"

definition demo_p2p :: p2p_data where
  "demo_p2p = \<lparr>dev_capab = 0x25, op_reg_class = Some 81, op_channel = Some 1, channels = demo_channels,
     cfg_channels = demo_channels, cfg_op_channel = 0, p2p_use_mcc = 0\<rparr>"

definition wifi_p2p_start :: "unit wifi" where
  "wifi_p2p_start = (wifi_start ())\<lparr>p2p := Some demo_p2p\<rparr>"

theorem sink_channel_witness:
  "\<exists>q. p2p (snd (p2p_wfd_sink_config_scc wifi_demo \<lparr>p2p_oper_reg_class = 0, p2p_oper_channel = 0\<rparr> True 5000 wifi_p2p_start)) = Some q
     \<and> op_channel q = None"
proof -
  let ?conf = "\<lparr>p2p_oper_reg_class = 0, p2p_oper_channel = 0\<rparr> :: p2p_conf"
  have p: "p2p wifi_p2p_start = Some demo_p2p" by (simp add: wifi_p2p_start_def)
  obtain r s' where c: "p2p_wfd_sink_config_scc wifi_demo ?conf True 5000 wifi_p2p_start = (r, s')"
    by (rule prod.exhaust)
  have "priv_p2p_freq_to_channel 5000 = None"
    by (simp add: priv_p2p_freq_to_channel_def)
  with sink_channel [OF p c] c show ?thesis by auto
qed

section \<open>The capability\<close>

lemma strncmp_prefix: "is_c_str t \<Longrightarrow> strncmp_eq (length t) (t @ rest) t"
  by (simp add: strncmp_eq_prefix)

lemma cap_texts:
  "is_c_str ''p2p_dev_capa ''" "is_c_str ''p2p_dev_capa''"
  by (simp_all add: NUL_def)

lemma mask_of_int: "uint (ucast ((word_of_int v :: u32) AND 0xff) :: u8) = v mod 256"
proof -
  have "(word_of_int v :: u32) AND 0xff = take_bit 8 (word_of_int v)"
    by (simp add: take_bit_eq_mask mask_eq_exp_minus_1)
  then have "uint (ucast ((word_of_int v :: u32) AND 0xff) :: u8) = take_bit 8 (take_bit 32 v)"
    by (simp add: unsigned_ucast_eq unsigned_take_bit_eq unsigned_of_int)
  then show ?thesis by (simp add: take_bit_eq_mod mod_mod_cancel)
qed

text \<open>
  C15: the device capability reads back as it was set: after setting it to the decimal text of a number, the
  query answers the number modulo 256, in a buffer of 18 bytes.
\<close>

theorem capability_roundtrip:
  assumes "- (2 ^ 31) \<le> v" and "v < 2 ^ 31" and "32 \<le> LONG_BITS E" and "18 \<le> buflen"
  shows "\<exists>q. p2p_set_capability E p (''p2p_dev_capa '' @ fmt_d v) = (0, q) \<and>
    p2p_get_capability q ''p2p_dev_capa'' buflen =
      (int (length (''p2p_dev_capa='' @ fmt_d (v mod 256) @ ''\<newline>'')),
       Some (''p2p_dev_capa='' @ fmt_d (v mod 256) @ ''\<newline>''))"
proof -
  let ?q = "p\<lparr>dev_capab := ucast (word_of_int v AND 0xff :: u32)\<rparr>"
  have "(2 :: int) ^ 31 \<le> 2 ^ (LONG_BITS E - 1)"
    using assms(3) by (intro power_increasing) auto
  with assms(1,2) have "clamp (LONG_BITS E) v = v"
    by (intro clamp_id) linarith+
  then have "atoi (LONG_BITS E) (fmt_d v) = word_of_int v"
    using strtol_fmt_d [of "[]" "LONG_BITS E" v] by (simp add: atoi_def)
  then have set_cap: "p2p_set_capability E p (''p2p_dev_capa '' @ fmt_d v) = (0, ?q)"
    unfolding p2p_set_capability_def using strncmp_prefix [OF cap_texts(1), of "fmt_d v"] by simp
  have "int (unat (dev_capab ?q)) = v mod 256"
    using mask_of_int [of v] by simp
  then have "p2p_get_capability ?q ''p2p_dev_capa'' buflen =
      snprintf_reply buflen (''p2p_dev_capa='' @ fmt_d (v mod 256) @ ''\<newline>'')"
    unfolding p2p_get_capability_def using strncmp_prefix [OF cap_texts(2), of "[]"] by simp
  moreover have "length (fmt_d (v mod 256)) \<le> 3"
  proof -
    have "\<not> v mod 256 < 0" "nat (v mod 256) < 10 ^ 3" by (simp_all add: nat_less_iff)
    then show ?thesis using length_dec_le [of "nat (v mod 256)" 3] by (simp add: fmt_d_def)
  qed
  ultimately show ?thesis
    using set_cap assms(4) by (simp add: snprintf_reply_def)
qed

theorem capability_roundtrip_witness:
  "\<exists>q. p2p_set_capability wifi_demo demo_p2p (''p2p_dev_capa '' @ fmt_d 293) = (0, q) \<and>
    snd (p2p_get_capability q ''p2p_dev_capa'' 64) = Some ''p2p_dev_capa=37\<newline>''"
proof -
  have "32 \<le> LONG_BITS wifi_demo" by (simp add: wifi_demo_def)
  from capability_roundtrip [OF _ _ this, of 293 64 demo_p2p]
  obtain q where q: "p2p_set_capability wifi_demo demo_p2p (''p2p_dev_capa '' @ fmt_d 293) = (0, q)"
    "snd (p2p_get_capability q ''p2p_dev_capa'' 64) = Some (''p2p_dev_capa='' @ fmt_d (293 mod 256) @ ''\<newline>'')"
    by auto
  have "fmt_d (293 mod 256) = ''37''" by (simp add: fmt_d_def dec.simps)
  with q show ?thesis by auto
qed

section \<open>Frequencies of the shared radio\<close>

text \<open>The frequencies of the interfaces in use, in their order, and the first occurrences of each.\<close>

definition used_freqs :: "('k, 'x) wifi_env_scheme \<Rightarrow> 'k \<Rightarrow> wpa_iface list \<Rightarrow> int list" where
  "used_freqs E k ifaces = map fst (List.map_filter (iface_freq E k) ifaces)"

definition add_new :: "int list \<Rightarrow> int \<Rightarrow> int list" where
  "add_new fs f = (if f \<in> set fs then fs else fs @ [f])"

definition first_seen :: "int list \<Rightarrow> int list" where
  "first_seen fs = foldl add_new [] fs"

lemma add_new_props:
  "distinct fs \<Longrightarrow> distinct (foldl add_new fs gs)" "set (foldl add_new fs gs) = set fs \<union> set gs"
  by (induction gs arbitrary: fs) (auto simp: add_new_def)

lemma add_new_extends: "\<exists>hs. foldl add_new fs gs = fs @ hs"
proof (induction gs arbitrary: fs)
  case (Cons g gs)
  from Cons [of "add_new fs g"] show ?case by (auto simp: add_new_def)
qed simp

lemma find_freq_length: "find_freq f us = length us \<longleftrightarrow> f \<notin> set (map uf_freq us)"
  and find_freq_le: "find_freq f us \<le> length us"
  by (induction us) auto

lemma add_freq_freqs: "map uf_freq (add_freq E f ssid us) = add_new (map uf_freq us) f"
proof -
  have keep: "map uf_freq (vs[i := (vs ! i)\<lparr>uf_flags := x\<rparr>]) = map uf_freq vs" if "i < length vs" for vs i x
    using that by (simp add: map_update) (metis list_update_id nth_map length_map)
  show ?thesis
  proof (cases "f \<in> set (map uf_freq us)")
    case True
    then have "find_freq f us < length us"
      using find_freq_length find_freq_le le_neq_implies_less by blast
    with True keep show ?thesis by (auto simp: add_freq_def Let_def add_new_def)
  next
    case False
    then have "find_freq f us = length us" by (simp add: find_freq_length)
    with False keep [of "length us" "us @ [_]"] show ?thesis
      by (simp add: add_freq_def Let_def add_new_def)
  qed
qed

lemma shared_freqs_data:
  assumes "length us \<le> len"
  shows "map uf_freq (mtk_get_shared_radio_freqs_data E k len ifaces us) =
    take len (foldl add_new (map uf_freq us) (used_freqs E k ifaces))"
  using assms
proof (induction ifaces arbitrary: us)
  case (Cons ifs rest)
  show ?case
  proof (cases "length us = len")
    case True
    from add_new_extends obtain hs
      where "foldl add_new (map uf_freq us) (used_freqs E k (ifs # rest)) = map uf_freq us @ hs" by blast
    with True show ?thesis by simp
  next
    case False
    show ?thesis
    proof (cases "iface_freq E k ifs")
      case None
      with False Cons show ?thesis by (simp add: used_freqs_def)
    next
      case (Some fssid)
      obtain f ssid where fs: "fssid = (f, ssid)" by (cases fssid)
      have "length (add_freq E f ssid us) = length (add_new (map uf_freq us) f)"
        using add_freq_freqs [of E f ssid us] by (metis length_map)
      with False Cons.prems have "length (add_freq E f ssid us) \<le> len"
        by (auto simp: add_new_def)
      from Cons.IH [OF this] Some fs False show ?thesis
        by (simp add: used_freqs_def add_freq_freqs)
    qed
  qed
qed (simp add: used_freqs_def)

text \<open>
  C32: the frequencies reported for the shared radio are the distinct frequencies of the interfaces in use, in
  the order they are first met, as many as the array holds; the rest of the array is zero, and the
  temporary memory is given back. Only a failed allocation reports -1.
\<close>

theorem shared_freqs_reported:
  assumes "mtk_get_shared_radio_freqs E ifaces len s = (num, arr, s')"
  shows "length arr = len \<and>
    (num = - 1 \<and> arr = replicate len 0 \<and> live_blocks (trace s') = live_blocks (trace s) \<or>
     (\<exists>fs k. fs = take len (first_seen (used_freqs E k ifaces)) \<and> num = int (length fs) \<and>
       arr = fs @ replicate (len - length fs) 0 \<and> distinct fs \<and> set fs \<subseteq> set (used_freqs E k ifaces) \<and>
       live_blocks (trace s') = live_blocks (trace s)))"
proof -
  obtain p s1 where m: "c_malloc E s = (p, s1)" by (rule prod.exhaust)
  have tr: "trace s1 = trace s @ [Ev_malloc p]"
    using trace_sys(6) [of E s] m by simp
  show ?thesis
  proof (cases "p = 0")
    case True
    with assms m tr show ?thesis by (auto simp: mtk_get_shared_radio_freqs_def Let_def world_simps)
  next
    case False
    define us where "us = mtk_get_shared_radio_freqs_data E (kst s1) len ifaces []"
    define fs where "fs = map uf_freq us"
    have fs: "fs = take len (first_seen (used_freqs E (kst s1) ifaces))"
      using shared_freqs_data [of "[]" len E "kst s1" ifaces] by (simp add: fs_def us_def first_seen_def)
    then have le: "length fs \<le> len" and d: "distinct fs" and sub: "set fs \<subseteq> set (used_freqs E (kst s1) ifaces)"
      using add_new_props [of "[]" "used_freqs E (kst s1) ifaces"]
      by (auto simp: first_seen_def dest: in_set_takeD)
    have "num = int (length us)" "arr = map uf_freq us @ replicate (len - length us) 0" and s': "s' = c_free p s1"
      using assms m False by (simp_all add: mtk_get_shared_radio_freqs_def us_def Let_def)
    then have num: "num = int (length fs)" and arr: "arr = fs @ replicate (len - length fs) 0"
      by (simp_all add: fs_def)
    have live: "live_blocks (trace s') = live_blocks (trace s)"
      unfolding s' using tr False by (simp add: world_simps)
    show ?thesis
      using fs num arr live d sub le
      by (intro conjI disjI2 exI [of _ fs] exI [of _ "kst s1"]) (simp_all del: length_take)
  qed
qed

definition demo_ifaces :: "wpa_iface list" where
  "demo_ifaces =
     [\<lparr>if_name = ''wlan0'', current_ssid = Some \<lparr>ssid_mode = 0, ssid_frequency = 0, ssid_p2p_group = 0\<rparr>, assoc_freq = 2437\<rparr>,
      \<lparr>if_name = ''p2p0'', current_ssid = Some \<lparr>ssid_mode = 3, ssid_frequency = 5180, ssid_p2p_group = 1\<rparr>, assoc_freq = 5180\<rparr>,
      \<lparr>if_name = ''p2p1'', current_ssid = Some \<lparr>ssid_mode = 0, ssid_frequency = 0, ssid_p2p_group = 1\<rparr>, assoc_freq = 2437\<rparr>]"

theorem shared_freqs_reported_witness:
  "fst (snd (mtk_get_shared_radio_freqs wifi_demo demo_ifaces 4 (wifi_start ()))) = [2437, 5180, 0, 0]"
proof -
  obtain num arr s' where c: "mtk_get_shared_radio_freqs wifi_demo demo_ifaces 4 (wifi_start ()) = (num, arr, s')"
    by (rule prod_cases3)
  have "num \<noteq> - 1"
    using c by (auto simp: mtk_get_shared_radio_freqs_def c_malloc_def wifi_demo_def Let_def)
  moreover have "first_seen (used_freqs wifi_demo k demo_ifaces) = [2437, 5180]" for k
    by (simp add: first_seen_def used_freqs_def demo_ifaces_def iface_freq_def wifi_demo_def add_new_def
        List.map_filter_def)
  ultimately show ?thesis
    using shared_freqs_reported [OF c] c by (auto simp: numeral_eq_Suc)
qed

end
