(* ===== verification/Wifi_Driver.thy ===== *)
theory Wifi_Driver
  imports Wifi_P2p
begin

text \<open>
  The command interpreter of \<^verbatim>\<open>wpa_supplicant_8_lib/mediatek_driver_cmd_nl80211.c\<close>: which command a text is,
  what each command does, and the private command that carries everything else to the driver.
\<close>

section \<open>The objects a command works on\<close>

text \<open>
  The objects of wpa_supplicant that a command reads: a missing one is a null pointer. The context of
  the interface \<open>ap0\<close> belongs to hostapd and is not read.
\<close>

record wpa_ctx =
  ctx_conf :: "p2p_conf option"
  own_addr :: "u8 list"
  radio_ifaces :: "wpa_iface list"

record wpa_drv =
  drv_ctx :: "wpa_ctx option"
  first_bss_ifname :: string
  drv_associated :: bool
  ioctl_sock :: int

record wpa_bss =
  bss_ifname :: string
  bss_drv :: "wpa_drv option"

definition PRIV_CMD_SIZE :: nat where "PRIV_CMD_SIZE = 512"

section \<open>Country code\<close>

text \<open>The command text is built in a buffer of eleven characters.\<close>

definition wpa_driver_mediatek_set_country ::
  "('k, 'x) wifi_env_scheme \<Rightarrow> wpa_drv \<Rightarrow> string \<Rightarrow> 'k wifi \<Rightarrow> fault + int \<times> 'k wifi" where
  "wpa_driver_mediatek_set_country E drv alpha2_arg s =
     (let (sock, s1) = sys_socket E Sock_inet_dgram s in
      if sock < 0 then Inr (- 1, s1)
      else
        let blank = replicate (IFNAMSIZ E) NUL;
            ifr_name =
              (if MTK_TC1_FEATURE E \<and> strncmp_eq (length ''p2p0'') (first_bss_ifname drv) ''p2p0''
               then strlcpy blank ''wlan0''
               else strlcpy blank (first_bss_ifname drv))
        in case sprintf 11 (''COUNTRY '' @ alpha2_arg) of
            None \<Rightarrow> Inl Buffer_overflow
          | Some buf \<Rightarrow>
              let (ret, s2) = sys_ioctl E sock 0x8B0C (Iwreq_data ifr_name buf) s1 in
              if ret < 0 then Inr (ret, sys_close E sock s2)
              else Inr (0, sys_close E sock s2))"

definition wpa_supplicant_event :: "supplicant_event \<Rightarrow> 'k wifi \<Rightarrow> 'k wifi" where
  "wpa_supplicant_event ev s = s\<lparr>trace := trace s @ [Ev_supplicant ev]\<rparr>"

definition wpa_driver_notify_country_change ::
  "('k, 'x) wifi_env_scheme \<Rightarrow> string \<Rightarrow> 'k wifi \<Rightarrow> 'k wifi" where
  "wpa_driver_notify_country_change E cmd s =
     (if strncasecmp_eq 7 cmd ''COUNTRY'' then
        let alpha2 = (if 9 < length cmd then [cmd ! 8, cmd ! 9] else [NUL, NUL])
        in wpa_supplicant_event
             (Channel_list_changed (Some (REGDOM_SET_BY_USER E, REGDOM_TYPE_COUNTRY E, alpha2))) s
      else s)"

definition wpa_driver_nl80211_scan_loading_timeout :: "'k wifi \<Rightarrow> 'k wifi" where
  "wpa_driver_nl80211_scan_loading_timeout s = wpa_supplicant_event (Channel_list_changed None) s"

section \<open>Which command a text is\<close>

datatype driver_cmd =
    Cmd_powermode | Cmd_get_sta_statistics | Cmd_macaddr | Cmd_country | Cmd_start | Cmd_stop
  | Cmd_getpower | Cmd_get_rts_threshold | Cmd_set_rts_threshold
  | Cmd_rxfilter_add | Cmd_rxfilter_remove | Cmd_sw u32 u32 | Cmd_btcoex | Cmd_smt_rate
  | Cmd_sta_block | Cmd_sta_unblock | Cmd_p2p_get_cap | Cmd_p2p_set_cap | Cmd_miracast
  | Cmd_p2p_use_mcc | Cmd_band u32 | Cmd_set_scan_loading | Cmd_setsuspendmode
  | Cmd_rx_packet_filter | Cmd_transparent

text \<open>The switches of the test interface, each with the address of its software command.\<close>

definition smt_table :: "(string \<times> u32) list" where
  "smt_table =
     [(''smt-test-on'', 0xFFFF1234), (''smt-test-off'', 0xFFFF1235),
      (''smt-test-scan-on'', 0xFFFF1260), (''smt-test-scan-off'', 0xFFFF1261),
      (''smt-test-roam-on'', 0xFFFF1262), (''smt-test-roam-off'', 0xFFFF1263),
      (''smt-test-cam-on'', 0xFFFF1264), (''smt-test-cam-off'', 0xFFFF1265),
      (''smt-test-bcn-on'', 0xFFFF1266), (''smt-test-bcn-off'', 0xFFFF1267),
      (''smt-test-power-on'', 0xFFFF1268), (''smt-test-power-off'', 0xFFFF1269),
      (''smt-test-fifo-on'', 0xFFFF1270), (''smt-test-fifo-off'', 0xFFFF1271)]"

definition begins :: "string \<Rightarrow> string \<Rightarrow> bool" where
  "begins cmd name \<longleftrightarrow> strncmp_eq (length name) cmd name"

definition begins_nocase :: "string \<Rightarrow> string \<Rightarrow> bool" where
  "begins_nocase cmd name \<longleftrightarrow> strncasecmp_eq (length name) cmd name"

text \<open>The chain of comparisons, in the order of the code; the last branches depend on the build options.\<close>

definition classify_tail :: "('k, 'x) wifi_env_scheme \<Rightarrow> string \<Rightarrow> driver_cmd" where
  "classify_tail E cmd =
     (if CONFIG_HOTSPOT_MGR_SUPPORT E \<and> begins cmd ''STA-BLOCK '' then Cmd_sta_block
      else if CONFIG_HOTSPOT_MGR_SUPPORT E \<and> begins cmd ''STA-UNBLOCK '' then Cmd_sta_unblock
      else if CONFIG_MTK_WFD_SINK E \<and> begins cmd ''p2p_get_cap '' then Cmd_p2p_get_cap
      else if CONFIG_MTK_WFD_SINK E \<and> begins cmd ''p2p_set_cap '' then Cmd_p2p_set_cap
      else if CONFIG_MTK_WFD_SINK E \<and> begins cmd ''MIRACAST '' then Cmd_miracast
      else if CONFIG_MTK_SCC_MCC E \<and> begins_nocase cmd ''p2p_use_mcc='' then Cmd_p2p_use_mcc
      else if CONFIG_MTK_STAGE_SCAN E \<and> begins_nocase cmd ''set_band_dual'' then Cmd_band 0xFFFF1250
      else if CONFIG_MTK_STAGE_SCAN E \<and> begins_nocase cmd ''set_band_2g4'' then Cmd_band 0xFFFF1251
      else if CONFIG_MTK_STAGE_SCAN E \<and> begins_nocase cmd ''set_band_5g'' then Cmd_band 0xFFFF1252
      else if CONFIG_MTK_STAGE_SCAN E \<and> begins_nocase cmd ''set_scan_loading'' then Cmd_set_scan_loading
      else if begins_nocase cmd ''SETSUSPENDMODE '' then Cmd_setsuspendmode
      else if begins_nocase cmd ''mtk_rx_packet_filter '' then Cmd_rx_packet_filter
      else Cmd_transparent)"

definition classify :: "('k, 'x) wifi_env_scheme \<Rightarrow> string \<Rightarrow> driver_cmd" where
  "classify E cmd =
     (if begins_nocase cmd ''POWERMODE '' then Cmd_powermode
      else if begins_nocase cmd ''GET_STA_STATISTICS '' then Cmd_get_sta_statistics
      else if begins cmd ''MACADDR'' then Cmd_macaddr
      else if begins_nocase cmd ''COUNTRY'' then Cmd_country
      else if strcasecmp_eq cmd ''start'' then Cmd_start
      else if strcasecmp_eq cmd ''stop'' then Cmd_stop
      else if begins_nocase cmd ''getpower'' then Cmd_getpower
      else if begins_nocase cmd ''get-rts-threshold'' then Cmd_get_rts_threshold
      else if begins_nocase cmd ''set-rts-threshold'' then Cmd_set_rts_threshold
      else if begins_nocase cmd ''rxfilter-add'' then Cmd_rxfilter_add
      else if begins_nocase cmd ''rxfilter-remove'' then Cmd_rxfilter_remove
      else if begins_nocase cmd ''rxfilter-stop'' then Cmd_sw 0x9F000000 0x00900000
      else if begins_nocase cmd ''rxfilter-start'' then Cmd_sw 0x9F000000 0x00900100
      else if strcasecmp_eq cmd ''btcoexscan-start'' then Cmd_btcoex
      else if strcasecmp_eq cmd ''btcoexscan-stop'' then Cmd_btcoex
      else if begins_nocase cmd ''btcoexmode'' then Cmd_btcoex
      else if begins_nocase cmd ''smt-rate'' then Cmd_smt_rate
      else case find (\<lambda>(name, adr). begins_nocase cmd name) smt_table of
          Some (name, adr) \<Rightarrow> Cmd_sw adr 0
        | None \<Rightarrow> classify_tail E cmd)"

section \<open>What a command does\<close>

text \<open>
  The outcome of a command that was handled here, or the command text that still goes to the driver. The
  reply is the text in the caller's buffer, when one was written.
\<close>

record 'k outcome =
  oc_ret :: int
  oc_handled :: bool
  oc_cmd :: string
  oc_reply :: "string option"
  oc_state :: "'k wifi"

definition finished :: "string \<Rightarrow> int \<Rightarrow> 'k wifi \<Rightarrow> fault + 'k outcome" where
  "finished cmd ret s =
     Inr \<lparr>oc_ret = ret, oc_handled = True, oc_cmd = cmd, oc_reply = None, oc_state = s\<rparr>"

definition replied :: "string \<Rightarrow> int \<times> string option \<Rightarrow> 'k wifi \<Rightarrow> fault + 'k outcome" where
  "replied cmd r s =
     Inr \<lparr>oc_ret = fst r, oc_handled = True, oc_cmd = cmd, oc_reply = snd r, oc_state = s\<rparr>"

definition forward :: "string \<Rightarrow> 'k wifi \<Rightarrow> fault + 'k outcome" where
  "forward cmd s =
     Inr \<lparr>oc_ret = - 1, oc_handled = False, oc_cmd = cmd, oc_reply = None, oc_state = s\<rparr>"

text \<open>The number behind a command's name, in any of C's notations, when there is one.\<close>

definition number_arg :: "('k, 'x) wifi_env_scheme \<Rightarrow> string \<Rightarrow> u32 option" where
  "number_arg E cp =
     (if cp = [] then None
      else let (v, rest) = strtol (LONG_BITS E) 0 cp in if rest \<noteq> cp then Some (word_of_int v) else None)"

definition do_number_cmd ::
  "('k, 'x) wifi_env_scheme \<Rightarrow> string \<Rightarrow> string \<Rightarrow> u32 \<Rightarrow> u32 \<Rightarrow> 'k wifi \<Rightarrow> fault + 'k outcome" where
  "do_number_cmd E cmd cp adr offset s =
     (case number_arg E cp of
        None \<Rightarrow> finished cmd (- 1) s
      | Some idx \<Rightarrow>
          (let (_, s1) = wpa_driver_nl80211_driver_sw_cmd E True adr (idx + offset) s
           in finished cmd 0 s1))"

text \<open>
  The variable \<open>wpa_s\<close> of the command function: it has no value on the interface \<open>ap0\<close>. Its
  configuration has been checked not to be null.
\<close>

type_synonym wpa_s_var = "(wpa_ctx \<times> p2p_conf) option"

definition do_country ::
  "('k, 'x) wifi_env_scheme \<Rightarrow> wpa_drv \<Rightarrow> wpa_s_var \<Rightarrow> string \<Rightarrow> 'k wifi \<Rightarrow> fault + 'k outcome" where
  "do_country E drv wpa_s cmd s =
     (if length cmd \<noteq> length ''COUNTRY'' + 3 then finished cmd 0 s
      else case wpa_driver_mediatek_set_country E drv (drop 8 cmd) s of
          Inl f \<Rightarrow> Inl f
        | Inr (ret, s1) \<Rightarrow>
            if ret = 0 then
              (case wpa_s of
                 None \<Rightarrow> Inl Uninit_read
               | Some _ \<Rightarrow> finished cmd ret (wpa_driver_notify_country_change E cmd s1))
            else finished cmd ret s1)"

definition linux_set_iface_flags ::
  "('k, 'x) wifi_env_scheme \<Rightarrow> string \<Rightarrow> bool \<Rightarrow> 'k wifi \<Rightarrow> int \<times> 'k wifi" where
  "linux_set_iface_flags E ifname up s =
     (let (r, k) = k_iface_flags E (kst s) ifname up
      in (r, s\<lparr>kst := k, trace := trace s @ [Ev_iface_flags ifname up r]\<rparr>))"

definition wpa_msg :: "string \<Rightarrow> 'k wifi \<Rightarrow> 'k wifi" where
  "wpa_msg text s = s\<lparr>trace := trace s @ [Ev_message text]\<rparr>"

definition do_start ::
  "('k, 'x) wifi_env_scheme \<Rightarrow> wpa_drv \<Rightarrow> string \<Rightarrow> 'k wifi \<Rightarrow> fault + 'k outcome" where
  "do_start E drv cmd s =
     (let (ret, s1) = linux_set_iface_flags E (first_bss_ifname drv) True s
      in finished cmd ret (if ret \<noteq> 0 then s1 else wpa_msg ''CTRL-EVENT-DRIVER-STATE STARTED'' s1))"

definition do_stop ::
  "('k, 'x) wifi_env_scheme \<Rightarrow> wpa_drv \<Rightarrow> wpa_s_var \<Rightarrow> string \<Rightarrow> 'k wifi \<Rightarrow> fault + 'k outcome" where
  "do_stop E drv wpa_s cmd s =
     (if drv_associated drv \<and> wpa_s = None then Inl Uninit_read
      else
        let s1 = (if drv_associated drv then
                    (let (r, k) = k_deauthenticate E (kst s)
                     in s\<lparr>kst := k, trace := trace s @ [Ev_deauthenticate r]\<rparr>)
                  else s);
            (ret, s2) = linux_set_iface_flags E (first_bss_ifname drv) False s1
        in finished cmd ret (if ret \<noteq> 0 then s2 else wpa_msg ''CTRL-EVENT-DRIVER-STATE STOPPED'' s2))"

text \<open>
  The choice of the channel by what the shared radio is tuned to. The frequency is an \<open>int\<close> in one of
  the callers and unsigned in the other, which differs for negative values.
\<close>

definition follow_radio ::
  "('k, 'x) wifi_env_scheme \<Rightarrow> bool \<Rightarrow> wpa_ctx \<Rightarrow> p2p_conf \<Rightarrow> 'k wifi \<Rightarrow> 'k wifi" where
  "follow_radio E is_int ctx conf s =
     (let (num, freqs, s1) = mtk_get_shared_radio_freqs E (radio_ifaces ctx) 1 s;
          freq = freqs ! 0;
          positive = (if is_int then 0 < freq else 0 < (word_of_int freq :: u32))
      in if 0 < num \<and> positive
         then snd (p2p_wfd_sink_config_scc E conf True (word_of_int freq) s1)
         else snd (p2p_wfd_sink_config_scc E conf False 0 s1))"

text \<open>
  The sink mode. In mode 2 a frequency in the command is used, and the command is cut to what the
  driver expects.
\<close>

definition do_miracast ::
  "('k, 'x) wifi_env_scheme \<Rightarrow> wpa_s_var \<Rightarrow> string \<Rightarrow> 'k wifi \<Rightarrow> fault + 'k outcome" where
  "do_miracast E wpa_s cmd s =
     (let miracast = (ucast (atoi (LONG_BITS E) (drop (length ''MIRACAST '') cmd)) :: u8);
          pos = strstr cmd '' freq=''
      in if miracast = 0 \<or> miracast = 1 \<or> miracast = 2 then
           (case wpa_s of
              None \<Rightarrow> Inl Uninit_read
            | Some (ctx, conf) \<Rightarrow>
                (case (if miracast = 2 then pos else None) of
                   None \<Rightarrow> forward cmd (follow_radio E False ctx conf s)
                 | Some p \<Rightarrow>
                     (let freq = atoi (LONG_BITS E) (drop 6 p)
                      in forward ''MIRACAST 2'' (snd (p2p_wfd_sink_config_scc E conf True freq s)))))
         else forward cmd s)"

definition do_use_mcc ::
  "('k, 'x) wifi_env_scheme \<Rightarrow> wpa_s_var \<Rightarrow> string \<Rightarrow> 'k wifi \<Rightarrow> fault + 'k outcome" where
  "do_use_mcc E wpa_s cmd s =
     (let use_mcc = (ucast (atoi (LONG_BITS E) (drop (length ''p2p_use_mcc='') cmd)) :: u8) in
      case wpa_s of
        None \<Rightarrow> Inl Uninit_read
      | Some (ctx, conf) \<Rightarrow>
          (case p2p s of
             None \<Rightarrow> Inl Null_deref
           | Some p \<Rightarrow>
               (let s1 = s\<lparr>p2p := Some (p\<lparr>p2p_use_mcc := use_mcc\<rparr>)\<rparr>
                in finished cmd (- 1)
                     (if use_mcc \<noteq> 0 then snd (p2p_wfd_sink_config_scc E conf False 0 s1)
                      else follow_radio E True ctx conf s1))))"

text \<open>
  The statistics and the address need the supplicant's object, which \<open>ap0\<close> does not have; an
  address that does not parse is refused before the object is touched.
\<close>

definition do_get_sta_statistics ::
  "('k, 'x) wifi_env_scheme \<Rightarrow> wpa_s_var \<Rightarrow> string \<Rightarrow> nat \<Rightarrow> 'k wifi \<Rightarrow> fault + 'k outcome" where
  "do_get_sta_statistics E wpa_s cmd buf_len s =
     (let address = drop 19 cmd in
      if wpa_s = None \<and> hwaddr_aton E address \<noteq> None then Inl Uninit_read
      else let (ret, reply, s1) = wpa_driver_get_sta_statistics E address buf_len s
        in replied cmd (ret, reply) s1)"

definition do_macaddr ::
  "('k, 'x) wifi_env_scheme \<Rightarrow> wpa_s_var \<Rightarrow> string \<Rightarrow> nat \<Rightarrow> 'k wifi \<Rightarrow> fault + 'k outcome" where
  "do_macaddr E wpa_s cmd buf_len s =
     (case wpa_s of
        None \<Rightarrow> Inl Uninit_read
      | Some (ctx, conf) \<Rightarrow>
          replied cmd (snprintf_reply buf_len (''Macaddr = '' @ mac_text E (own_addr ctx) @ ''\<newline>'')) s)"

text \<open>The result is still -1 when the two queries test it, so their answers are never formed.\<close>

definition do_query :: "string \<Rightarrow> 'k wifi \<Rightarrow> fault + 'k outcome" where
  "do_query cmd s = (let ret = - 1 in if ret = 0 then Inl Uninit_read else finished cmd ret s)"

definition do_p2p_cap ::
  "('k, 'x) wifi_env_scheme \<Rightarrow> bool \<Rightarrow> wpa_s_var \<Rightarrow> string \<Rightarrow> nat \<Rightarrow> 'k wifi \<Rightarrow> fault + 'k outcome" where
  "do_p2p_cap E get wpa_s cmd buf_len s =
     (case wpa_s of
        None \<Rightarrow> Inl Uninit_read
      | Some _ \<Rightarrow>
          (case p2p s of
             None \<Rightarrow> finished cmd (- 1) s
           | Some p \<Rightarrow>
               if get then replied cmd (p2p_get_capability p (drop (length ''p2p_get_cap '') cmd) buf_len) s
               else let (ret, p') = p2p_set_capability E p (drop (length ''p2p_set_cap '') cmd)
                 in finished cmd ret (s\<lparr>p2p := Some p'\<rparr>)))"

definition do_band ::
  "('k, 'x) wifi_env_scheme \<Rightarrow> string \<Rightarrow> u32 \<Rightarrow> 'k wifi \<Rightarrow> fault + 'k outcome" where
  "do_band E cmd adr s =
     finished cmd 0 (if user_force_band s = 0 then snd (wpa_driver_nl80211_driver_sw_cmd E True adr 0 s) else s)"

definition do_set_scan_loading ::
  "('k, 'x) wifi_env_scheme \<Rightarrow> string \<Rightarrow> 'k wifi \<Rightarrow> fault + 'k outcome" where
  "do_set_scan_loading E cmd s =
     (let (_, s1) = wpa_driver_nl80211_driver_sw_cmd E True 0xFFFF1253 0 s
      in finished cmd 0 (s1\<lparr>trace := trace s1 @ [Ev_cancel_timeout, Ev_register_timeout 10]\<rparr>))"

text \<open>The padding of the message is not set.\<close>

definition do_setsuspendmode ::
  "('k, 'x) wifi_env_scheme \<Rightarrow> string \<Rightarrow> 'k wifi \<Rightarrow> fault + 'k outcome" where
  "do_setsuspendmode E cmd s =
     (let digit = (if 15 < length cmd then cmd ! 15 else NUL);
          suspend = (of_nat (of_char digit) - 48 :: u8);
          (_, s1) = testmode_send E (suspendmode_params (with_version NL80211_TESTMODE_SUSPEND) suspend) s
      in forward cmd s1)"

text \<open>
  The packet filter. A command of the right length copies its first word and has \<open>strtol\<close> read it, with the
  address of a single character as the place for the end pointer: the call writes a whole pointer over that
  character and what lies behind it on the stack, and nothing is known of the program from there on.
\<close>

definition do_rx_packet_filter :: "string \<Rightarrow> 'k wifi \<Rightarrow> fault + 'k outcome" where
  "do_rx_packet_filter cmd s = (if length cmd \<noteq> 71 then finished cmd (- 1) s else Inl Buffer_overflow)"

text \<open>
  Any other text goes to the driver as it is: first in a message built in a buffer of 100 bytes, whose length is
  that of the text, whatever fits.
\<close>

definition char_bytes :: "string \<Rightarrow> u8 list" where
  "char_bytes t = map (\<lambda>c. of_nat (of_char c)) t"

definition str_cmd_buffer :: "string \<Rightarrow> u8 list" where
  "str_cmd_buffer cmd =
     hdr_bytes (with_version NL80211_TESTMODE_STR_CMD) (8 + length cmd) @ char_bytes (strncpy (100 - 8) cmd)"

definition str_cmd_cells :: "string \<Rightarrow> cell list" where
  "str_cmd_cells cmd =
     (let len = 8 + length cmd in take len (cells (str_cmd_buffer cmd)) @ replicate (len - 100) None)"

definition do_transparent ::
  "('k, 'x) wifi_env_scheme \<Rightarrow> string \<Rightarrow> 'k wifi \<Rightarrow> fault + 'k outcome" where
  "do_transparent E cmd s =
     (let s1 = (if 8 + length cmd > 100 then note_ub Out_of_bounds_read s else s);
          (_, s2) = testmode_send E (str_cmd_cells cmd) s1
      in forward cmd s2)"

fun run_cmd ::
  "('k, 'x) wifi_env_scheme \<Rightarrow> wpa_drv \<Rightarrow> wpa_s_var \<Rightarrow> string \<Rightarrow> nat \<Rightarrow> driver_cmd \<Rightarrow> 'k wifi
     \<Rightarrow> fault + 'k outcome" where
  "run_cmd E drv wpa_s cmd buf_len Cmd_powermode s = finished cmd (- 1) s"
| "run_cmd E drv wpa_s cmd buf_len Cmd_get_sta_statistics s = do_get_sta_statistics E wpa_s cmd buf_len s"
| "run_cmd E drv wpa_s cmd buf_len Cmd_macaddr s = do_macaddr E wpa_s cmd buf_len s"
| "run_cmd E drv wpa_s cmd buf_len Cmd_country s = do_country E drv wpa_s cmd s"
| "run_cmd E drv wpa_s cmd buf_len Cmd_start s = do_start E drv cmd s"
| "run_cmd E drv wpa_s cmd buf_len Cmd_stop s = do_stop E drv wpa_s cmd s"
| "run_cmd E drv wpa_s cmd buf_len Cmd_getpower s = do_query cmd s"
| "run_cmd E drv wpa_s cmd buf_len Cmd_get_rts_threshold s = do_query cmd s"
| "run_cmd E drv wpa_s cmd buf_len Cmd_set_rts_threshold s = finished cmd (- 1) s"
| "run_cmd E drv wpa_s cmd buf_len Cmd_rxfilter_add s =
     do_number_cmd E cmd (drop 12 cmd) 0x9F000000 0x00900200 s"
| "run_cmd E drv wpa_s cmd buf_len Cmd_rxfilter_remove s =
     do_number_cmd E cmd (drop 15 cmd) 0x9F000000 0x00900300 s"
| "run_cmd E drv wpa_s cmd buf_len (Cmd_sw adr dat) s =
     finished cmd 0 (snd (wpa_driver_nl80211_driver_sw_cmd E True adr dat s))"
| "run_cmd E drv wpa_s cmd buf_len Cmd_btcoex s = finished cmd 0 s"
| "run_cmd E drv wpa_s cmd buf_len Cmd_smt_rate s = do_number_cmd E cmd (drop 8 cmd) 0xFFFF0123 0 s"
| "run_cmd E drv wpa_s cmd buf_len Cmd_sta_block s =
     (let (r, s1) = wpa_driver_sta_block E (drop 10 cmd) s in finished cmd (if r \<noteq> 0 then - 1 else 0) s1)"
| "run_cmd E drv wpa_s cmd buf_len Cmd_sta_unblock s =
     (let (r, s1) = wpa_driver_sta_unblock E (drop 12 cmd) s in finished cmd (if r \<noteq> 0 then - 1 else 0) s1)"
| "run_cmd E drv wpa_s cmd buf_len Cmd_p2p_get_cap s = do_p2p_cap E True wpa_s cmd buf_len s"
| "run_cmd E drv wpa_s cmd buf_len Cmd_p2p_set_cap s = do_p2p_cap E False wpa_s cmd buf_len s"
| "run_cmd E drv wpa_s cmd buf_len Cmd_miracast s = do_miracast E wpa_s cmd s"
| "run_cmd E drv wpa_s cmd buf_len Cmd_p2p_use_mcc s = do_use_mcc E wpa_s cmd s"
| "run_cmd E drv wpa_s cmd buf_len (Cmd_band adr) s = do_band E cmd adr s"
| "run_cmd E drv wpa_s cmd buf_len Cmd_set_scan_loading s = do_set_scan_loading E cmd s"
| "run_cmd E drv wpa_s cmd buf_len Cmd_setsuspendmode s = do_setsuspendmode E cmd s"
| "run_cmd E drv wpa_s cmd buf_len Cmd_rx_packet_filter s = do_rx_packet_filter cmd s"
| "run_cmd E drv wpa_s cmd buf_len Cmd_transparent s = do_transparent E cmd s"

section \<open>The private command\<close>

definition wpa_driver_send_hang_msg :: "('k, 'x) wifi_env_scheme \<Rightarrow> 'k wifi \<Rightarrow> 'k wifi" where
  "wpa_driver_send_hang_msg E s =
     (let n = drv_errors s + 1
      in s\<lparr>drv_errors := (if n > DRV_NUMBER_SEQUENTIAL_ERRORS E then 0 else n)\<rparr>)"

text \<open>The command with its terminator, cut to the buffer, in a buffer that was cleared.\<close>

definition priv_cmd_len :: "string \<Rightarrow> nat" where
  "priv_cmd_len cmd = (if PRIV_CMD_SIZE \<le> length cmd then PRIV_CMD_SIZE - 1 else length cmd)"

definition priv_cmd_buf :: "string \<Rightarrow> char list" where
  "priv_cmd_buf cmd = buf_write (replicate PRIV_CMD_SIZE NUL) 0 (take (priv_cmd_len cmd + 1) (cmd @ [NUL]))"

definition send_private ::
  "('k, 'x) wifi_env_scheme \<Rightarrow> wpa_bss \<Rightarrow> wpa_drv \<Rightarrow> string \<Rightarrow> nat \<Rightarrow> 'k wifi
     \<Rightarrow> fault + int \<times> string option \<times> 'k wifi" where
  "send_private E bss drv cmd buf_len s =
     (let ifr_name = strncpy (IFNAMSIZ E) (bss_ifname bss);
          arg = Ifreq_priv ifr_name (priv_cmd_buf cmd) (int (priv_cmd_len cmd + 1)) (int PRIV_CMD_SIZE);
          (ret, s1) = sys_ioctl E (ioctl_sock drv) (SIOCDEVPRIVATE E + 1) arg s
      in if ret < 0 then
           let (n, reply) = snprintf_reply buf_len ''FAIL\<newline>'' in Inr (n, reply, wpa_driver_send_hang_msg E s1)
         else
           let s2 = s1\<lparr>drv_errors := 0\<rparr>; (n, reply) = snprintf_reply buf_len ''OK\<newline>'' in
           if strncasecmp_eq 12 cmd ''WLS_BATCHING'' then
             (case reply of
                None \<Rightarrow> Inl Out_of_bounds_read
              | Some text \<Rightarrow> Inr (int (length text), reply, s2))
           else Inr (n, reply, s2))"

section \<open>The command function\<close>

definition wpa_driver_nl80211_driver_cmd ::
  "('k, 'x) wifi_env_scheme \<Rightarrow> wpa_bss \<Rightarrow> string \<Rightarrow> nat \<Rightarrow> 'k wifi
     \<Rightarrow> fault + int \<times> string option \<times> 'k wifi" where
  "wpa_driver_nl80211_driver_cmd E bss cmd buf_len s =
     (case bss_drv bss of
        None \<Rightarrow> Inr (- 1, None, s)
      | Some drv \<Rightarrow>
          (case drv_ctx drv of
             None \<Rightarrow> Inr (- 1, None, s)
           | Some ctx \<Rightarrow>
               let ap0 = (bss_ifname bss = ''ap0'') in
               if \<not> ap0 \<and> ctx_conf ctx = None then Inr (- 1, None, s)
               else
                 let wpa_s = (if ap0 then None else map_option (\<lambda>conf. (ctx, conf)) (ctx_conf ctx))
                 in case run_cmd E drv wpa_s cmd buf_len (classify E cmd) s of
                     Inl f \<Rightarrow> Inl f
                   | Inr oc \<Rightarrow>
                       if oc_handled oc then Inr (oc_ret oc, oc_reply oc, oc_state oc)
                       else send_private E bss drv (oc_cmd oc) buf_len (oc_state oc)))"

section \<open>Operations that are only answered\<close>

definition mtk_p2p_get_device :: "u8 list \<Rightarrow> unit option" where
  "mtk_p2p_get_device address = None"

definition wpa_driver_set_p2p_noa :: "u8 \<Rightarrow> int \<Rightarrow> int \<Rightarrow> int" where
  "wpa_driver_set_p2p_noa count start duration = - 1"

definition wpa_driver_get_p2p_noa :: "nat \<Rightarrow> int" where
  "wpa_driver_get_p2p_noa len = - 1"

definition wpa_driver_set_p2p_ps :: "int \<Rightarrow> int \<Rightarrow> int \<Rightarrow> int" where
  "wpa_driver_set_p2p_ps legacy_ps opp_ps ctwindow = - 1"

definition wpa_driver_set_ap_wps_p2p_ie :: "u8 list option \<Rightarrow> u8 list option \<Rightarrow> u8 list option \<Rightarrow> int" where
  "wpa_driver_set_ap_wps_p2p_ie beacon proberesp assocresp = 0"

end
