(* ===== verification/Wifi_Props.thy ===== *)
theory Wifi_Props
  imports Wifi_Driver Wifi_P2p_Props
begin

text \<open>
  The command function of the Wi-Fi driver library: what every sequence of commands keeps, which commands can
  end in a fault, and what the country command does.
\<close>

section \<open>What a command leaves alone\<close>

text \<open>
  Only the private command touches the error counter, nothing sets the forced band, and no command keeps a
  descriptor, a heap block or a netlink message.
\<close>

definition kept :: "'k wifi \<Rightarrow> 'k wifi \<Rightarrow> bool" where
  "kept s s' \<longleftrightarrow> drv_errors s' = drv_errors s \<and> user_force_band s' = user_force_band s \<and>
     nl_msgs s' = nl_msgs s \<and>
     open_fds (trace s') = open_fds (trace s) \<and> live_blocks (trace s') = live_blocks (trace s)"

named_theorems kept_intros "calls that keep the counters and the resources"

lemma kept_refl [kept_intros]: "kept s s"
  by (simp add: kept_def)

lemma kept_trans: "kept s t \<Longrightarrow> kept t u \<Longrightarrow> kept s u"
  by (simp add: kept_def)

lemma kept_updates [simp]:
  "kept s (t\<lparr>kst := k\<rparr>) \<longleftrightarrow> kept s t"
  "kept s (t\<lparr>p2p := p\<rparr>) \<longleftrightarrow> kept s t"
  "kept s (t\<lparr>ub := fs\<rparr>) \<longleftrightarrow> kept s t"
  "kept s (t\<lparr>errno := e\<rparr>) \<longleftrightarrow> kept s t"
  by (simp_all add: kept_def)

lemma kept_from_p2p: "kept (s\<lparr>p2p := q\<rparr>) t \<Longrightarrow> kept s t"
  and kept_from_ub: "kept (s\<lparr>ub := fs\<rparr>) t \<Longrightarrow> kept s t"
  by (simp_all add: kept_def)

text \<open>Events that neither open nor allocate.\<close>

definition neutral :: "event \<Rightarrow> bool" where
  "neutral ev \<longleftrightarrow> (\<forall>L. fds_step L ev = L) \<and> (\<forall>L. heap_step L ev = L)"

lemma neutral_events [simp]:
  "neutral (Ev_netlink d r)" "neutral (Ev_iface_flags n up r)" "neutral (Ev_deauthenticate r)"
  "neutral (Ev_supplicant e)" "neutral (Ev_message t)" "neutral Ev_cancel_timeout"
  "neutral (Ev_register_timeout secs)" "neutral (Ev_ioctl fd req arg r)" "neutral (Ev_log c)"
  by (simp_all add: neutral_def)

lemma neutral_folds:
  "list_all neutral evs \<Longrightarrow> foldl fds_step L evs = L"
  "list_all neutral evs \<Longrightarrow> foldl heap_step M evs = M"
  by (induction evs) (auto simp: neutral_def)

lemma kept_events [simp]:
  "list_all neutral evs \<Longrightarrow> kept s (t\<lparr>trace := trace t @ evs\<rparr>) \<longleftrightarrow> kept s t"
  "list_all neutral evs \<Longrightarrow> kept s (t\<lparr>kst := k, trace := trace t @ evs\<rparr>) \<longleftrightarrow> kept s t"
  by (simp_all add: kept_def neutral_folds world_simps)

text \<open>A message that was allocated is freed here or by the function that sends it.\<close>

lemma kept_testmode:
  "wpa_driver_nl80211_testmode E data stats s = (r, st, s') \<Longrightarrow> kept s s'"
  by (auto simp: wpa_driver_nl80211_testmode_def send_and_recv_msgs_def nlmsg_alloc_def nlmsg_free_def Let_def
      kept_def neutral_folds world_simps split: prod.splits if_splits)

lemma kept_send [kept_intros]: "kept s (snd (testmode_send E data s))"
  by (auto simp: testmode_send_def split: prod.split dest: kept_testmode)

lemma kept_sw_cmd [kept_intros]: "kept s (snd (wpa_driver_nl80211_driver_sw_cmd E st adr dat s))"
  by (simp add: wpa_driver_nl80211_driver_sw_cmd_def Let_def split_beta kept_send)

lemma kept_sta_block [kept_intros]:
  "kept s (snd (wpa_driver_sta_block E cmd s))" "kept s (snd (wpa_driver_sta_unblock E cmd s))"
  by (auto simp: wpa_driver_sta_block_def wpa_driver_sta_unblock_def
      wpa_driver_hotspot_block_list_update_def kept_send kept_refl split: option.split)

lemma kept_log [simp]: "kept s (format_sta_statistics st t) \<longleftrightarrow> kept s t"
  by (simp add: format_sta_statistics_def list_all_iff)

lemma kept_statistics: "wpa_driver_get_sta_statistics E address buflen s = (r, reply, s') \<Longrightarrow> kept s s'"
  by (auto simp: wpa_driver_get_sta_statistics_def wpas_get_sta_statistics_def Let_def kept_refl
      split: option.splits prod.splits if_splits dest: kept_testmode)

lemma kept_sink [kept_intros]: "kept s (snd (p2p_wfd_sink_config_scc E conf scc freq s))"
  by (auto simp: p2p_wfd_sink_config_scc_def note_ub_def Let_def kept_refl split: option.split prod.split)

lemma kept_shared_freqs: "mtk_get_shared_radio_freqs E ifaces len s = (num, arr, s') \<Longrightarrow> kept s s'"
  by (auto simp: mtk_get_shared_radio_freqs_def Let_def kept_def c_malloc_def c_free_def log_call_def world_simps
      split: prod.splits if_splits)

lemma kept_follow_radio [kept_intros]: "kept s (follow_radio E is_int ctx conf s)"
proof -
  obtain num arr s1 where "mtk_get_shared_radio_freqs E (radio_ifaces ctx) 1 s = (num, arr, s1)"
    by (rule prod_cases3)
  moreover from kept_shared_freqs [OF this] have "kept s (snd (p2p_wfd_sink_config_scc E conf b f s1))" for b f
    by (rule kept_trans) (rule kept_sink)
  ultimately show ?thesis by (simp add: follow_radio_def Let_def)
qed

lemma kept_country:
  "wpa_driver_mediatek_set_country E drv a s = Inr (r, s') \<Longrightarrow> kept s s'"
  by (auto simp: wpa_driver_mediatek_set_country_def Let_def kept_def sys_socket_def sys_ioctl_def sys_close_def
      log_call_def world_simps split: prod.splits if_splits option.splits)

lemma kept_iface_flags: "linux_set_iface_flags E n up s = (r, s') \<Longrightarrow> kept s s'"
  by (auto simp: linux_set_iface_flags_def kept_refl split: prod.splits)

lemma kept_number_cmd: "do_number_cmd E cmd cp adr offset s = Inr oc \<Longrightarrow> kept s (oc_state oc)"
  by (auto simp: do_number_cmd_def finished_def kept_refl Let_def wpa_driver_nl80211_driver_sw_cmd_def
      kept_send split_beta split: option.splits)

lemma kept_country_cmd: "do_country E drv wpa_s cmd s = Inr oc \<Longrightarrow> kept s (oc_state oc)"
  by (auto simp: do_country_def finished_def wpa_driver_notify_country_change_def wpa_supplicant_event_def
      kept_refl Let_def dest!: kept_country split: if_splits sum.splits option.splits)

lemma kept_start_stop:
  "do_start E drv cmd s = Inr oc \<Longrightarrow> kept s (oc_state oc)"
  "do_stop E drv wpa_s cmd s = Inr oc \<Longrightarrow> kept s (oc_state oc)"
  by (auto simp: do_start_def do_stop_def finished_def wpa_msg_def linux_set_iface_flags_def Let_def kept_refl
      split: if_splits prod.splits)

lemma kept_sink_cmds:
  "do_miracast E wpa_s cmd s = Inr oc \<Longrightarrow> kept s (oc_state oc)"
  "do_use_mcc E wpa_s cmd s = Inr oc \<Longrightarrow> kept s (oc_state oc)"
  "do_p2p_cap E get wpa_s cmd buf_len s = Inr oc \<Longrightarrow> kept s (oc_state oc)"
proof -
  show "do_miracast E wpa_s cmd s = Inr oc \<Longrightarrow> kept s (oc_state oc)"
    by (auto simp: do_miracast_def forward_def Let_def kept_intros split: if_splits option.splits)
  note from_p2p = kept_from_p2p [OF kept_sink] kept_from_p2p [OF kept_follow_radio]
  show "do_use_mcc E wpa_s cmd s = Inr oc \<Longrightarrow> kept s (oc_state oc)"
    by (auto simp: do_use_mcc_def finished_def Let_def from_p2p
        split: if_splits option.splits)
  show "do_p2p_cap E get wpa_s cmd buf_len s = Inr oc \<Longrightarrow> kept s (oc_state oc)"
    by (auto simp: do_p2p_cap_def finished_def replied_def kept_refl
        split: if_splits option.splits prod.splits)
qed

lemma kept_queries:
  "do_get_sta_statistics E wpa_s cmd buf_len s = Inr oc \<Longrightarrow> kept s (oc_state oc)"
  "do_macaddr E wpa_s cmd buf_len s = Inr oc \<Longrightarrow> kept s (oc_state oc)"
  "do_query cmd s = Inr oc \<Longrightarrow> kept s (oc_state oc)"
  by (auto simp: do_get_sta_statistics_def do_macaddr_def do_query_def replied_def finished_def kept_refl Let_def
      dest: kept_statistics split: if_splits option.splits prod.splits)

lemma kept_messages:
  "do_band E cmd adr s = Inr oc \<Longrightarrow> kept s (oc_state oc)"
  "do_set_scan_loading E cmd s = Inr oc \<Longrightarrow> kept s (oc_state oc)"
  "do_setsuspendmode E cmd s = Inr oc \<Longrightarrow> kept s (oc_state oc)"
  "do_rx_packet_filter cmd s = Inr oc \<Longrightarrow> kept s (oc_state oc)"
  "do_transparent E cmd s = Inr oc \<Longrightarrow> kept s (oc_state oc)"
proof -
  note from_ub = kept_from_ub [OF kept_send]
  show "do_band E cmd adr s = Inr oc \<Longrightarrow> kept s (oc_state oc)"
    by (auto simp: do_band_def finished_def intro: kept_intros)
  show "do_set_scan_loading E cmd s = Inr oc \<Longrightarrow> kept s (oc_state oc)"
    by (auto simp: do_set_scan_loading_def finished_def split_beta kept_intros)
  show "do_setsuspendmode E cmd s = Inr oc \<Longrightarrow> kept s (oc_state oc)"
    by (auto simp: do_setsuspendmode_def forward_def Let_def split_beta intro: kept_intros)
  show "do_rx_packet_filter cmd s = Inr oc \<Longrightarrow> kept s (oc_state oc)"
    by (auto simp: do_rx_packet_filter_def finished_def kept_refl split: if_splits)
  show "do_transparent E cmd s = Inr oc \<Longrightarrow> kept s (oc_state oc)"
    by (auto simp: do_transparent_def forward_def note_ub_def Let_def split_beta kept_intros from_ub)
qed

lemmas kept_cmds = kept_number_cmd kept_country_cmd kept_start_stop kept_sink_cmds kept_queries kept_messages

lemma run_cmd_kept: "run_cmd E drv wpa_s cmd buf_len c s = Inr oc \<Longrightarrow> kept s (oc_state oc)"
  by (cases c) (auto simp: finished_def Let_def split_beta intro: kept_intros dest: kept_cmds)

text \<open>The private command counts an error, or forgets all of them.\<close>

lemma private_state:
  assumes "send_private E bss drv cmd buf_len s = Inr (r, reply, s')"
  shows "(drv_errors s' = 0 \<or> drv_errors s' = drv_errors s + 1 \<and> drv_errors s' \<le> DRV_NUMBER_SEQUENTIAL_ERRORS E)
    \<and> user_force_band s' = user_force_band s \<and> nl_msgs s' = nl_msgs s
    \<and> open_fds (trace s') = open_fds (trace s) \<and> live_blocks (trace s') = live_blocks (trace s)"
  using assms by (auto simp: send_private_def Let_def sys_ioctl_def log_call_def wpa_driver_send_hang_msg_def
      world_simps split: prod.splits if_splits option.splits)

section \<open>Sequences of commands\<close>

inductive driver_step :: "('k, 'x) wifi_env_scheme \<Rightarrow> 'k wifi \<Rightarrow> 'k wifi \<Rightarrow> bool" for E where
  driver_step_cmd: "wpa_driver_nl80211_driver_cmd E bss cmd buf_len s = Inr (r, reply, s') \<Longrightarrow> driver_step E s s'"
| driver_step_timeout: "driver_step E s (wpa_driver_nl80211_scan_loading_timeout s)"

inductive_cases driver_step_E: "driver_step E s s'"

definition driver_start :: "'k wifi \<Rightarrow> bool" where
  "driver_start s \<longleftrightarrow> drv_errors s = 0 \<and> user_force_band s = 0 \<and> nl_msgs s = 0 \<and> trace s = []"

definition driver_inv :: "('k, 'x) wifi_env_scheme \<Rightarrow> 'k wifi \<Rightarrow> bool" where
  "driver_inv E s \<longleftrightarrow> 0 \<le> drv_errors s \<and> (drv_errors s = 0 \<or> drv_errors s \<le> DRV_NUMBER_SEQUENTIAL_ERRORS E) \<and>
     user_force_band s = 0 \<and> nl_msgs s = 0 \<and> open_fds (trace s) = [] \<and> live_blocks (trace s) = []"

lemma driver_inv_kept: "driver_inv E s \<Longrightarrow> kept s s' \<Longrightarrow> driver_inv E s'"
  by (simp add: driver_inv_def kept_def)

lemma driver_cmd_inv:
  assumes "wpa_driver_nl80211_driver_cmd E bss cmd buf_len s = Inr (r, reply, s')" and "driver_inv E s"
  shows "driver_inv E s'"
proof -
  have priv: "send_private E bss drv c buf_len t = Inr (r, reply, s') \<Longrightarrow> driver_inv E t \<Longrightarrow> driver_inv E s'"
    for drv c t
    using private_state [of E bss drv c buf_len t r reply s'] by (auto simp: driver_inv_def)
  show ?thesis
    using assms
    by (auto simp: wpa_driver_nl80211_driver_cmd_def Let_def
        split: option.splits if_splits sum.splits
        dest!: run_cmd_kept intro: driver_inv_kept priv)
qed

interpretation driver: invariant_system driver_start "driver_step E" "driver_inv E" for E
proof unfold_locales
  show "driver_start s \<Longrightarrow> driver_inv E s" for s
    by (simp add: driver_start_def driver_inv_def open_fds_def live_blocks_def)
  show "driver_inv E s \<Longrightarrow> driver_step E s t \<Longrightarrow> driver_inv E t" for s t
  proof (erule driver_step_E)
    fix bss cmd buf_len r reply
    assume "driver_inv E s" and "wpa_driver_nl80211_driver_cmd E bss cmd buf_len s = Inr (r, reply, t)"
    then show "driver_inv E t" by (blast intro: driver_cmd_inv)
  next
    assume "driver_inv E s" and "t = wpa_driver_nl80211_scan_loading_timeout s"
    then show "driver_inv E t"
      by (auto simp: wpa_driver_nl80211_scan_loading_timeout_def wpa_supplicant_event_def
          intro!: driver_inv_kept [of E s] kept_refl)
  qed
qed

text \<open>
  C5: whatever commands the library is given, and whenever the scan timer fires: the number of errors in sequence never
  passes its limit, every socket is closed, every block freed, and every netlink message that was allocated is
  freed or handed to the function that sends and frees it, also when the message cannot be built.
\<close>

theorem driver_keeps_resources:
  assumes "reach driver_start (driver_step E) s"
  shows "0 \<le> drv_errors s \<and> (drv_errors s = 0 \<or> drv_errors s \<le> DRV_NUMBER_SEQUENTIAL_ERRORS E) \<and>
    nl_msgs s = 0 \<and> open_fds (trace s) = [] \<and> live_blocks (trace s) = []"
  using driver.inv_reach [OF assms] by (simp add: driver_inv_def)

definition demo_conf :: p2p_conf where
  "demo_conf = \<lparr>p2p_oper_reg_class = 81, p2p_oper_channel = 6\<rparr>"

definition demo_ctx :: wpa_ctx where
  "demo_ctx = \<lparr>ctx_conf = Some demo_conf, own_addr = [2, 0, 0, 0, 0, 1], radio_ifaces = []\<rparr>"

definition demo_drv :: wpa_drv where
  "demo_drv = \<lparr>drv_ctx = Some demo_ctx, first_bss_ifname = ''wlan0'', drv_associated = False, ioctl_sock = 3\<rparr>"

definition demo_bss :: wpa_bss where
  "demo_bss = \<lparr>bss_ifname = ''wlan0'', bss_drv = Some demo_drv\<rparr>"

lemmas text_test_simps = begins_nocase_def begins_def strncasecmp_eq_def strncmp_eq_def strcasecmp_eq_def
  tolower_chars

theorem driver_keeps_resources_witness:
  "\<exists>r reply s'. wpa_driver_nl80211_driver_cmd wifi_demo demo_bss ''start'' 64 (wifi_start ()) = Inr (r, reply, s') \<and>
     drv_errors s' \<le> 4 \<and> open_fds (trace s') = []"
proof -
  have "driver_start (wifi_start ())" by (simp add: driver_start_def wifi_start_def)
  then have r: "reach driver_start (driver_step wifi_demo) (wifi_start ())" by (rule reach_init)
  have "classify wifi_demo ''start'' = Cmd_start"
    by (simp add: classify_def text_test_simps)
  then obtain n reply s'
    where call: "wpa_driver_nl80211_driver_cmd wifi_demo demo_bss ''start'' 64 (wifi_start ()) = Inr (n, reply, s')"
    by (simp add: wpa_driver_nl80211_driver_cmd_def demo_bss_def demo_ctx_def demo_drv_def do_start_def finished_def
        split_beta)
  then have "driver_step wifi_demo (wifi_start ()) s'" by (rule driver_step_cmd)
  note * = driver_keeps_resources [OF reach_step [OF r this]]
  have "DRV_NUMBER_SEQUENTIAL_ERRORS wifi_demo = 4" by (simp add: wifi_demo_def)
  with * call show ?thesis by auto
qed

section \<open>Faults\<close>

lemma country_no_overflow: "length a = 2 \<Longrightarrow> wpa_driver_mediatek_set_country E drv a s \<noteq> Inl f"
  by (simp add: wpa_driver_mediatek_set_country_def sprintf_def Let_def split: prod.split)

lemma forwarded_cmd:
  assumes "run_cmd E drv wpa_s cmd buf_len c s = Inr oc"
  shows "oc_cmd oc = cmd \<or> oc_cmd oc = ''MIRACAST 2''"
  using assms
  by (cases c)
    (auto simp: finished_def forward_def replied_def do_number_cmd_def do_country_def do_start_def do_stop_def
      do_query_def do_miracast_def do_use_mcc_def do_p2p_cap_def do_get_sta_statistics_def do_macaddr_def do_band_def
      do_set_scan_loading_def do_setsuspendmode_def do_rx_packet_filter_def do_transparent_def Let_def split_beta
      split: if_splits option.splits sum.splits)

lemma run_cmd_faults:
  assumes "run_cmd E drv wpa_s cmd buf_len c s = Inl f"
  shows "wpa_s = None \<and> f = Uninit_read \<and>
      c \<in> {Cmd_get_sta_statistics, Cmd_macaddr, Cmd_country, Cmd_stop, Cmd_p2p_get_cap, Cmd_p2p_set_cap,
           Cmd_miracast, Cmd_p2p_use_mcc} \<or>
    wpa_s \<noteq> None \<and> f = Null_deref \<and> c = Cmd_p2p_use_mcc \<and> p2p s = None \<or>
    f = Buffer_overflow \<and> c = Cmd_rx_packet_filter \<and> length cmd = 71"
  using assms
  by (cases c)
    (auto simp: finished_def forward_def replied_def do_number_cmd_def do_country_def do_start_def do_stop_def
      do_query_def do_miracast_def do_use_mcc_def do_p2p_cap_def do_get_sta_statistics_def do_macaddr_def do_band_def
      do_set_scan_loading_def do_setsuspendmode_def do_rx_packet_filter_def do_transparent_def Let_def split_beta
      country_no_overflow
      split: if_splits option.splits sum.splits)


lemma private_faults:
  assumes "send_private E bss drv cmd buf_len s = Inl f"
  shows "f = Out_of_bounds_read \<and> buf_len = 0 \<and> strncasecmp_eq 12 cmd ''WLS_BATCHING''"
  using assms by (auto simp: send_private_def Let_def snprintf_reply_def split: prod.splits if_splits option.splits)

text \<open>
  C6: a command ends in undefined behaviour that the machine may not survive in four ways only: on the
  interface \<open>ap0\<close>, eight commands use the supplicant's object that was never set there; elsewhere
  the multi-channel command needs the peer-to-peer module; the packet filter command of the right length, on every
  interface, has a pointer written over a single character; and \<open>WLS_BATCHING\<close> measures a reply that
  an empty buffer does not hold.
\<close>

theorem command_faults:
  assumes "wpa_driver_nl80211_driver_cmd E bss cmd buf_len s = Inl f"
  shows "bss_ifname bss = ''ap0'' \<and> f = Uninit_read \<and>
      classify E cmd \<in> {Cmd_get_sta_statistics, Cmd_macaddr, Cmd_country, Cmd_stop, Cmd_p2p_get_cap, Cmd_p2p_set_cap,
        Cmd_miracast, Cmd_p2p_use_mcc} \<or>
    bss_ifname bss \<noteq> ''ap0'' \<and> f = Null_deref \<and> classify E cmd = Cmd_p2p_use_mcc \<and> p2p s = None \<or>
    f = Buffer_overflow \<and> classify E cmd = Cmd_rx_packet_filter \<and> length cmd = 71 \<or>
    f = Out_of_bounds_read \<and> buf_len = 0 \<and> strncasecmp_eq 12 cmd ''WLS_BATCHING''"
proof -
  have no_batch: "\<not> strncasecmp_eq 12 ''MIRACAST 2'' ''WLS_BATCHING''"
    by (simp add: text_test_simps)
  from assms obtain drv ctx where drv: "bss_drv bss = Some drv" "drv_ctx drv = Some ctx"
    by (auto simp: wpa_driver_nl80211_driver_cmd_def split: option.splits)
  define wpa_s where "wpa_s = (if bss_ifname bss = ''ap0'' then None else map_option (\<lambda>conf. (ctx, conf)) (ctx_conf ctx))"
  have wpa_s: "wpa_s = None \<longleftrightarrow> bss_ifname bss = ''ap0''"
    using assms drv by (auto simp: wpa_s_def wpa_driver_nl80211_driver_cmd_def Let_def split: if_splits)
  show ?thesis
  proof (cases "run_cmd E drv wpa_s cmd buf_len (classify E cmd) s")
    case (Inl g)
    with assms drv wpa_s have "g = f"
      by (auto simp: wpa_driver_nl80211_driver_cmd_def Let_def wpa_s_def split: if_splits)
    with run_cmd_faults [OF Inl] wpa_s show ?thesis by auto
  next
    case (Inr oc)
    with assms drv wpa_s have "send_private E bss drv (oc_cmd oc) buf_len (oc_state oc) = Inl f"
      by (auto simp: wpa_driver_nl80211_driver_cmd_def Let_def wpa_s_def split: if_splits)
    with private_faults forwarded_cmd [OF Inr] no_batch show ?thesis by metis
  qed
qed

definition demo_ap :: wpa_bss where
  "demo_ap = \<lparr>bss_ifname = ''ap0'', bss_drv = Some demo_drv\<rparr>"

text \<open>The address query on the interface of hostapd, and a packet filter, which faults anywhere.\<close>

theorem command_faults_witness:
  "(\<exists>f. wpa_driver_nl80211_driver_cmd wifi_demo demo_ap ''MACADDR'' 64 (wifi_start ()) = Inl f \<and> f = Uninit_read) \<and>
   (\<exists>f. wpa_driver_nl80211_driver_cmd wifi_demo demo_bss (''mtk_rx_packet_filter '' @ replicate 50 CHR ''0'') 64
     (wifi_start ()) = Inl f \<and> f = Buffer_overflow)"
proof
  have "classify wifi_demo ''MACADDR'' = Cmd_macaddr"
    by (simp add: classify_def text_test_simps)
  then obtain f where "wpa_driver_nl80211_driver_cmd wifi_demo demo_ap ''MACADDR'' 64 (wifi_start ()) = Inl f"
    by (simp add: wpa_driver_nl80211_driver_cmd_def demo_ap_def demo_drv_def do_macaddr_def)
  with command_faults [OF this]
  show "\<exists>f. wpa_driver_nl80211_driver_cmd wifi_demo demo_ap ''MACADDR'' 64 (wifi_start ()) = Inl f \<and> f = Uninit_read"
    by (auto simp: demo_ap_def)
next
  let ?cmd = "''mtk_rx_packet_filter '' @ replicate 50 CHR ''0''"
  have cls: "classify wifi_demo ?cmd = Cmd_rx_packet_filter"
    by (simp add: classify_def classify_tail_def smt_table_def text_test_simps)
  then obtain f where "wpa_driver_nl80211_driver_cmd wifi_demo demo_bss ?cmd 64 (wifi_start ()) = Inl f"
    by (simp add: wpa_driver_nl80211_driver_cmd_def demo_bss_def demo_drv_def demo_ctx_def do_rx_packet_filter_def)
  with command_faults [OF this] cls
  show "\<exists>f. wpa_driver_nl80211_driver_cmd wifi_demo demo_bss ?cmd 64 (wifi_start ()) = Inl f \<and> f = Buffer_overflow"
    by (auto simp: demo_bss_def wifi_demo_def)
qed


section \<open>A supplicant interface\<close>

text \<open>The objects are there and the interface is not that of hostapd.\<close>

definition usable :: "wpa_bss \<Rightarrow> wpa_drv \<Rightarrow> wpa_ctx \<Rightarrow> p2p_conf \<Rightarrow> bool" where
  "usable bss drv ctx conf \<longleftrightarrow> bss_drv bss = Some drv \<and> drv_ctx drv = Some ctx \<and> ctx_conf ctx = Some conf \<and>
     bss_ifname bss \<noteq> ''ap0''"

lemma usable_cmd:
  "usable bss drv ctx conf \<Longrightarrow>
    wpa_driver_nl80211_driver_cmd E bss cmd buf_len s =
      (case run_cmd E drv (Some (ctx, conf)) cmd buf_len (classify E cmd) s of
         Inl f \<Rightarrow> Inl f
       | Inr oc \<Rightarrow>
           if oc_handled oc then Inr (oc_ret oc, oc_reply oc, oc_state oc)
           else send_private E bss drv (oc_cmd oc) buf_len (oc_state oc))"
  by (simp add: usable_def wpa_driver_nl80211_driver_cmd_def)

lemma demo_usable: "usable demo_bss demo_drv demo_ctx demo_conf"
  by (simp add: usable_def demo_bss_def demo_drv_def demo_ctx_def)

section \<open>Country code\<close>

lemma strlcpy_blank: "is_c_str t \<Longrightarrow> 0 < n \<Longrightarrow> c_str (strlcpy (replicate n NUL) t) = take (n - 1) t"
  by (auto simp: strlcpy_def buf_write_def is_c_str_take)

text \<open>The interface the request names.\<close>

definition country_iface :: "('k, 'x) wifi_env_scheme \<Rightarrow> wpa_drv \<Rightarrow> string" where
  "country_iface E drv =
     (if MTK_TC1_FEATURE E \<and> take 4 (first_bss_ifname drv) = ''p2p0'' then ''wlan0'' else first_bss_ifname drv)"

lemma set_country_two:
  assumes "length a = 2" and "is_c_str (first_bss_ifname drv)" and "0 < IFNAMSIZ E"
    and "wpa_driver_mediatek_set_country E drv a s = Inr (r, s')"
  shows "\<exists>fd. fd < 0 \<and> r = - 1 \<and> trace s' = trace s @ [Ev_socket Sock_inet_dgram fd] \<or>
    0 \<le> fd \<and> (\<exists>name i. c_str name = take (IFNAMSIZ E - 1) (country_iface E drv) \<and> r = min i 0 \<and>
      trace s' = trace s @ [Ev_socket Sock_inet_dgram fd, Ev_ioctl fd 0x8B0C (Iwreq_data name (''COUNTRY '' @ a)) i,
        Ev_close fd])"
proof -
  obtain fd s1 where sock: "sys_socket E Sock_inet_dgram s = (fd, s1)" by (rule prod.exhaust)
  have s1: "trace s1 = trace s @ [Ev_socket Sock_inet_dgram fd]"
    using trace_sys(8) [of E Sock_inet_dgram s] sock by simp
  show ?thesis
  proof (cases "fd < 0")
    case True
    with assms(4) sock s1 show ?thesis
      by (intro exI [of _ fd]) (simp add: wpa_driver_mediatek_set_country_def)
  next
    case False
    define name where "name = strlcpy (replicate (IFNAMSIZ E) NUL) (country_iface E drv)"
    obtain i s2 where io: "sys_ioctl E fd 0x8B0C (Iwreq_data name (''COUNTRY '' @ a)) s1 = (i, s2)"
      by (rule prod.exhaust)
    have s2: "trace s2 = trace s1 @ [Ev_ioctl fd 0x8B0C (Iwreq_data name (''COUNTRY '' @ a)) i]"
      using trace_sys(10) [of E fd "0x8B0C" "Iwreq_data name (''COUNTRY '' @ a)" s1] io by simp
    have "is_c_str (country_iface E drv)"
      using assms(2) by (simp add: country_iface_def NUL_def)
    then have nm: "c_str name = take (IFNAMSIZ E - 1) (country_iface E drv)"
      using assms(3) by (simp add: name_def strlcpy_blank)
    have "strncmp_eq (length ''p2p0'') (first_bss_ifname drv) ''p2p0'' \<longleftrightarrow> take 4 (first_bss_ifname drv) = ''p2p0''"
      by (subst strncmp_eq_prefix) (simp_all add: NUL_def numeral_eq_Suc)
    then have "(if MTK_TC1_FEATURE E \<and> strncmp_eq (length ''p2p0'') (first_bss_ifname drv) ''p2p0''
        then strlcpy (replicate (IFNAMSIZ E) NUL) ''wlan0''
        else strlcpy (replicate (IFNAMSIZ E) NUL) (first_bss_ifname drv)) = name"
      by (simp add: name_def country_iface_def)
    then have "r = min i 0" and "s' = sys_close E fd s2"
      using assms(1,4) sock False io
      by (auto simp: wpa_driver_mediatek_set_country_def sprintf_def Let_def split: if_splits)
    with s1 s2 nm False show ?thesis
      by (intro exI [of _ fd] disjI2 conjI exI [of _ name] exI [of _ i]) (simp_all add: trace_sys)
  qed
qed

text \<open>
  C10: the country command with a code of two characters sends exactly one request, on a new socket that is closed
  again, whose text is \<open>COUNTRY\<close> with the code, for the interface cut to the size of its field; the
  channel list is announced exactly when the request was accepted. The function below it
  overflows its buffer of eleven characters for every longer code.
\<close>

theorem country_code_sent:
  assumes "usable bss drv ctx conf" and "is_c_str (first_bss_ifname drv)" and "0 < IFNAMSIZ E"
  shows "(\<exists>r s' fd. wpa_driver_nl80211_driver_cmd E bss (''COUNTRY '' @ [a, b]) buf_len s = Inr (r, None, s') \<and>
      (fd < 0 \<and> r = - 1 \<and> trace s' = trace s @ [Ev_socket Sock_inet_dgram fd] \<or>
       (\<exists>name i. 0 \<le> fd \<and> c_str name = take (IFNAMSIZ E - 1) (country_iface E drv) \<and> r = min i 0 \<and>
         trace s' = trace s @ [Ev_socket Sock_inet_dgram fd,
             Ev_ioctl fd 0x8B0C (Iwreq_data name (''COUNTRY '' @ [a, b])) i, Ev_close fd] @
           (if i < 0 then [] else [Ev_supplicant (Channel_list_changed
              (Some (REGDOM_SET_BY_USER E, REGDOM_TYPE_COUNTRY E, [a, b])))])))) \<and>
    (wpa_driver_mediatek_set_country E drv code s = Inl Buffer_overflow \<longleftrightarrow>
      2 < length code \<and> 0 \<le> fst (sys_socket E Sock_inet_dgram s))"
proof
  let ?cmd = "''COUNTRY '' @ [a, b]"
  have cls: "classify E ?cmd = Cmd_country"
    by (simp add: classify_def text_test_simps)
  have seven: "strncasecmp_eq 7 ?cmd ''COUNTRY''"
    by (simp add: text_test_simps)
  obtain r s1 where sc: "wpa_driver_mediatek_set_country E drv [a, b] s = Inr (r, s1)"
    using country_no_overflow [of "[a, b]" E drv s]
    by (cases "wpa_driver_mediatek_set_country E drv [a, b] s") auto
  have run: "run_cmd E drv (Some (ctx, conf)) ?cmd buf_len Cmd_country s =
      finished ?cmd r (if r = 0 then wpa_driver_notify_country_change E ?cmd s1 else s1)"
    using sc by (simp add: do_country_def)
  have call: "wpa_driver_nl80211_driver_cmd E bss ?cmd buf_len s =
      Inr (r, None, if r = 0 then wpa_driver_notify_country_change E ?cmd s1 else s1)"
    unfolding usable_cmd [OF assms(1)] cls run by (simp add: finished_def)
  have note_ev: "trace (wpa_driver_notify_country_change E ?cmd s1) = trace s1 @
      [Ev_supplicant (Channel_list_changed (Some (REGDOM_SET_BY_USER E, REGDOM_TYPE_COUNTRY E, [a, b])))]"
    using seven by (simp add: wpa_driver_notify_country_change_def wpa_supplicant_event_def)
  let ?s' = "if r = 0 then wpa_driver_notify_country_change E ?cmd s1 else s1"
  from set_country_two [OF _ assms(2,3) sc] consider
    (none) fd where "fd < 0" "r = - 1" "trace s1 = trace s @ [Ev_socket Sock_inet_dgram fd]"
  | (sent) fd name i where "0 \<le> fd" "c_str name = take (IFNAMSIZ E - 1) (country_iface E drv)" "r = min i 0"
     "trace s1 = trace s @ [Ev_socket Sock_inet_dgram fd, Ev_ioctl fd 0x8B0C (Iwreq_data name ?cmd) i, Ev_close fd]"
    by auto
  then show "\<exists>r s' fd. wpa_driver_nl80211_driver_cmd E bss ?cmd buf_len s = Inr (r, None, s') \<and>
      (fd < 0 \<and> r = - 1 \<and> trace s' = trace s @ [Ev_socket Sock_inet_dgram fd] \<or>
       (\<exists>name i. 0 \<le> fd \<and> c_str name = take (IFNAMSIZ E - 1) (country_iface E drv) \<and> r = min i 0 \<and>
         trace s' = trace s @ [Ev_socket Sock_inet_dgram fd, Ev_ioctl fd 0x8B0C (Iwreq_data name ?cmd) i,
             Ev_close fd] @
           (if i < 0 then [] else [Ev_supplicant (Channel_list_changed
              (Some (REGDOM_SET_BY_USER E, REGDOM_TYPE_COUNTRY E, [a, b])))])))"
  proof cases
    case none
    then show ?thesis using call by auto
  next
    case sent
    have "trace ?s' = trace s @ [Ev_socket Sock_inet_dgram fd, Ev_ioctl fd 0x8B0C (Iwreq_data name ?cmd) i, Ev_close fd] @
        (if i < 0 then [] else [Ev_supplicant (Channel_list_changed
           (Some (REGDOM_SET_BY_USER E, REGDOM_TYPE_COUNTRY E, [a, b])))])"
      using sent note_ev by (cases "i < 0") simp_all
    with sent call show ?thesis by blast
  qed
  show "wpa_driver_mediatek_set_country E drv code s = Inl Buffer_overflow \<longleftrightarrow>
      2 < length code \<and> 0 \<le> fst (sys_socket E Sock_inet_dgram s)"
    by (auto simp: wpa_driver_mediatek_set_country_def sprintf_def Let_def split: prod.splits if_splits)
qed


theorem country_code_sent_witness:
  "\<exists>r s'. wpa_driver_nl80211_driver_cmd wifi_demo demo_bss ''COUNTRY US'' 64 (wifi_start ()) = Inr (r, None, s')"
proof -
  have "is_c_str (first_bss_ifname demo_drv)" and "0 < IFNAMSIZ wifi_demo"
    by (simp_all add: demo_drv_def wifi_demo_def NUL_def)
  from country_code_sent [OF demo_usable this, of "CHR ''U''" "CHR ''S''"] show ?thesis by fastforce
qed

end
