(* ===== verification/Wifi_Message_Props.thy ===== *)
theory Wifi_Message_Props
  imports Wifi_Props "HOL-Library.Sublist"
begin

text \<open>
  What the commands of the Wi-Fi driver library send: the switches of the test interface, the private command, the
  commands that are passed on, and the sink mode with a frequency.
\<close>

section \<open>Test mode messages\<close>

lemma testmode_send_effect:
  "\<exists>i. trace (snd (testmode_send E data s)) = trace s @
      (if fst (k_nlmsg_alloc E (kst s)) \<and> nla_put_ok E data then [Ev_netlink data i] else []) \<and>
    (fst (k_nlmsg_alloc E (kst s)) \<and> nla_put_ok E data \<longrightarrow> fst (testmode_send E data s) = i)"
  "p2p (snd (testmode_send E data s)) = p2p s" "ub (snd (testmode_send E data s)) = ub s"
  "drv_errors (snd (testmode_send E data s)) = drv_errors s"
  by (simp_all add: testmode_send_def wpa_driver_nl80211_testmode_def send_and_recv_msgs_def nlmsg_alloc_def nlmsg_free_def
      Let_def split_beta)

lemma begins_nocase_iff:
  "is_c_str (map tolower name) \<Longrightarrow> begins_nocase cmd name \<longleftrightarrow> (\<exists>rest. map tolower cmd = map tolower name @ rest)"
  using strncmp_eq_prefix [of "map tolower name" "map tolower cmd"]
  by (auto simp: begins_nocase_def strncasecmp_eq_def) (metis append_take_drop_id)

lemma smt_names:
  "(name, adr) \<in> set smt_table \<Longrightarrow> map tolower name = name \<and> is_c_str name \<and> take 9 name = ''smt-test-''"
proof -
  have "list_all (\<lambda>x. map tolower (fst x) = fst x \<and> is_c_str (fst x) \<and> take 9 (fst x) = ''smt-test-'') smt_table"
    unfolding smt_table_def by (simp add: tolower_chars NUL_def)
  then show "(name, adr) \<in> set smt_table \<Longrightarrow> map tolower name = name \<and> is_c_str name \<and> take 9 name = ''smt-test-''"
    unfolding list_all_iff by fastforce
qed

lemma begins_lower: "begins cmd name \<Longrightarrow> begins_nocase cmd name"
proof -
  assume "begins cmd name"
  then have "map tolower (take (length name) (cmd @ [NUL])) = map tolower (take (length name) (name @ [NUL]))"
    by (simp add: begins_def strncmp_eq_def)
  then show "begins_nocase cmd name"
    unfolding begins_nocase_def strncasecmp_eq_def strncmp_eq_def take_map [symmetric] map_append
    by (simp add: tolower_chars)
qed

text \<open>Every command before the switches differs from them within their common beginning.\<close>

lemma classify_switches:
  assumes "map tolower cmd = ''smt-test-'' @ rest"
  shows "classify E cmd =
    (case find (\<lambda>(name, adr). begins_nocase cmd name) smt_table of
       Some (name, adr) \<Rightarrow> Cmd_sw adr 0 | None \<Rightarrow> classify_tail E cmd)"
proof -
  have mac: "\<not> begins cmd ''MACADDR''"
    using begins_lower [of cmd "''MACADDR''"] assms
    by (auto simp: begins_nocase_def strncasecmp_eq_def strncmp_eq_def tolower_chars)
  have no: "begins_nocase cmd name \<longleftrightarrow> take (length name) (''smt-test-'' @ rest @ [NUL]) = take (length name) (map tolower name @ [NUL])"
    "strcasecmp_eq cmd name \<longleftrightarrow> ''smt-test-'' @ rest = map tolower name" for name
    using assms by (simp_all add: begins_nocase_def strncasecmp_eq_def strncmp_eq_def strcasecmp_eq_def)
  show ?thesis
    unfolding classify_def no(2) by (simp add: no(1) mac tolower_chars del: find.simps)
qed

text \<open>
  A switch is found whatever its case and whatever follows it, since no name begins with another.
\<close>

lemma smt_prefix_free: "list_all (\<lambda>x. list_all (\<lambda>y. prefix (fst x) (fst y) \<longrightarrow> fst x = fst y) smt_table) smt_table"
  unfolding smt_table_def by simp

lemma smt_distinct: "distinct (map fst smt_table)"
  unfolding smt_table_def by code_simp

lemma smt_prefix_unique:
  "x \<in> set smt_table \<Longrightarrow> y \<in> set smt_table \<Longrightarrow> prefix (fst x) (fst y) \<Longrightarrow> x = y"
  using smt_prefix_free smt_distinct unfolding list_all_iff by (metis eq_key_imp_eq_value prod.collapse)

lemma find_unique: "x \<in> set xs \<Longrightarrow> P x \<Longrightarrow> (\<And>y. y \<in> set xs \<Longrightarrow> P y \<Longrightarrow> y = x) \<Longrightarrow> find P xs = Some x"
  by (cases "find P xs") (metis find_None_iff option.distinct(1), metis find_Some_iff nth_mem)

lemma begins_prefix: "map tolower name = name \<Longrightarrow> is_c_str name \<Longrightarrow> begins_nocase cmd name \<longleftrightarrow> prefix name (map tolower cmd)"
  using begins_nocase_iff [of name cmd] by (simp add: prefix_def)

lemma find_switch:
  assumes "(name, adr) \<in> set smt_table" and "begins_nocase cmd name"
  shows "find (\<lambda>(name, adr). begins_nocase cmd name) smt_table = Some (name, adr)"
proof (rule find_unique)
  fix y assume y: "y \<in> set smt_table" "case y of (n, a) \<Rightarrow> begins_nocase cmd n"
  obtain n a where na: "y = (n, a)" by (rule prod.exhaust)
  have "prefix n (map tolower cmd)" and "prefix name (map tolower cmd)"
    using y na assms smt_names begins_prefix by auto
  then have "prefix n name \<or> prefix name n"
    by (rule prefix_same_cases)
  with smt_prefix_unique [OF y(1) assms(1)] smt_prefix_unique [OF assms(1) y(1)] na
  show "y = (name, adr)" by auto
qed (use assms in simp_all)

lemma classify_smt:
  assumes "(name, adr) \<in> set smt_table" and "begins_nocase cmd name"
  shows "classify E cmd = Cmd_sw adr 0"
proof -
  from smt_names [OF assms(1)] assms(2) obtain rest where low: "map tolower cmd = name @ rest"
    using begins_nocase_iff [of name cmd] by auto
  moreover from smt_names [OF assms(1)] obtain rest' where "name = ''smt-test-'' @ rest'"
    by (metis append_take_drop_id)
  ultimately show ?thesis
    using classify_switches [of cmd "rest' @ rest" E] find_switch [OF assms] by simp
qed

text \<open>
  C11: each of the fourteen switches of the test interface, in any case and whatever follows it, reports success and
  has sent exactly one message (when one could be allocated and built): the test mode command with
  the set flag, the address of that switch, which the statement lists, and no data. Whether the driver accepted it is
  not reported.
\<close>

theorem smt_switch_sent:
  assumes "usable bss drv ctx conf"
    and "(name, adr) \<in>
      {(''smt-test-on'', 0xFFFF1234), (''smt-test-off'', 0xFFFF1235),
       (''smt-test-scan-on'', 0xFFFF1260), (''smt-test-scan-off'', 0xFFFF1261),
       (''smt-test-roam-on'', 0xFFFF1262), (''smt-test-roam-off'', 0xFFFF1263),
       (''smt-test-cam-on'', 0xFFFF1264), (''smt-test-cam-off'', 0xFFFF1265),
       (''smt-test-bcn-on'', 0xFFFF1266), (''smt-test-bcn-off'', 0xFFFF1267),
       (''smt-test-power-on'', 0xFFFF1268), (''smt-test-power-off'', 0xFFFF1269),
       (''smt-test-fifo-on'', 0xFFFF1270), (''smt-test-fifo-off'', 0xFFFF1271)}"
    and "map tolower cmd = name @ rest"
  shows "\<exists>s' i. wpa_driver_nl80211_driver_cmd E bss cmd buf_len s = Inr (0, None, s') \<and>
    (let d = cells (le32 0x01000001 @ le32 20 @ [1, 0, 0, 0] @ le32 adr @ le32 0) in
     trace s' = trace s @ (if fst (k_nlmsg_alloc E (kst s)) \<and> nla_put_ok E d then [Ev_netlink d i] else [])) \<and>
    p2p s' = p2p s \<and> ub s' = ub s"
proof -
  let ?d = "cells (le32 0x01000001 @ le32 20 @ [1, 0, 0, 0] @ le32 adr @ le32 0)"
  let ?s' = "snd (testmode_send E ?d s)"
  have listed: "(name, adr) \<in> set smt_table"
    using assms(2) by (simp only: smt_table_def list.set)
  with assms(3) have "begins_nocase cmd name"
    using smt_names begins_prefix by (metis prefixI)
  then have cls: "classify E cmd = Cmd_sw adr 0"
    by (rule classify_smt [OF listed])
  have "cells (sw_cmd_params (with_version NL80211_TESTMODE_SW_CMD) 1 adr 0) = ?d"
    by (simp add: sw_cmd_params_def hdr_bytes_def with_version_def testmode_ids)
  then have "wpa_driver_nl80211_driver_cmd E bss cmd buf_len s = Inr (0, None, ?s')"
    by (simp add: usable_cmd [OF assms(1)] cls finished_def
        wpa_driver_nl80211_driver_sw_cmd_def Let_def split_beta)
  with testmode_send_effect [of E ?d s] show ?thesis unfolding Let_def by blast
qed

theorem smt_switch_sent_witness:
  "\<exists>s'. wpa_driver_nl80211_driver_cmd wifi_demo demo_bss ''SMT-test-cam-off now'' 64 (wifi_start ()) = Inr (0, None, s')"
proof -
  have "map tolower ''SMT-test-cam-off now'' = ''smt-test-cam-off'' @ '' now''" by (simp add: tolower_chars)
  note sent = smt_switch_sent [where adr = "0xFFFF1265" and E = wifi_demo and buf_len = 64 and s = "wifi_start ()",
      OF demo_usable _ this]
  show ?thesis by (rule exE [OF sent]) (simp, blast)
qed


section \<open>The private command\<close>

lemma priv_cmd_buf_eq:
  "priv_cmd_buf cmd = (if length cmd < PRIV_CMD_SIZE
     then cmd @ replicate (PRIV_CMD_SIZE - length cmd) NUL else take PRIV_CMD_SIZE cmd)"
proof (cases "length cmd < PRIV_CMD_SIZE")
  case True
  then obtain k where "PRIV_CMD_SIZE - length cmd = Suc k"
    by (metis Suc_diff_Suc)
  with True show ?thesis
    by (simp add: priv_cmd_buf_def priv_cmd_len_def buf_write_def)
qed (simp add: priv_cmd_buf_def priv_cmd_len_def buf_write_def PRIV_CMD_SIZE_def)

lemma priv_cmd_buf_facts:
  assumes "is_c_str cmd"
  shows "length (priv_cmd_buf cmd) = 512"
    and "if length cmd < 512 then c_str (priv_cmd_buf cmd) = cmd \<and> priv_cmd_len cmd = length cmd
      else priv_cmd_buf cmd = take 512 cmd \<and> NUL \<notin> set (priv_cmd_buf cmd) \<and> priv_cmd_len cmd = 511"
proof -
  show "length (priv_cmd_buf cmd) = 512"
    by (simp add: priv_cmd_buf_eq PRIV_CMD_SIZE_def)
  show "if length cmd < 512 then c_str (priv_cmd_buf cmd) = cmd \<and> priv_cmd_len cmd = length cmd
      else priv_cmd_buf cmd = take 512 cmd \<and> NUL \<notin> set (priv_cmd_buf cmd) \<and> priv_cmd_len cmd = 511"
    using assms is_c_str_take [OF assms, of 512]
    by (auto simp: priv_cmd_buf_eq priv_cmd_len_def PRIV_CMD_SIZE_def c_str_padded is_c_str_def)
qed

lemma send_private_result:
  assumes "sys_ioctl E (ioctl_sock drv) (SIOCDEVPRIVATE E + 1) (Ifreq_priv (strncpy (IFNAMSIZ E) (bss_ifname bss))
      (priv_cmd_buf cmd) (int (priv_cmd_len cmd + 1)) (int PRIV_CMD_SIZE)) s = (i, s1)"
    and "0 < buf_len"
  shows "send_private E bss drv cmd buf_len s =
    Inr (if i < 0 then 5 else if strncasecmp_eq 12 cmd ''WLS_BATCHING'' then int (min 3 (buf_len - 1)) else 3,
         Some (take (buf_len - 1) (if i < 0 then ''FAIL\<newline>'' else ''OK\<newline>'')),
         if i < 0 then wpa_driver_send_hang_msg E s1 else s1\<lparr>drv_errors := 0\<rparr>)"
  unfolding send_private_def Let_def assms(1) using assms(2) by (simp add: snprintf_reply_def min_def)

text \<open>
  C12: the command reaches the driver in a buffer of 512 bytes whose stated length never passes it: whole and
  terminated when it is shorter than 512 characters, else cut to 512 characters with no terminator at
  all. The reply is \<open>OK\<close> or \<open>FAIL\<close>, cut to the caller's buffer; the result is the length
  of the uncut reply, except for a batching command that succeeds. The error counter counts the failures in a
  row, starting again at zero after a success or past the limit.
\<close>

theorem private_command:
  assumes "is_c_str cmd" and "0 < buf_len"
  shows "\<exists>i s' buf used. send_private E bss drv cmd buf_len s =
      Inr (if i < 0 then 5 else if strncasecmp_eq 12 cmd ''WLS_BATCHING'' then int (min 3 (buf_len - 1)) else 3,
        Some (take (buf_len - 1) (if i < 0 then ''FAIL\<newline>'' else ''OK\<newline>'')), s') \<and>
    trace s' = trace s @ [Ev_ioctl (ioctl_sock drv) (SIOCDEVPRIVATE E + 1)
        (Ifreq_priv (strncpy (IFNAMSIZ E) (bss_ifname bss)) buf (int used + 1) 512) i] \<and>
    length buf = 512 \<and> used + 1 \<le> 512 \<and>
    (if length cmd < 512 then c_str buf = cmd \<and> used = length cmd
     else buf = take 512 cmd \<and> NUL \<notin> set buf \<and> used = 511) \<and>
    drv_errors s' = (if 0 \<le> i \<or> DRV_NUMBER_SEQUENTIAL_ERRORS E < drv_errors s + 1 then 0 else drv_errors s + 1)"
proof -
  let ?arg = "Ifreq_priv (strncpy (IFNAMSIZ E) (bss_ifname bss)) (priv_cmd_buf cmd) (int (priv_cmd_len cmd + 1))
    (int PRIV_CMD_SIZE)"
  obtain i s1 where io: "sys_ioctl E (ioctl_sock drv) (SIOCDEVPRIVATE E + 1) ?arg s = (i, s1)"
    by (rule prod.exhaust)
  let ?s' = "if i < 0 then wpa_driver_send_hang_msg E s1 else s1\<lparr>drv_errors := 0\<rparr>"
  have s1: "trace s1 = trace s @ [Ev_ioctl (ioctl_sock drv) (SIOCDEVPRIVATE E + 1) ?arg i]"
    using trace_sys(10) [of E "ioctl_sock drv" "SIOCDEVPRIVATE E + 1" ?arg s] io by simp
  have "drv_errors s1 = drv_errors s"
    using io by (auto simp: sys_ioctl_def log_call_def split: prod.splits)
  then have err: "drv_errors ?s' = (if 0 \<le> i \<or> DRV_NUMBER_SEQUENTIAL_ERRORS E < drv_errors s + 1 then 0 else drv_errors s + 1)"
    by (simp add: wpa_driver_send_hang_msg_def)
  have tr: "trace ?s' = trace s @ [Ev_ioctl (ioctl_sock drv) (SIOCDEVPRIVATE E + 1)
      (Ifreq_priv (strncpy (IFNAMSIZ E) (bss_ifname bss)) (priv_cmd_buf cmd) (int (priv_cmd_len cmd) + 1) 512) i]"
    using s1 by (simp add: wpa_driver_send_hang_msg_def PRIV_CMD_SIZE_def Let_def add.commute)
  have "priv_cmd_len cmd + 1 \<le> 512"
    by (simp add: priv_cmd_len_def PRIV_CMD_SIZE_def)
  then show ?thesis
    using send_private_result [OF io assms(2)] tr priv_cmd_buf_facts [OF assms(1)] err by blast
qed

lemma demo_cmd_c_str: "is_c_str ''WLS_BATCHING GET''"
  by (simp add: NUL_def)

theorem private_command_witness:
  "\<exists>r reply s'. send_private wifi_demo demo_bss demo_drv ''WLS_BATCHING GET'' 2 (wifi_start ()) = Inr (r, Some reply, s')
     \<and> length reply \<le> 1"
  using private_command [OF demo_cmd_c_str, of 2 wifi_demo demo_bss demo_drv "wifi_start ()"] by fastforce

section \<open>Commands that are passed on\<close>

lemma str_cmd_cells_length: "length (str_cmd_cells cmd) = 8 + length cmd"
  by (simp add: str_cmd_cells_def str_cmd_buffer_def char_bytes_def Let_def)

lemma str_cmd_cells_header: "hdr_index (str_cmd_cells cmd) = 102"
  by (simp add: str_cmd_cells_def str_cmd_buffer_def hdr_index_def cells_def hdr_bytes_def with_version_def
      testmode_ids BITS_0_23 Let_def take_map comp_def)

lemma str_cmd_cells_unset: "None \<in> set (str_cmd_cells cmd) \<longleftrightarrow> 92 < length cmd"
  by (auto simp: str_cmd_cells_def Let_def cells_def dest!: in_set_takeD)

lemma str_cmd_cells_buflen: "take 4 (drop 4 (str_cmd_cells cmd)) = cells (le32 (of_nat (8 + length cmd)))"
  by (simp add: str_cmd_cells_def str_cmd_buffer_def Let_def cells_def hdr_bytes_def take_map drop_map)

lemma str_cmd_cells_text:
  "take (min 92 (length cmd)) (drop 8 (str_cmd_cells cmd)) = cells (char_bytes (take 92 cmd))"
  by (simp add: str_cmd_cells_def str_cmd_buffer_def Let_def cells_def char_bytes_def strncpy_def take_map
      drop_map min_def)

lemma do_transparent_result:
  "do_transparent E cmd s = forward cmd
     (snd (testmode_send E (str_cmd_cells cmd) (s\<lparr>ub := ub s @ (if 92 < length cmd then [Out_of_bounds_read] else [])\<rparr>)))"
  by (auto simp: do_transparent_def note_ub_def Let_def split_beta)

text \<open>
  C14: a command that is not known here is passed on twice. The test mode message comes first: its header has the
  index 102 and the length of the message, and the text follows; with more than 92 characters the message is longer
  than the buffer it was built in, and the bytes behind the buffer are sent with it. The
  private command follows in every case, and its result is the result.
\<close>

theorem transparent_command:
  assumes "usable bss drv ctx conf" and "classify E cmd = Cmd_transparent"
  shows "\<exists>d i s1. wpa_driver_nl80211_driver_cmd E bss cmd buf_len s = send_private E bss drv cmd buf_len s1 \<and>
    trace s1 = trace s @ (if fst (k_nlmsg_alloc E (kst s)) \<and> nla_put_ok E d then [Ev_netlink d i] else []) \<and>
    length d = 8 + length cmd \<and> hdr_index d = 102 \<and> take 4 (drop 4 d) = cells (le32 (of_nat (length d))) \<and>
    take (min 92 (length cmd)) (drop 8 d) = cells (char_bytes (take 92 cmd)) \<and>
    (None \<in> set d \<longleftrightarrow> 92 < length cmd) \<and>
    ub s1 = ub s @ (if 92 < length cmd then [Out_of_bounds_read] else []) \<and> drv_errors s1 = drv_errors s"
proof -
  let ?d = "str_cmd_cells cmd"
  let ?s0 = "s\<lparr>ub := ub s @ (if 92 < length cmd then [Out_of_bounds_read] else [])\<rparr>"
  let ?s1 = "snd (testmode_send E ?d ?s0)"
  have "wpa_driver_nl80211_driver_cmd E bss cmd buf_len s = send_private E bss drv cmd buf_len ?s1"
    by (simp add: usable_cmd [OF assms(1)] assms(2) do_transparent_result forward_def)
  moreover obtain i where "trace ?s1 = trace s @
      (if fst (k_nlmsg_alloc E (kst s)) \<and> nla_put_ok E ?d then [Ev_netlink ?d i] else [])"
    using testmode_send_effect(1) [of E ?d ?s0] by auto
  ultimately show ?thesis
    using str_cmd_cells_length str_cmd_cells_header str_cmd_cells_unset str_cmd_cells_text str_cmd_cells_buflen
      testmode_send_effect(3,4) [of E ?d ?s0]
    by (intro exI [of _ ?d] exI [of _ i] exI [of _ ?s1]) simp
qed

theorem transparent_command_witness:
  "\<exists>r reply s'. wpa_driver_nl80211_driver_cmd wifi_demo demo_bss (''X'' @ replicate 100 CHR ''a'') 64 (wifi_start ()) =
     Inr (r, reply, s') \<and> ub s' = [Out_of_bounds_read]"
proof -
  let ?cmd = "''X'' @ replicate 100 CHR ''a''"
  have "classify wifi_demo ?cmd = Cmd_transparent"
    by (simp add: classify_def classify_tail_def smt_table_def text_test_simps numeral_eq_Suc)
  from transparent_command [OF demo_usable this, of 64 "wifi_start ()"] obtain s1 where
    call: "wpa_driver_nl80211_driver_cmd wifi_demo demo_bss ?cmd 64 (wifi_start ()) =
      send_private wifi_demo demo_bss demo_drv ?cmd 64 s1" and "ub s1 = [Out_of_bounds_read]"
    by (auto simp: wifi_start_def)
  obtain i s2 where io: "sys_ioctl wifi_demo (ioctl_sock demo_drv) (SIOCDEVPRIVATE wifi_demo + 1)
      (Ifreq_priv (strncpy (IFNAMSIZ wifi_demo) (bss_ifname demo_bss))
      (priv_cmd_buf ?cmd) (int (priv_cmd_len ?cmd + 1)) (int PRIV_CMD_SIZE)) s1 = (i, s2)"
    by (rule prod.exhaust)
  then have "ub s2 = ub s1"
    by (auto simp: sys_ioctl_def log_call_def split: prod.splits)
  with send_private_result [OF io, of 64] call \<open>ub s1 = [Out_of_bounds_read]\<close> show ?thesis
    by (auto simp: wpa_driver_send_hang_msg_def Let_def)
qed


section \<open>Sink mode by frequency\<close>

lemma miracast_class: "CONFIG_MTK_WFD_SINK E \<Longrightarrow> classify E (''MIRACAST 2'' @ rest) = Cmd_miracast"
  by (simp add: classify_def classify_tail_def smt_table_def text_test_simps)

lemma miracast_mode: "10 \<le> digit_value (hd (x # rest)) \<Longrightarrow> 32 \<le> bits \<Longrightarrow>
    atoi bits (drop 9 (''MIRACAST 2'' @ x # rest)) = 2"
proof -
  assume x: "10 \<le> digit_value (hd (x # rest))" and "32 \<le> bits"
  then have "(2 :: int) ^ 31 \<le> 2 ^ (bits - 1)"
    by (intro power_increasing) auto
  then have "2147483648 \<le> (2 :: int) ^ (bits - 1)" by simp
  then have "clamp bits 2 = 2" by (intro clamp_id) linarith+
  moreover have "fmt_d 2 = ''2''" by (simp add: fmt_d_def dec.simps)
  ultimately show ?thesis
    using strtol_fmt_d [of "x # rest" bits 2] x by (simp add: atoi_def)
qed

lemma strstr_freq: "strstr (''MIRACAST 2 freq='' @ t) '' freq='' = Some ('' freq='' @ t)"
  by (simp add: strstr.simps)

text \<open>
  C24: the sink mode with a frequency behind it tunes the peer-to-peer module to the channel of that frequency, if it
  is one, and passes exactly the command \<open>MIRACAST 2\<close> on to the driver, in a terminated buffer.
\<close>

theorem miracast_frequency:
  assumes "usable bss drv ctx conf" and "CONFIG_MTK_WFD_SINK E" and "p2p s = Some p" and "32 \<le> LONG_BITS E"
    and "0 < freq" and "freq < 2 ^ 31" and "0 < buf_len"
  shows "\<exists>r reply s' q i buf. wpa_driver_nl80211_driver_cmd E bss (''MIRACAST 2 freq='' @ fmt_d freq) buf_len s = Inr (r, reply, s') \<and>
    p2p s' = Some q \<and> op_reg_class q = map_option fst (priv_p2p_freq_to_channel (word_of_int freq)) \<and>
    op_channel q = map_option snd (priv_p2p_freq_to_channel (word_of_int freq)) \<and>
    trace s' = trace s @ [Ev_ioctl (ioctl_sock drv) (SIOCDEVPRIVATE E + 1)
      (Ifreq_priv (strncpy (IFNAMSIZ E) (bss_ifname bss)) buf 11 512) i] \<and>
    c_str buf = ''MIRACAST 2''"
proof -
  let ?cmd = "''MIRACAST 2 freq='' @ fmt_d freq"
  let ?f = "word_of_int freq :: u32"
  let ?s1 = "snd (p2p_wfd_sink_config_scc E conf True ?f s)"
  have "(2 :: int) ^ 31 \<le> 2 ^ (LONG_BITS E - 1)"
    using assms(4) by (intro power_increasing) auto
  with assms(5,6) have "clamp (LONG_BITS E) freq = freq"
    by (intro clamp_id) linarith+
  then have num: "atoi (LONG_BITS E) (fmt_d freq) = ?f"
    using strtol_fmt_d [of "[]" "LONG_BITS E" freq] by (simp add: atoi_def)
  have mode: "atoi (LONG_BITS E) (drop 9 ?cmd) = 2"
    using miracast_mode [of "CHR '' ''" "''freq='' @ fmt_d freq" "LONG_BITS E"] assms(4)
    by (simp add: digit_value_def)
  have cls: "classify E ?cmd = Cmd_miracast"
    using miracast_class [OF assms(2), of "'' freq='' @ fmt_d freq"] by simp
  have run: "run_cmd E drv (Some (ctx, conf)) ?cmd buf_len (classify E ?cmd) s = forward ''MIRACAST 2'' ?s1"
    unfolding cls run_cmd.simps do_miracast_def Let_def strstr_freq using mode num by simp
  have "?f \<noteq> 0"
    using assms(5,6) zdvd_not_zless [of freq "2 ^ 32"] by (simp add: word_of_int_eq_0_iff)
  then have q: "p2p ?s1 = Some q \<Longrightarrow> op_reg_class q = map_option fst (priv_p2p_freq_to_channel ?f) \<and>
      op_channel q = map_option snd (priv_p2p_freq_to_channel ?f)" for q
    using assms(3) by (auto simp: p2p_wfd_sink_config_scc_def note_ub_def Let_def split: if_splits)
  have tr: "trace ?s1 = trace s" and "p2p ?s1 \<noteq> None"
    using assms(3) \<open>?f \<noteq> 0\<close> by (auto simp: p2p_wfd_sink_config_scc_def note_ub_def Let_def)
  then obtain q0 where q0: "p2p ?s1 = Some q0" by auto
  obtain i s2 where io: "sys_ioctl E (ioctl_sock drv) (SIOCDEVPRIVATE E + 1)
      (Ifreq_priv (strncpy (IFNAMSIZ E) (bss_ifname bss)) (priv_cmd_buf ''MIRACAST 2'')
        (int (priv_cmd_len ''MIRACAST 2'' + 1)) (int PRIV_CMD_SIZE)) ?s1 = (i, s2)"
    by (rule prod.exhaust)
  have tr2: "trace s2 = trace ?s1 @ [Ev_ioctl (ioctl_sock drv) (SIOCDEVPRIVATE E + 1)
      (Ifreq_priv (strncpy (IFNAMSIZ E) (bss_ifname bss)) (priv_cmd_buf ''MIRACAST 2'') 11 512) i]"
    and "p2p s2 = p2p ?s1"
    using io by (auto simp: sys_ioctl_def log_call_def priv_cmd_len_def PRIV_CMD_SIZE_def split: prod.splits)
  moreover have "c_str (priv_cmd_buf ''MIRACAST 2'') = ''MIRACAST 2''"
    using priv_cmd_buf_facts(2) [of "''MIRACAST 2''"] by (simp add: NUL_def)
  ultimately show ?thesis
    using send_private_result [OF io assms(7)] q [OF q0] q0 tr run
    by (auto simp: usable_cmd [OF assms(1)] forward_def wpa_driver_send_hang_msg_def Let_def)
qed

theorem miracast_frequency_witness:
  "\<exists>s' q. snd (snd (projr (wpa_driver_nl80211_driver_cmd wifi_demo demo_bss (''MIRACAST 2 freq='' @ fmt_d 2437) 64 wifi_p2p_start))) = s'
     \<and> p2p s' = Some q \<and> op_channel q = Some 6"
proof -
  have "CONFIG_MTK_WFD_SINK wifi_demo" "32 \<le> LONG_BITS wifi_demo" by (simp_all add: wifi_demo_def)
  moreover have "p2p wifi_p2p_start = Some demo_p2p" by (simp add: wifi_p2p_start_def)
  moreover have "priv_p2p_freq_to_channel (word_of_int 2437) = Some (81, 6)"
    by (simp add: priv_p2p_freq_to_channel_def)
  ultimately show ?thesis
    using miracast_frequency [OF demo_usable, of wifi_demo wifi_p2p_start demo_p2p 2437 64] by force
qed

end
