(* ===== verification/Wifi_Stats_Command.thy ===== *)
theory Wifi_Stats_Command
  imports Wifi_Message_Props Wifi_Stats_Props
begin

text \<open>
  The command that asks for the statistics of a station, from the text of the command to the reply: the one message it
  sends, the answers that fill the structure, the text that is returned and the lines of the log.
\<close>

section \<open>The request\<close>

text \<open>The bytes of the message for a station's address.\<close>

definition statistics_request :: "('k, 'x) wifi_env_scheme \<Rightarrow> u8 list \<Rightarrow> cell list" where
  "statistics_request E mac =
     cells (get_sta_statistics_params (with_version NL80211_TESTMODE_STATISTICS) mac (ptr_bytes E))"

lemma statistics_request_header: "hdr_index (statistics_request E mac) = 0x10"
  by (simp add: statistics_request_def get_sta_statistics_params_def hdr_index_def cells_def hdr_bytes_def
      with_version_def testmode_ids BITS_0_23 take_map comp_def)

text \<open>The message is sent when one could be allocated and the data fit into it.\<close>

definition sendable :: "('k, 'x) wifi_env_scheme \<Rightarrow> cell list \<Rightarrow> 'k wifi \<Rightarrow> bool" where
  "sendable E d s \<longleftrightarrow> fst (k_nlmsg_alloc E (kst s)) \<and> nla_put_ok E d"

definition answer_to :: "('k, 'x) wifi_env_scheme \<Rightarrow> cell list \<Rightarrow> 'k wifi \<Rightarrow> int \<times> u8 list list" where
  "answer_to E d s =
     (let (r, replies, _) = k_send_recv E (snd (k_nlmsg_alloc E (kst s))) d in (r, replies))"

lemma request_result:
  assumes "hdr_index d = 0x10"
  shows "wpa_driver_nl80211_testmode E d st s = (r, st', s') \<Longrightarrow>
    (if sendable E d s then r = fst (answer_to E d s) \<and>
         st' = fold (testmode_sta_statistics_handler E) (snd (answer_to E d s)) st \<and>
         trace s' = trace s @ [Ev_netlink d r]
       else r < 0 \<and> trace s' = trace s) \<and> ub s' = ub s"
  using assms by (auto simp: wpa_driver_nl80211_testmode_def send_and_recv_msgs_def nlmsg_alloc_def nlmsg_free_def sendable_def answer_to_def
      ENOBUFS_def Let_def split: prod.splits if_splits)

lemma classify_statistics:
  assumes "begins_nocase cmd ''GET_STA_STATISTICS ''"
  shows "classify E cmd = Cmd_get_sta_statistics"
proof -
  have "map tolower (''GET_STA_STATISTICS '') = ''get_sta_statistics ''" by (simp add: tolower_chars)
  then obtain rest where "map tolower cmd = ''get_sta_statistics '' @ rest"
    using assms begins_nocase_iff [of "''GET_STA_STATISTICS ''" cmd] by (auto simp: NUL_def)
  then have "\<not> begins_nocase cmd ''POWERMODE ''"
    by (simp add: begins_nocase_def strncasecmp_eq_def strncmp_eq_def tolower_chars)
  with assms show ?thesis by (simp add: classify_def)
qed

section \<open>The log\<close>

lemma length_fmt_wd_sint: "w \<le> 11 \<Longrightarrow> length (fmt_wd w (sint (v :: u32))) \<le> 11"
  using length_fmt_d_sint [of v] by (simp add: fmt_wd_def)

lemma length_log_counts:
  "length (log_counts cs) \<le> sum_list (map (\<lambda>(name, v). length name + 11) cs)"
proof (induction cs)
  case (Cons c cs)
  then show ?case
    using length_fmt_wd_sint [of 4 "snd c"] by (simp add: log_counts_def split_beta)
qed (simp add: log_counts_def)

lemma length_log_class: "length (log_class st i) \<le> 37"
  using length_fmt_wd_sint [of 5 "tc_wanted_res st ! i"] length_fmt_wd_sint [of 5 "tc_used_res st ! i"]
    length_fmt_wd_sint [of 5 "tc_back_count st ! i"] by (simp add: log_class_def)

lemma stat_log_bound: "length (stat_log st) = 5" "list_all (\<lambda>t. length t \<le> 195) (stat_log st)"
proof -
  show "length (stat_log st) = 5" by (simp add: stat_log_def)
  note class_len = length_log_class [of st 0] length_log_class [of st 1] length_log_class [of st 2]
    length_log_class [of st 3]
  have counts: "n + sum_list (map (\<lambda>(name, v). length name + 11) cs) \<le> 195 \<Longrightarrow> n + length (log_counts cs) \<le> 195"
    for cs n using length_log_counts [of cs] by linarith
  have last_line: "length (log_counts [('' Score:'', link_score st)]) \<le> 18"
    using length_log_counts [of "[('' Score:'', link_score st)]"] by simp
  show "list_all (\<lambda>t. length t \<le> 195) (stat_log st)"
    unfolding stat_log_def list.pred_inject length_append
    by (intro conjI TrueI counts) (use class_len last_line in simp_all)
qed

section \<open>The command\<close>

text \<open>
  C29: on an interface of the supplicant, with a reply buffer of at least 605 bytes, the command for the statistics of
  a station does one of three things. An address that cannot be read fails with -1 and sends nothing. Otherwise the one
  message for the address is sent, when it can be built; the command fails with -1 and no reply when it was not sent or the driver
  refused it. When the driver accepted it, the reply is the whole text of the statistics that the answers fill, the result is its
  length, and five lines of at most 195 characters go to the log, after the message.
\<close>

theorem statistics_command:
  assumes "usable bss drv ctx conf" and "begins_nocase cmd ''GET_STA_STATISTICS ''" and "605 \<le> buf_len"
    and "\<And>mac. length (mac_text E mac) \<le> 17"
  shows "\<exists>r reply s'. wpa_driver_nl80211_driver_cmd E bss cmd buf_len s = Inr (r, reply, s') \<and>
    (case hwaddr_aton E (drop 19 cmd) of
       None \<Rightarrow> r = - 1 \<and> reply = None \<and> s' = s
     | Some mac \<Rightarrow>
         let d = statistics_request E mac; (i, answers) = answer_to E d s;
             st = fold (testmode_sta_statistics_handler E) answers zero_stats
         in if sendable E d s \<and> 0 \<le> i
            then reply = Some (stat_text E st) \<and> r = int (length (stat_text E st)) \<and> stats_wf st \<and>
              trace s' = trace s @ Ev_netlink d i # map (\<lambda>t. Ev_log (map Some t)) (stat_log st) \<and>
              length (stat_log st) = 5 \<and> list_all (\<lambda>t. length t \<le> 195) (stat_log st)
            else r = - 1 \<and> reply = None \<and>
              trace s' = trace s @ (if sendable E d s then [Ev_netlink d i] else []))"
proof -
  obtain r reply s' where call: "wpa_driver_get_sta_statistics E (drop 19 cmd) buf_len s = (r, reply, s')"
    by (rule prod_cases3)
  then have cmd: "wpa_driver_nl80211_driver_cmd E bss cmd buf_len s = Inr (r, reply, s')"
    by (simp add: usable_cmd [OF assms(1)] classify_statistics [OF assms(2)] do_get_sta_statistics_def replied_def)
  show ?thesis
  proof (cases "hwaddr_aton E (drop 19 cmd)")
    case None
    with call cmd show ?thesis by (auto simp: wpa_driver_get_sta_statistics_def)
  next
    case (Some mac)
    define d where "d = statistics_request E mac"
    obtain q st s1 where t: "wpa_driver_nl80211_testmode E d zero_stats s = (q, st, s1)"
      by (rule prod_cases3)
    then have q: "wpas_get_sta_statistics E mac zero_stats s = (q, st, s1)"
      by (simp add: wpas_get_sta_statistics_def d_def statistics_request_def)
    obtain i answers where a: "answer_to E d s = (i, answers)" by (rule prod.exhaust)
    have st: "st = fold (testmode_sta_statistics_handler E) answers zero_stats" if "sendable E d s"
      using request_result [OF statistics_request_header t [unfolded d_def]] that a by (simp add: d_def)
    have eff: "(if sendable E d s then q = i \<and> trace s1 = trace s @ [Ev_netlink d i] else q < 0 \<and> trace s1 = trace s)"
      using request_result [OF statistics_request_header t [unfolded d_def]] a by (simp add: d_def)
    show ?thesis
    proof (cases "sendable E d s \<and> 0 \<le> i")
      case True
      have wf: "stats_wf st"
        unfolding st [OF conjunct1 [OF True]] by (rule replies_wf [OF zero_stats_wf])
      have "\<not> q < 0" using True eff by simp
      then have "r = int (length (stat_text E st))" and "reply = Some (stat_text E st)"
        and "s' = format_sta_statistics st (s1\<lparr>ub := ub s1 @ [Out_of_bounds_read]\<rparr>)"
        using call Some q print_complete [OF wf assms(4,3)]
        by (simp_all add: wpa_driver_get_sta_statistics_def wpas_p2p_get_sta_mac_def)
      with True eff st wf a Some cmd stat_log_bound [of st] show ?thesis
        by (simp add: format_sta_statistics_def Let_def d_def)
    next
      case False
      with eff have "q < 0" by (auto split: if_splits)
      then have "r = - 1 \<and> reply = None \<and> s' = s1"
        using call Some q by (simp add: wpa_driver_get_sta_statistics_def wpas_p2p_get_sta_mac_def)
      with False eff a Some cmd show ?thesis by (auto simp: Let_def d_def split: if_splits)
    qed
  qed
qed

theorem statistics_command_witness:
  "\<exists>st s'. wpa_driver_nl80211_driver_cmd wifi_demo demo_bss ''get_sta_statistics 02:00:00:00:00:01'' 4096 (wifi_start ()) =
     Inr (int (length (stat_text wifi_demo st)), Some (stat_text wifi_demo st), s') \<and> length (trace s') = 6"
proof -
  let ?cmd = "''get_sta_statistics 02:00:00:00:00:01''"
  have "begins_nocase ?cmd ''GET_STA_STATISTICS ''" by (simp add: text_test_simps)
  moreover have "length (mac_text wifi_demo mac) \<le> 17" for mac by (simp add: wifi_demo_def)
  moreover have "hwaddr_aton wifi_demo (drop 19 ?cmd) = Some [2, 0, 0, 0, 0, 1]" by (simp add: wifi_demo_def)
  moreover have "sendable wifi_demo (statistics_request wifi_demo [2, 0, 0, 0, 0, 1]) (wifi_start ())"
    by (simp add: sendable_def wifi_demo_def statistics_request_def get_sta_statistics_params_def cells_def)
  moreover have "answer_to wifi_demo (statistics_request wifi_demo [2, 0, 0, 0, 0, 1]) (wifi_start ()) = (0, [])"
    by (simp add: answer_to_def wifi_demo_def)
  moreover have "trace (wifi_start ()) = []" by (simp add: wifi_start_def)
  ultimately show ?thesis
    using statistics_command [OF demo_usable, of ?cmd 4096 wifi_demo "wifi_start ()"] by (auto simp: Let_def)
qed

end
