(* ===== verification/Wifi_Layout.thy ===== *)
theory Wifi_Layout
  imports Wifi_Testmode
begin

text \<open>
  The structures of \<^verbatim>\<open>wpa_supplicant_8_lib/mediatek_driver_nl80211.h\<close> as C types, with the sizes and offsets the platform's
  rules give them: the bytes the library sends are laid out by these rules, and the statistics end where they say.
\<close>

section \<open>C types and their layout\<close>

text \<open>
  The machine decides the size of a pointer and how 64-bit integers and doubles are aligned. Sizes and alignments of the
  other types are the same on all platforms of the library.
\<close>

record abi =
  ptr_size :: nat
  u64_align :: nat
  double_align :: nat

datatype ctype =
    CU8 | CU16 | CU32 | CU64 | CInt | CDouble | CPtr
  | CArr nat ctype
  | CStruct "(string \<times> ctype) list"

definition align_up :: "nat \<Rightarrow> nat \<Rightarrow> nat" where
  "align_up n a = (n + a - 1) div a * a"

fun align_of :: "abi \<Rightarrow> ctype \<Rightarrow> nat" and align_fields :: "abi \<Rightarrow> (string \<times> ctype) list \<Rightarrow> nat" where
  "align_of A CU8 = 1"
| "align_of A CU16 = 2"
| "align_of A CU32 = 4"
| "align_of A CInt = 4"
| "align_of A CU64 = u64_align A"
| "align_of A CDouble = double_align A"
| "align_of A CPtr = ptr_size A"
| "align_of A (CArr n t) = align_of A t"
| "align_of A (CStruct fs) = align_fields A fs"
| "align_fields A [] = 1"
| "align_fields A ((name, t) # fs) = max (align_of A t) (align_fields A fs)"

text \<open>A structure ends at a multiple of its own alignment.\<close>

fun size_of :: "abi \<Rightarrow> ctype \<Rightarrow> nat" and end_of :: "abi \<Rightarrow> nat \<Rightarrow> (string \<times> ctype) list \<Rightarrow> nat" where
  "size_of A CU8 = 1"
| "size_of A CU16 = 2"
| "size_of A CU32 = 4"
| "size_of A CInt = 4"
| "size_of A CU64 = 8"
| "size_of A CDouble = 8"
| "size_of A CPtr = ptr_size A"
| "size_of A (CArr n t) = n * size_of A t"
| "size_of A (CStruct fs) = align_up (end_of A 0 fs) (align_fields A fs)"
| "end_of A off [] = off"
| "end_of A off ((name, t) # fs) = end_of A (align_up off (align_of A t) + size_of A t) fs"

fun offset_of :: "abi \<Rightarrow> nat \<Rightarrow> (string \<times> ctype) list \<Rightarrow> string \<Rightarrow> nat option" where
  "offset_of A off [] name = None"
| "offset_of A off ((n, t) # fs) name =
     (if n = name then Some (align_up off (align_of A t))
      else offset_of A (align_up off (align_of A t) + size_of A t) fs name)"

text \<open>The members at their offsets, with the given filling between them and behind the last.\<close>

fun place :: "abi \<Rightarrow> cell \<Rightarrow> nat \<Rightarrow> (string \<times> ctype) list \<Rightarrow> cell list list \<Rightarrow> cell list" where
  "place A pad off ((n, t) # fs) (b # bs) =
     replicate (align_up off (align_of A t) - off) pad @ b @
     place A pad (align_up off (align_of A t) + size_of A t) fs bs"
| "place A pad off fs bs = []"

definition struct_image :: "abi \<Rightarrow> cell \<Rightarrow> (string \<times> ctype) list \<Rightarrow> cell list list \<Rightarrow> cell list" where
  "struct_image A pad fs bs =
     place A pad 0 fs bs @ replicate (size_of A (CStruct fs) - end_of A 0 fs) pad"

section \<open>The structures of the header\<close>

definition BUG_REPORT_NUM :: nat where "BUG_REPORT_NUM = 47"
definition IW_ENCODE_ALG_SMS4 :: u32 where "IW_ENCODE_ALG_SMS4 = 0x20"

type_synonym fields = "(string \<times> ctype) list"

definition sta_statistics_fields :: fields where
  "sta_statistics_fields =
     [(''version'', CU8), (''addr'', CArr ETH_ALEN CU8), (''flag'', CU32), (''link_score'', CU32), (''per'', CU8),
      (''rssi'', CInt), (''phy_mode'', CU32), (''tx_rate'', CDouble), (''tx_total_cnt'', CU32),
      (''enqueue_total_cnt'', CU32), (''dequeue_total_cnt'', CU32), (''enqueue_sta_total_cnt'', CU32),
      (''dequeue_sta_total_cnt'', CU32), (''tx_exc_threshold_cnt'', CU32), (''tx_avg_process_time'', CU32),
      (''tx_max_process_time'', CU32), (''tx_avg_hif_process_time'', CU32), (''tx_max_hif_process_time'', CU32),
      (''tx_fail_cnt'', CU32), (''tx_timeout_cnt'', CU32), (''tx_avg_air_time'', CU32),
      (''tc_buf_full_cnt'', CArr TC_DATA_NUM CU32), (''tc_que_len'', CArr TC_DATA_NUM CU32),
      (''tc_back_count'', CArr TC_DATA_NUM CU32), (''dequeue_no_tc_res'', CArr TC_DATA_NUM CU32),
      (''tc_wanted_res'', CArr TC_DATA_NUM CU32), (''tc_used_res'', CArr TC_DATA_NUM CU32),
      (''isr_cnt'', CU32), (''isr_pass_cnt'', CU32), (''isr_task_cnt'', CU32), (''isr_ab_cnt'', CU32),
      (''isr_sw_cnt'', CU32), (''isr_tx_cnt'', CU32), (''isr_rx_cnt'', CU32),
      (''tc_avg_que_len'', CArr TC_DATA_NUM CU32), (''tc_cur_que_len'', CArr TC_DATA_NUM CU32),
      (''reserved'', CArr 32 CU8)]"

definition sta_link_detect_fields :: fields where
  "sta_link_detect_fields =
     [(''tx_fail_cnt'', CU64), (''tx_retry_cnt'', CU64), (''tx_multi_retry_cnt'', CU64), (''ack_fail_cnt'', CU64),
      (''fcs_err_cnt'', CU64), (''tx_ok_cnt'', CU64), (''rx_ok_cnt'', CU64), (''rst_reason'', CU32),
      (''rst_time'', CU64), (''roam_fail_times'', CU32), (''roam_fail_time'', CU64), (''tx_done_delay_is_arp'', CU8),
      (''arrive_drv_tick'', CU32), (''en_que_tick'', CU32), (''de_que_tick'', CU32), (''leave_drv_tick'', CU32),
      (''curr_tick'', CU32), (''curr_time'', CU64), (''bug_report'', CArr BUG_REPORT_NUM CU32)]"

definition test_mode_info_fields :: fields where
  "test_mode_info_fields = [(''index'', CU32), (''buflen'', CU32)]"

definition hdr :: "string \<times> ctype" where
  "hdr = (''hdr'', CStruct test_mode_info_fields)"

definition testmode_fields :: fields where
  "testmode_fields = [hdr, (''buf'', CPtr)]"

definition get_sta_statistics_fields :: fields where
  "get_sta_statistics_fields =
     [hdr, (''version'', CU32), (''flag'', CU32), (''addr'', CArr ETH_ALEN CU8), (''buf'', CPtr)]"

definition p2p_sigma_fields :: fields where
  "p2p_sigma_fields = [hdr, (''idx'', CU32), (''value'', CU32)]"

definition get_sta_link_detect_fields :: fields where
  "get_sta_link_detect_fields = [hdr, (''buf'', CPtr)]"

definition hotspot_fields :: fields where
  "hotspot_fields = [hdr, (''blocked'', CU8), (''bssid'', CArr ETH_ALEN CU8)]"

definition sw_cmd_fields :: fields where
  "sw_cmd_fields = [hdr, (''set'', CU8), (''adr'', CU32), (''data'', CU32)]"

definition suspendmode_fields :: fields where
  "suspendmode_fields = [hdr, (''suspend'', CU8)]"

text \<open>The length of a sequence counter is a constant of the wireless extensions.\<close>

definition iw_encode_exts_fields :: "nat \<Rightarrow> fields" where
  "iw_encode_exts_fields IW_ENCODE_SEQ_MAX_SIZE =
     [(''ext_flags'', CU32), (''tx_seq'', CArr IW_ENCODE_SEQ_MAX_SIZE CU8),
      (''rx_seq'', CArr IW_ENCODE_SEQ_MAX_SIZE CU8), (''addr'', CArr ETH_ALEN CU8), (''alg'', CU16),
      (''key_len'', CU16), (''key'', CArr 32 CU8)]"

definition rx_filter_fields :: fields where
  "rx_filter_fields =
     [hdr, (''Ipv4FilterHigh'', CU32), (''Ipv4FilterLow'', CU32), (''Ipv6FilterHigh'', CU32),
      (''Ipv6FilterLow'', CU32), (''SnapFilterHigh'', CU32), (''SnapFilterLow'', CU32)]"

definition wapi_key_fields :: "nat \<Rightarrow> fields" where
  "wapi_key_fields IW_ENCODE_SEQ_MAX_SIZE =
     [hdr, (''key_index'', CU8), (''key_len'', CU8),
      (''extparams'', CStruct (iw_encode_exts_fields IW_ENCODE_SEQ_MAX_SIZE))]"

definition wfd_data_fields :: fields where
  "wfd_data_fields =
     [hdr, (''WfdCmdType'', CU32), (''WfdEnable'', CU8), (''WfdCoupleSinkStatus'', CU8),
      (''WfdSessionAvailable'', CU8), (''WfdSigmaMode'', CU8), (''WfdDevInfo'', CU16), (''WfdControlPort'', CU16),
      (''WfdMaximumTp'', CU16), (''WfdExtendCap'', CU16), (''WfdCoupleSinkAddress'', CArr ETH_ALEN CU8),
      (''WfdAssociatedBssid'', CArr ETH_ALEN CU8), (''WfdVideoIp'', CArr 4 CU8), (''WfdAudioIp'', CArr 4 CU8),
      (''WfdVideoPort'', CU16), (''WfdAudioPort'', CU16), (''WfdFlag'', CU32), (''WfdPolicy'', CU32),
      (''WfdState'', CU32), (''WfdSessionInformationIE'', CArr (24 * 8) CU8), (''WfdSessionInformationIELen'', CU16),
      (''Reverved1'', CArr 2 CU8), (''WfdPrimarySinkMac'', CArr ETH_ALEN CU8),
      (''WfdSecondarySinkMac'', CArr ETH_ALEN CU8), (''WfdAdvancedFlag'', CU32), (''WfdLocalIp'', CArr 4 CU8),
      (''WfdLifetimeAc2'', CU16), (''WfdLifetimeAc3'', CU16), (''WfdCounterThreshold'', CU16),
      (''Reverved2'', CArr 54 CU8), (''Reverved3'', CArr 64 CU8), (''Reverved4'', CArr 64 CU8)]"

definition set_beamplus_fields :: fields where
  "set_beamplus_fields = [hdr, (''value'', CU32)]"

section \<open>The other constants of the header\<close>

text \<open>The attributes of the link detection, numbered from one like those of the statistics.\<close>

datatype link_attr =
    LINK_TX_FAIL_CNT | LINK_TX_RETRY_CNT | LINK_TX_MULTI_RETRY_CNT | LINK_ACK_FAIL_CNT | LINK_FCS_ERR_CNT
  | LINK_TX_OK_CNT | LINK_RX_OK_CNT | LINK_RST_REASON | LINK_RST_TIME | LINK_ROAM_FAIL_TIMES | LINK_ROAM_FAIL_TIME
  | LINK_TX_DONE_DELAY_IS_ARP | LINK_ARRIVE_DRV_TICK | LINK_ENQUE_TICK | LINK_DEQUE_TICK | LINK_LEAVE_DRV_TICK
  | LINK_CURR_TICK | LINK_CURR_TIME

definition link_attrs :: "link_attr list" where
  "link_attrs =
     [LINK_TX_FAIL_CNT, LINK_TX_RETRY_CNT, LINK_TX_MULTI_RETRY_CNT, LINK_ACK_FAIL_CNT, LINK_FCS_ERR_CNT,
      LINK_TX_OK_CNT, LINK_RX_OK_CNT, LINK_RST_REASON, LINK_RST_TIME, LINK_ROAM_FAIL_TIMES, LINK_ROAM_FAIL_TIME,
      LINK_TX_DONE_DELAY_IS_ARP, LINK_ARRIVE_DRV_TICK, LINK_ENQUE_TICK, LINK_DEQUE_TICK, LINK_LEAVE_DRV_TICK,
      LINK_CURR_TICK, LINK_CURR_TIME]"

definition LINK_DETECT_NUM :: nat where "LINK_DETECT_NUM = Suc (length link_attrs)"
definition LINK_DETECT_MAX :: nat where "LINK_DETECT_MAX = LINK_DETECT_NUM - 1"

definition NL80211_TESTMODE_WAPI :: u32 where "NL80211_TESTMODE_WAPI = 2"
definition NL80211_TESTMODE_POORLINK :: u32 where "NL80211_TESTMODE_POORLINK = 4"
definition NL80211_TESTMODE_LINK_DETECT :: u32 where "NL80211_TESTMODE_LINK_DETECT = 0x20"
definition NL80211_TESTMODE_NEW_BEGIN :: u32 where "NL80211_TESTMODE_NEW_BEGIN = 100"

section \<open>The messages have the layout of their structures\<close>

lemma align_up_simps [simp]: "align_up n 1 = n" "align_up n (Suc 0) = n"
  by (simp_all add: align_up_def)

lemma header_layout [simp]:
  "align_fields A test_mode_info_fields = 4" "end_of A 0 test_mode_info_fields = 8"
  "align_of A (snd hdr) = 4" "size_of A (snd hdr) = 8"
  by (simp_all add: test_mode_info_fields_def hdr_def align_up_def)

lemma header_image: "cells (hdr_bytes index n) = struct_image A pad test_mode_info_fields [cells (le32 index), cells (le32 (of_nat n))]"
  by (simp add: hdr_bytes_def struct_image_def test_mode_info_fields_def align_up_def cells_def)

lemma padding [simp]: "replicate 2 p = [p, p]" "replicate 3 p = [p, p, p]"
  by (simp_all add: numeral_eq_Suc)

lemmas layout_simps = struct_image_def hdr_def align_up_def cells_def hdr_bytes_def ETH_ALEN_def

lemma layout_sizes:
  "size_of A (CStruct sw_cmd_fields) = 20" "size_of A (CStruct hotspot_fields) = 16"
  "size_of A (CStruct suspendmode_fields) = 12" "size_of A (CStruct rx_filter_fields) = 32"
  "ptr_size A \<in> {4, 8} \<Longrightarrow> size_of A (CStruct get_sta_statistics_fields) = 24 + ptr_size A"
  by (auto simp: sw_cmd_fields_def hotspot_fields_def suspendmode_fields_def rx_filter_fields_def
      get_sta_statistics_fields_def layout_simps)

lemma sw_cmd_image:
  "cells (sw_cmd_params index st adr dat) =
     struct_image A (Some 0) sw_cmd_fields [cells (hdr_bytes index 20), [Some st], cells (le32 adr), cells (le32 dat)]"
  by (simp add: sw_cmd_fields_def sw_cmd_params_def layout_simps)

lemma hotspot_image:
  "length bssid = ETH_ALEN \<Longrightarrow> cells (hotspot_params index blocked bssid) =
     struct_image A (Some 0) hotspot_fields [cells (hdr_bytes index 16), [Some blocked], cells bssid]"
  by (simp add: hotspot_fields_def hotspot_params_def layout_simps)

lemma suspend_image:
  "suspendmode_params index suspend = struct_image A None suspendmode_fields [cells (hdr_bytes index 12), [Some suspend]]"
  by (simp add: suspendmode_fields_def suspendmode_params_def layout_simps)

lemma rx_filter_image:
  assumes "length fs = 6"
  shows "cells (rx_filter_params index fs) =
    struct_image A pad rx_filter_fields (cells (hdr_bytes index 32) # map (cells \<circ> le32) fs)"
proof -
  obtain a b c d e f where "fs = [a, b, c, d, e, f]"
    using assms by (auto simp: numeral_eq_Suc length_Suc_conv)
  then show ?thesis by (simp add: rx_filter_fields_def rx_filter_params_def layout_simps)
qed

lemma get_statistics_image:
  assumes "ptr_size A \<in> {4, 8}" and "length mac = ETH_ALEN" and "length ptr = ptr_size A"
  shows "cells (get_sta_statistics_params index mac ptr) =
    struct_image A (Some 0) get_sta_statistics_fields
      [cells (hdr_bytes index (24 + ptr_size A)), cells (le32 0), cells (le32 0), cells mac, cells ptr]"
  using assms by (auto simp: get_sta_statistics_fields_def get_sta_statistics_params_def layout_simps)

lemma statistics_end:
  assumes "double_align A \<in> {4, 8}"
  shows "map_option (\<lambda>off. off + 32) (offset_of A 0 sta_statistics_fields ''reserved'') =
    Some (size_of A (CStruct sta_statistics_fields))"
  using assms
  by (auto simp: sta_statistics_fields_def ETH_ALEN_def TC_DATA_NUM_def align_up_def)

text \<open>The three groups at the end of the data of Wi-Fi display have 64 bytes each, as the header says.\<close>

lemma wfd_groups:
  "map (offset_of A 0 wfd_data_fields) [''WfdLocalIp'', ''Reverved3'', ''Reverved4''] = [Some 272, Some 336, Some 400]"
  "size_of A (CStruct wfd_data_fields) = 464"
  by (simp_all add: wfd_data_fields_def hdr_def ETH_ALEN_def align_up_def)

text \<open>
  C13: the messages the library sends are the memory of their structures under the platform's rules for any machine with pointers of
  four or eight bytes: each member at its offset, the filling cleared where the structure was cleared before and unset
  where it was not, and the length in the header the size of the structure. The reserved bytes are the end of the
  statistics, so the one byte that printing them reads too many lies behind the whole structure, not in a filling.
\<close>

theorem structures_layout:
  assumes "ptr_size A \<in> {4, 8}" and "double_align A \<in> {4, 8}"
    and "length mac = ETH_ALEN" and "length ptr = ptr_size A" and "length filters = 6"
  shows "cells (sw_cmd_params index st adr dat) = struct_image A (Some 0) sw_cmd_fields
      [cells (hdr_bytes index (size_of A (CStruct sw_cmd_fields))), [Some st], cells (le32 adr), cells (le32 dat)] \<and>
    cells (hotspot_params index blocked mac) = struct_image A (Some 0) hotspot_fields
      [cells (hdr_bytes index (size_of A (CStruct hotspot_fields))), [Some blocked], cells mac] \<and>
    suspendmode_params index suspend = struct_image A None suspendmode_fields
      [cells (hdr_bytes index (size_of A (CStruct suspendmode_fields))), [Some suspend]] \<and>
    cells (rx_filter_params index filters) = struct_image A None rx_filter_fields
      (cells (hdr_bytes index (size_of A (CStruct rx_filter_fields))) # map (cells \<circ> le32) filters) \<and>
    cells (get_sta_statistics_params index mac ptr) = struct_image A (Some 0) get_sta_statistics_fields
      [cells (hdr_bytes index (size_of A (CStruct get_sta_statistics_fields))), cells (le32 0), cells (le32 0),
       cells mac, cells ptr] \<and>
    map_option (\<lambda>off. off + 32) (offset_of A 0 sta_statistics_fields ''reserved'') =
      Some (size_of A (CStruct sta_statistics_fields))"
  using assms sw_cmd_image [of index st adr dat A] hotspot_image [of mac index blocked A] suspend_image [of index suspend A]
    rx_filter_image [of filters index A None] get_statistics_image [of A mac ptr index] statistics_end [of A]
  unfolding layout_sizes(1-4) layout_sizes(5) [OF assms(1)] by blast

definition arm64 :: abi where
  "arm64 = \<lparr>ptr_size = 8, u64_align = 8, double_align = 8\<rparr>"

theorem structures_layout_witness:
  "cells (get_sta_statistics_params 16 [2, 0, 0, 0, 0, 1] [0, 1, 2, 3, 4, 5, 6, 7]) = struct_image arm64 (Some 0) get_sta_statistics_fields
     [cells (hdr_bytes 16 (size_of arm64 (CStruct get_sta_statistics_fields))), cells (le32 0), cells (le32 0),
      cells [2, 0, 0, 0, 0, 1], cells [0, 1, 2, 3, 4, 5, 6, 7]] \<and>
   map_option (\<lambda>off. off + 32) (offset_of arm64 0 sta_statistics_fields ''reserved'') =
     Some (size_of arm64 (CStruct sta_statistics_fields))"
proof -
  have "ptr_size arm64 \<in> {4, 8}" "double_align arm64 \<in> {4, 8}" by (simp_all add: arm64_def)
  moreover have "length [2 :: u8, 0, 0, 0, 0, 1] = ETH_ALEN" by (simp add: ETH_ALEN_def)
  moreover have "length [0 :: u8, 1, 2, 3, 4, 5, 6, 7] = ptr_size arm64" by (simp add: arm64_def)
  moreover have "length (replicate 6 (0 :: u32)) = 6" by simp
  ultimately show ?thesis using structures_layout by blast
qed

end
