(* ===== verification/Lights_Progs.thy ===== *)
theory Lights_Progs
  imports Lights_Hal
begin

text \<open>
  \<^verbatim>\<open>liblights/lights.c\<close> once more, one step at a time: each function of the lights HAL as a program whose steps
  are single system calls, single accesses to a static variable, and the two operations on the mutex. Between
  two steps another thread may run. Run to its end without interruption, a program does exactly what
  the function of the other model does.
\<close>

section \<open>Programs\<close>

text \<open>
  A program has returned or has a next step. The step acts on the state and leads to the rest of the program; it has no
  result where it cannot be made now (a mutex that is held) or at all (a write past a stack
  buffer). A program may go on for ever. Functions are written with the program that follows
  them as their last argument.
\<close>

codatatype 's prog = Return int | Step "'s \<Rightarrow> ('s prog \<times> 's) option"

definition act :: "('s \<Rightarrow> 'a \<times> 's) \<Rightarrow> ('a \<Rightarrow> 's prog) \<Rightarrow> 's prog" where
  "act f k = Step (\<lambda>s. let (a, s1) = f s in Some (k a, s1))"

definition read_p :: "('s \<Rightarrow> 'a) \<Rightarrow> ('a \<Rightarrow> 's prog) \<Rightarrow> 's prog" where
  "read_p f = act (\<lambda>s. (f s, s))"

definition do_p :: "('s \<Rightarrow> 's) \<Rightarrow> 's prog \<Rightarrow> 's prog" where
  "do_p g k = act (\<lambda>s. ((), g s)) (\<lambda>_. k)"

definition stuck :: "'s prog" where
  "stuck = Step (\<lambda>s. None)"

definition lock_p :: "'k lights prog \<Rightarrow> 'k lights prog" where
  "lock_p k = Step (\<lambda>s. case mutex_lock s of None \<Rightarrow> None | Some s1 \<Rightarrow> Some (k, s1))"

definition unlock_p :: "'k lights prog \<Rightarrow> 'k lights prog" where
  "unlock_p k = do_p mutex_unlock k"

section \<open>The functions\<close>

text \<open>The value of \<open>errno\<close> is the calling thread's own, so it is read together with the sleep that set it.\<close>

primcorec sleep_p ::
  "('k, 'x) kernel_scheme \<Rightarrow> timespec \<Rightarrow> (int \<Rightarrow> 'k lights prog) \<Rightarrow> 'k lights prog" where
  "sleep_p K req k = Step (\<lambda>s. let (ret, rem, s1) = sys_nanosleep K req s in
     if ret = 0 then Some (k 0, s1)
     else if errno s1 = EINTR then Some (sleep_p K rem k, s1)
     else Some (k (errno s1), s1))"

definition led_wait_delay_p ::
  "('k, 'x) kernel_scheme \<Rightarrow> i32 \<Rightarrow> (int \<Rightarrow> 'k lights prog) \<Rightarrow> 'k lights prog" where
  "led_wait_delay_p K ms k = sleep_p K \<lparr>tv_sec = 0, tv_nsec = sint (ms * 1000000)\<rparr> k"

definition write_int_p ::
  "('k, 'x) kernel_scheme \<Rightarrow> string \<Rightarrow> i32 \<Rightarrow> (int \<Rightarrow> 'k lights prog) \<Rightarrow> 'k lights prog" where
  "write_int_p K path v k =
     act (sys_open K path O_RDWR) (\<lambda>fd.
     if 0 \<le> fd then
       (case sprintf 20 (fmt_d (sint v) @ [CHR 0x0A]) of
          None \<Rightarrow> stuck
        | Some buffer \<Rightarrow>
            act (sys_write K fd buffer) (\<lambda>amt.
            do_p (sys_close K fd)
            (if amt = - 1 then read_p errno (\<lambda>e. k (- e)) else k 0)))
     else read_p errno (\<lambda>e. k (- e)))"

definition write_str_p ::
  "('k, 'x) kernel_scheme \<Rightarrow> string \<Rightarrow> string \<Rightarrow> (int \<Rightarrow> 'k lights prog) \<Rightarrow> 'k lights prog" where
  "write_str_p K path str k =
     act (sys_open K path O_WRONLY) (\<lambda>fd.
     if 0 \<le> fd then
       (case sprintf 20 str of
          None \<Rightarrow> stuck
        | Some buffer \<Rightarrow>
            act (sys_write K fd buffer) (\<lambda>amt.
            do_p (sys_close K fd)
            (if amt = - 1 then read_p errno (\<lambda>e. k (- e)) else k 0)))
     else read_p errno (\<lambda>e. k (- e)))"

definition node_missing_p ::
  "('k, 'x) kernel_scheme \<Rightarrow> string \<Rightarrow> (bool \<Rightarrow> 'k lights prog) \<Rightarrow> 'k lights prog" where
  "node_missing_p K path k =
     act (sys_access K path F_OK) (\<lambda>a.
     if a = - 1 then k True
     else act (sys_access K path R_OK_W_OK) (\<lambda>b. k (b = - 1)))"

text \<open>The loop that waits for a node, by the number of waits it has left.\<close>

primrec wait_node_p ::
  "('k, 'x) kernel_scheme \<Rightarrow> string \<Rightarrow> nat \<Rightarrow> 'k lights prog \<Rightarrow> 'k lights prog" where
  "wait_node_p K path 0 k = node_missing_p K path (\<lambda>missing. k)"
| "wait_node_p K path (Suc n) k =
     node_missing_p K path (\<lambda>missing.
     if missing then led_wait_delay_p K 5 (\<lambda>r. wait_node_p K path n k)
     else k)"

definition blink_red_p ::
  "('k, 'x) kernel_scheme \<Rightarrow> i32 \<Rightarrow> i32 \<Rightarrow> i32 \<Rightarrow> (int \<Rightarrow> 'k lights prog) \<Rightarrow> 'k lights prog" where
  "blink_red_p K level onMS offMS k =
     (let nowStatus = blink_status level onMS offMS;
          done_p = do_p (\<lambda>s. s\<lparr>red_preStatus := nowStatus\<rparr>) (k 0) in
      read_p red_preStatus (\<lambda>preStatus.
      if preStatus = nowStatus then k (- 1)
      else if nowStatus = 0 then write_int_p K RED_LED_FILE 0 (\<lambda>_. done_p)
      else if nowStatus = 1 then
        write_str_p K RED_TRIGGER_FILE ''timer'' (\<lambda>_.
        wait_node_p K RED_DELAY_OFF_FILE 10 (
        write_int_p K RED_DELAY_OFF_FILE offMS (\<lambda>_.
        write_int_p K RED_DELAY_ON_FILE onMS (\<lambda>_. done_p))))
      else
        write_str_p K RED_TRIGGER_FILE ''none'' (\<lambda>_.
        write_int_p K RED_LED_FILE 255 (\<lambda>_. done_p))))"

definition blink_green_p ::
  "('k, 'x) kernel_scheme \<Rightarrow> i32 \<Rightarrow> i32 \<Rightarrow> i32 \<Rightarrow> (int \<Rightarrow> 'k lights prog) \<Rightarrow> 'k lights prog" where
  "blink_green_p K level onMS offMS k =
     (let nowStatus = blink_status level onMS offMS;
          done_p = do_p (\<lambda>s. s\<lparr>green_preStatus := nowStatus\<rparr>) (k 0) in
      read_p green_preStatus (\<lambda>preStatus.
      if preStatus = nowStatus then k (- 1)
      else if nowStatus = 0 then write_int_p K GREEN_LED_FILE 0 (\<lambda>_. done_p)
      else if nowStatus = 1 then
        write_str_p K GREEN_TRIGGER_FILE ''timer'' (\<lambda>_.
        wait_node_p K GREEN_DELAY_OFF_FILE 10 (
        write_int_p K GREEN_DELAY_OFF_FILE offMS (\<lambda>_.
        write_int_p K GREEN_DELAY_ON_FILE onMS (\<lambda>_. done_p))))
      else
        write_str_p K GREEN_TRIGGER_FILE ''none'' (\<lambda>_.
        write_int_p K GREEN_LED_FILE 255 (\<lambda>_. done_p))))"

definition handle_trackball_light_locked_p ::
  "('k, 'x) kernel_scheme \<Rightarrow> (int \<Rightarrow> 'k lights prog) \<Rightarrow> 'k lights prog" where
  "handle_trackball_light_locked_p K k =
     read_p g_attention (\<lambda>attention.
     read_p g_backlight (\<lambda>backlight.
     let mode = (if attention = 7 \<and> backlight \<noteq> 0 then 0 else attention) in
     read_p g_trackball (\<lambda>trackball.
     if trackball = mode then k 0 else write_int_p K TRACKBALL_FILE mode k)))"

definition set_speaker_light_locked_p ::
  "('k, 'x) lights_env_scheme \<Rightarrow> light_state_t \<Rightarrow> (int \<Rightarrow> 'k lights prog) \<Rightarrow> 'k lights prog" where
  "set_speaker_light_locked_p E state k =
     (let (onMS, offMS) =
            (if flashMode state = LIGHT_FLASH_TIMED E then (flashOnMS state, flashOffMS state)
             else (0, 0));
          colorRGB = color state;
          alpha = drop_bit 24 colorRGB AND 0xFF;
          (red, green) =
            (if alpha \<noteq> 0
             then (drop_bit 16 colorRGB AND 0xFF, drop_bit 8 colorRGB AND 0xFF)
             else (0, 0))
      in
      if red \<noteq> 0 then
        (if colorRGB = - 40448
         then blink_green_p E red onMS offMS (\<lambda>_. blink_red_p E red onMS offMS (\<lambda>_. k 0))
         else blink_green_p E 0 0 0 (\<lambda>_. blink_red_p E red onMS offMS (\<lambda>_. k 0)))
      else if green \<noteq> 0
        then blink_red_p E 0 0 0 (\<lambda>_. blink_green_p E green onMS offMS (\<lambda>_. k 0))
      else blink_red_p E 0 0 0 (\<lambda>_. blink_green_p E 0 0 0 (\<lambda>_. k 0)))"

definition handle_speaker_battery_locked_p ::
  "('k, 'x) lights_env_scheme \<Rightarrow> 'k lights prog \<Rightarrow> 'k lights prog" where
  "handle_speaker_battery_locked_p E k =
     read_p g_battery (\<lambda>battery.
     if is_lit battery \<noteq> 0 then set_speaker_light_locked_p E battery (\<lambda>_. k)
     else
       set_speaker_light_locked_p E battery (\<lambda>_.
       read_p g_notification (\<lambda>notification.
       set_speaker_light_locked_p E notification (\<lambda>_. k))))"

definition set_light_backlight_p ::
  "('k, 'x) lights_env_scheme \<Rightarrow> light_state_t \<Rightarrow> 'k lights prog" where
  "set_light_backlight_p E state =
     (let brightness = rgb_to_brightness state in
      lock_p (
      do_p (\<lambda>s. s\<lparr>g_backlight := brightness\<rparr>) (
      write_int_p E LCD_FILE brightness (\<lambda>err.
      let rest_p = unlock_p (Return err) in
      read_p g_haveTrackballLight (\<lambda>have_trackball.
      if have_trackball \<noteq> 0 then handle_trackball_light_locked_p E (\<lambda>_. rest_p) else rest_p)))))"

definition set_light_keyboard_p ::
  "('k, 'x) lights_env_scheme \<Rightarrow> light_state_t \<Rightarrow> 'k lights prog" where
  "set_light_keyboard_p E state =
     (let on = is_lit state in
      lock_p (
      write_int_p E KEYBOARD_FILE (if on \<noteq> 0 then 255 else 0) (\<lambda>err.
      unlock_p (Return err))))"

definition set_light_buttons_p ::
  "('k, 'x) lights_env_scheme \<Rightarrow> light_state_t \<Rightarrow> 'k lights prog" where
  "set_light_buttons_p E state =
     (let on = is_lit state in
      lock_p (
      do_p (\<lambda>s. s\<lparr>g_buttons := on\<rparr>) (
      write_int_p E BUTTON_FILE (if on \<noteq> 0 then 255 else 0) (\<lambda>err.
      unlock_p (Return err)))))"

definition set_light_battery_p ::
  "('k, 'x) lights_env_scheme \<Rightarrow> light_state_t \<Rightarrow> 'k lights prog" where
  "set_light_battery_p E state =
     (let rest_p = handle_speaker_battery_locked_p E (unlock_p (Return 0)) in
      lock_p (
      do_p (\<lambda>s. s\<lparr>g_battery := state\<rparr>) (
      read_p g_haveTrackballLight (\<lambda>have_trackball.
      if have_trackball \<noteq> 0 then set_speaker_light_locked_p E state (\<lambda>_. rest_p) else rest_p))))"

definition set_light_notifications_p ::
  "('k, 'x) lights_env_scheme \<Rightarrow> light_state_t \<Rightarrow> 'k lights prog" where
  "set_light_notifications_p E state =
     (let rest_p = handle_speaker_battery_locked_p E (unlock_p (Return 0)) in
      lock_p (
      do_p (\<lambda>s. s\<lparr>g_notification := state\<rparr>) (
      read_p g_haveTrackballLight (\<lambda>have_trackball.
      if have_trackball \<noteq> 0 then handle_trackball_light_locked_p E (\<lambda>_. rest_p) else rest_p))))"

definition set_light_attention_p ::
  "('k, 'x) lights_env_scheme \<Rightarrow> light_state_t \<Rightarrow> 'k lights prog" where
  "set_light_attention_p E state =
     (let rest_p = unlock_p (Return 0);
          then_p =
            read_p g_haveTrackballLight (\<lambda>have_trackball.
            if have_trackball \<noteq> 0 then handle_trackball_light_locked_p E (\<lambda>_. rest_p) else rest_p) in
      lock_p (
      if flashMode state = LIGHT_FLASH_HARDWARE E then do_p (\<lambda>s. s\<lparr>g_attention := flashOnMS state\<rparr>) then_p
      else if flashMode state = LIGHT_FLASH_NONE E then do_p (\<lambda>s. s\<lparr>g_attention := 0\<rparr>) then_p
      else then_p))"

text \<open>The program behind the device's function pointer.\<close>

fun set_light_prog ::
  "('k, 'x) lights_env_scheme \<Rightarrow> set_light_fn \<Rightarrow> light_state_t \<Rightarrow> 'k lights prog" where
  "set_light_prog E Set_light_backlight st = set_light_backlight_p E st"
| "set_light_prog E Set_light_keyboard st = set_light_keyboard_p E st"
| "set_light_prog E Set_light_buttons st = set_light_buttons_p E st"
| "set_light_prog E Set_light_battery st = set_light_battery_p E st"
| "set_light_prog E Set_light_notifications st = set_light_notifications_p E st"
| "set_light_prog E Set_light_attention st = set_light_attention_p E st"

section \<open>Running a program to its end\<close>

inductive runs :: "'s prog \<Rightarrow> 's \<Rightarrow> int \<Rightarrow> 's \<Rightarrow> bool" where
  runs_return: "runs (Return r) s r s"
| runs_step: "h s = Some (p, t) \<Longrightarrow> runs p t r u \<Longrightarrow> runs (Step h) s r u"

inductive_simps runs_simps: "runs (Return a) s r t" "runs (Step h) s r t"

lemma runs_act [simp]: "runs (act f k) s r t \<longleftrightarrow> runs (k (fst (f s))) (snd (f s)) r t"
  by (auto simp: act_def runs_simps split: prod.splits)

lemma runs_read [simp]: "runs (read_p f k) s r t \<longleftrightarrow> runs (k (f s)) s r t"
  by (simp add: read_p_def)

lemma runs_do [simp]: "runs (do_p g k) s r t \<longleftrightarrow> runs k (g s) r t"
  by (simp add: do_p_def)

lemma runs_stuck [simp]: "\<not> runs stuck s r t"
  by (simp add: stuck_def runs_simps)

lemma runs_lock [simp]: "runs (lock_p k) s r t \<longleftrightarrow> (\<exists>u. mutex_lock s = Some u \<and> runs k u r t)"
  by (auto simp: lock_p_def runs_simps split: option.splits)

lemma runs_unlock [simp]: "runs (unlock_p (Return a)) s r t \<longleftrightarrow> r = a \<and> t = mutex_unlock s"
  by (auto simp: unlock_p_def runs_simps)

lemma runs_if [simp]: "runs (if b then p else q) s r t \<longleftrightarrow> (if b then runs p s r t else runs q s r t)"
  by simp

text \<open>
  The loop of sleeps: the program ends exactly when the loop of the function does.
\<close>

lemma runs_sleep_if:
  assumes "nanosleep_retry K req s = Some (a, s1)" and "runs (k a) s1 r t"
  shows "runs (sleep_p K req k) s r t"
proof -
  have "runs (k (fst x)) (snd x) r t \<longrightarrow> runs (sleep_p K req k) s r t"
    if "nanosleep_retry K req s = Some x" for x
  proof (rule nanosleep_retry.raw_induct [where P = "\<lambda>K req s x. runs (k (fst x)) (snd x) r t \<longrightarrow> runs (sleep_p K req k) s r t",
        OF _ that], intro impI)
    fix f K req s x
    assume IH: "\<And>K req s x. f K req s = Some x \<Longrightarrow> runs (k (fst x)) (snd x) r t \<longrightarrow> runs (sleep_p K req k) s r t"
      and eq: "(let (ret, rem, s1) = sys_nanosleep K req s in
         if ret = 0 then Some (0, s1) else if errno s1 = EINTR then f K rem s1 else Some (errno s1, s1)) = Some x"
      and fin: "runs (k (fst x)) (snd x) r t"
    obtain ret rem s1 where call: "sys_nanosleep K req s = (ret, rem, s1)" by (rule prod_cases3)
    with eq IH [of K rem s1 x] fin show "runs (sleep_p K req k) s r t"
      by (subst sleep_p.code) (auto simp: runs_simps split: if_splits)
  qed
  from this [OF assms(1)] assms(2) show ?thesis by simp
qed

lemma runs_sleep_only_if:
  assumes "runs p s r t" and "p = sleep_p K req k"
  shows "\<exists>a s1. nanosleep_retry K req s = Some (a, s1) \<and> runs (k a) s1 r t"
  using assms
proof (induction arbitrary: req rule: runs.induct)
  case (runs_return r s)
  then show ?case by (subst (asm) sleep_p.code) simp
next
  case (runs_step h s p t r u)
  obtain ret rem s1 where call: "sys_nanosleep K req s = (ret, rem, s1)" by (rule prod_cases3)
  from runs_step.prems have "h s = (let (ret, rem, s1) = sys_nanosleep K req s in
     if ret = 0 then Some (k 0, s1)
     else if errno s1 = EINTR then Some (sleep_p K rem k, s1)
     else Some (k (errno s1), s1))"
    by (subst (asm) sleep_p.code) (simp add: split_beta)
  with runs_step.hyps(1) call have p: "t = s1" "p = (if ret = 0 then k 0
      else if errno s1 = EINTR then sleep_p K rem k else k (errno s1))"
    by (auto split: if_splits)
  show ?case
  proof (cases "ret \<noteq> 0 \<and> errno s1 = EINTR")
    case True
    with p runs_step.IH [of rem] call show ?thesis
      by (subst nanosleep_retry.simps) simp
  next
    case False
    with p runs_step.hyps(2) call show ?thesis
      by (subst nanosleep_retry.simps) auto
  qed
qed

lemma runs_sleep: "runs (sleep_p K req k) s r t \<longleftrightarrow>
    (\<exists>a s1. nanosleep_retry K req s = Some (a, s1) \<and> runs (k a) s1 r t)"
  by (auto intro: runs_sleep_if dest: runs_sleep_only_if [OF _ refl])

lemma runs_wait_delay [simp]: "runs (led_wait_delay_p K ms k) s r t \<longleftrightarrow>
    (\<exists>a s1. led_wait_delay K ms s = Some (a, s1) \<and> runs (k a) s1 r t)"
  by (simp add: led_wait_delay_p_def led_wait_delay_def runs_sleep)

section \<open>The programs do what the functions do\<close>

lemma runs_write_int [simp]: "runs (write_int_p K path v k) s r t \<longleftrightarrow>
    (\<exists>a s1. write_int K path v s = Some (a, s1) \<and> runs (k a) s1 r t)"
  by (cases "sprintf 20 (fmt_d (sint v) @ [CHR 0x0A])")
    (auto simp: write_int_p_def write_int_def Let_def bind_Some_iff split: prod.splits)

lemma runs_write_str [simp]: "runs (write_str_p K path str k) s r t \<longleftrightarrow>
    (\<exists>a s1. write_str K path str s = Some (a, s1) \<and> runs (k a) s1 r t)"
  by (cases "sprintf 20 str")
    (auto simp: write_str_p_def write_str_def Let_def bind_Some_iff split: prod.splits)

lemma runs_node_missing [simp]: "runs (node_missing_p K path k) s r t \<longleftrightarrow>
    runs (k (fst (node_missing K path s))) (snd (node_missing K path s)) r t"
  by (auto simp: node_missing_p_def node_missing_def Let_def split: prod.splits)

lemma runs_wait_node: "n \<le> 10 \<Longrightarrow> runs (wait_node_p K path n k) s r t \<longleftrightarrow>
    (\<exists>s1. wait_node K path (10 - n) s = Some s1 \<and> runs k s1 r t)"
proof (induction n arbitrary: s)
  case 0
  then show ?case by (subst wait_node.simps) (simp add: split_beta)
next
  case (Suc n)
  then have "10 - Suc n + 1 = 10 - n" "10 - Suc n < 10" by simp_all
  with Suc.IH Suc.prems show ?case
    by (subst wait_node.simps) (auto simp: split_beta bind_Some_iff)
qed

lemma runs_blink_red [simp]: "runs (blink_red_p K level on off k) s r t \<longleftrightarrow>
    (\<exists>a s1. blink_red K level on off s = Some (a, s1) \<and> runs (k a) s1 r t)"
  by (auto simp: blink_red_p_def blink_red_def Let_def bind_Some_iff runs_wait_node split: if_splits)

lemma runs_blink_green [simp]: "runs (blink_green_p K level on off k) s r t \<longleftrightarrow>
    (\<exists>a s1. blink_green K level on off s = Some (a, s1) \<and> runs (k a) s1 r t)"
  by (auto simp: blink_green_p_def blink_green_def Let_def bind_Some_iff runs_wait_node split: if_splits)

lemma runs_trackball [simp]: "runs (handle_trackball_light_locked_p K k) s r t \<longleftrightarrow>
    (\<exists>a s1. handle_trackball_light_locked K s = Some (a, s1) \<and> runs (k a) s1 r t)"
  by (auto simp: handle_trackball_light_locked_p_def handle_trackball_light_locked_def Let_def split: if_splits)

lemma runs_set_speaker [simp]: "runs (set_speaker_light_locked_p E st k) s r t \<longleftrightarrow>
    (\<exists>a s1. set_speaker_light_locked E st s = Some (a, s1) \<and> runs (k a) s1 r t)"
  unfolding set_speaker_light_locked_p_def set_speaker_light_locked_def Let_def
  by (auto simp: bind_Some_iff split_beta split: if_splits)

lemma runs_speaker_battery [simp]: "runs (handle_speaker_battery_locked_p E k) s r t \<longleftrightarrow>
    (\<exists>s1. handle_speaker_battery_locked E s = Some s1 \<and> runs k s1 r t)"
  by (auto simp: handle_speaker_battery_locked_p_def handle_speaker_battery_locked_def bind_Some_iff
      split: if_splits)

text \<open>Without interruption, the program behind each function pointer is the call.\<close>

lemma runs_set_light:
  "runs (set_light_prog E f st) s r t \<longleftrightarrow> call_set_light E f st s = Some (r, t)"
proof (cases f)
  case Set_light_backlight
  show ?thesis
  proof (cases "mutex_lock s")
    case (Some u)
    let ?b = "rgb_to_brightness st"
    show ?thesis
    proof (cases "write_int E LCD_FILE ?b (u\<lparr>g_backlight := ?b\<rparr>)")
      case (Some x)
      obtain err v where "x = (err, v)" by (rule prod.exhaust)
      with Some \<open>mutex_lock s = Some u\<close> Set_light_backlight show ?thesis
        by (cases "g_haveTrackballLight v = 0")
          (auto simp: set_light_backlight_p_def set_light_backlight_def Let_def bind_Some_iff)
    qed (use Some Set_light_backlight in \<open>simp add: set_light_backlight_p_def set_light_backlight_def Let_def\<close>)
  qed (use Set_light_backlight in \<open>simp add: set_light_backlight_p_def set_light_backlight_def Let_def\<close>)
next
  case Set_light_keyboard
  then show ?thesis
    by (auto simp: set_light_keyboard_p_def set_light_keyboard_def Let_def bind_Some_iff)
next
  case Set_light_buttons
  then show ?thesis
    by (auto simp: set_light_buttons_p_def set_light_buttons_def Let_def bind_Some_iff)
next
  case Set_light_battery
  show ?thesis
  proof (cases "mutex_lock s")
    case (Some u)
    with Set_light_battery show ?thesis
      by (cases "g_haveTrackballLight u = 0")
        (auto simp: set_light_battery_p_def set_light_battery_def Let_def bind_Some_iff)
  qed (use Set_light_battery in \<open>simp add: set_light_battery_p_def set_light_battery_def Let_def\<close>)
next
  case Set_light_notifications
  show ?thesis
  proof (cases "mutex_lock s")
    case (Some u)
    with Set_light_notifications show ?thesis
      by (cases "g_haveTrackballLight u = 0")
        (auto simp: set_light_notifications_p_def set_light_notifications_def Let_def bind_Some_iff)
  qed (use Set_light_notifications in \<open>simp add: set_light_notifications_p_def set_light_notifications_def Let_def\<close>)
next
  case Set_light_attention
  show ?thesis
  proof (cases "mutex_lock s")
    case (Some u)
    with Set_light_attention show ?thesis
      by (cases "g_haveTrackballLight u = 0")
        (auto simp: set_light_attention_p_def set_light_attention_def Let_def bind_Some_iff)
  qed (use Set_light_attention in \<open>simp add: set_light_attention_p_def set_light_attention_def Let_def\<close>)
qed

section \<open>The mutex in the programs\<close>

text \<open>
  A program keeps the mutex until its end when, as long as the mutex is held, every step of it can be made and
  either leaves the mutex held and leads to such a program again, or frees the mutex and
  leads to the return. The test is on the steps, whatever they do, so it fails for a function that
  frees the mutex early, frees it twice, or returns with it.
\<close>

coinductive keeps_mutex :: "'k lights prog \<Rightarrow> bool" where
  "(\<And>s. g_lock s \<Longrightarrow> \<exists>p t. h s = Some (p, t) \<and>
      (g_lock t \<and> keeps_mutex p \<or> \<not> g_lock t \<and> (\<exists>r. p = Return r))) \<Longrightarrow> keeps_mutex (Step h)"

lemma keeps_mutexD:
  assumes "keeps_mutex (Step h)" and "g_lock s"
  shows "\<exists>p t. h s = Some (p, t) \<and> (g_lock t \<and> keeps_mutex p \<or> \<not> g_lock t \<and> (\<exists>r. p = Return r))"
  using assms(1) by cases (use assms(2) in auto)

lemma keeps_mutex_return [simp]: "\<not> keeps_mutex (Return r)"
  by (auto elim: keeps_mutex.cases)

named_theorems keeping "programs that keep the mutex until their end"

lemma keeps_act [keeping]:
  assumes "\<And>s. g_lock s \<Longrightarrow> g_lock (snd (f s))" and "\<And>a. keeps_mutex (k a)"
  shows "keeps_mutex (act f k)"
proof -
  have "\<exists>p t. (let (a, s1) = f s in Some (k a, s1)) = Some (p, t) \<and>
      (g_lock t \<and> keeps_mutex p \<or> \<not> g_lock t \<and> (\<exists>r. p = Return r))" if "g_lock s" for s
    using assms(1) [OF that] assms(2) by (intro exI [of _ "k (fst (f s))"] exI [of _ "snd (f s)"]) (simp add: split_beta)
  then show ?thesis unfolding act_def by (rule keeps_mutex.intros)
qed

lemma keeps_read [keeping]: "(\<And>a. keeps_mutex (k a)) \<Longrightarrow> keeps_mutex (read_p f k)"
  unfolding read_p_def by (rule keeps_act) simp_all

lemma keeps_do [keeping]: "(\<And>s. g_lock s \<Longrightarrow> g_lock (g s)) \<Longrightarrow> keeps_mutex k \<Longrightarrow> keeps_mutex (do_p g k)"
  unfolding do_p_def by (rule keeps_act) simp_all

lemma keeps_unlock [keeping]: "keeps_mutex (unlock_p (Return r))"
  unfolding unlock_p_def do_p_def act_def by (rule keeps_mutex.intros) (simp add: mutex_unlock_def)

text \<open>No system call touches the mutex.\<close>

lemma lock_sys:
  fixes s :: "'k lights"
  shows "g_lock (snd (sys_open K path fl s)) = g_lock s" "g_lock (snd (sys_write K fd b s)) = g_lock s"
    "g_lock (sys_close K fd s) = g_lock s" "g_lock (snd (sys_access K path m s)) = g_lock s"
    "g_lock (snd (snd (sys_nanosleep K req s))) = g_lock s"
  by (simp_all add: sys_defs log_call_def split: prod.split)

lemma keeps_sleep [keeping]:
  assumes "\<And>a. keeps_mutex (k a)"
  shows "keeps_mutex (sleep_p K req k)"
proof (coinduction arbitrary: req)
  case keeps_mutex
  have "g_lock s \<Longrightarrow> g_lock (snd (snd (sys_nanosleep K req s)))" for s :: "'a lights"
    by (simp add: lock_sys)
  then show ?case
    using assms by (subst sleep_p.code) (auto simp: split_beta)
qed

lemma keeps_wait_delay [keeping]: "(\<And>a. keeps_mutex (k a)) \<Longrightarrow> keeps_mutex (led_wait_delay_p K ms k)"
  unfolding led_wait_delay_p_def by (rule keeps_sleep)

lemma keeps_act_sys [keeping]:
  assumes "\<And>a. keeps_mutex (k a)"
  shows "keeps_mutex (act (sys_open K path fl) k)" "keeps_mutex (act (sys_write K fd b) k)"
    "keeps_mutex (act (sys_access K path m) k)"
  using assms by (auto intro: keeps_act simp: lock_sys)

lemma keeps_close [keeping]: "keeps_mutex k \<Longrightarrow> keeps_mutex (do_p (sys_close K fd) k)"
  by (rule keeps_do) (simp_all add: lock_sys)

lemma keeps_write_int [keeping]:
  assumes "\<And>a. keeps_mutex (k a)"
  shows "keeps_mutex (write_int_p K path v k)"
  unfolding write_int_p_def sprintf_int_line using assms by (auto intro!: keeping)

lemma keeps_write_str [keeping]:
  assumes "length str < 20" and "\<And>a. keeps_mutex (k a)"
  shows "keeps_mutex (write_str_p K path str k)"
  unfolding write_str_p_def using assms(2) by (auto simp: sprintf_fits [OF assms(1)] intro!: keeping)

lemma keeps_wait_node [keeping]: "keeps_mutex k \<Longrightarrow> keeps_mutex (wait_node_p K path n k)"
  by (induction n) (auto simp: node_missing_p_def intro!: keeping)

lemma keeps_blink [keeping]:
  assumes "\<And>a. keeps_mutex (k a)"
  shows "keeps_mutex (blink_red_p K level on off k)" "keeps_mutex (blink_green_p K level on off k)"
  unfolding blink_red_p_def blink_green_p_def Let_def using assms by (auto intro!: keeping)

lemma keeps_trackball [keeping]:
  "(\<And>a. keeps_mutex (k a)) \<Longrightarrow> keeps_mutex (handle_trackball_light_locked_p K k)"
  unfolding handle_trackball_light_locked_p_def Let_def by (auto intro!: keeping)

lemma keeps_set_speaker [keeping]:
  "(\<And>a. keeps_mutex (k a)) \<Longrightarrow> keeps_mutex (set_speaker_light_locked_p E st k)"
  unfolding set_speaker_light_locked_p_def Let_def by (auto intro!: keeping split: prod.split)

lemma keeps_speaker_battery [keeping]:
  "keeps_mutex k \<Longrightarrow> keeps_mutex (handle_speaker_battery_locked_p E k)"
  unfolding handle_speaker_battery_locked_p_def by (auto intro!: keeping)

text \<open>Every function takes the mutex first and keeps it until its end.\<close>

definition locks_first :: "'k lights prog \<Rightarrow> bool" where
  "locks_first p \<longleftrightarrow> (\<exists>q. p = lock_p q \<and> keeps_mutex q)"

lemma set_light_locks: "locks_first (set_light_prog E f st)"
  by (cases f)
    (auto simp: locks_first_def set_light_backlight_p_def set_light_keyboard_p_def set_light_buttons_p_def
      set_light_battery_p_def set_light_notifications_p_def set_light_attention_p_def Let_def intro!: keeping exI)

end
