(* ===== verification/Lights_Threads.thy ===== *)
theory Lights_Threads
  imports Lights_Props Lights_Progs
begin

text \<open>
  Threads that set lights at the same time. A step of a thread is one step of the program it runs: one system call, one
  access to a static variable, or one operation on the mutex. Nothing is said of the mutex here: that every
  interleaving is the same as some sequence of calls comes from where the functions take and free it.
\<close>

section \<open>Threads\<close>

text \<open>
  A thread is outside of the library or runs the rest of a call. The calls are recorded with the thread and the
  result in the order in which they free the mutex, which a call does when only its return is left.
\<close>

datatype 'k thread = Outside | Running set_light_fn light_state_t "'k lights prog"

datatype ended = Called nat set_light_fn light_state_t int

type_synonym 'k lights_conf = "'k lights \<times> (nat \<Rightarrow> 'k thread) \<times> ended list"

definition released ::
  "nat \<Rightarrow> set_light_fn \<Rightarrow> light_state_t \<Rightarrow> 'k lights \<Rightarrow> 'k lights prog \<Rightarrow> 'k lights \<Rightarrow> ended list" where
  "released i f st s p t =
     (if g_lock s \<and> \<not> g_lock t then (case p of Return r \<Rightarrow> [Called i f st r] | Step h \<Rightarrow> []) else [])"

inductive thread_step :: "nat \<Rightarrow> 'k lights_conf \<Rightarrow> 'k lights_conf \<Rightarrow> bool" for i :: nat where
  step_run: "pc i = Running f st (Step h) \<Longrightarrow> h s = Some (p, t) \<Longrightarrow>
    thread_step i (s, pc, es) (t, pc(i := Running f st p), es @ released i f st s p t)"
| step_return: "pc i = Running f st (Return r) \<Longrightarrow> thread_step i (s, pc, es) (s, pc(i := Outside), es)"

inductive threads_step :: "('k, 'x) lights_env_scheme \<Rightarrow> 'k lights_conf \<Rightarrow> 'k lights_conf \<Rightarrow> bool"
  for E :: "('k, 'x) lights_env_scheme" where
  by_thread: "thread_step i x y \<Longrightarrow> threads_step E x y"
| by_client: "pc i = Outside \<Longrightarrow>
    threads_step E (s, pc, es) (s, pc(i := Running f st (set_light_prog E f st)), es)"

definition threads_start :: "'k lights \<Rightarrow> 'k lights_conf \<Rightarrow> bool" where
  "threads_start s0 x \<longleftrightarrow> \<not> g_lock s0 \<and> x = (s0, (\<lambda>i. Outside), [])"

text \<open>The calls one after the other, with the results they had.\<close>

fun replay :: "('k, 'x) lights_env_scheme \<Rightarrow> ended list \<Rightarrow> 'k lights \<Rightarrow> 'k lights option" where
  "replay E [] s = Some s"
| "replay E (Called i f st r # es) s =
     (case call_set_light E f st s of
        None \<Rightarrow> None
      | Some (r', s') \<Rightarrow> if r' = r then replay E es s' else None)"

lemma replay_append:
  "replay E (es @ es') s = (case replay E es s of None \<Rightarrow> None | Some t \<Rightarrow> replay E es' t)"
  by (induction E es s rule: replay.induct) (auto split: option.split)

text \<open>A replay is a sequence of steps of the HAL, so whatever holds in its reachable states holds at its end.\<close>

lemma replay_reach:
  "replay E es s = Some t \<Longrightarrow> reach hal_init (hal_step E) s \<Longrightarrow> reach hal_init (hal_step E) t"
proof (induction E es s rule: replay.induct)
  case (2 E i f st r es s)
  then obtain s' where s': "call_set_light E f st s = Some (r, s')" "replay E es s' = Some t"
    by (auto split: option.splits if_splits)
  with 2 have "reach hal_init (hal_step E) s'" by (blast intro: reach_step hal_set)
  with 2 s' show ?case by simp
qed simp

section \<open>The invariant\<close>

text \<open>A thread that does not hold the mutex is outside, about to take it, or about to return.\<close>

fun idle :: "('k, 'x) lights_env_scheme \<Rightarrow> ended list \<Rightarrow> nat \<Rightarrow> 'k thread \<Rightarrow> bool" where
  "idle E es i Outside = True"
| "idle E es i (Running f st p) =
     (p = set_light_prog E f st \<or> (\<exists>r. p = Return r \<and> Called i f st r \<in> set es))"

text \<open>The thread that holds the mutex is in the middle of a call from the state of the last free mutex.\<close>

fun owner :: "('k, 'x) lights_env_scheme \<Rightarrow> 'k lights \<Rightarrow> 'k lights \<Rightarrow> 'k thread \<Rightarrow> bool" where
  "owner E base s Outside = False"
| "owner E base s (Running f st p) =
     (keeps_mutex p \<and> (\<forall>r t. runs p s r t \<longleftrightarrow> call_set_light E f st base = Some (r, t)))"

definition serial_at :: "('k, 'x) lights_env_scheme \<Rightarrow> 'k lights \<Rightarrow> nat option \<Rightarrow> 'k lights \<Rightarrow> 'k lights_conf \<Rightarrow> bool" where
  "serial_at E s0 o_i base x = (case x of (s, pc, es) \<Rightarrow>
     replay E es s0 = Some base \<and> \<not> g_lock base \<and>
     (case o_i of None \<Rightarrow> s = base | Some i \<Rightarrow> g_lock s \<and> owner E base s (pc i)) \<and>
     (\<forall>j. o_i \<noteq> Some j \<longrightarrow> idle E es j (pc j)))"

definition serial :: "('k, 'x) lights_env_scheme \<Rightarrow> 'k lights \<Rightarrow> 'k lights_conf \<Rightarrow> bool" where
  "serial E s0 x \<longleftrightarrow> (\<exists>o_i base. serial_at E s0 o_i base x)"

lemma serialI: "serial_at E s0 o_i base x \<Longrightarrow> serial E s0 x"
  by (auto simp: serial_def)

lemma idle_more: "idle E es i c \<Longrightarrow> idle E (es @ es') i c"
  by (cases c) auto

text \<open>What an idle thread can do: take the mutex when it is free, and nothing when it is not.\<close>

lemma idle_step:
  assumes "idle E es i (Running f st (Step h))" and "h s = Some (p, t)"
  shows "\<not> g_lock s" and "t = s\<lparr>g_lock := True\<rparr>" and "keeps_mutex p"
    and "\<And>r u. runs p t r u \<longleftrightarrow> call_set_light E f st s = Some (r, u)"
proof -
  obtain q where q: "set_light_prog E f st = lock_p q" "keeps_mutex q"
    using set_light_locks [of E f st] by (auto simp: locks_first_def)
  with assms have h: "Step h = lock_p q" by simp
  then have lock: "mutex_lock s = Some t" and pq: "p = q"
    using assms(2) by (auto simp: lock_p_def split: option.splits)
  show "\<not> g_lock s" and "t = s\<lparr>g_lock := True\<rparr>"
    using lock by (auto simp: mutex_lock_def split: if_splits)
  show "keeps_mutex p" using q(2) pq by simp
  show "runs p t r u \<longleftrightarrow> call_set_light E f st s = Some (r, u)" for r u
    using runs_set_light [of E f st s r u] lock q(1) pq by simp
qed

lemma thread_run_serial:
  assumes inv: "serial_at E s0 o_i base (s, pc, es)"
    and pc: "pc i = Running f st (Step h)" and h: "h s = Some (p, t)"
  shows "serial E s0 (t, pc(i := Running f st p), es @ released i f st s p t)"
proof (cases "o_i = Some i")
  case True
  with inv pc have own: "g_lock s" "keeps_mutex (Step h)"
    "\<And>r u. runs (Step h) s r u \<longleftrightarrow> call_set_light E f st base = Some (r, u)"
    by (auto simp: serial_at_def)
  have rest: "runs p t r u \<longleftrightarrow> call_set_light E f st base = Some (r, u)" for r u
    using own(3) h by (auto simp: runs_simps)
  from keeps_mutexD [OF own(2,1)] h consider
    (held) "g_lock t" "keeps_mutex p" | (freed) r where "\<not> g_lock t" "p = Return r" by auto
  then show ?thesis
  proof cases
    case held
    with inv True rest have "serial_at E s0 (Some i) base (t, pc(i := Running f st p), es)"
      by (simp add: serial_at_def)
    note inv' = serialI [OF this]
    from held(1) have "released i f st s p t = []" by (simp add: released_def)
    with inv' show ?thesis by (simp only: append_Nil2)
  next
    case freed
    from rest [of r t] freed(2) have call: "call_set_light E f st base = Some (r, t)" by (simp add: runs_simps)
    have "idle E (es @ [Called i f st r]) j ((pc(i := Running f st p)) j)" for j
    proof (cases "j = i")
      case False
      with inv True have "idle E es j (pc j)" by (simp add: serial_at_def)
      with False show ?thesis by (simp add: idle_more)
    qed (simp add: freed(2))
    moreover have "replay E (es @ [Called i f st r]) s0 = Some t"
      using inv call by (simp add: serial_at_def replay_append)
    ultimately have "serial_at E s0 None t (t, pc(i := Running f st p), es @ [Called i f st r])"
      using freed(1) by (simp add: serial_at_def)
    note inv' = serialI [OF this]
    from freed own(1) have "released i f st s p t = [Called i f st r]" by (simp add: released_def)
    with inv' show ?thesis by (simp only:)
  qed
next
  case False
  with inv have "idle E es i (pc i)" by (simp add: serial_at_def)
  then have "idle E es i (Running f st (Step h))" by (simp only: pc)
  note step = idle_step [OF this h]
  have none: "o_i = None"
    using inv step(1) by (cases o_i) (simp_all add: serial_at_def)
  then have "idle E es j (pc j)" for j using inv by (simp add: serial_at_def)
  moreover have "replay E es s0 = Some s" using inv none by (simp add: serial_at_def)
  moreover have "g_lock t" by (simp add: step(2))
  ultimately have "serial_at E s0 (Some i) s (t, pc(i := Running f st p), es)"
    using step(1,3,4) by (simp add: serial_at_def)
  note inv' = serialI [OF this]
  from step(1) have "released i f st s p t = []" by (simp add: released_def)
  with inv' show ?thesis by (simp only: append_Nil2)
qed

lemma threads_step_serial:
  assumes "threads_step E x y" and "serial E s0 x"
  shows "serial E s0 y"
  using assms(1)
proof cases
  case (by_thread i)
  from this(1) show ?thesis
  proof cases
    case (step_run pc f st h s p t es)
    with assms(2) thread_run_serial show ?thesis unfolding serial_def by blast
  next
    case (step_return pc f st r s es)
    with assms(2) obtain o_i base where inv: "serial_at E s0 o_i base (s, pc, es)"
      by (auto simp: serial_def)
    with step_return(3) have "o_i \<noteq> Some i" by (auto simp: serial_at_def)
    with inv have "serial_at E s0 o_i base (s, pc(i := Outside), es)"
      by (auto simp: serial_at_def split: option.splits)
    with step_return(2) show ?thesis by (auto intro: serialI)
  qed
next
  case (by_client pc i s es f st)
  with assms(2) obtain o_i base where inv: "serial_at E s0 o_i base (s, pc, es)"
    by (auto simp: serial_def)
  with by_client(3) have "o_i \<noteq> Some i" by (auto simp: serial_at_def)
  with inv have "serial_at E s0 o_i base (s, pc(i := Running f st (set_light_prog E f st)), es)"
    by (auto simp: serial_at_def split: option.splits)
  with by_client(2) show ?thesis by (auto intro: serialI)
qed

interpretation threads: invariant_system "threads_start s0" "threads_step E" "serial E s0" for E s0
proof unfold_locales
  show "threads_start s0 x \<Longrightarrow> serial E s0 x" for x
    by (rule serialI [of _ _ None s0]) (auto simp: threads_start_def serial_at_def)
qed (rule threads_step_serial)

section \<open>What the steps of the threads can do\<close>

text \<open>Only the holder of the mutex changes the state, and a thread without it can only take it.\<close>

lemma step_without:
  assumes "thread_step j (s, pc, es) y" and "idle E es j (pc j)"
  shows "fst y = s \<or> \<not> g_lock s \<and> fst y = s\<lparr>g_lock := True\<rparr>"
  using assms(1)
proof cases
  case (step_run f st h p t)
  with assms(2) have "idle E es j (Running f st (Step h))" by simp
  from idle_step(1,2) [OF this step_run(3)] step_run(1) show ?thesis by simp
qed simp

lemma owner_goes_on:
  assumes "owner E base s c" and "g_lock s" and "pc i = c"
  shows "\<exists>y. thread_step i (s, pc, es) y"
proof (cases c)
  case (Running f st p)
  with assms(1) have k: "keeps_mutex p" by simp
  then obtain h where "p = Step h" by (cases p) auto
  with keeps_mutexD [of h s] k assms(2) obtain q t where "h s = Some (q, t)" by blast
  with step_run [of pc i f st h] Running \<open>p = Step h\<close> assms(3) show ?thesis by blast
qed (use assms(1) in simp)

lemma idle_goes_on:
  assumes "idle E es i (pc i)" and "pc i \<noteq> Outside" and "\<not> g_lock s"
  shows "\<exists>y. thread_step i (s, pc, es) y"
proof (cases "pc i")
  case (Running f st p)
  with assms(1) consider "p = set_light_prog E f st" | r where "p = Return r" by auto
  then show ?thesis
  proof cases
    case 1
    obtain q where "p = lock_p q" using set_light_locks [of E f st] 1 by (auto simp: locks_first_def)
    with Running have "pc i = Running f st (Step (\<lambda>s. case mutex_lock s of None \<Rightarrow> None | Some s1 \<Rightarrow> Some (q, s1)))"
      by (simp add: lock_p_def)
    moreover have "mutex_lock s = Some (s\<lparr>g_lock := True\<rparr>)" using assms(3) by (simp add: mutex_lock_def)
    ultimately show ?thesis using step_run [of pc i f st _ s q] by fastforce
  next
    case 2
    with Running step_return [of pc i f st r s es] show ?thesis by blast
  qed
qed (use assms(2) in simp)

lemma threads_progress:
  assumes "serial_at E s0 o_i base (s, pc, es)" and "pc i \<noteq> Outside"
  shows "\<exists>j y. thread_step j (s, pc, es) y"
proof (cases o_i)
  case None
  with assms(1) have "\<not> g_lock s" "idle E es i (pc i)" by (simp_all add: serial_at_def)
  with assms(2) idle_goes_on show ?thesis by blast
next
  case (Some j)
  with assms(1) have "owner E base s (pc j)" "g_lock s" by (simp_all add: serial_at_def)
  with owner_goes_on show ?thesis by blast
qed

section \<open>Property\<close>

text \<open>
  C4: the calls of any number of threads, interleaved at every system call and every access to a static variable, are
  serial because of where the functions take and free the mutex. When the mutex is free, the state is
  the one that the ended calls reach one after the other with the results they returned, so every invariant of the
  sequential HAL holds. When it is held, exactly one thread is in the middle of a call, no step of another thread changes
  anything, and what is left of the call leads to where the call leads from the last free state; on a kernel whose
  sleeps end, it gets there. A thread that is about to return has its call recorded with its result. And whenever a
  thread is in a call, some thread can go on.
\<close>

theorem interleavings_are_serial:
  assumes "reach (threads_start s0) (threads_step E) (s, pc, es)" and "reach hal_init (hal_step E) s0"
  shows "(\<not> g_lock s \<longrightarrow> replay E es s0 = Some s \<and> reach hal_init (hal_step E) s \<and>
      (\<forall>j y. thread_step j (s, pc, es) y \<longrightarrow> fst y \<in> {s, s\<lparr>g_lock := True\<rparr>})) \<and>
    (g_lock s \<longrightarrow> (\<exists>i f st p base. pc i = Running f st p \<and> replay E es s0 = Some base \<and>
      (\<forall>r t. runs p s r t \<longleftrightarrow> call_set_light E f st base = Some (r, t)) \<and>
      (sleep_ok E \<longrightarrow> (\<exists>r t. runs p s r t)) \<and>
      (\<forall>j y. j \<noteq> i \<longrightarrow> thread_step j (s, pc, es) y \<longrightarrow> fst y = s))) \<and>
    (\<forall>i f st r. pc i = Running f st (Return r) \<longrightarrow> Called i f st r \<in> set es) \<and>
    (\<forall>i. pc i \<noteq> Outside \<longrightarrow> (\<exists>j y. thread_step j (s, pc, es) y))"
proof -
  obtain o_i base where inv: "serial_at E s0 o_i base (s, pc, es)"
    using threads.inv_reach [OF assms(1)] by (auto simp: serial_def)
  then have base: "replay E es s0 = Some base" "\<not> g_lock base" by (simp_all add: serial_at_def)
  have free: "replay E es s0 = Some s \<and> reach hal_init (hal_step E) s \<and>
      (\<forall>j y. thread_step j (s, pc, es) y \<longrightarrow> fst y \<in> {s, s\<lparr>g_lock := True\<rparr>})" if "\<not> g_lock s"
  proof -
    have none: "o_i = None" using inv that by (cases o_i) (simp_all add: serial_at_def)
    with inv have "s = base" "\<And>j. idle E es j (pc j)" by (simp_all add: serial_at_def)
    with base(1) replay_reach [OF base(1) assms(2)] step_without [of _ s pc es _ E] show ?thesis by blast
  qed
  have held: "\<exists>i f st p base. pc i = Running f st p \<and> replay E es s0 = Some base \<and>
      (\<forall>r t. runs p s r t \<longleftrightarrow> call_set_light E f st base = Some (r, t)) \<and>
      (sleep_ok E \<longrightarrow> (\<exists>r t. runs p s r t)) \<and>
      (\<forall>j y. j \<noteq> i \<longrightarrow> thread_step j (s, pc, es) y \<longrightarrow> fst y = s)" if lock: "g_lock s"
  proof -
    obtain i where i: "o_i = Some i" using inv base(2) lock by (cases o_i) (auto simp: serial_at_def)
    with inv have own: "owner E base s (pc i)" and idle: "\<And>j. j \<noteq> i \<Longrightarrow> idle E es j (pc j)"
      by (auto simp: serial_at_def)
    then obtain f st p where p: "pc i = Running f st p"
      "\<And>r t. runs p s r t \<longleftrightarrow> call_set_light E f st base = Some (r, t)" by (cases "pc i") auto
    have "\<exists>r t. runs p s r t" if "sleep_ok E"
      using call_returns [OF that base(2)] p(2) by blast
    moreover have "fst y = s" if "j \<noteq> i" "thread_step j (s, pc, es) y" for j y
      using step_without [OF that(2) idle [OF that(1)]] lock by blast
    ultimately show ?thesis using p base(1) by blast
  qed
  have "Called i f st r \<in> set es" if pc: "pc i = Running f st (Return r)" for i f st r
  proof -
    have "o_i \<noteq> Some i" using inv pc by (auto simp: serial_at_def)
    with inv have "idle E es i (pc i)" by (simp add: serial_at_def)
    then have "idle E es i (Running f st (Return r))" by (simp only: pc)
    moreover have "set_light_prog E f st \<noteq> Return r"
      using set_light_locks [of E f st] by (auto simp: locks_first_def lock_p_def)
    ultimately show ?thesis by auto
  qed
  with free held threads_progress [OF inv] show ?thesis by blast
qed

text \<open>Two threads call, and the first takes the mutex: it gets to its end, and some thread can go on.\<close>

theorem interleavings_are_serial_witness:
  "\<exists>(s :: unit lights) pc i f st p. g_lock s \<and> pc i = Running f st p \<and> (\<exists>r t. runs p s r t) \<and>
     pc 1 = Running Set_light_battery red_blink (set_light_prog demo_env Set_light_battery red_blink) \<and>
     (\<exists>j y. thread_step j (s, pc, []) y)"
proof -
  let ?i = "init_lights () :: unit lights"
  let ?call = "\<lambda>f st. Running f st (set_light_prog demo_env f st) :: unit thread"
  let ?p0 = "\<lambda>i :: nat. Outside :: unit thread"
  let ?p1 = "?p0(0 := ?call Set_light_buttons green_steady)"
  let ?p2 = "?p1(1 := ?call Set_light_battery red_blink)"
  let ?s = "?i\<lparr>g_lock := True\<rparr>"
  have hal: "reach hal_init (hal_step demo_env) ?i" by (rule reach_init) (auto simp: hal_init_def)
  have "reach (threads_start ?i) (threads_step demo_env) (?i, ?p0, [])"
    by (rule reach_init) (simp add: threads_start_def init_lights_def)
  then have "reach (threads_start ?i) (threads_step demo_env) (?i, ?p1, [])"
    by (rule reach_step) (rule by_client, simp)
  then have r2: "reach (threads_start ?i) (threads_step demo_env) (?i, ?p2, [])"
    by (rule reach_step) (rule by_client, simp)
  obtain q where q: "set_light_prog demo_env Set_light_buttons green_steady = lock_p q"
    using set_light_locks [of demo_env Set_light_buttons green_steady] unfolding locks_first_def by blast
  define h where "h = (\<lambda>s :: unit lights. case mutex_lock s of None \<Rightarrow> None | Some s1 \<Rightarrow> Some (q, s1))"
  let ?p3 = "?p2(0 := Running Set_light_buttons green_steady q)"
  have "?p2 0 = Running Set_light_buttons green_steady (Step h)" using q by (simp add: h_def lock_p_def)
  moreover have "h ?i = Some (q, ?s)" by (simp add: h_def mutex_lock_def init_unlocked)
  ultimately have "thread_step 0 (?i, ?p2, []) (?s, ?p3, [] @ released 0 Set_light_buttons green_steady ?i q ?s)"
    by (rule step_run)
  then have "threads_step demo_env (?i, ?p2, []) (?s, ?p3, [])"
    by (intro by_thread [where i = 0]) (simp add: released_def)
  with r2 have r3: "reach (threads_start ?i) (threads_step demo_env) (?s, ?p3, [])" by (rule reach_step)
  have lock: "g_lock ?s" and p1: "?p3 1 = ?call Set_light_battery red_blink" and out: "?p3 1 \<noteq> Outside" by simp_all
  note all = interleavings_are_serial [OF r3 hal]
  from all lock demo_sleep_ok obtain i f st p where "?p3 i = Running f st p" "\<exists>r t. runs p ?s r t" by blast
  moreover from all out have "\<exists>j y. thread_step j (?s, ?p3, []) y" by blast
  ultimately show ?thesis using lock p1 by blast
qed

end
