(* ===== verification/Power_Threads.thy ===== *)
theory Power_Threads
  imports Power_Props
begin

text \<open>
  Profile hints of several threads at the same time. The power HAL has no mutex: a change of the profile is three
  steps, and the steps of two threads can come between each other.
\<close>

section \<open>The steps of a change\<close>

text \<open>
  A thread is outside of the HAL, about to compare the profile with the recorded one, about to publish it, or about to record it. Each
  access to the recorded profile is taken to be one step.
\<close>

datatype hint_pc =
    Idle
  | Comparing i32
  | Publishing i32
  | Recording i32

definition publish_profile :: "('k, 'x) kernel_scheme \<Rightarrow> i32 \<Rightarrow> 'k power \<Rightarrow> 'k power" where
  "publish_profile K profile s =
     (if profile = PROFILE_POWER_SAVE then property_set K POWER_PROFILE_PROPERTY POWER_SAVE_PROP s
      else if profile = PROFILE_BALANCED then property_set K POWER_PROFILE_PROPERTY BALANCED_PROP s
      else if profile = PROFILE_HIGH_PERFORMANCE then property_set K POWER_PROFILE_PROPERTY HIGH_PERFORMANCE_PROP s
      else if profile = PROFILE_BIAS_POWER then property_set K POWER_PROFILE_PROPERTY BIAS_POWER_PROP s
      else s)"

fun hint_next :: "('k, 'x) kernel_scheme \<Rightarrow> hint_pc \<Rightarrow> 'k power \<Rightarrow> hint_pc \<times> 'k power" where
  "hint_next K Idle s = (Idle, s)"
| "hint_next K (Comparing p) s = (if p = current_power_profile s then Idle else Publishing p, s)"
| "hint_next K (Publishing p) s = (Recording p, publish_profile K p s)"
| "hint_next K (Recording p) s = (Idle, s\<lparr>current_power_profile := p\<rparr>)"

type_synonym 'k hints = "'k power \<times> (nat \<Rightarrow> hint_pc)"

text \<open>
  With \<open>alone\<close> a thread enters the HAL only while no other is inside; without it, at any time.
\<close>

inductive hints_step :: "('k, 'x) power_env_scheme \<Rightarrow> bool \<Rightarrow> 'k hints \<Rightarrow> 'k hints \<Rightarrow> bool"
  for E :: "('k, 'x) power_env_scheme" and alone :: bool where
  hints_enter: "pc i = Idle \<Longrightarrow> (alone \<Longrightarrow> \<forall>j. pc j = Idle) \<Longrightarrow> hints_step E alone (s, pc) (s, pc(i := Comparing p))"
| hints_work: "pc i \<noteq> Idle \<Longrightarrow> hint_next E (pc i) s = (c, s') \<Longrightarrow> hints_step E alone (s, pc) (s', pc(i := c))"
| hints_kernel: "hints_step E alone (s, pc) (s\<lparr>kst := k\<rparr>, pc)"

definition hints_start :: "'k hints \<Rightarrow> bool" where
  "hints_start x \<longleftrightarrow> power_start (fst x) \<and> (\<forall>i. snd x i = Idle)"

text \<open>The three steps of a thread that nobody disturbs are the function of the model without threads.\<close>

lemma hint_next_run:
  "snd (hint_next K (Recording p) (snd (hint_next K (Publishing p) s))) =
     (publish_profile K p s)\<lparr>current_power_profile := p\<rparr>"
  "set_power_profile K p s =
     (if p = current_power_profile s then s else (publish_profile K p s)\<lparr>current_power_profile := p\<rparr>)"
  by (simp_all add: publish_profile_def set_power_profile_def Let_def)

lemma publish_profile_facts:
  "current_power_profile (publish_profile K p s) = current_power_profile s"
  "published (trace (publish_profile K p s)) = published (trace s) @ (case prop_of p of None \<Rightarrow> [] | Some v \<Rightarrow> [v])"
  by (simp_all add: publish_profile_def prop_of_def profile_defs property_set_def log_call_def world_simps published_def)

section \<open>One thread at a time\<close>

text \<open>
  While one thread is inside and has published, the property is ahead of the recorded profile by the profile it is about to record.
\<close>

definition last_published :: "'k power \<Rightarrow> string" where
  "last_published s = last (''1'' # published (trace s))"

fun ahead :: "hint_pc \<Rightarrow> 'k power \<Rightarrow> bool" where
  "ahead (Recording p) s \<longleftrightarrow> (\<forall>v. prop_of p = Some v \<longrightarrow> last_published s = v)"
| "ahead c s \<longleftrightarrow> (\<forall>v. prop_of (current_power_profile s) = Some v \<longrightarrow> last_published s = v)"

fun alone_inv :: "'k hints \<Rightarrow> bool" where
  "alone_inv (s, pc) \<longleftrightarrow> (\<forall>i j. pc i \<noteq> Idle \<longrightarrow> pc j \<noteq> Idle \<longrightarrow> i = j) \<and>
     (\<forall>i. pc i \<noteq> Idle \<longrightarrow> ahead (pc i) s) \<and> ((\<forall>i. pc i = Idle) \<longrightarrow> synced s)"

lemma ahead_idle: "ahead Idle s \<longleftrightarrow> synced s"
  by (simp add: synced_def last_published_def)

lemma hint_next_ahead: "ahead c s \<Longrightarrow> hint_next K c s = (c', s') \<Longrightarrow> ahead c' s'"
  by (cases c) (auto simp: publish_profile_facts last_published_def split: option.splits if_splits)

lemma alone_step:
  assumes "hints_step E True x y" and "alone_inv x"
  shows "alone_inv y"
  using assms(1)
proof cases
  case (hints_enter pc i s p)
  then have idle: "\<forall>j. pc j = Idle" by simp
  with assms(2) hints_enter have "ahead (Comparing p) s"
    by (simp add: synced_def last_published_def)
  with idle hints_enter show ?thesis by auto
next
  case (hints_work pc i s c s')
  then have only: "pc j = Idle" if "j \<noteq> i" for j
    using assms(2) that by auto
  have c: "ahead c s'"
    using hints_work assms(2) by (auto intro: hint_next_ahead)
  have "synced s'" if "\<forall>j. (pc(i := c)) j = Idle"
    using c that [rule_format, of i] ahead_idle [of s'] by simp
  with c only show ?thesis unfolding hints_work(2) by auto
next
  case (hints_kernel s pc k)
  have "ahead c (s\<lparr>kst := k\<rparr>) = ahead c s" for c
    by (cases c) (simp_all add: last_published_def)
  with assms(2) hints_kernel show ?thesis by (auto simp: synced_def)
qed

interpretation alone: invariant_system hints_start "hints_step E True" alone_inv for E
proof unfold_locales
  show "hints_start x \<Longrightarrow> alone_inv x" for x
    by (cases x) (auto simp: hints_start_def synced_def prop_of_def dest!: power_start_facts)
qed (rule alone_step)

section \<open>Two threads\<close>

text \<open>Threads run one step each, in the given order; a thread outside of the HAL does nothing.\<close>

fun run_threads :: "('k, 'x) kernel_scheme \<Rightarrow> nat list \<Rightarrow> 'k hints \<Rightarrow> 'k hints" where
  "run_threads K [] x = x"
| "run_threads K (i # is) (s, pc) = (let (c, s') = hint_next K (pc i) s in run_threads K is (s', pc(i := c)))"

lemma run_threads_reach:
  "reach hints_start (hints_step E alone) x \<Longrightarrow> reach hints_start (hints_step E alone) (run_threads E is x)"
proof (induction E "is" x rule: run_threads.induct)
  case (2 E i "is" s pc)
  obtain c s' where n: "hint_next E (pc i) s = (c, s')" by (rule prod.exhaust)
  have "reach hints_start (hints_step E alone) (s', pc(i := c))"
  proof (cases "pc i = Idle")
    case True
    with n have "(s', pc(i := c)) = (s, pc)" by (auto simp: fun_upd_idem)
    with 2 show ?thesis by simp
  next
    case False
    then have "hints_step E alone (s, pc) (s', pc(i := c))" using n by (rule hints_work)
    with 2(2) show ?thesis by (rule reach_step)
  qed
  with 2 n show ?case by simp
qed simp

lemma two_hints_reach:
  "reach hints_start (hints_step E False) (init_power k, (\<lambda>i. Idle)(0 := Comparing p, 1 := Comparing q))"
proof -
  have "reach hints_start (hints_step E False) (init_power k, \<lambda>i. Idle)"
    by (rule reach_init) (auto simp: hints_start_def power_start_def)
  then have "reach hints_start (hints_step E False) (init_power k, (\<lambda>i. Idle)(0 := Comparing p))"
    by (rule reach_step) (rule hints_enter, simp_all)
  then show ?thesis
    by (rule reach_step) (rule hints_enter [where i = 1], simp_all)
qed

lemma race_end:
  "case run_threads E [0, 1, 0, 1, 1, 0] (init_power k, (\<lambda>i. Idle)(0 := Comparing 0, 1 := Comparing 2)) of
     (s, pc) \<Rightarrow> (\<forall>i. pc i = Idle) \<and> current_power_profile s = 0 \<and> published (trace s) = [''0'', ''2'']"
  by (simp add: init_power_def publish_profile_facts publish_profile_def profile_defs property_set_def log_call_def
      published_def POWER_PROFILE_PROPERTY_def)

text \<open>
  C26: as long as no two hints overlap, the property shows the recorded profile whenever no thread is in the HAL. With two hints
  at the same time it need not: a state with no thread in the HAL can be reached in which the recorded profile is power
  saving and the property says high performance, and a further hint for power saving is then dropped.
\<close>

theorem overlapping_hints:
  shows "(reach hints_start (hints_step E True) (s, pc) \<and> (\<forall>i. pc i = Idle) \<and>
      prop_of (current_power_profile s) = Some v \<longrightarrow> last (''1'' # published (trace s)) = v) \<and>
    (\<exists>s' pc'. reach hints_start (hints_step E False) (s', pc') \<and> (\<forall>i. pc' i = Idle) \<and> current_power_profile s' = 0 \<and>
      last (''1'' # published (trace s')) = ''2'' \<and> set_power_profile E 0 s' = s')"
proof
  show "reach hints_start (hints_step E True) (s, pc) \<and> (\<forall>i. pc i = Idle) \<and>
      prop_of (current_power_profile s) = Some v \<longrightarrow> last (''1'' # published (trace s)) = v"
    using alone.inv_reach [of E "(s, pc)"] by (auto simp: synced_def)
  fix k
  obtain s' pc' where r: "run_threads E [0, 1, 0, 1, 1, 0]
      (init_power k, (\<lambda>i. Idle)(0 := Comparing 0, 1 := Comparing 2)) = (s', pc')" by (rule prod.exhaust)
  from run_threads_reach [OF two_hints_reach [of E k 0 2], of "[0, 1, 0, 1, 1, 0]"]
  have "reach hints_start (hints_step E False) (s', pc')" unfolding r .
  moreover from race_end [of E k] have "(\<forall>i. pc' i = Idle)" "current_power_profile s' = 0"
    "published (trace s') = [''0'', ''2'']" unfolding r by auto
  ultimately show "\<exists>s' pc'. reach hints_start (hints_step E False) (s', pc') \<and> (\<forall>i. pc' i = Idle) \<and>
      current_power_profile s' = 0 \<and> last (''1'' # published (trace s')) = ''2'' \<and> set_power_profile E 0 s' = s'"
    by (intro exI [of _ s'] exI [of _ pc']) (simp add: set_power_profile_def)
qed

theorem overlapping_hints_witness:
  "last (''1'' # published (trace (init_power () :: unit power))) = ''1'' \<and>
   (\<exists>s' :: unit power. current_power_profile s' = 0 \<and> last (''1'' # published (trace s')) = ''2'')"
proof -
  let ?s = "init_power () :: unit power"
  have "reach hints_start (hints_step power_demo True) (?s, \<lambda>i. Idle)"
    by (rule reach_init) (auto simp: hints_start_def power_start_def)
  moreover have "prop_of (current_power_profile ?s) = Some ''1''"
    by (simp add: init_power_def prop_of_def PROFILE_BALANCED_def)
  ultimately show ?thesis
    using overlapping_hints [of power_demo ?s "\<lambda>i. Idle" "''1''"] by blast
qed

end
