(* ===== verification/Hal_Modules.thy ===== *)
theory Hal_Modules
  imports Lights_Props Power_Props "HOL-Library.Multiset"
begin

text \<open>
  The tables through which the framework reaches the two HALs, \<^verbatim>\<open>HAL_MODULE_INFO_SYM\<close> of \<^verbatim>\<open>liblights/lights.c\<close> and
  \<^verbatim>\<open>power/power.c\<close>, and a client that knows nothing but the tables.
\<close>

section \<open>The tables\<close>

text \<open>The constants of \<^verbatim>\<open>hardware/hardware.h\<close>, \<^verbatim>\<open>hardware/lights.h\<close> and \<^verbatim>\<open>hardware/power.h\<close> that the tables hold.\<close>

record hw_headers =
  HARDWARE_MODULE_TAG :: u32
  HARDWARE_HAL_API_VERSION :: u16
  POWER_MODULE_API_VERSION_0_3 :: u16
  LIGHTS_HARDWARE_MODULE_ID :: string
  POWER_HARDWARE_MODULE_ID :: string

text \<open>A member that the initialiser does not name is zero, and a null pointer is \<^const>\<open>None\<close>.\<close>

record 'f hw_module =
  hm_tag :: u32
  hm_module_api_version :: u16
  hm_hal_api_version :: u16
  hm_id :: string
  hm_name :: string
  hm_author :: string
  hm_open :: "'f option"

type_synonym 'k open_fn = "string \<Rightarrow> 'k lights \<Rightarrow> fault + int \<times> light_device option \<times> 'k lights"

definition lights_module_methods :: "('k, 'x) lights_env_scheme \<Rightarrow> 'k open_fn option" where
  "lights_module_methods E = Some (open_lights E)"

definition lights_module :: "hw_headers \<Rightarrow> ('k, 'x) lights_env_scheme \<Rightarrow> 'k open_fn hw_module" where
  "lights_module H E =
     \<lparr>hm_tag = HARDWARE_MODULE_TAG H, hm_module_api_version = 0, hm_hal_api_version = 0,
      hm_id = LIGHTS_HARDWARE_MODULE_ID H, hm_name = ''MTK lights Module'', hm_author = ''MediaTek'',
      hm_open = lights_module_methods E\<rparr>"

record 'k power_module = "unit hw_module" +
  hm_init :: "'k power \<Rightarrow> 'k power"
  powerHint :: "int \<Rightarrow> i32 option \<Rightarrow> 'k power \<Rightarrow> fault + 'k power"
  setInteractive :: "int \<Rightarrow> 'k power \<Rightarrow> 'k power"
  setFeature :: "int \<Rightarrow> int \<Rightarrow> 'k power \<Rightarrow> 'k power"
  getFeature :: "int \<Rightarrow> int"

definition power_module_methods :: "unit option" where
  "power_module_methods = None"

definition power_module :: "hw_headers \<Rightarrow> ('k, 'x) power_env_scheme \<Rightarrow> 'k power_module" where
  "power_module H E =
     \<lparr>hm_tag = HARDWARE_MODULE_TAG H, hm_module_api_version = POWER_MODULE_API_VERSION_0_3 H,
      hm_hal_api_version = HARDWARE_HAL_API_VERSION H, hm_id = POWER_HARDWARE_MODULE_ID H,
      hm_name = ''MTK Power HAL'', hm_author = ''The Android Open Source Project'',
      hm_open = power_module_methods, hm_init = power_init, powerHint = power_hint E,
      setInteractive = power_set_interactive, setFeature = set_feature, getFeature = get_feature E\<rparr>"

section \<open>The heap\<close>

text \<open>No \<open>set_light\<close> function allocates or frees.\<close>

lemma heap_write_bytes:
  "write_bytes K p fl b t = (a, t') \<Longrightarrow> live_blocks (trace t') = live_blocks (trace t)"
  by (auto simp: write_bytes_def Let_def world_simps split_beta split: if_splits)

lemma heap_trackball: "trackball_if_any K s = Some s' \<Longrightarrow> live_blocks (trace s') = live_blocks (trace s)"
  by (auto simp: trackball_if_any_def write_int_eq trackball_eq Let_def split_beta split: if_splits
      intro: heap_write_bytes [OF surjective_pairing])

lemma heap_probing: "probing s s' \<Longrightarrow> live_blocks (trace s') = live_blocks (trace s)"
  by (auto simp: probing_def world_simps probes_keep)

lemma heap_write_bytes_snd [simp]:
  "live_blocks (trace (snd (write_bytes K p fl b t))) = live_blocks (trace t)"
  by (rule heap_write_bytes [OF surjective_pairing])

lemma heap_drive: "drive K F n onMS offMS s = Some s' \<Longrightarrow> live_blocks (trace s') = live_blocks (trace s)"
  by (auto simp: drive_def split: if_splits dest!: wait_node_probing heap_probing)

lemma heap_blink:
  "blink_red K level onMS offMS s = Some (r, s') \<Longrightarrow> live_blocks (trace s') = live_blocks (trace s)"
  "blink_green K level onMS offMS s = Some (r, s') \<Longrightarrow> live_blocks (trace s') = live_blocks (trace s)"
  by (auto simp: red.shape green.shape Let_def split: if_splits dest: heap_drive)

lemma heap_set_speaker:
  "set_speaker_light_locked E st s = Some (r, s') \<Longrightarrow> live_blocks (trace s') = live_blocks (trace s)"
  by (cases rule: set_speaker_E) (auto dest!: heap_blink)

lemma heap_speaker_battery:
  "handle_speaker_battery_locked E s = Some s' \<Longrightarrow> live_blocks (trace s') = live_blocks (trace s)"
  by (auto simp: handle_speaker_battery_locked_def bind_Some_iff dest!: heap_set_speaker split: if_splits prod.splits)

lemma heap_call: "call_set_light E f st s = Some (r, s') \<Longrightarrow> live_blocks (trace s') = live_blocks (trace s)"
proof -
  have "section_of E f st t = Some (r, t') \<Longrightarrow> live_blocks (trace t') = live_blocks (trace t)" for t t'
    by (cases f; auto simp: write_int_eq bind_Some_iff split: if_splits prod.splits
        dest!: heap_write_bytes heap_trackball heap_speaker_battery heap_set_speaker)
  then show "call_set_light E f st s = Some (r, s') \<Longrightarrow> live_blocks (trace s') = live_blocks (trace s)"
    by (elim call.enters) auto
qed

lemma heap_open:
  assumes "open_lights E name s = Inr (r, d, s')"
  shows "live_blocks (trace s') = (case d of None \<Rightarrow> [] | Some x \<Rightarrow> [dev_block x]) @ live_blocks (trace s) \<and>
    (\<forall>x. d = Some x \<longrightarrow> dev_block x \<noteq> 0)"
  using assms
proof (cases rule: open_lights_E)
  case (opened f p)
  then show ?thesis
    using malloc_trace [OF opened(5)] by (auto simp: world_simps init_globals_heap)
qed simp

lemma heap_close: "close_lights (Some x) s = (r, s') \<Longrightarrow> live_blocks (trace s') = remove1 (dev_block x) (live_blocks (trace s))"
  by (auto simp: close_lights_def world_simps)

section \<open>A client of the tables\<close>

text \<open>
  The client opens lights by name through the method of the module, keeps the devices it is given, sets a light through the
  function of one of them, and closes each at most once. The kernel may change state in between.
\<close>

type_synonym 'k lights_client = "light_device list \<times> 'k lights"

inductive lights_client_step ::
  "hw_headers \<Rightarrow> ('k, 'x) lights_env_scheme \<Rightarrow> 'k lights_client \<Rightarrow> 'k lights_client \<Rightarrow> bool" for H E where
  client_open: "hm_open (lights_module H E) = Some opn \<Longrightarrow> opn name s = Inr (r, d, s') \<Longrightarrow>
    lights_client_step H E (devs, s) ((case d of None \<Rightarrow> devs | Some x \<Rightarrow> x # devs), s')"
| client_set: "d \<in> set devs \<Longrightarrow> call_set_light E (dev_set_light d) st s = Some (r, s') \<Longrightarrow>
    lights_client_step H E (devs, s) (devs, s')"
| client_close: "d \<in> set devs \<Longrightarrow> close_lights (Some d) s = (r, s') \<Longrightarrow>
    lights_client_step H E (devs, s) (remove1 d devs, s')"
| client_close_null: "close_lights None s = (r, s') \<Longrightarrow> lights_client_step H E (devs, s) (devs, s')"
| client_kernel: "lights_client_step H E (devs, s) (devs, s\<lparr>kst := k\<rparr>)"

definition lights_client_start :: "'k lights_client \<Rightarrow> bool" where
  "lights_client_start x \<longleftrightarrow> fst x = [] \<and> hal_init (snd x)"

fun owns_blocks :: "('k, 'x) lights_env_scheme \<Rightarrow> 'k lights_client \<Rightarrow> bool" where
  "owns_blocks E (devs, s) \<longleftrightarrow>
     mset (live_blocks (trace s)) = mset (map dev_block devs) \<and> (\<forall>d \<in> set devs. dev_block d \<noteq> 0) \<and>
     reach hal_init (hal_step E) s"

lemma lights_table: "hm_open (lights_module H E) = Some opn \<Longrightarrow> opn = open_lights E"
  by (simp add: lights_module_def lights_module_methods_def)

lemma owns_close:
  assumes "d \<in> set devs" and "mset (live_blocks (trace s)) = mset (map dev_block devs)"
    and "close_lights (Some d) s = (r, s')"
  shows "mset (live_blocks (trace s')) = mset (map dev_block (remove1 d devs))"
proof -
  have "mset (map dev_block (remove1 d devs)) = mset (map dev_block devs) - {# dev_block d #}"
    using assms(1) by (simp add: image_mset_Diff)
  with assms(2) heap_close [OF assms(3)] show ?thesis by simp
qed

lemma lights_client_owns:
  assumes "lights_client_step H E x y" and "owns_blocks E x"
  shows "owns_blocks E y"
  using assms(1)
proof cases
  case (client_open opn name s r d s' devs)
  then have call: "open_lights E name s = Inr (r, d, s')" using lights_table by metis
  with heap_open [OF call] client_open assms(2) show ?thesis
    by (auto split: option.splits intro: reach_step hal_step.hal_open)
next
  case (client_set d devs st s r s')
  with heap_call [OF client_set(4)] assms(2) show ?thesis by (auto intro: reach_step hal_step.hal_set)
next
  case (client_close d devs s r s')
  with owns_close [OF client_close(3) _ client_close(4)] assms(2) show ?thesis
    by (auto intro: reach_step hal_step.hal_close dest: notin_set_remove1)
next
  case (client_close_null s r s' devs)
  with assms(2) show ?thesis by (simp add: close_lights_def)
next
  case (client_kernel devs s k)
  with assms(2) show ?thesis by (auto intro: reach_step hal_step.hal_env)
qed

interpretation lights_client: invariant_system lights_client_start "lights_client_step H E" "owns_blocks E" for H E
proof unfold_locales
  show "lights_client_start x \<Longrightarrow> owns_blocks E x" for x
    by (cases x) (auto simp: lights_client_start_def hal_init_def init_lights_def live_blocks_def intro: reach_init)
qed (rule lights_client_owns)

text \<open>
  C9: whatever a client does through the table of the lights module, the live blocks of the heap are exactly those of the devices it
  holds: none is freed while it is held, a failed open leaves none behind, and when all devices are closed nothing is left. No descriptor
  is left open either.
  Every such client is a sequence of the steps of the HAL, so the invariants of the HAL hold for it.
\<close>

theorem devices_own_their_blocks:
  assumes "reach lights_client_start (lights_client_step H E) (devs, s)"
  shows "mset (live_blocks (trace s)) = mset (map dev_block devs) \<and> 0 \<notin> dev_block ` set devs \<and>
    open_fds (trace s) = [] \<and> reach hal_init (hal_step E) s"
proof -
  have own: "owns_blocks E (devs, s)" by (rule lights_client.inv_reach [OF assms])
  then have "hal_inv E s" using hal.inv_reach [of E s] by simp
  with own show ?thesis by (force simp: hal_inv_def)
qed

definition demo_headers :: hw_headers where
  "demo_headers =
     \<lparr>HARDWARE_MODULE_TAG = 0x48574D54, HARDWARE_HAL_API_VERSION = 0x100, POWER_MODULE_API_VERSION_0_3 = 3,
      LIGHTS_HARDWARE_MODULE_ID = ''lights'', POWER_HARDWARE_MODULE_ID = ''power''\<rparr>"

theorem devices_own_their_blocks_witness:
  "\<exists>d (s :: unit lights). reach lights_client_start (lights_client_step demo_headers demo_env) ([d], s) \<and>
     live_blocks (trace s) = [dev_block d]"
proof -
  obtain d s where o: "open_lights demo_env ''battery'' (init_lights ()) = Inr (0, Some d, s)"
    by (simp add: open_lights_def choose_set_light_def init_lights_def c_malloc_def demo_env_def Let_def split_beta)
  have "reach lights_client_start (lights_client_step demo_headers demo_env) ([], init_lights ())"
    by (rule reach_init) (auto simp: lights_client_start_def hal_init_def)
  moreover have "lights_client_step demo_headers demo_env ([], init_lights ()) ([d], s)"
    using client_open [of demo_headers demo_env "open_lights demo_env", OF _ o, of "[]"]
    by (simp add: lights_module_def lights_module_methods_def)
  ultimately have r: "reach lights_client_start (lights_client_step demo_headers demo_env) ([d], s)"
    by (rule reach_step)
  with devices_own_their_blocks [OF r] show ?thesis by auto
qed

section \<open>The power module\<close>

text \<open>
  A call of any function of the table, with any arguments. The power HAL opens no device: the method is null.
\<close>

inductive power_client_step :: "hw_headers \<Rightarrow> ('k, 'x) power_env_scheme \<Rightarrow> 'k power \<Rightarrow> 'k power \<Rightarrow> bool" for H E where
  client_init: "power_client_step H E s (hm_init (power_module H E) s)"
| client_hint: "powerHint (power_module H E) hint data s = Inr s' \<Longrightarrow> power_client_step H E s s'"
| client_interactive: "power_client_step H E s (setInteractive (power_module H E) on s)"
| client_feature: "power_client_step H E s (setFeature (power_module H E) feature st s)"
| client_power_kernel: "power_client_step H E s (s\<lparr>kst := k\<rparr>)"

lemma power_client_is_step: "power_client_step H E s s' \<Longrightarrow> power_step E (\<lambda>p. True) s s'"
  by (cases rule: power_client_step.cases) (auto simp: power_module_def intro: power_step.intros)

interpretation power_client: invariant_system power_start "power_client_step H E" synced for H E
  by unfold_locales (auto intro: sync.inv_init sync.inv_step dest: power_client_is_step)

text \<open>
  Through the table too the property follows the profile, and the table offers no device to open.
\<close>

theorem power_table_synced:
  assumes "reach power_start (power_client_step H E) s" and "prop_of (current_power_profile s) = Some v"
  shows "last (''1'' # published (trace s)) = v \<and> hm_open (power_module H E) = None"
  using power_client.inv_reach [OF assms(1)] assms(2)
  by (simp add: synced_def power_module_def power_module_methods_def)

theorem power_table_synced_witness:
  "last (''1'' # published (trace (init_power () :: unit power))) = ''1''"
proof -
  have "reach power_start (power_client_step demo_headers power_demo) (init_power ())"
    by (rule reach_init) (auto simp: power_start_def)
  moreover have "prop_of (current_power_profile (init_power () :: unit power)) = Some ''1''"
    by (simp add: init_power_def prop_of_def PROFILE_BALANCED_def)
  ultimately show ?thesis using power_table_synced by blast
qed

end
