(* ===== verification/Doze.thy ===== *)
theory Doze
  imports Complex_Main Prelude
begin

text \<open>
  The doze application of \<^verbatim>\<open>doze/src/com/cyanogenmod/settings/doze\<close>: its settings, the proximity and the tilt sensor
  with the gestures they recognise, and the service that switches them with the display.
\<close>

section \<open>The platform\<close>

text \<open>
  The Android framework is a parameter: reading a preference with its default, reading and writing a secure
  setting, the clock, and the range of the proximity sensor. A Java \<open>long\<close> is a 64-bit word read by
  \<^const>\<open>sint\<close>; the values of the sensors are rational.
\<close>

type_synonym i64 = "64 word"

record 'k android =
  pref_boolean :: "'k \<Rightarrow> string \<Rightarrow> bool \<Rightarrow> bool"
  secure_get_int :: "'k \<Rightarrow> string \<Rightarrow> int \<Rightarrow> int"
  secure_put_int :: "'k \<Rightarrow> string \<Rightarrow> int \<Rightarrow> bool \<times> 'k"
  elapsed_realtime :: "'k \<Rightarrow> i64 \<times> 'k"
  proximity_range :: rat
  DOZE_ENABLED :: string

datatype sensor = Proximity | Tilt

datatype doze_call =
    Register_listener sensor
  | Unregister_listener sensor
  | Register_receiver
  | Unregister_receiver
  | Send_broadcast string
  | Start_service
  | Stop_service

text \<open>The framework's state and the calls made so far.\<close>

record 'k phone =
  sys :: 'k
  calls :: "doze_call list"

definition call :: "doze_call \<Rightarrow> ('k, 'a) phone_scheme \<Rightarrow> ('k, 'a) phone_scheme" where
  "call c s = s\<lparr>calls := calls s @ [c]\<rparr>"

section \<open>Settings\<close>

definition DOZE_INTENT :: string where "DOZE_INTENT = ''com.android.systemui.doze.pulse''"
definition GESTURE_PICK_UP_KEY :: string where "GESTURE_PICK_UP_KEY = ''gesture_pick_up''"
definition GESTURE_HAND_WAVE_KEY :: string where "GESTURE_HAND_WAVE_KEY = ''gesture_hand_wave''"
definition GESTURE_POCKET_KEY :: string where "GESTURE_POCKET_KEY = ''gesture_pocket''"

definition pickUpEnabled :: "('k, 'x) android_scheme \<Rightarrow> ('k, 'a) phone_scheme \<Rightarrow> bool" where
  "pickUpEnabled E s = pref_boolean E (sys s) GESTURE_PICK_UP_KEY False"

definition handwaveGestureEnabled :: "('k, 'x) android_scheme \<Rightarrow> ('k, 'a) phone_scheme \<Rightarrow> bool" where
  "handwaveGestureEnabled E s = pref_boolean E (sys s) GESTURE_HAND_WAVE_KEY False"

definition pocketGestureEnabled :: "('k, 'x) android_scheme \<Rightarrow> ('k, 'a) phone_scheme \<Rightarrow> bool" where
  "pocketGestureEnabled E s = pref_boolean E (sys s) GESTURE_POCKET_KEY False"

definition sensorsEnabled :: "('k, 'x) android_scheme \<Rightarrow> ('k, 'a) phone_scheme \<Rightarrow> bool" where
  "sensorsEnabled E s \<longleftrightarrow> pickUpEnabled E s \<or> handwaveGestureEnabled E s \<or> pocketGestureEnabled E s"

definition isDozeEnabled :: "('k, 'x) android_scheme \<Rightarrow> ('k, 'a) phone_scheme \<Rightarrow> bool" where
  "isDozeEnabled E s \<longleftrightarrow> secure_get_int E (sys s) (DOZE_ENABLED E) 1 \<noteq> 0"

definition enableDoze :: "('k, 'x) android_scheme \<Rightarrow> bool \<Rightarrow> ('k, 'a) phone_scheme \<Rightarrow> bool \<times> ('k, 'a) phone_scheme" where
  "enableDoze E enable s =
     (let (ok, k) = secure_put_int E (sys s) (DOZE_ENABLED E) (if enable then 1 else 0) in (ok, s\<lparr>sys := k\<rparr>))"

definition checkDozeService :: "('k, 'x) android_scheme \<Rightarrow> ('k, 'a) phone_scheme \<Rightarrow> ('k, 'a) phone_scheme" where
  "checkDozeService E s = (if isDozeEnabled E s then call Start_service s else call Stop_service s)"

definition launchDozePulse :: "('k, 'a) phone_scheme \<Rightarrow> ('k, 'a) phone_scheme" where
  "launchDozePulse s = call (Send_broadcast DOZE_INTENT) s"

text \<open>The two callbacks of the settings page that touch the service, and the one at boot.\<close>

definition onPreferenceChange :: "('k, 'x) android_scheme \<Rightarrow> ('k, 'a) phone_scheme \<Rightarrow> bool \<times> ('k, 'a) phone_scheme" where
  "onPreferenceChange E s = (True, checkDozeService E s)"

definition onCheckedChanged :: "('k, 'x) android_scheme \<Rightarrow> bool \<Rightarrow> ('k, 'a) phone_scheme \<Rightarrow> ('k, 'a) phone_scheme" where
  "onCheckedChanged E b s = (let (_, s1) = enableDoze E b s in checkDozeService E s1)"

definition boot_onReceive :: "('k, 'x) android_scheme \<Rightarrow> ('k, 'a) phone_scheme \<Rightarrow> ('k, 'a) phone_scheme" where
  "boot_onReceive E s = (if isDozeEnabled E s \<and> sensorsEnabled E s then call Start_service s else s)"

section \<open>The service object\<close>

record proximity_sensor =
  mSawNear :: bool
  mInPocketTime :: i64

record tilt_sensor =
  mEntryTimestamp :: i64

record 'k doze = "'k phone" +
  mProximitySensor :: proximity_sensor
  mTiltSensor :: tilt_sensor

definition new_ProximitySensor :: proximity_sensor where
  "new_ProximitySensor = \<lparr>mSawNear = False, mInPocketTime = 0\<rparr>"

definition new_TiltSensor :: tilt_sensor where
  "new_TiltSensor = \<lparr>mEntryTimestamp = 0\<rparr>"

section \<open>Proximity sensor\<close>

definition HANDWAVE_MAX_DELTA_NS :: int where "HANDWAVE_MAX_DELTA_NS = 1000 * 1000 * 1000"
definition POCKET_MIN_DELTA_NS :: int where "POCKET_MIN_DELTA_NS = 2000 * 1000 * 1000"

definition shouldPulse :: "('k, 'x) android_scheme \<Rightarrow> i64 \<Rightarrow> 'k doze \<Rightarrow> bool" where
  "shouldPulse E timestamp s =
     (let delta = sint (timestamp - mInPocketTime (mProximitySensor s)) in
      if handwaveGestureEnabled E s \<and> pocketGestureEnabled E s then True
      else if handwaveGestureEnabled E s then delta < HANDWAVE_MAX_DELTA_NS
      else if pocketGestureEnabled E s then POCKET_MIN_DELTA_NS \<le> delta
      else False)"

definition proximity_onSensorChanged :: "('k, 'x) android_scheme \<Rightarrow> rat \<Rightarrow> i64 \<Rightarrow> 'k doze \<Rightarrow> 'k doze" where
  "proximity_onSensorChanged E v timestamp s =
     (let isNear = (v < proximity_range E);
          s1 = (if mSawNear (mProximitySensor s) \<and> \<not> isNear then
                  (if shouldPulse E timestamp s then launchDozePulse s else s)
                else s\<lparr>mProximitySensor := (mProximitySensor s)\<lparr>mInPocketTime := timestamp\<rparr>\<rparr>)
      in s1\<lparr>mProximitySensor := (mProximitySensor s1)\<lparr>mSawNear := isNear\<rparr>\<rparr>)"

definition proximity_enable :: "'k doze \<Rightarrow> 'k doze" where
  "proximity_enable s = call (Register_listener Proximity) s"

definition proximity_disable :: "'k doze \<Rightarrow> 'k doze" where
  "proximity_disable s = call (Unregister_listener Proximity) s"

section \<open>Tilt sensor\<close>

definition MIN_PULSE_INTERVAL_MS :: int where "MIN_PULSE_INTERVAL_MS = 2500"

text \<open>The clock is read again when the time is stored.\<close>

definition read_clock :: "('k, 'x) android_scheme \<Rightarrow> 'k doze \<Rightarrow> i64 \<times> 'k doze" where
  "read_clock E s = (let (t, k) = elapsed_realtime E (sys s) in (t, s\<lparr>sys := k\<rparr>))"

definition tilt_onSensorChanged :: "('k, 'x) android_scheme \<Rightarrow> rat \<Rightarrow> 'k doze \<Rightarrow> 'k doze" where
  "tilt_onSensorChanged E v s =
     (let (t, s1) = read_clock E s;
          delta = sint (t - mEntryTimestamp (mTiltSensor s1))
      in if delta < MIN_PULSE_INTERVAL_MS then s1
         else
           let (t', s2) = read_clock E s1;
               s3 = s2\<lparr>mTiltSensor := \<lparr>mEntryTimestamp = t'\<rparr>\<rparr>
           in if v = 1 then launchDozePulse s3 else s3)"

definition tilt_enable :: "('k, 'x) android_scheme \<Rightarrow> 'k doze \<Rightarrow> 'k doze" where
  "tilt_enable E s =
     (let (t, s1) = read_clock E (call (Register_listener Tilt) s)
      in s1\<lparr>mTiltSensor := \<lparr>mEntryTimestamp = t\<rparr>\<rparr>)"

definition tilt_disable :: "'k doze \<Rightarrow> 'k doze" where
  "tilt_disable s = call (Unregister_listener Tilt) s"

section \<open>Service\<close>

definition onCreate :: "'k doze \<Rightarrow> 'k doze" where
  "onCreate s =
     call Register_receiver
       (s\<lparr>mProximitySensor := new_ProximitySensor, mTiltSensor := new_TiltSensor\<rparr>)"

definition onDestroy :: "'k doze \<Rightarrow> 'k doze" where
  "onDestroy s = tilt_disable (proximity_disable (call Unregister_receiver s))"

definition onDisplayOn :: "('k, 'x) android_scheme \<Rightarrow> 'k doze \<Rightarrow> 'k doze" where
  "onDisplayOn E s =
     (let s1 = (if pickUpEnabled E s then tilt_disable s else s)
      in if handwaveGestureEnabled E s1 \<or> pocketGestureEnabled E s1 then proximity_disable s1 else s1)"

definition onDisplayOff :: "('k, 'x) android_scheme \<Rightarrow> 'k doze \<Rightarrow> 'k doze" where
  "onDisplayOff E s =
     (let s1 = (if pickUpEnabled E s then tilt_enable E s else s)
      in if handwaveGestureEnabled E s1 \<or> pocketGestureEnabled E s1 then proximity_enable s1 else s1)"

datatype screen_action = ACTION_SCREEN_ON | ACTION_SCREEN_OFF | Other_action

fun onReceive :: "('k, 'x) android_scheme \<Rightarrow> screen_action \<Rightarrow> 'k doze \<Rightarrow> 'k doze" where
  "onReceive E ACTION_SCREEN_ON s = onDisplayOn E s"
| "onReceive E ACTION_SCREEN_OFF s = onDisplayOff E s"
| "onReceive E Other_action s = s"

section \<open>Read off the calls\<close>

fun listen_step :: "sensor set \<Rightarrow> doze_call \<Rightarrow> sensor set" where
  "listen_step L (Register_listener x) = insert x L"
| "listen_step L (Unregister_listener x) = L - {x}"
| "listen_step L c = L"

definition listening :: "doze_call list \<Rightarrow> sensor set" where
  "listening cs = foldl listen_step {} cs"

definition pulses :: "doze_call list \<Rightarrow> nat" where
  "pulses cs = length (filter (\<lambda>c. c = Send_broadcast DOZE_INTENT) cs)"

lemma listening_append [world_simps]: "listening (cs @ ds) = foldl listen_step (listening cs) ds"
  by (simp add: listening_def)

lemma pulses_append [world_simps]: "pulses (cs @ ds) = pulses cs + pulses ds"
  by (simp add: pulses_def)

end
