(* ===== verification/Doze_Props.thy ===== *)
theory Doze_Props
  imports Doze
begin

text \<open>
  The doze application: when the two sensors pulse, and that the listeners follow the display.
\<close>

section \<open>Gestures in front of the proximity sensor\<close>

text \<open>What happens to the sensor: an event, being switched on or off, and a change of the preferences.\<close>

datatype 'k proximity_input =
    Proximity_event rat i64 | Proximity_on | Proximity_off | Other_change 'k

fun proximity_step :: "('k, 'x) android_scheme \<Rightarrow> 'k proximity_input \<Rightarrow> 'k doze \<Rightarrow> 'k doze" where
  "proximity_step E (Proximity_event v t) s = proximity_onSensorChanged E v t s"
| "proximity_step E Proximity_on s = proximity_enable s"
| "proximity_step E Proximity_off s = proximity_disable s"
| "proximity_step E (Other_change k) s = s\<lparr>sys := k\<rparr>"

text \<open>
  The reference looks at two consecutive events only: the sensor was covered in the first and is free
  in the second, and the time between them is that of a gesture that is switched on.
\<close>

definition gesture :: "('k, 'x) android_scheme \<Rightarrow> 'k \<Rightarrow> int \<Rightarrow> bool" where
  "gesture E k dt \<longleftrightarrow>
     (let wave = pref_boolean E k GESTURE_HAND_WAVE_KEY False; pocket = pref_boolean E k GESTURE_POCKET_KEY False in
      wave \<and> pocket \<or> wave \<and> dt < 1000000000 \<or> pocket \<and> 2000000000 \<le> dt)"

fun expected_pulses :: "('k, 'x) android_scheme \<Rightarrow> bool \<times> i64 \<Rightarrow> 'k \<Rightarrow> 'k proximity_input list \<Rightarrow> nat" where
  "expected_pulses E prev k [] = 0"
| "expected_pulses E prev k (Proximity_event v t # ins) =
     (if fst prev \<and> proximity_range E \<le> v \<and> gesture E k (sint (t - snd prev)) then 1 else 0) +
     expected_pulses E (v < proximity_range E, t) k ins"
| "expected_pulses E prev k (Proximity_on # ins) = expected_pulses E prev k ins"
| "expected_pulses E prev k (Proximity_off # ins) = expected_pulses E prev k ins"
| "expected_pulses E prev k (Other_change k' # ins) = expected_pulses E prev k' ins"

lemma calls_call [simp]: "calls (call c s) = calls s @ [c]" "sys (call c s) = sys s"
  "mProximitySensor (call c d) = mProximitySensor d" "mTiltSensor (call c d) = mTiltSensor d"
  by (simp_all add: call_def)

lemma pulses_simps [simp]:
  "pulses [] = 0" "pulses [Send_broadcast DOZE_INTENT] = 1" "pulses [Register_listener x] = 0"
  "pulses [Unregister_listener x] = 0" "pulses [Register_receiver] = 0" "pulses [Unregister_receiver] = 0"
  by (simp_all add: pulses_def)

lemma shouldPulse_gesture:
  "shouldPulse E t s \<longleftrightarrow> gesture E (sys s) (sint (t - mInPocketTime (mProximitySensor s)))"
  by (auto simp: shouldPulse_def gesture_def handwaveGestureEnabled_def pocketGestureEnabled_def
      HANDWAVE_MAX_DELTA_NS_def POCKET_MIN_DELTA_NS_def Let_def)

lemma proximity_run:
  assumes "mSawNear (mProximitySensor s) = fst prev"
    and "fst prev \<Longrightarrow> mInPocketTime (mProximitySensor s) = snd prev"
  shows "pulses (calls (fold (proximity_step E) ins s)) = pulses (calls s) + expected_pulses E prev (sys s) ins"
  using assms
proof (induction ins arbitrary: s prev)
  case (Cons i ins)
  show ?case
  proof (cases i)
    case (Proximity_event v t)
    let ?s' = "proximity_onSensorChanged E v t s"
    have after: "mSawNear (mProximitySensor ?s') = (v < proximity_range E)"
      "v < proximity_range E \<Longrightarrow> mInPocketTime (mProximitySensor ?s') = t" "sys ?s' = sys s"
      by (auto simp: proximity_onSensorChanged_def launchDozePulse_def Let_def)
    have "pulses (calls ?s') = pulses (calls s) +
        (if fst prev \<and> proximity_range E \<le> v \<and> gesture E (sys s) (sint (t - snd prev)) then 1 else 0)"
      using Cons.prems
      by (auto simp: proximity_onSensorChanged_def launchDozePulse_def shouldPulse_gesture pulses_append Let_def)
    with Cons.IH [of ?s' "(v < proximity_range E, t)"] after Proximity_event show ?thesis by simp
  next
    case (Other_change k)
    with Cons.IH [of "s\<lparr>sys := k\<rparr>" prev] Cons.prems show ?thesis by simp
  next
    case Proximity_on
    with Cons.IH [of "proximity_enable s" prev] Cons.prems show ?thesis
      by (simp add: proximity_enable_def pulses_append)
  next
    case Proximity_off
    with Cons.IH [of "proximity_disable s" prev] Cons.prems show ?thesis
      by (simp add: proximity_disable_def pulses_append)
  qed
qed simp

text \<open>
  C19: in the life of a service, whatever events the sensor reports, however often it is switched off and on between
  them and the preferences change, the pulses are those of the reference: one for each event that frees the sensor after
  an event that covered it, in the time of a gesture that is switched on. Switching the sensor off does not
  forget the covering event.
\<close>

theorem proximity_pulses:
  "pulses (calls (fold (proximity_step E) ins (onCreate s))) =
     pulses (calls s) + expected_pulses E (False, 0) (sys s) ins"
  using proximity_run [of "onCreate s" "(False, 0)" E ins]
  by (simp add: onCreate_def new_ProximitySensor_def pulses_append)

section \<open>Pulses of the tilt sensor\<close>

text \<open>The clock never runs backwards, and stays far from the end of its range.\<close>

definition clock_ok :: "('k, 'x) android_scheme \<Rightarrow> ('k \<Rightarrow> int) \<Rightarrow> bool" where
  "clock_ok E time \<longleftrightarrow> (\<forall>k. fst (elapsed_realtime E k) = word_of_int (time k) \<and> 0 \<le> time k \<and> time k < 2 ^ 62 \<and>
     time k \<le> time (snd (elapsed_realtime E k)))"

text \<open>What may happen between two tilt events: others, switching, and anything that takes time.\<close>

inductive tilt_later :: "('k, 'x) android_scheme \<Rightarrow> ('k \<Rightarrow> int) \<Rightarrow> 'k doze \<Rightarrow> 'k doze \<Rightarrow> bool" for E time where
  later_refl: "tilt_later E time s s"
| later_event: "tilt_later E time s t \<Longrightarrow> tilt_later E time s (tilt_onSensorChanged E v t)"
| later_on: "tilt_later E time s t \<Longrightarrow> tilt_later E time s (tilt_enable E t)"
| later_off: "tilt_later E time s t \<Longrightarrow> tilt_later E time s (tilt_disable t)"
| later_other: "tilt_later E time s t \<Longrightarrow> time (sys t) \<le> time k \<Longrightarrow> tilt_later E time s (t\<lparr>sys := k\<rparr>)"

text \<open>The stored time, as a time of the clock: it lies between a moment that is kept and now.\<close>

definition stored_after :: "('k \<Rightarrow> int) \<Rightarrow> int \<Rightarrow> 'k doze \<Rightarrow> bool" where
  "stored_after time t0 s \<longleftrightarrow>
     t0 \<le> sint (mEntryTimestamp (mTiltSensor s)) \<and> sint (mEntryTimestamp (mTiltSensor s)) \<le> time (sys s)"

lemma clock_sint:
  assumes "clock_ok E time"
  shows "sint (fst (elapsed_realtime E k)) = time k"
proof -
  have "0 \<le> time k" "time k < 2 ^ 62" "fst (elapsed_realtime E k) = word_of_int (time k)"
    using assms by (auto simp: clock_ok_def)
  then show ?thesis
    by (simp add: sint_sbintrunc' signed_take_bit_int_eq_self_iff)
qed

lemma clock_mono: "clock_ok E time \<Longrightarrow> time k \<le> time (snd (elapsed_realtime E k))"
  by (simp add: clock_ok_def)

lemma stored_keeps:
  assumes "clock_ok E time" and "stored_after time t0 s"
  shows "stored_after time t0 (tilt_onSensorChanged E v s)" and "stored_after time t0 (tilt_enable E s)"
    and "stored_after time t0 (tilt_disable s)" and "time (sys s) \<le> time k \<Longrightarrow> stored_after time t0 (s\<lparr>sys := k\<rparr>)"
  using assms(2) clock_mono [OF assms(1), of "sys s"] clock_mono [OF assms(1), of "snd (elapsed_realtime E (sys s))"]
  by (auto simp: stored_after_def tilt_onSensorChanged_def tilt_enable_def tilt_disable_def launchDozePulse_def
      read_clock_def Let_def split_beta clock_sint [OF assms(1)])

lemma stored_later:
  assumes "tilt_later E time s t" and "clock_ok E time" and "stored_after time t0 s"
  shows "stored_after time t0 t"
  using assms by (induction rule: tilt_later.induct) (auto intro: stored_keeps)

lemma tilt_pulsed:
  assumes "pulses (calls (tilt_onSensorChanged E v s)) \<noteq> pulses (calls s)" and "clock_ok E time"
  shows "sint (fst (elapsed_realtime E (sys s)) - mEntryTimestamp (mTiltSensor s)) \<ge> 2500"
    and "stored_after time (time (sys s)) (tilt_onSensorChanged E v s)"
proof -
  let ?k = "snd (elapsed_realtime E (sys s))"
  have "\<not> sint (fst (elapsed_realtime E (sys s)) - mEntryTimestamp (mTiltSensor s)) < 2500"
    using assms(1) by (auto simp: tilt_onSensorChanged_def read_clock_def MIN_PULSE_INTERVAL_MS_def Let_def split_beta)
  then show "sint (fst (elapsed_realtime E (sys s)) - mEntryTimestamp (mTiltSensor s)) \<ge> 2500" by simp
  then show "stored_after time (time (sys s)) (tilt_onSensorChanged E v s)"
    using clock_mono [OF assms(2), of "sys s"] clock_mono [OF assms(2), of ?k]
    by (auto simp: tilt_onSensorChanged_def read_clock_def MIN_PULSE_INTERVAL_MS_def Let_def split_beta
        stored_after_def launchDozePulse_def clock_sint [OF assms(2)])
qed

lemma tilt_enabled: "clock_ok E time \<Longrightarrow> stored_after time (time (sys s)) (tilt_enable E s)"
  using clock_mono [of E time "sys s"]
  by (simp add: tilt_enable_def read_clock_def Let_def split_beta stored_after_def clock_sint)

text \<open>
  C38: the tilt sensor pulses at most every 2500 milliseconds, and not within 2500 milliseconds after it was switched on,
  whatever happens in between; an event that came too early does not restart the interval.
\<close>

theorem tilt_rate_limit:
  assumes "clock_ok E time"
    and "t = tilt_enable E s \<or> t = tilt_onSensorChanged E v s \<and> pulses (calls t) \<noteq> pulses (calls s)"
    and "tilt_later E time t u" and "pulses (calls (tilt_onSensorChanged E w u)) \<noteq> pulses (calls u)"
  shows "time (sys s) + 2500 \<le> time (sys u)"
proof -
  have "stored_after time (time (sys s)) t"
    using assms(1,2) tilt_pulsed(2) [OF _ assms(1), of v s] tilt_enabled by blast
  from stored_later [OF assms(3,1) this]
  have st: "time (sys s) \<le> sint (mEntryTimestamp (mTiltSensor u))" "sint (mEntryTimestamp (mTiltSensor u)) \<le> time (sys u)"
    by (simp_all add: stored_after_def)
  have bounds: "0 \<le> time (sys s)" "time (sys u) < 2 ^ 62"
    using assms(1) by (auto simp: clock_ok_def)
  have "sint (fst (elapsed_realtime E (sys u)) - mEntryTimestamp (mTiltSensor u)) =
      time (sys u) - sint (mEntryTimestamp (mTiltSensor u))"
    using st bounds by (simp add: sint_word_ariths signed_take_bit_int_eq_self_iff clock_sint [OF assms(1)])
  with tilt_pulsed(1) [OF assms(4,1)] st show ?thesis by linarith
qed


text \<open>A phone whose clock counts the readings and whose preferences are all on.\<close>

definition doze_demo :: "int android" where
  "doze_demo =
     \<lparr>pref_boolean = (\<lambda>k key d. True), secure_get_int = (\<lambda>k key d. d),
      secure_put_int = (\<lambda>k key v. (True, k)),
      elapsed_realtime = (\<lambda>k. let t = max 0 (min k 4000000) in (word_of_int t, t + 1)),
      proximity_range = 5, DOZE_ENABLED = ''doze_enabled''\<rparr>"

definition doze_time :: "int \<Rightarrow> int" where
  "doze_time k = max 0 (min k 4000000)"

definition doze_start :: "int \<Rightarrow> int doze" where
  "doze_start k = \<lparr>sys = k, calls = [], mProximitySensor = new_ProximitySensor, mTiltSensor = new_TiltSensor\<rparr>"

lemma doze_clock_ok: "clock_ok doze_demo doze_time"
  by (auto simp: clock_ok_def doze_demo_def doze_time_def Let_def)

theorem tilt_rate_limit_witness:
  "doze_time (sys (doze_start 0)) + 2500 \<le> doze_time 3000 \<and>
   pulses (calls (tilt_onSensorChanged doze_demo 1 ((tilt_enable doze_demo (doze_start 0))\<lparr>sys := 3000\<rparr>))) = 1"
proof -
  let ?t = "tilt_enable doze_demo (doze_start 0)" and ?u = "(tilt_enable doze_demo (doze_start 0))\<lparr>sys := 3000\<rparr>"
  have t: "sys ?t = 1" "pulses (calls ?t) = 0" "mEntryTimestamp (mTiltSensor ?t) = 0"
    by (simp_all add: tilt_enable_def read_clock_def doze_demo_def doze_start_def call_def pulses_def)
  have later: "tilt_later doze_demo doze_time ?t ?u"
    using t(1) by (intro later_other later_refl) (simp add: doze_time_def)
  have p: "pulses (calls (tilt_onSensorChanged doze_demo 1 ?u)) = 1"
    using t by (simp add: tilt_onSensorChanged_def read_clock_def launchDozePulse_def pulses_append
        MIN_PULSE_INTERVAL_MS_def Let_def split_beta) (simp add: doze_demo_def)
  moreover have "pulses (calls ?u) = 0"
    using t(2) by simp
  ultimately have "pulses (calls (tilt_onSensorChanged doze_demo 1 ?u)) \<noteq> pulses (calls ?u)" by simp
  from tilt_rate_limit [OF doze_clock_ok _ later this] p show ?thesis by auto
qed

section \<open>The sensors and the display\<close>

text \<open>Reading the clock and writing a setting leave the preferences alone.\<close>

definition prefs_ok :: "('k, 'x) android_scheme \<Rightarrow> bool" where
  "prefs_ok E \<longleftrightarrow>
     (\<forall>k key d. pref_boolean E (snd (elapsed_realtime E k)) key d = pref_boolean E k key d) \<and>
     (\<forall>k name v key d. pref_boolean E (snd (secure_put_int E k name v)) key d = pref_boolean E k key d)"

definition wanted :: "('k, 'x) android_scheme \<Rightarrow> 'k \<Rightarrow> sensor set" where
  "wanted E k =
     (if pref_boolean E k GESTURE_PICK_UP_KEY False then {Tilt} else {}) \<union>
     (if pref_boolean E k GESTURE_HAND_WAVE_KEY False \<or> pref_boolean E k GESTURE_POCKET_KEY False
      then {Proximity} else {})"

lemma enabled_prefs [simp]:
  "pickUpEnabled E s = pref_boolean E (sys s) GESTURE_PICK_UP_KEY False"
  "handwaveGestureEnabled E s = pref_boolean E (sys s) GESTURE_HAND_WAVE_KEY False"
  "pocketGestureEnabled E s = pref_boolean E (sys s) GESTURE_POCKET_KEY False"
  by (simp_all add: pickUpEnabled_def handwaveGestureEnabled_def pocketGestureEnabled_def)

lemma display_on_listening: "listening (calls (onDisplayOn E s)) = listening (calls s) - wanted E (sys s)"
  by (auto simp: onDisplayOn_def wanted_def tilt_disable_def proximity_disable_def listening_append Let_def)

lemma tilt_enable_calls [simp]: "calls (tilt_enable E s) = calls s @ [Register_listener Tilt]"
  "sys (tilt_enable E s) = snd (elapsed_realtime E (sys s))"
  by (simp_all add: tilt_enable_def read_clock_def Let_def split_beta)

lemma display_off_listening:
  "prefs_ok E \<Longrightarrow> listening (calls (onDisplayOff E s)) = listening (calls s) \<union> wanted E (sys s)"
  by (auto simp: onDisplayOff_def wanted_def proximity_enable_def listening_append Let_def prefs_ok_def)

lemma display_destroy: "listening (calls (onDestroy s)) = {}"
proof -
  have "y = Tilt \<or> y = Proximity" for y by (cases y) simp_all
  then show ?thesis
    by (auto simp: onDestroy_def tilt_disable_def proximity_disable_def listening_append)
qed

text \<open>
  Exactly the sensors whose gestures are switched on at that moment are listened to when the display goes off, and
  given up when it comes on; the end of the service gives up both. So a sensor whose gesture was
  switched off in between is still listened to after the display came on.
\<close>

theorem display_switches_sensors:
  assumes "prefs_ok E"
  shows "listening (calls (onReceive E ACTION_SCREEN_OFF s)) = listening (calls s) \<union> wanted E (sys s) \<and>
    listening (calls (onReceive E ACTION_SCREEN_ON s)) = listening (calls s) - wanted E (sys s) \<and>
    listening (calls (onDestroy s)) = {}"
  using assms by (simp add: display_on_listening display_off_listening display_destroy)

theorem display_switches_sensors_witness:
  "listening (calls (onReceive doze_demo ACTION_SCREEN_ON (onReceive doze_demo ACTION_SCREEN_OFF (doze_start 0)))) = {}"
proof -
  have "prefs_ok doze_demo" by (simp add: prefs_ok_def doze_demo_def)
  note * = display_switches_sensors [OF this]
  have "wanted doze_demo k = UNIV" for k
    using sensor.exhaust by (auto simp: wanted_def doze_demo_def)
  with * show ?thesis by blast
qed

section \<open>The life of the service\<close>

text \<open>
  The service exists or not, the display was last reported off or not, and the state. The settings page acts at any time;
  other programs act between the callbacks, and change no gesture while the display is off.
\<close>

inductive doze_step :: "('k, 'x) android_scheme \<Rightarrow> bool \<times> bool \<times> 'k doze \<Rightarrow> bool \<times> bool \<times> 'k doze \<Rightarrow> bool"
  for E where
  doze_create: "doze_step E (False, off, s) (True, False, onCreate s)"
| doze_destroy: "doze_step E (True, off, s) (False, False, onDestroy s)"
| doze_screen_on: "doze_step E (True, off, s) (True, False, onReceive E ACTION_SCREEN_ON s)"
| doze_screen_off: "doze_step E (True, off, s) (True, True, onReceive E ACTION_SCREEN_OFF s)"
| doze_other_action: "doze_step E (True, off, s) (True, off, onReceive E Other_action s)"
| doze_proximity: "Proximity \<in> listening (calls s) \<Longrightarrow>
    doze_step E (True, off, s) (True, off, proximity_onSensorChanged E v t s)"
| doze_tilt: "Tilt \<in> listening (calls s) \<Longrightarrow> doze_step E (True, off, s) (True, off, tilt_onSensorChanged E v s)"
| doze_switch: "doze_step E (c, off, s) (c, off, onCheckedChanged E b s)"
| doze_preference: "doze_step E (c, off, s) (c, off, snd (onPreferenceChange E s))"
| doze_boot: "doze_step E (c, off, s) (c, off, boot_onReceive E s)"
| doze_change: "(off \<Longrightarrow> wanted E k = wanted E (sys s)) \<Longrightarrow> doze_step E (c, off, s) (c, off, s\<lparr>sys := k\<rparr>)"

inductive_cases doze_step_E: "doze_step E x y"

definition doze_init :: "bool \<times> bool \<times> 'k doze \<Rightarrow> bool" where
  "doze_init x \<longleftrightarrow> (\<exists>s. x = (False, False, s) \<and> calls s = [])"

fun sensors_follow :: "('k, 'x) android_scheme \<Rightarrow> bool \<times> bool \<times> 'k doze \<Rightarrow> bool" where
  "sensors_follow E (c, off, s) \<longleftrightarrow>
     (off \<longrightarrow> c) \<and> listening (calls s) = (if off then wanted E (sys s) else {})"

text \<open>Calls that concern no listener, and what leaves the wishes alone.\<close>

lemma quiet_callbacks:
  assumes "prefs_ok E"
  shows "listening (calls (proximity_onSensorChanged E v t s)) = listening (calls s)"
    and "wanted E (sys (proximity_onSensorChanged E v t s)) = wanted E (sys s)"
    and "listening (calls (tilt_onSensorChanged E v s)) = listening (calls s)"
    and "wanted E (sys (tilt_onSensorChanged E v s)) = wanted E (sys s)"
    and "listening (calls (onCheckedChanged E b s)) = listening (calls s)"
    and "wanted E (sys (onCheckedChanged E b s)) = wanted E (sys s)"
    and "listening (calls (checkDozeService E s)) = listening (calls s)"
    and "wanted E (sys (checkDozeService E s)) = wanted E (sys s)"
    and "listening (calls (boot_onReceive E s)) = listening (calls s)"
    and "wanted E (sys (boot_onReceive E s)) = wanted E (sys s)"
    and "wanted E (sys (onDisplayOff E s)) = wanted E (sys s)"
  using assms
  by (auto simp: prefs_ok_def proximity_onSensorChanged_def tilt_onSensorChanged_def read_clock_def onCheckedChanged_def
      enableDoze_def checkDozeService_def boot_onReceive_def onDisplayOff_def proximity_enable_def launchDozePulse_def
      listening_append wanted_def Let_def split_beta)

lemma doze_step_follow:
  assumes "doze_step E x y" and "sensors_follow E x" and "prefs_ok E"
  shows "sensors_follow E y"
  using assms(1)
proof (cases rule: doze_step.cases)
  case (doze_destroy off s)
  with display_destroy show ?thesis by simp
qed (use assms(2,3) in \<open>auto simp: quiet_callbacks display_on_listening display_off_listening onPreferenceChange_def
      onCreate_def listening_append split: if_splits\<close>)

interpretation doze_life: invariant_system doze_init "doze_step E" "\<lambda>x. prefs_ok E \<longrightarrow> sensors_follow E x" for E
proof unfold_locales
  show "doze_init x \<Longrightarrow> prefs_ok E \<longrightarrow> sensors_follow E x" for x
    by (auto simp: doze_init_def listening_def)
  show "prefs_ok E \<longrightarrow> sensors_follow E x \<Longrightarrow> doze_step E x y \<Longrightarrow> prefs_ok E \<longrightarrow> sensors_follow E y" for x y
    using doze_step_follow by blast
qed

text \<open>
  C20: in every reachable state the listeners follow the display: while it is off, exactly the sensors of the
  gestures that are switched on are listened to, and none while it is on or no service exists, as long as the
  gestures change only while the display is on.
\<close>

theorem sensors_follow_display:
  assumes "prefs_ok E" and "reach doze_init (doze_step E) (created, off, s)"
  shows "listening (calls s) = (if off then wanted E (sys s) else {}) \<and> (off \<longrightarrow> created)"
  using doze_life.inv_reach [OF assms(2)] assms(1) by simp

theorem sensors_follow_display_witness:
  "listening (calls (onReceive doze_demo ACTION_SCREEN_OFF (onCreate (doze_start 0)))) =
     wanted doze_demo (sys (onReceive doze_demo ACTION_SCREEN_OFF (onCreate (doze_start 0))))"
proof -
  have "prefs_ok doze_demo" by (simp add: prefs_ok_def doze_demo_def)
  moreover have "reach doze_init (doze_step doze_demo) (False, False, doze_start 0)"
    by (intro reach_init) (simp add: doze_init_def doze_start_def)
  from reach_step [OF reach_step [OF this doze_create] doze_screen_off]
  have "reach doze_init (doze_step doze_demo)
      (True, True, onReceive doze_demo ACTION_SCREEN_OFF (onCreate (doze_start 0)))" .
  ultimately show ?thesis using sensors_follow_display by fastforce
qed

end
