(* ===== verification/Doze_Settings.thy ===== *)
theory Doze_Settings
  imports Doze
begin

text \<open>
  The settings page of the doze application: \<^verbatim>\<open>DozeSettingsFragment.java\<close> with its help dialog, and the activity
  \<^verbatim>\<open>DozeSettingsActivity.java\<close> that shows it.
\<close>

section \<open>The framework and the page\<close>

text \<open>
  What the page uses of the framework besides the settings: reading and writing a private preferences file, and the switch
  widget. \<open>widget_set_checked checked listener b\<close> is the effect of setting a switch to \<open>b\<close>: its new state, and
  the state its listener is told, if it is told at all.
\<close>

record 'k page_env = "'k android" +
  shared_get_boolean :: "'k \<Rightarrow> string \<Rightarrow> string \<Rightarrow> bool \<Rightarrow> bool"
  shared_put_boolean :: "'k \<Rightarrow> string \<Rightarrow> string \<Rightarrow> bool \<Rightarrow> bool \<times> 'k"
  widget_set_checked :: "bool \<Rightarrow> bool \<Rightarrow> bool \<Rightarrow> bool \<times> bool option"

datatype bar_text = Switch_bar_on | Switch_bar_off

text \<open>
  The members of the fragment, null before they are set: the text of the bar, and whether each preference is enabled. Then
  the switch of its view, with or without a listener, and the number of help dialogs that are open.
\<close>

record 'k doze_page = "'k phone" +
  mTextView :: "bar_text option"
  mPickUpPreference :: "bool option"
  mHandwavePreference :: "bool option"
  mPocketPreference :: "bool option"
  switchChecked :: bool
  switchListener :: bool
  helpDialogs :: nat

section \<open>The help dialog\<close>

definition first_help_shown :: "('k, 'x) page_env_scheme \<Rightarrow> 'k \<Rightarrow> bool" where
  "first_help_shown E k = shared_get_boolean E k ''doze_settings'' ''first_help_shown'' False"

definition showHelp :: "'k doze_page \<Rightarrow> 'k doze_page" where
  "showHelp s = s\<lparr>helpDialogs := Suc (helpDialogs s)\<rparr>"

text \<open>The OK button cancels the dialog. The result of the commit is not looked at.\<close>

definition onCancel :: "('k, 'x) page_env_scheme \<Rightarrow> 'k doze_page \<Rightarrow> 'k doze_page" where
  "onCancel E s =
     (let (_, k) = shared_put_boolean E (sys s) ''doze_settings'' ''first_help_shown'' True in s\<lparr>sys := k\<rparr>)"

section \<open>The fragment\<close>

definition bar_string :: "bool \<Rightarrow> bar_text" where
  "bar_string b = (if b then Switch_bar_on else Switch_bar_off)"

text \<open>
  The activity puts a new fragment into its frame, whatever state was saved. The new fragment is told by
  \<open>restored\<close> whether it has a saved state of its own.
\<close>

definition activity_onCreate :: "'k doze_page \<Rightarrow> 'k doze_page" where
  "activity_onCreate s =
     s\<lparr>mTextView := None, mPickUpPreference := None, mHandwavePreference := None, mPocketPreference := None,
       switchListener := False\<rparr>"

definition onCreatePreferences :: "('k, 'x) page_env_scheme \<Rightarrow> bool \<Rightarrow> 'k doze_page \<Rightarrow> 'k doze_page" where
  "onCreatePreferences E restored s =
     (let s1 = (if \<not> restored \<and> \<not> first_help_shown E (sys s) then showHelp s else s);
          dozeEnabled = isDozeEnabled E s1
      in s1\<lparr>mPickUpPreference := Some dozeEnabled, mHandwavePreference := Some dozeEnabled,
            mPocketPreference := Some dozeEnabled\<rparr>)"

text \<open>The listener of the switch. It uses all four members.\<close>

definition page_onCheckedChanged ::
  "('k, 'x) page_env_scheme \<Rightarrow> bool \<Rightarrow> 'k doze_page \<Rightarrow> fault + 'k doze_page" where
  "page_onCheckedChanged E b s =
     (let s1 = onCheckedChanged E b s in
      case (mTextView s1, mPickUpPreference s1, mHandwavePreference s1, mPocketPreference s1) of
        (Some _, Some _, Some _, Some _) \<Rightarrow>
          Inr (s1\<lparr>mTextView := Some (bar_string b), mPickUpPreference := Some b, mHandwavePreference := Some b,
                  mPocketPreference := Some b\<rparr>)
      | _ \<Rightarrow> Inl Null_deref)"

definition setChecked :: "('k, 'x) page_env_scheme \<Rightarrow> bool \<Rightarrow> 'k doze_page \<Rightarrow> fault + 'k doze_page" where
  "setChecked E b s =
     (let (c, told) = widget_set_checked E (switchChecked s) (switchListener s) b;
          s1 = s\<lparr>switchChecked := c\<rparr>
      in case told of None \<Rightarrow> Inr s1 | Some b' \<Rightarrow> page_onCheckedChanged E b' s1)"

text \<open>A new view has a new switch, in the state its layout gives it and with no listener.\<close>

definition onCreateView :: "bool \<Rightarrow> 'k doze_page \<Rightarrow> 'k doze_page" where
  "onCreateView inflated s = s\<lparr>switchChecked := inflated, switchListener := False\<rparr>"

definition onViewCreated :: "('k, 'x) page_env_scheme \<Rightarrow> 'k doze_page \<Rightarrow> fault + 'k doze_page" where
  "onViewCreated E s =
     (let dozeEnabled = isDozeEnabled E s in
      case setChecked E dozeEnabled (s\<lparr>mTextView := Some (bar_string dozeEnabled)\<rparr>) of
        Inl f \<Rightarrow> Inl f
      | Inr s1 \<Rightarrow> Inr (s1\<lparr>switchListener := True\<rparr>))"

definition onClick :: "('k, 'x) page_env_scheme \<Rightarrow> 'k doze_page \<Rightarrow> fault + 'k doze_page" where
  "onClick E s = setChecked E (\<not> switchChecked s) s"

section \<open>The activity's menu\<close>

datatype menu_item = Home | Other_item nat

text \<open>Going back and the handler of the base class are the framework's.\<close>

definition onOptionsItemSelected ::
  "('s \<Rightarrow> 's) \<Rightarrow> (menu_item \<Rightarrow> 's \<Rightarrow> bool \<times> 's) \<Rightarrow> menu_item \<Rightarrow> 's \<Rightarrow> bool \<times> 's" where
  "onOptionsItemSelected onBackPressed super item s =
     (case item of Home \<Rightarrow> (True, onBackPressed s) | Other_item n \<Rightarrow> super item s)"

section \<open>The service, read off the calls\<close>

fun service_step :: "bool option \<Rightarrow> doze_call \<Rightarrow> bool option" where
  "service_step r Start_service = Some True"
| "service_step r Stop_service = Some False"
| "service_step r c = r"

definition service_asked :: "doze_call list \<Rightarrow> bool option" where
  "service_asked cs = foldl service_step None cs"

lemma service_asked_append [world_simps]: "service_asked (cs @ ds) = foldl service_step (service_asked cs) ds"
  by (simp add: service_asked_def)

end
