(* ===== verification/Doze_Settings_Props.thy ===== *)
theory Doze_Settings_Props
  imports Doze_Settings Doze_Props
begin

text \<open>
  The settings page: the page, the setting and the service agree, a refused write makes them differ, and the help is
  shown until it has been cancelled once.
\<close>

section \<open>The contract of the framework\<close>

text \<open>
  A write that is accepted is read back, one that is refused changes nothing; the settings and the private preferences do not
  touch each other; and a switch takes the state it is given and tells its listener about a change.
\<close>

definition page_env_ok :: "('k, 'x) page_env_scheme \<Rightarrow> bool" where
  "page_env_ok E \<longleftrightarrow>
     (\<forall>k v d. secure_get_int E (snd (secure_put_int E k (DOZE_ENABLED E) v)) (DOZE_ENABLED E) d =
        (if fst (secure_put_int E k (DOZE_ENABLED E) v) then v else secure_get_int E k (DOZE_ENABLED E) d)) \<and>
     (\<forall>k name v file key d. shared_get_boolean E (snd (secure_put_int E k name v)) file key d = shared_get_boolean E k file key d) \<and>
     (\<forall>k file key b d. fst (shared_put_boolean E k file key b) \<longrightarrow>
        shared_get_boolean E (snd (shared_put_boolean E k file key b)) file key d = b) \<and>
     (\<forall>k file key b name d. secure_get_int E (snd (shared_put_boolean E k file key b)) name d = secure_get_int E k name d) \<and>
     (\<forall>c l b. widget_set_checked E c l b = (b, if c \<noteq> b \<and> l then Some b else None))"

definition writes_accepted :: "('k, 'x) page_env_scheme \<Rightarrow> bool" where
  "writes_accepted E \<longleftrightarrow>
     (\<forall>k name v. fst (secure_put_int E k name v)) \<and> (\<forall>k file key b. fst (shared_put_boolean E k file key b))"

definition doze_on :: "('k, 'x) android_scheme \<Rightarrow> 'k \<Rightarrow> bool" where
  "doze_on E k \<longleftrightarrow> secure_get_int E k (DOZE_ENABLED E) 1 \<noteq> 0"

lemma isDozeEnabled_on [simp]: "isDozeEnabled E s = doze_on E (sys s)"
  by (simp add: isDozeEnabled_def doze_on_def)

definition write_setting :: "('k, 'x) android_scheme \<Rightarrow> bool \<Rightarrow> 'k \<Rightarrow> bool \<times> 'k" where
  "write_setting E b k = secure_put_int E k (DOZE_ENABLED E) (if b then 1 else 0)"

lemma write_setting_effect:
  assumes "page_env_ok E"
  shows "doze_on E (snd (write_setting E b k)) = (if fst (write_setting E b k) then b else doze_on E k)"
    and "first_help_shown E (snd (write_setting E b k)) = first_help_shown E k"
  using assms by (auto simp: page_env_ok_def doze_on_def write_setting_def first_help_shown_def)

text \<open>The page shows one state in all its widgets, and its switch has a listener.\<close>

definition page_shows :: "bool \<Rightarrow> 'k doze_page \<Rightarrow> bool" where
  "page_shows b s \<longleftrightarrow> mTextView s = Some (bar_string b) \<and> switchChecked s = b \<and> mPickUpPreference s = Some b \<and>
     mHandwavePreference s = Some b \<and> mPocketPreference s = Some b"

definition complete_page :: "'k doze_page \<Rightarrow> bool" where
  "complete_page s \<longleftrightarrow> mTextView s \<noteq> None \<and> mPickUpPreference s \<noteq> None \<and> mHandwavePreference s \<noteq> None \<and>
     mPocketPreference s \<noteq> None \<and> switchListener s"

lemma checked_changed_fields:
  "sys (onCheckedChanged E b s) = snd (write_setting E b (sys s))"
  "calls (onCheckedChanged E b s) = calls s @ [if doze_on E (snd (write_setting E b (sys s))) then Start_service else Stop_service]"
  by (simp_all add: onCheckedChanged_def enableDoze_def checkDozeService_def write_setting_def Let_def split_beta)

lemma checked_changed_page:
  "mTextView (onCheckedChanged E b s) = mTextView s"
  "mPickUpPreference (onCheckedChanged E b s) = mPickUpPreference s"
  "mHandwavePreference (onCheckedChanged E b s) = mHandwavePreference s"
  "mPocketPreference (onCheckedChanged E b s) = mPocketPreference s"
  "switchChecked (onCheckedChanged E b s) = switchChecked s"
  "switchListener (onCheckedChanged E b s) = switchListener s"
  "helpDialogs (onCheckedChanged E b s) = helpDialogs s"
  by (simp_all add: onCheckedChanged_def enableDoze_def checkDozeService_def call_def Let_def split_beta)

text \<open>A phone whose state is the setting and the flag of the page's own file, and which accepts every write.\<close>

definition page_demo :: "(int \<times> bool) page_env" where
  "page_demo =
     \<lparr>pref_boolean = (\<lambda>k key d. True), secure_get_int = (\<lambda>k name d. fst k),
      secure_put_int = (\<lambda>k name v. (True, (v, snd k))), elapsed_realtime = (\<lambda>k. (0, k)),
      proximity_range = 5, DOZE_ENABLED = ''doze_enabled'',
      shared_get_boolean = (\<lambda>k file key d. snd k),
      shared_put_boolean = (\<lambda>k file key b. (True, (fst k, b))),
      widget_set_checked = (\<lambda>c l b. (b, if c \<noteq> b \<and> l then Some b else None))\<rparr>"

definition page_start :: "int \<times> bool \<Rightarrow> (int \<times> bool) doze_page" where
  "page_start k =
     \<lparr>sys = k, calls = [], mTextView = None, mPickUpPreference = None, mHandwavePreference = None,
      mPocketPreference = None, switchChecked = False, switchListener = False, helpDialogs = 0\<rparr>"

lemma page_demo_ok: "page_env_ok page_demo" "writes_accepted page_demo"
  by (simp_all add: page_env_ok_def writes_accepted_def page_demo_def)

text \<open>The phone when the page is open and shows that doze is on.\<close>

definition page_on :: "(int \<times> bool) doze_page" where
  "page_on = (page_start (1, True))\<lparr>mTextView := Some Switch_bar_on, mPickUpPreference := Some True,
     mHandwavePreference := Some True, mPocketPreference := Some True, switchChecked := True, switchListener := True\<rparr>"

section \<open>The switch\<close>

lemma set_checked_same:
  "page_env_ok E \<Longrightarrow> switchChecked s = b \<or> \<not> switchListener s \<Longrightarrow> setChecked E b s = Inr (s\<lparr>switchChecked := b\<rparr>)"
  by (auto simp: setChecked_def page_env_ok_def)

lemma set_checked_change:
  assumes "page_env_ok E" and "complete_page s" and "switchChecked s \<noteq> b"
  shows "\<exists>s'. setChecked E b s = Inr s' \<and> page_shows b s' \<and> switchListener s' \<and> helpDialogs s' = helpDialogs s \<and>
    sys s' = snd (write_setting E b (sys s)) \<and>
    calls s' = calls s @ [if doze_on E (sys s') then Start_service else Stop_service]"
proof -
  have "widget_set_checked E (switchChecked s) (switchListener s) b = (b, Some b)"
    using assms by (simp add: page_env_ok_def complete_page_def)
  then show ?thesis
    using assms(2) by (auto simp: setChecked_def page_onCheckedChanged_def complete_page_def page_shows_def
        checked_changed_fields checked_changed_page Let_def)
qed

text \<open>
  C22: a click on the bar of a complete page turns the switch over, and the whole page with it, without an exception. Whether the setting
  was written is not looked at: when the write is refused, the page shows the new state, the setting keeps the old one, and the
  service is started or stopped as the setting says, not as the page shows.
\<close>

theorem click_effect:
  assumes "page_env_ok E" and "complete_page s"
  shows "\<exists>s' accepted. onClick E s = Inr s' \<and> page_shows (\<not> switchChecked s) s' \<and>
    accepted = fst (secure_put_int E (sys s) (DOZE_ENABLED E) (if switchChecked s then 0 else 1)) \<and>
    isDozeEnabled E s' = (if accepted then \<not> switchChecked s else isDozeEnabled E s) \<and>
    calls s' = calls s @ [if isDozeEnabled E s' then Start_service else Stop_service]"
proof -
  obtain s' where "setChecked E (\<not> switchChecked s) s = Inr s'" "page_shows (\<not> switchChecked s) s'"
    "sys s' = snd (write_setting E (\<not> switchChecked s) (sys s))"
    "calls s' = calls s @ [if doze_on E (sys s') then Start_service else Stop_service]"
    using set_checked_change [OF assms, of "\<not> switchChecked s"] by auto
  moreover have "fst (write_setting E (\<not> switchChecked s) (sys s)) =
      fst (secure_put_int E (sys s) (DOZE_ENABLED E) (if switchChecked s then 0 else 1))"
    by (simp add: write_setting_def)
  ultimately show ?thesis
    using write_setting_effect(1) [OF assms(1), of "\<not> switchChecked s" "sys s"] by (auto simp: onClick_def)
qed

theorem click_effect_witness:
  "\<exists>s'. onClick page_demo page_on = Inr s' \<and> page_shows False s' \<and> calls s' = [Stop_service]"
proof -
  have "complete_page page_on" by (simp add: complete_page_def page_on_def)
  moreover have "switchChecked page_on" and "calls page_on = []"
    and "fst (secure_put_int page_demo (sys page_on) (DOZE_ENABLED page_demo) 0)"
    by (simp_all add: page_on_def page_start_def page_demo_def)
  ultimately show ?thesis using click_effect [OF page_demo_ok(1), of page_on] by auto
qed

section \<open>The life of the page\<close>

text \<open>
  No fragment, a fragment without a view, or one with its view. The user clicks on the bar or moves the switch, the framework
  may make a new view at any time or restore the state of the switch, the boot receiver and other
  programs run in between; other programs change neither the setting nor the page's own file.
\<close>

datatype page_phase = Closed | Created | Viewed

inductive page_step :: "('k, 'x) page_env_scheme \<Rightarrow> page_phase \<times> 'k doze_page \<Rightarrow> page_phase \<times> 'k doze_page \<Rightarrow> bool"
  for E where
  page_open: "page_step E (Closed, s) (Created, onCreatePreferences E restored (activity_onCreate s))"
| page_view: "ph \<noteq> Closed \<Longrightarrow> onViewCreated E (onCreateView inflated s) = Inr s' \<Longrightarrow> page_step E (ph, s) (Viewed, s')"
| page_click: "onClick E s = Inr s' \<Longrightarrow> page_step E (Viewed, s) (Viewed, s')"
| page_switch: "setChecked E b s = Inr s' \<Longrightarrow> page_step E (Viewed, s) (Viewed, s')"
| page_cancel: "0 < helpDialogs s \<Longrightarrow>
    page_step E (ph, s) (ph, (onCancel E s)\<lparr>helpDialogs := helpDialogs s - 1\<rparr>)"
| page_close: "page_step E (ph, s)
    (Closed, snd (onOptionsItemSelected (\<lambda>s. s\<lparr>helpDialogs := 0\<rparr>) super Home s))"
| page_boot: "page_step E (ph, s) (ph, boot_onReceive E s)"
| page_change: "doze_on E k = doze_on E (sys s) \<Longrightarrow> first_help_shown E k = first_help_shown E (sys s) \<Longrightarrow>
    page_step E (ph, s) (ph, s\<lparr>sys := k\<rparr>)"

inductive_cases page_step_E: "page_step E x y"

definition page_init :: "page_phase \<times> 'k doze_page \<Rightarrow> bool" where
  "page_init x \<longleftrightarrow> (\<exists>s. x = (Closed, s) \<and> calls s = [] \<and> helpDialogs s = 0)"

fun page_inv :: "('k, 'x) page_env_scheme \<Rightarrow> page_phase \<times> 'k doze_page \<Rightarrow> bool" where
  "page_inv E (ph, s) \<longleftrightarrow>
     (ph \<noteq> Closed \<longrightarrow> mPickUpPreference s = Some (doze_on E (sys s)) \<and>
        mHandwavePreference s = Some (doze_on E (sys s)) \<and> mPocketPreference s = Some (doze_on E (sys s))) \<and>
     (ph = Viewed \<longrightarrow> page_shows (doze_on E (sys s)) s \<and> switchListener s) \<and>
     (service_asked (calls s) = None \<or> service_asked (calls s) = Some (doze_on E (sys s))) \<and>
     helpDialogs s \<le> 1 \<and> (0 < helpDialogs s \<longrightarrow> ph \<noteq> Closed \<and> \<not> first_help_shown E (sys s))"

lemma page_inv_complete: "page_inv E (Viewed, s) \<Longrightarrow> complete_page s \<and> switchChecked s = doze_on E (sys s)"
  by (simp add: complete_page_def page_shows_def)

lemma page_inv_set_checked:
  assumes "page_env_ok E" and "writes_accepted E" and "page_inv E (Viewed, s)"
  shows "\<exists>s'. setChecked E b s = Inr s' \<and> page_inv E (Viewed, s') \<and> doze_on E (sys s') = b"
proof (cases "switchChecked s = b")
  case True
  with assms(3) show ?thesis
    by (intro exI [of _ s]) (auto simp: set_checked_same [OF assms(1)] page_shows_def)
next
  case False
  have "fst (write_setting E b (sys s))" using assms(2) by (simp add: writes_accepted_def write_setting_def)
  then have on: "doze_on E (snd (write_setting E b (sys s))) = b"
    and flag_kept: "first_help_shown E (snd (write_setting E b (sys s))) = first_help_shown E (sys s)"
    using write_setting_effect [OF assms(1)] by auto
  obtain s' where s': "setChecked E b s = Inr s'" "page_shows b s'" "switchListener s'" "helpDialogs s' = helpDialogs s"
    "sys s' = snd (write_setting E b (sys s))"
    "calls s' = calls s @ [if doze_on E (sys s') then Start_service else Stop_service]"
    using set_checked_change [OF assms(1) conjunct1 [OF page_inv_complete [OF assms(3)]] False] by auto
  then have "page_inv E (Viewed, s')"
    using on flag_kept assms(3) by (auto simp: page_shows_def service_asked_append)
  with s' on show ?thesis by auto
qed

lemma page_inv_view:
  assumes "page_env_ok E" and "page_inv E (ph, s)" and "ph \<noteq> Closed"
  shows "\<exists>s'. onViewCreated E (onCreateView inflated s) = Inr s' \<and> page_inv E (Viewed, s') \<and>
    helpDialogs s' = helpDialogs s"
proof -
  let ?b = "doze_on E (sys s)"
  let ?v = "(onCreateView inflated s)\<lparr>mTextView := Some (bar_string ?b)\<rparr>"
  have v: "sys (onCreateView inflated s) = sys s" by (simp add: onCreateView_def)
  have "\<not> switchListener ?v" by (simp add: onCreateView_def)
  then have "setChecked E ?b ?v = Inr (?v\<lparr>switchChecked := ?b\<rparr>)"
    using set_checked_same [OF assms(1)] by blast
  with v have "onViewCreated E (onCreateView inflated s) = Inr (?v\<lparr>switchChecked := ?b, switchListener := True\<rparr>)"
    by (simp add: onViewCreated_def Let_def)
  moreover have "page_inv E (Viewed, ?v\<lparr>switchChecked := ?b, switchListener := True\<rparr>)"
    using assms(2,3) by (auto simp: onCreateView_def page_shows_def)
  moreover have "helpDialogs (?v\<lparr>switchChecked := ?b, switchListener := True\<rparr>) = helpDialogs s"
    by (simp add: onCreateView_def)
  ultimately show ?thesis by blast
qed

lemma page_inv_boot: "page_inv E (ph, s) \<Longrightarrow> page_inv E (ph, boot_onReceive E s)"
  by (auto simp: boot_onReceive_def call_def service_asked_append page_shows_def)

lemma cancel_help:
  assumes "page_env_ok E" and "writes_accepted E"
  shows "first_help_shown E (sys (onCancel E s))" "doze_on E (sys (onCancel E s)) = doze_on E (sys s)"
  using assms by (simp_all add: onCancel_def first_help_shown_def doze_on_def page_env_ok_def writes_accepted_def
      split_beta)

lemma cancel_page:
  "calls (onCancel E s) = calls s" "mTextView (onCancel E s) = mTextView s"
  "mPickUpPreference (onCancel E s) = mPickUpPreference s" "mHandwavePreference (onCancel E s) = mHandwavePreference s"
  "mPocketPreference (onCancel E s) = mPocketPreference s" "switchChecked (onCancel E s) = switchChecked s"
  "switchListener (onCancel E s) = switchListener s"
  by (simp_all add: onCancel_def split_beta)

lemma open_page:
  assumes "page_inv E (Closed, s)"
  shows "page_inv E (Created, onCreatePreferences E restored (activity_onCreate s))"
    and "helpDialogs (onCreatePreferences E restored (activity_onCreate s)) =
      (if restored \<or> first_help_shown E (sys s) then 0 else 1)"
  using assms by (auto simp: onCreatePreferences_def activity_onCreate_def showHelp_def Let_def)

lemma page_step_inv:
  assumes "page_step E x y" and "page_inv E x" and "page_env_ok E" and "writes_accepted E"
  shows "page_inv E y"
  using assms(1)
proof (cases rule: page_step.cases)
  case (page_open s restored)
  then show ?thesis using open_page(1) assms(2) by blast
next
  case (page_view ph inflated s s')
  then show ?thesis using page_inv_view [OF assms(3), of ph s inflated] assms(2) by auto
next
  case (page_click s s')
  then show ?thesis
    using page_inv_set_checked [OF assms(3,4), of s "\<not> switchChecked s"] assms(2) by (auto simp: onClick_def)
next
  case (page_switch b s s')
  then show ?thesis using page_inv_set_checked [OF assms(3,4), of s b] assms(2) by auto
next
  case (page_cancel s ph)
  then show ?thesis
    using assms(2) cancel_help [OF assms(3,4), of s] by (auto simp: cancel_page page_shows_def)
next
  case (page_close ph s super)
  then show ?thesis using assms(2) by (auto simp: onOptionsItemSelected_def)
next
  case (page_boot ph s)
  then show ?thesis using page_inv_boot assms(2) by blast
next
  case (page_change k s ph)
  then show ?thesis using assms(2) by (auto simp: page_shows_def)
qed

interpretation page_life: invariant_system page_init "page_step E"
  "\<lambda>x. page_env_ok E \<longrightarrow> writes_accepted E \<longrightarrow> page_inv E x" for E
proof unfold_locales
  show "page_init x \<Longrightarrow> page_env_ok E \<longrightarrow> writes_accepted E \<longrightarrow> page_inv E x" for x
    by (auto simp: page_init_def service_asked_def)
  show "page_env_ok E \<longrightarrow> writes_accepted E \<longrightarrow> page_inv E x \<Longrightarrow> page_step E x y \<Longrightarrow>
      page_env_ok E \<longrightarrow> writes_accepted E \<longrightarrow> page_inv E y" for x y
    using page_step_inv by blast
qed

lemma page_reach_inv:
  "page_env_ok E \<Longrightarrow> writes_accepted E \<Longrightarrow> reach page_init (page_step E) x \<Longrightarrow> page_inv E x"
  using page_life.inv_reach by blast

text \<open>
  C21: as long as the writes are accepted and no other program changes the setting, the page, the setting and the service agree in every
  reachable state, however often the page is opened, rebuilt, switched and closed: the preferences of an open page
  are enabled exactly when doze is on, the text and the switch of its view show it, a click never ends in an
  exception and turns the setting over, and the last request to the service was to start it exactly when doze is on.
\<close>

theorem page_setting_service_agree:
  assumes "page_env_ok E" and "writes_accepted E" and "reach page_init (page_step E) (ph, s)"
  shows "(ph \<noteq> Closed \<longrightarrow> mPickUpPreference s = Some (isDozeEnabled E s) \<and>
      mHandwavePreference s = Some (isDozeEnabled E s) \<and> mPocketPreference s = Some (isDozeEnabled E s)) \<and>
    (ph = Viewed \<longrightarrow> page_shows (isDozeEnabled E s) s \<and>
      (\<exists>s'. onClick E s = Inr s' \<and> isDozeEnabled E s' = (\<not> isDozeEnabled E s))) \<and>
    service_asked (calls s) \<in> {None, Some (isDozeEnabled E s)}"
proof -
  have inv: "page_inv E (ph, s)" by (rule page_reach_inv [OF assms])
  have "\<exists>s'. onClick E s = Inr s' \<and> doze_on E (sys s') = (\<not> doze_on E (sys s))" if "ph = Viewed"
    using page_inv_set_checked [OF assms(1,2), of s "\<not> switchChecked s"] page_inv_complete [of E s] inv that
    by (auto simp: onClick_def)
  with inv show ?thesis by simp
qed

lemma demo_viewed:
  fixes k :: "int \<times> bool"
  shows "\<exists>s. reach page_init (page_step page_demo) (Viewed, s) \<and> helpDialogs s = (if snd k then 0 else 1)"
proof -
  let ?s = "onCreatePreferences page_demo False (activity_onCreate (page_start k))"
  have inv: "page_inv page_demo (Closed, page_start k)"
    by (simp add: page_start_def service_asked_def)
  have "reach page_init (page_step page_demo) (Closed, page_start k)"
    by (rule reach_init) (simp add: page_init_def page_start_def)
  then have r: "reach page_init (page_step page_demo) (Created, ?s)"
    by (rule reach_step) (rule page_open)
  obtain s' where s': "onViewCreated page_demo (onCreateView False ?s) = Inr s'" "helpDialogs s' = helpDialogs ?s"
    using page_inv_view [OF page_demo_ok(1) page_reach_inv [OF page_demo_ok r], of False] by auto
  have "first_help_shown page_demo (sys (page_start k)) = snd k"
    by (simp add: first_help_shown_def page_demo_def page_start_def)
  then show ?thesis
    using reach_step [OF r page_view [OF _ s'(1)]] s'(2) open_page(2) [OF inv, of False] by auto
qed

theorem page_setting_service_agree_witness:
  "\<exists>s. reach page_init (page_step page_demo) (Viewed, s) \<and> page_shows (isDozeEnabled page_demo s) s"
proof -
  obtain s where r: "reach page_init (page_step page_demo) (Viewed, s)"
    using demo_viewed by blast
  with page_setting_service_agree [OF page_demo_ok r] show ?thesis by blast
qed

section \<open>The help\<close>

lemma help_flag_kept:
  assumes "page_step E (ph, s) (ph', s')" and "first_help_shown E (sys s)" and "page_inv E (ph, s)"
    and "page_env_ok E" and "writes_accepted E"
  shows "first_help_shown E (sys s')"
proof -
  have set: "first_help_shown E (sys t')" if "setChecked E b t = Inr t'" "first_help_shown E (sys t)" for t t' b
    using that write_setting_effect(2) [OF assms(4)] assms(4)
    by (auto simp: setChecked_def page_onCheckedChanged_def checked_changed_fields page_env_ok_def Let_def
        split: option.splits if_splits)
  show ?thesis
    using assms(1)
  proof (cases rule: page_step.cases)
    case (page_open restored)
    with assms(2) show ?thesis by (simp add: onCreatePreferences_def activity_onCreate_def Let_def)
  next
    case (page_view inflated)
    with assms(2) set show ?thesis
      by (auto simp: onViewCreated_def onCreateView_def Let_def split: sum.splits)
  next
    case page_click
    with assms(2) set show ?thesis by (auto simp: onClick_def)
  next
    case (page_switch b)
    with assms(2) set show ?thesis by auto
  next
    case page_cancel
    with cancel_help [OF assms(4,5)] show ?thesis by simp
  next
    case (page_close super)
    with assms(2) show ?thesis by (simp add: onOptionsItemSelected_def)
  next
    case page_boot
    with assms(2) show ?thesis by (simp add: boot_onReceive_def call_def)
  next
    case (page_change k)
    with assms(2) show ?thesis by simp
  qed
qed

lemma help_stays_closed:
  assumes "(page_step E)\<^sup>*\<^sup>* (ph, s) (ph', s')" and "first_help_shown E (sys s)" and "page_inv E (ph, s)"
    and "page_env_ok E" and "writes_accepted E"
  shows "first_help_shown E (sys s') \<and> page_inv E (ph', s')"
  using assms(1)
proof (induction rule: rtranclp_induct2)
  case refl
  with assms(2,3) show ?case by blast
next
  case (step p t p' t')
  with help_flag_kept [OF step(2)] page_step_inv [OF step(2)] assms(4,5) show ?case by blast
qed

text \<open>
  C39: a fragment without a saved state opens exactly one help dialog as long as none was ever cancelled; after one has been
  cancelled, none is open in any later state, however often the page is opened again.
\<close>

theorem help_until_cancelled:
  assumes "page_env_ok E" and "writes_accepted E" and "reach page_init (page_step E) (ph, s)"
  shows "(ph = Closed \<longrightarrow> helpDialogs (onCreatePreferences E False (activity_onCreate s)) =
      (if first_help_shown E (sys s) then 0 else 1)) \<and>
    (0 < helpDialogs s \<longrightarrow> (page_step E)\<^sup>*\<^sup>* (ph, (onCancel E s)\<lparr>helpDialogs := helpDialogs s - 1\<rparr>) (ph', s') \<longrightarrow>
      helpDialogs s' = 0)"
proof (intro conjI impI)
  have inv: "page_inv E (ph, s)" by (rule page_reach_inv [OF assms])
  show "helpDialogs (onCreatePreferences E False (activity_onCreate s)) = (if first_help_shown E (sys s) then 0 else 1)"
    if "ph = Closed" using open_page(2) [of E s False] inv that by simp
  assume pos: "0 < helpDialogs s"
    and later: "(page_step E)\<^sup>*\<^sup>* (ph, (onCancel E s)\<lparr>helpDialogs := helpDialogs s - 1\<rparr>) (ph', s')"
  have "page_inv E (ph, (onCancel E s)\<lparr>helpDialogs := helpDialogs s - 1\<rparr>)"
    by (rule page_step_inv [OF page_cancel [OF pos] inv assms(1,2)])
  with help_stays_closed [OF later _ _ assms(1,2)] cancel_help(1) [OF assms(1,2), of s]
  have "first_help_shown E (sys s')" and "page_inv E (ph', s')" by auto
  then show "helpDialogs s' = 0" by auto
qed

theorem help_until_cancelled_witness:
  "\<exists>s s'. helpDialogs s = 1 \<and>
     (page_step page_demo)\<^sup>*\<^sup>* (Viewed, (onCancel page_demo s)\<lparr>helpDialogs := helpDialogs s - 1\<rparr>) (Created, s') \<and>
     helpDialogs s' = 0"
proof -
  obtain s where r: "reach page_init (page_step page_demo) (Viewed, s)" and one: "helpDialogs s = 1"
    using demo_viewed [of "(1, False)"] by auto
  let ?c = "(onCancel page_demo s)\<lparr>helpDialogs := helpDialogs s - 1\<rparr>"
  obtain t where "page_step page_demo (Viewed, ?c) (Closed, t)"
    using page_close by blast
  moreover have "page_step page_demo (Closed, t) (Created, onCreatePreferences page_demo False (activity_onCreate t))"
    by (rule page_open)
  ultimately have later: "(page_step page_demo)\<^sup>*\<^sup>* (Viewed, ?c)
      (Created, onCreatePreferences page_demo False (activity_onCreate t))"
    by (meson r_into_rtranclp rtranclp.rtrancl_into_rtrancl)
  have "0 < helpDialogs s" using one by simp
  with help_until_cancelled [OF page_demo_ok r, THEN conjunct2] later
  have "helpDialogs (onCreatePreferences page_demo False (activity_onCreate t)) = 0" by blast
  with one later show ?thesis by blast
qed

end
