(* ===== verification/Java_Text.thy ===== *)
theory Java_Text
  imports CText
begin

text \<open>
  The part of the Java library's text functions that the telephony sources use: splitting at a separator, joining,
  and reading a decimal number. A string is the list of its characters.
\<close>

section \<open>Exceptions\<close>

text \<open>The exceptions the telephony sources can run into; a method that may throw one returns it on the left.\<close>

datatype exn =
    Number_format
  | Illegal_argument
  | Index_out_of_bounds
  | Negative_array_size
  | Null_pointer
  | Library_exception

section \<open>Splitting and joining\<close>

text \<open>All pieces between the separators, empty ones included.\<close>

fun pieces :: "char \<Rightarrow> string \<Rightarrow> string list" where
  "pieces c [] = [[]]"
| "pieces c (x # s) =
     (if x = c then [] # pieces c s
      else case pieces c s of [] \<Rightarrow> [[x]] | p # ps \<Rightarrow> (x # p) # ps)"

definition drop_trailing_empty :: "string list \<Rightarrow> string list" where
  "drop_trailing_empty ps = rev (dropWhile (\<lambda>p. p = []) (rev ps))"

text \<open>
  \<open>String.split\<close>: without a separator the array holds the string itself, else empty pieces at the end are
  removed, those before it are kept.
\<close>

definition java_split :: "char \<Rightarrow> string \<Rightarrow> string list" where
  "java_split c s = (if c \<notin> set s then [s] else drop_trailing_empty (pieces c s))"

fun java_join :: "char \<Rightarrow> string list \<Rightarrow> string" where
  "java_join c [] = []"
| "java_join c [p] = p"
| "java_join c (p # q # ps) = p @ c # java_join c (q # ps)"

lemma pieces_nonempty [simp]: "pieces c s \<noteq> []"
  by (induction s) (auto split: list.split)

lemma pieces_plain: "c \<notin> set s \<Longrightarrow> pieces c s = [s]"
  by (induction s) auto

lemma pieces_append: "c \<notin> set p \<Longrightarrow> pieces c (p @ c # s) = p # pieces c s"
  by (induction p) (auto split: list.split)

lemma pieces_join: "ps \<noteq> [] \<Longrightarrow> \<forall>p \<in> set ps. c \<notin> set p \<Longrightarrow> pieces c (java_join c ps) = ps"
  by (induction c ps rule: java_join.induct) (auto simp: pieces_plain pieces_append)

lemma pieces_no_sep: "p \<in> set (pieces c s) \<Longrightarrow> c \<notin> set p"
proof (induction s arbitrary: p)
  case (Cons x s)
  obtain q qs where q: "pieces c s = q # qs" by (cases "pieces c s") auto
  with Cons.IH have "c \<notin> set q" "\<And>r. r \<in> set qs \<Longrightarrow> c \<notin> set r" by auto
  with Cons.prems q show ?case by (auto split: if_splits)
qed simp

lemma drop_trailing_empty_filter: "filter (\<lambda>p. p \<noteq> []) (drop_trailing_empty ps) = filter (\<lambda>p. p \<noteq> []) ps"
proof -
  have "filter (\<lambda>p. p \<noteq> []) (dropWhile (\<lambda>p. p = []) qs) = filter (\<lambda>p. p \<noteq> []) qs" for qs :: "string list"
    by (induction qs) auto
  from this [of "rev ps"] show ?thesis
    by (simp add: drop_trailing_empty_def rev_filter [symmetric])
qed

text \<open>The pieces that are not empty do not depend on what happens to the empty ones.\<close>

lemma split_filter: "filter (\<lambda>p. p \<noteq> []) (java_split c s) = filter (\<lambda>p. p \<noteq> []) (pieces c s)"
  by (simp add: java_split_def pieces_plain drop_trailing_empty_filter)

lemma split_no_sep: "p \<in> set (java_split c s) \<Longrightarrow> c \<notin> set p"
proof -
  have "p \<in> set (drop_trailing_empty ps) \<Longrightarrow> p \<in> set ps" for ps
    by (auto simp: drop_trailing_empty_def dest: set_dropWhileD)
  then show "p \<in> set (java_split c s) \<Longrightarrow> c \<notin> set p"
    using pieces_no_sep unfolding java_split_def by (metis empty_iff insert_iff list.set(1,2))
qed

lemma split_join_filter:
  assumes "\<forall>p \<in> set ps. c \<notin> set p"
  shows "filter (\<lambda>p. p \<noteq> []) (java_split c (java_join c ps)) = filter (\<lambda>p. p \<noteq> []) ps"
proof (cases "ps = []")
  case True
  then show ?thesis by (simp add: java_split_def)
next
  case False
  with assms show ?thesis by (simp add: split_filter pieces_join)
qed

lemma join_empty: "java_join c ps = [] \<longleftrightarrow> ps = [] \<or> ps = [[]]"
  by (induction c ps rule: java_join.induct) auto

section \<open>Numbers\<close>

text \<open>\<open>Integer.parseInt\<close>: an optional sign and decimal digits within an \<open>int\<close>; anything else is an exception.\<close>

definition parse_int :: "string \<Rightarrow> int option" where
  "parse_int s =
     (let neg = (s \<noteq> [] \<and> hd s = CHR ''-'');
          ds = (if s \<noteq> [] \<and> (hd s = CHR ''-'' \<or> hd s = CHR ''+'') then tl s else s);
          v = (if neg then - int (digits_value 10 ds) else int (digits_value 10 ds))
      in if ds \<noteq> [] \<and> (\<forall>c \<in> set ds. 48 \<le> (of_char c :: nat) \<and> of_char c \<le> (57 :: nat)) \<and> - (2 ^ 31) \<le> v \<and> v < 2 ^ 31
         then Some v else None)"

lemma parse_int_dec: "int n < 2 ^ 31 \<Longrightarrow> parse_int (dec n) = Some (int n)"
proof -
  have digit: "c \<in> set (dec n) \<Longrightarrow> 48 \<le> (of_char c :: nat) \<and> of_char c \<le> (57 :: nat)" for c
    using dec_digits [of c n] of_char_digit_char by auto
  have "hd (dec n) \<in> set (dec n)" by simp
  with digit have "hd (dec n) \<noteq> CHR ''-''" "hd (dec n) \<noteq> CHR ''+''" by fastforce+
  with digit show "int n < 2 ^ 31 \<Longrightarrow> parse_int (dec n) = Some (int n)"
    by (simp add: parse_int_def Let_def)
qed

end
