(* ===== verification/Ecc_List.thy ===== *)
theory Ecc_List
  imports Java_Text "HOL-Library.AList"
begin

text \<open>
  The emergency numbers of \<^verbatim>\<open>ril/telephony/java/com/android/internal/telephony/MtkEccList.java\<close>: the customised list
  read at start, which numbers are emergency numbers, their service category, and the properties
  that publish the list.
\<close>

section \<open>The platform\<close>

text \<open>
  The platform is a parameter: system properties, the part of a number that is dialled, the events of the
  XML parser up to the end of the document or to an exception, and the order in which a hash map lists its keys.
\<close>

datatype xml_event =
    Start_tag string "(string \<times> string) list"
  | End_tag string
  | Other_xml

record 'k props_env =
  prop_get :: "'k \<Rightarrow> string \<Rightarrow> string"
  prop_set :: "'k \<Rightarrow> string \<Rightarrow> string \<Rightarrow> exn + 'k"
  extractNetworkPortionAlt :: "string \<Rightarrow> string"
  xml_events :: "'k \<Rightarrow> xml_event list \<times> bool"
  key_order :: "string list \<Rightarrow> string list"

section \<open>Entries\<close>

definition ECC_ENTRY_TAG :: string where "ECC_ENTRY_TAG = ''EccEntry''"
definition ECC_ATTR :: string where "ECC_ATTR = ''Ecc''"
definition CATEGORY_ATTR :: string where "CATEGORY_ATTR = ''Category''"
definition CONDITION_ATTR :: string where "CONDITION_ATTR = ''Condition''"
definition ECC_NO_SIM :: string where "ECC_NO_SIM = ''0''"
definition ECC_FOR_MMI :: string where "ECC_FOR_MMI = ''2''"

lemmas ecc_names = ECC_ENTRY_TAG_def ECC_ATTR_def CATEGORY_ATTR_def CONDITION_ATTR_def ECC_NO_SIM_def ECC_FOR_MMI_def

record EccEntry =
  mEcc :: string
  mCategory :: string
  mCondition :: string

definition new_EccEntry :: EccEntry where
  "new_EccEntry = \<lparr>mEcc = [], mCategory = [], mCondition = []\<rparr>"

definition set_attribute :: "string \<times> string \<Rightarrow> EccEntry \<Rightarrow> EccEntry" where
  "set_attribute attr record =
     (case attr of (name, text) \<Rightarrow>
        if name = ECC_ATTR then record\<lparr>mEcc := text\<rparr>
        else if name = CATEGORY_ATTR then record\<lparr>mCategory := text\<rparr>
        else if name = CONDITION_ATTR then record\<lparr>mCondition := text\<rparr>
        else record)"

text \<open>The static variables. The hash map is a list of its entries.\<close>

record 'k ecc =
  psys :: 'k
  mCustomizedEccList :: "EccEntry list"
  mHashMapForNetworkEccCategory :: "(string \<times> int) list"
  sIsCtaSet :: bool

section \<open>Reading the list\<close>

text \<open>The loop over the events, with the entry that was begun last.\<close>

fun parse_events :: "xml_event list \<Rightarrow> EccEntry option \<Rightarrow> EccEntry list \<Rightarrow> EccEntry list" where
  "parse_events [] record L = L"
| "parse_events (Start_tag name attrs # evs) record L =
     (if name = ECC_ENTRY_TAG then parse_events evs (Some (fold set_attribute attrs new_EccEntry)) L
      else parse_events evs record L)"
| "parse_events (End_tag name # evs) record L =
     (case record of
        None \<Rightarrow> parse_events evs record L
      | Some r \<Rightarrow> if name = ECC_ENTRY_TAG then parse_events evs record (L @ [r]) else parse_events evs record L)"
| "parse_events (Other_xml # evs) record L = parse_events evs record L"

text \<open>The index of the first entry of a number, or the length of the list.\<close>

fun find_ecc :: "string \<Rightarrow> EccEntry list \<Rightarrow> nat" where
  "find_ecc num [] = 0"
| "find_ecc num (e # L) = (if mEcc e = num then 0 else Suc (find_ecc num L))"

definition set_cta :: "string \<Rightarrow> EccEntry list \<Rightarrow> EccEntry list" where
  "set_cta num L =
     (let record = \<lparr>mEcc = num, mCategory = ''0'', mCondition = ECC_FOR_MMI\<rparr>; i = find_ecc num L
      in if i < length L then L[i := record] else L @ [record])"

definition emergencyCTAList :: "string list" where
  "emergencyCTAList = [''120'', ''122'', ''110'', ''119'']"

text \<open>An exception leaves what was added before it; the four numbers are set only after the whole document.\<close>

definition parseEccList :: "('k, 'x) props_env_scheme \<Rightarrow> 'k ecc \<Rightarrow> 'k ecc" where
  "parseEccList E s =
     (let (evs, failed) = xml_events E (psys s);
          L = parse_events evs None []
      in s\<lparr>mCustomizedEccList := (if \<not> failed \<and> sIsCtaSet s then fold set_cta emergencyCTAList L else L)\<rparr>)"

definition ecc_static_init :: "('k, 'x) props_env_scheme \<Rightarrow> 'k \<Rightarrow> 'k ecc" where
  "ecc_static_init E k =
     parseEccList E \<lparr>psys = k, mCustomizedEccList = [], mHashMapForNetworkEccCategory = [],
       sIsCtaSet = (prop_get E k ''ro.mtk_cta_set'' = ''1'')\<rparr>"

section \<open>Emergency numbers\<close>

definition matches :: "string \<Rightarrow> string \<Rightarrow> bool" where
  "matches emergencyNum number \<longleftrightarrow> emergencyNum = number \<or> emergencyNum @ ''+'' = number"

text \<open>The categories the network sent, each with its number; a category that is no number is an exception.\<close>

fun put_categories :: "string list \<Rightarrow> (string \<times> int) list \<Rightarrow> (exn + unit) \<times> (string \<times> int) list" where
  "put_categories [] m = (Inr (), m)"
| "put_categories (p # ps) m =
     (if p = [] then put_categories ps m
      else case java_split CHR '','' p of
          [num, cat] \<Rightarrow>
            (case parse_int cat of
               None \<Rightarrow> (Inl Number_format, m)
             | Some v \<Rightarrow> put_categories ps (AList.update num v m))
        | _ \<Rightarrow> put_categories ps m)"

definition sim_match :: "string \<Rightarrow> string \<Rightarrow> bool" where
  "sim_match numbers number \<longleftrightarrow> numbers \<noteq> [] \<and> list_ex (\<lambda>num. matches num number) (java_split CHR '','' numbers)"

definition isEmergencyNumberExt ::
  "('k, 'x) props_env_scheme \<Rightarrow> string option \<Rightarrow> 'k ecc \<Rightarrow> (exn + bool) \<times> 'k ecc" where
  "isEmergencyNumberExt E arg s =
     (case arg of
        None \<Rightarrow> (Inr False, s)
      | Some dialled \<Rightarrow>
          let number = extractNetworkPortionAlt E dialled;
              categories = prop_get E (psys s) ''ril.ecc.service.category.list'';
              (r, m) = (if categories = [] then (Inr (), []) else put_categories (java_split CHR '';'' categories) []);
              s1 = s\<lparr>mHashMapForNetworkEccCategory := m\<rparr>
          in case r of
              Inl x \<Rightarrow> (Inl x, s1)
            | Inr _ \<Rightarrow>
                if list_ex (\<lambda>num. matches num number) (key_order E (map fst m)) then (Inr True, s1)
                else
                  let numbers = prop_get E (psys s) ''ril.ecclist'';
                      numbers1 = prop_get E (psys s) ''ril.ecclist1'' in
                  if sim_match numbers number then (Inr True, s1)
                  else if sim_match numbers1 number then (Inr True, s1)
                  else
                    let bSIMInserted = (numbers \<noteq> [] \<or> numbers1 \<noteq> []) in
                    (Inr (list_ex
                       (\<lambda>e. (bSIMInserted \<longrightarrow> mCondition e \<noteq> ECC_NO_SIM) \<and> matches (mEcc e) number)
                       (mCustomizedEccList s)), s1))"

text \<open>The category of a number as it was given; the first key in the map's order wins.\<close>

definition getServiceCategoryFromEcc ::
  "('k, 'x) props_env_scheme \<Rightarrow> string \<Rightarrow> 'k ecc \<Rightarrow> exn + int" where
  "getServiceCategoryFromEcc E number s =
     (let m = mHashMapForNetworkEccCategory s in
      case find (\<lambda>num. matches num number \<and> map_of m num \<noteq> None) (key_order E (map fst m)) of
        Some num \<Rightarrow> Inr (the (map_of m num))
      | None \<Rightarrow>
          (case find (\<lambda>e. matches (mEcc e) number) (mCustomizedEccList s) of
             Some e \<Rightarrow> (case parse_int (mCategory e) of None \<Rightarrow> Inl Number_format | Some v \<Rightarrow> Inr v)
           | None \<Rightarrow> Inr 0))"

section \<open>Publishing the list\<close>

definition removeAll_from :: "string list \<Rightarrow> string list \<Rightarrow> string list" where
  "removeAll_from L xs = filter (\<lambda>x. x \<notin> set xs) L"

definition fixedList :: "EccEntry list \<Rightarrow> string list" where
  "fixedList L = map mEcc (filter (\<lambda>e. mCondition e \<noteq> ECC_NO_SIM) L)"

definition fixedListNoSim :: "EccEntry list \<Rightarrow> string list" where
  "fixedListNoSim L = filter (\<lambda>n. n \<noteq> []) (map mEcc (filter (\<lambda>e. mCondition e = ECC_NO_SIM) L))"

text \<open>The new list of a SIM from the one published for it.\<close>

definition sim_list :: "EccEntry list \<Rightarrow> string \<Rightarrow> string list" where
  "sim_list L numbers =
     (let l0 = filter (\<lambda>n. n \<noteq> []) (java_split CHR '','' numbers);
          l1 = removeAll_from l0 (fixedList L) @ fixedList L
      in if numbers = [] then removeAll_from l1 (fixedListNoSim L) @ fixedListNoSim L else l1)"

definition update_sim :: "('k, 'x) props_env_scheme \<Rightarrow> string \<Rightarrow> 'k ecc \<Rightarrow> (exn + unit) \<times> 'k ecc" where
  "update_sim E key s =
     (case prop_set E (psys s) key (java_join CHR '','' (sim_list (mCustomizedEccList s) (prop_get E (psys s) key))) of
        Inl x \<Rightarrow> (Inl x, s)
      | Inr k \<Rightarrow> (Inr (), s\<lparr>psys := k\<rparr>))"

text \<open>An exception at the second list leaves the first one published.\<close>

definition updateEmergencyNumbersProperty :: "('k, 'x) props_env_scheme \<Rightarrow> 'k ecc \<Rightarrow> (exn + unit) \<times> 'k ecc" where
  "updateEmergencyNumbersProperty E s =
     (case update_sim E ''ril.ecclist'' s of
        (Inl x, s1) \<Rightarrow> (Inl x, s1)
      | (Inr _, s1) \<Rightarrow> update_sim E ''ril.ecclist1'' s1)"

end
