(* ===== verification/Ecc_Props.thy ===== *)
theory Ecc_Props
  imports Ecc_List
begin

text \<open>
  Emergency numbers: which numbers are recognised, what is published, that published numbers are
  recognised, and the numbers that are set by law.
\<close>

section \<open>The platform's promises\<close>

text \<open>A property that was set reads back, the others stay as they were; a hash map lists each of its keys.\<close>

definition props_ok :: "('k, 'x) props_env_scheme \<Rightarrow> bool" where
  "props_ok E \<longleftrightarrow>
     (\<forall>k key v k'. prop_set E k key v = Inr k' \<longrightarrow>
        (\<forall>other. prop_get E k' other = (if other = key then v else prop_get E k other)))"

definition order_ok :: "('k, 'x) props_env_scheme \<Rightarrow> bool" where
  "order_ok E \<longleftrightarrow> (\<forall>ks. set (key_order E ks) = set ks)"

section \<open>Recognising a number\<close>

text \<open>The numbers the network sent: the pairs of a number and a category, in a list separated by semicolons.\<close>

definition network_numbers :: "string \<Rightarrow> string set" where
  "network_numbers cats =
     (if cats = [] then {}
      else {num. \<exists>p \<in> set (java_split CHR '';'' cats). p \<noteq> [] \<and> (\<exists>cat. java_split CHR '','' p = [num, cat])})"

text \<open>Every category of the list is a number.\<close>

definition categories_ok :: "string \<Rightarrow> bool" where
  "categories_ok cats \<longleftrightarrow>
     (cats = [] \<or> (\<forall>p \<in> set (java_split CHR '';'' cats). \<forall>num cat.
        p \<noteq> [] \<longrightarrow> java_split CHR '','' p = [num, cat] \<longrightarrow> parse_int cat \<noteq> None))"

lemma two_case: "(case xs of [a, b] \<Rightarrow> f a b | _ \<Rightarrow> z) = (if \<exists>a b. xs = [a, b] then f (xs ! 0) (xs ! 1) else z)"
  by (auto split: list.splits)

lemma dom_update: "fst ` set (AList.update k v m) = insert k (fst ` set m)"
  using dom_update [of k v m] by (simp add: dom_map_of_conv_image_fst [symmetric] update_conv')

lemma put_categories_ok:
  assumes "\<forall>p \<in> set ps. \<forall>num cat. p \<noteq> [] \<longrightarrow> java_split CHR '','' p = [num, cat] \<longrightarrow> parse_int cat \<noteq> None"
  shows "fst (put_categories ps m) = Inr () \<and>
    fst ` set (snd (put_categories ps m)) = fst ` set m \<union>
      {num. \<exists>p \<in> set ps. p \<noteq> [] \<and> (\<exists>cat. java_split CHR '','' p = [num, cat])}"
  using assms
proof (induction ps arbitrary: m)
  case (Cons p ps)
  show ?case
  proof (cases "p \<noteq> [] \<and> (\<exists>num cat. java_split CHR '','' p = [num, cat])")
    case True
    then obtain num cat where p: "p \<noteq> []" "java_split CHR '','' p = [num, cat]" by blast
    with Cons.prems obtain v where "parse_int cat = Some v" by auto
    with Cons.IH [of "AList.update num v m"] Cons.prems p show ?thesis
      by (auto simp: dom_update)
  next
    case False
    then have "put_categories (p # ps) m = put_categories ps m"
      by (cases "p = []") (auto simp: two_case)
    with Cons.IH [of m] Cons.prems False show ?thesis by auto
  qed
qed simp

text \<open>The numbers of a published list.\<close>

definition listed :: "string \<Rightarrow> string set" where
  "listed numbers = (if numbers = [] then {} else set (java_split CHR '','' numbers))"

text \<open>The customised numbers in force: those marked as valid without a SIM count only while no list is published.\<close>

definition customized_numbers :: "bool \<Rightarrow> EccEntry list \<Rightarrow> string set" where
  "customized_numbers sim L = mEcc ` {e \<in> set L. sim \<longrightarrow> mCondition e \<noteq> ECC_NO_SIM}"

lemma customized_match:
  "(\<exists>n \<in> customized_numbers sim L. matches n number) \<longleftrightarrow>
    list_ex (\<lambda>e. (sim \<longrightarrow> mCondition e \<noteq> ECC_NO_SIM) \<and> matches (mEcc e) number) L"
  by (auto simp: customized_numbers_def list_ex_iff)

lemma sim_match_iff: "sim_match numbers number \<longleftrightarrow> (\<exists>n \<in> listed numbers. matches n number)"
  by (auto simp: sim_match_def listed_def list_ex_iff)

text \<open>All numbers that count: of the network, of the two published lists, and the customised ones in force.\<close>

definition emergency_numbers :: "('k, 'x) props_env_scheme \<Rightarrow> 'k ecc \<Rightarrow> string set" where
  "emergency_numbers E s =
     (let sim1 = prop_get E (psys s) ''ril.ecclist''; sim2 = prop_get E (psys s) ''ril.ecclist1''
      in network_numbers (prop_get E (psys s) ''ril.ecc.service.category.list'') \<union> listed sim1 \<union> listed sim2 \<union>
         customized_numbers (sim1 \<noteq> [] \<or> sim2 \<noteq> []) (mCustomizedEccList s))"

text \<open>Unless a category is no number, a number is looked for in all four places.\<close>

lemma recognised:
  fixes E :: "('k, 'x) props_env_scheme" and s :: "'k ecc"
  defines "cats \<equiv> prop_get E (psys s) ''ril.ecc.service.category.list''"
    and "sim1 \<equiv> prop_get E (psys s) ''ril.ecclist''" and "sim2 \<equiv> prop_get E (psys s) ''ril.ecclist1''"
  assumes "order_ok E" and "categories_ok cats"
  shows "fst (isEmergencyNumberExt E (Some d) s) =
    Inr (\<exists>n \<in> emergency_numbers E s. matches n (extractNetworkPortionAlt E d))"
proof -
  let ?num = "extractNetworkPortionAlt E d"
  let ?rm = "if cats = [] then (Inr (), []) else put_categories (java_split CHR '';'' cats) []"
  have m: "fst ?rm = Inr ()" "fst ` set (snd ?rm) = network_numbers cats"
    using assms(5) put_categories_ok [of "java_split CHR '';'' cats" "[]"]
    by (auto simp: categories_ok_def network_numbers_def)
  obtain mp where rm: "?rm = (Inr (), mp)" using m(1) by (metis prod.collapse)
  have keys: "list_ex (\<lambda>n. matches n ?num) (key_order E (map fst mp)) \<longleftrightarrow> (\<exists>n \<in> network_numbers cats. matches n ?num)"
    using assms(4) m(2) rm by (simp add: order_ok_def list_ex_iff)
  have "fst (isEmergencyNumberExt E (Some d) s) =
      Inr ((\<exists>n \<in> network_numbers cats. matches n ?num) \<or> sim_match sim1 ?num \<or> sim_match sim2 ?num \<or>
        list_ex (\<lambda>e. ((sim1 \<noteq> [] \<or> sim2 \<noteq> []) \<longrightarrow> mCondition e \<noteq> ECC_NO_SIM) \<and> matches (mEcc e) ?num) (mCustomizedEccList s))"
    unfolding isEmergencyNumberExt_def Let_def option.case cats_def [symmetric] sim1_def [symmetric] sim2_def [symmetric]
      rm prod.case sum.case keys [symmetric]
    by simp
  then show ?thesis
    unfolding customized_match [symmetric] sim_match_iff emergency_numbers_def Let_def cats_def [symmetric] sim1_def [symmetric]
      sim2_def [symmetric]
    by (simp add: bex_Un disj_assoc)
qed

section \<open>What is published\<close>

definition published :: "string \<Rightarrow> string set" where
  "published numbers = {n \<in> set (java_split CHR '','' numbers). n \<noteq> []}"

text \<open>A list is proper if it is empty or holds a number: it is not made of separators only.\<close>

definition proper_list :: "string \<Rightarrow> bool" where
  "proper_list numbers \<longleftrightarrow> numbers = [] \<or> published numbers \<noteq> {}"

definition no_comma :: "EccEntry list \<Rightarrow> bool" where
  "no_comma L \<longleftrightarrow> (\<forall>e \<in> set L. CHR '','' \<notin> set (mEcc e))"

lemma listed_published: "listed numbers - {[]} = published numbers"
  by (auto simp: listed_def published_def java_split_def)

lemma set_sim_list:
  "set (sim_list L numbers) = published numbers \<union> customized_numbers True L \<union>
    (if numbers = [] then customized_numbers False L - {[]} else {})"
  by (auto simp: sim_list_def Let_def removeAll_from_def published_def fixedList_def fixedListNoSim_def customized_numbers_def)

lemma published_join:
  assumes "\<forall>p \<in> set ps. CHR '','' \<notin> set p"
  shows "published (java_join CHR '','' ps) = set ps - {[]}"
proof -
  have "published (java_join CHR '','' ps) = set (filter (\<lambda>p. p \<noteq> []) (java_split CHR '','' (java_join CHR '','' ps)))"
    by (auto simp: published_def)
  also have "\<dots> = set ps - {[]}" using assms by (subst split_join_filter) auto
  finally show ?thesis .
qed

lemma published_sim_list:
  assumes "no_comma L"
  shows "published (java_join CHR '','' (sim_list L numbers)) =
    published numbers \<union> (customized_numbers (numbers \<noteq> []) L - {[]})"
proof -
  have "\<forall>p \<in> set (sim_list L numbers). CHR '','' \<notin> set p"
    using assms by (auto simp: set_sim_list published_def customized_numbers_def no_comma_def dest: split_no_sep split: if_splits)
  then have "published (java_join CHR '','' (sim_list L numbers)) = set (sim_list L numbers) - {[]}"
    by (rule published_join)
  also have "\<dots> = published numbers \<union> (customized_numbers (numbers \<noteq> []) L - {[]})"
    by (auto simp: set_sim_list published_def customized_numbers_def)
  finally show ?thesis .
qed

lemma update_sim_props:
  assumes "props_ok E" and "update_sim E key s = (Inr (), s')"
  shows "prop_get E (psys s') other =
      (if other = key then java_join CHR '','' (sim_list (mCustomizedEccList s) (prop_get E (psys s) key))
       else prop_get E (psys s) other)"
    and "mCustomizedEccList s' = mCustomizedEccList s"
    and "mHashMapForNetworkEccCategory s' = mHashMapForNetworkEccCategory s" and "sIsCtaSet s' = sIsCtaSet s"
  using assms unfolding props_ok_def update_sim_def by (auto split: sum.splits prod.splits)

lemma update_props:
  assumes "props_ok E" and "updateEmergencyNumbersProperty E s = (Inr (), s')"
  shows "prop_get E (psys s') key =
      (if key = ''ril.ecclist'' \<or> key = ''ril.ecclist1''
       then java_join CHR '','' (sim_list (mCustomizedEccList s) (prop_get E (psys s) key))
       else prop_get E (psys s) key)"
    and "mCustomizedEccList s' = mCustomizedEccList s"
proof -
  from assms(2) obtain s1 where s1: "update_sim E ''ril.ecclist'' s = (Inr (), s1)" "update_sim E ''ril.ecclist1'' s1 = (Inr (), s')"
    unfolding updateEmergencyNumbersProperty_def by (auto split: sum.splits prod.splits)
  note p = update_sim_props [OF assms(1) s1(1)] update_sim_props [OF assms(1) s1(2)]
  show "mCustomizedEccList s' = mCustomizedEccList s" by (simp add: p)
  show "prop_get E (psys s') key =
      (if key = ''ril.ecclist'' \<or> key = ''ril.ecclist1''
       then java_join CHR '','' (sim_list (mCustomizedEccList s) (prop_get E (psys s) key))
       else prop_get E (psys s) key)"
    by (simp add: p)
qed

lemma update_published:
  assumes "props_ok E" and "no_comma (mCustomizedEccList s)" and "updateEmergencyNumbersProperty E s = (Inr (), s')"
    and "key = ''ril.ecclist'' \<or> key = ''ril.ecclist1''"
  shows "published (prop_get E (psys s') key) = published (prop_get E (psys s) key) \<union>
    (customized_numbers (prop_get E (psys s) key \<noteq> []) (mCustomizedEccList s) - {[]})"
  using assms(4) published_sim_list [OF assms(2)] by (simp add: update_props(1) [OF assms(1,3)])

text \<open>A list that was published stays published: it comes out empty only if it was empty and nothing is customised.\<close>

lemma sim_list_empty:
  assumes "java_join CHR '','' (sim_list L numbers) = []"
  shows "published numbers = {}" and "customized_numbers (numbers \<noteq> []) L \<subseteq> {[]}"
proof -
  have "set (sim_list L numbers) \<subseteq> {[]}" using assms by (auto simp: join_empty)
  then have *: "published numbers \<union> customized_numbers True L \<union>
      (if numbers = [] then customized_numbers False L - {[]} else {}) \<subseteq> {[]}"
    by (simp only: set_sim_list)
  then show "published numbers = {}" by (auto simp: published_def)
  from * show "customized_numbers (numbers \<noteq> []) L \<subseteq> {[]}" by (cases "numbers = []") auto
qed

lemma customized_mono: "customized_numbers True L \<subseteq> customized_numbers sim L"
  by (auto simp: customized_numbers_def)

lemma update_again:
  assumes "props_ok E" and "no_comma (mCustomizedEccList s)"
    and "updateEmergencyNumbersProperty E s = (Inr (), s')" and "updateEmergencyNumbersProperty E s' = (Inr (), s'')"
    and key: "key = ''ril.ecclist'' \<or> key = ''ril.ecclist1''"
    and some: "proper_list (prop_get E (psys s) key)"
  shows "published (prop_get E (psys s'') key) = published (prop_get E (psys s') key)"
proof -
  let ?L = "mCustomizedEccList s"
  have L: "mCustomizedEccList s' = ?L" using update_props(2) [OF assms(1,3)] .
  have new: "published (prop_get E (psys s') key) = published (prop_get E (psys s) key) \<union>
      (customized_numbers (prop_get E (psys s) key \<noteq> []) ?L - {[]})"
    using update_published [OF assms(1-3) key] .
  have get: "prop_get E (psys s') key = java_join CHR '','' (sim_list ?L (prop_get E (psys s) key))"
    using update_props(1) [OF assms(1,3)] key by simp
  have "customized_numbers (prop_get E (psys s') key \<noteq> []) ?L - {[]} \<subseteq> published (prop_get E (psys s') key)"
  proof (cases "prop_get E (psys s') key = []")
    case True
    with get have "published (prop_get E (psys s) key) = {}"
      "customized_numbers (prop_get E (psys s) key \<noteq> []) ?L \<subseteq> {[]}"
      using sim_list_empty [of ?L "prop_get E (psys s) key"] by simp_all
    with some True show ?thesis by (auto simp: proper_list_def)
  next
    case False
    with new customized_mono [of ?L "prop_get E (psys s) key \<noteq> []"] show ?thesis by auto
  qed
  then show ?thesis
    using update_published [OF assms(1) _ assms(4) key] assms(2) L by auto
qed

text \<open>Whether a list is published at all does not change which numbers of it can match a number that is dialled.\<close>

definition dialable :: "string \<Rightarrow> bool" where
  "dialable number \<longleftrightarrow> number \<noteq> [] \<and> number \<noteq> ''+''"

lemma dialable_match: "dialable number \<Longrightarrow> matches n number \<Longrightarrow> n \<noteq> []"
  by (auto simp: dialable_def matches_def)

lemma dialable_listed:
  "dialable number \<Longrightarrow> (\<exists>n \<in> listed numbers. matches n number) \<longleftrightarrow> (\<exists>n \<in> published numbers. matches n number)"
  unfolding listed_published [symmetric] using dialable_match by blast

lemma dialable_diff:
  "dialable number \<Longrightarrow> (\<exists>n \<in> A - {[]}. matches n number) \<longleftrightarrow> (\<exists>n \<in> A. matches n number)"
  using dialable_match by blast

definition found :: "string set \<Rightarrow> string \<Rightarrow> bool" where
  "found A number \<longleftrightarrow> (\<exists>n \<in> A. matches n number)"

lemma found_Un: "found (A \<union> B) number \<longleftrightarrow> found A number \<or> found B number"
  by (simp add: found_def bex_Un)

lemma found_mono: "A \<subseteq> B \<Longrightarrow> found A number \<Longrightarrow> found B number"
  unfolding found_def by blast

lemma recognised_dialable:
  fixes E :: "('k, 'x) props_env_scheme" and s :: "'k ecc" and d :: string
  defines "sim1 \<equiv> prop_get E (psys s) ''ril.ecclist''" and "sim2 \<equiv> prop_get E (psys s) ''ril.ecclist1''"
    and "num \<equiv> extractNetworkPortionAlt E d"
  assumes "order_ok E" and "categories_ok (prop_get E (psys s) ''ril.ecc.service.category.list'')"
    and d: "dialable num"
  shows "fst (isEmergencyNumberExt E (Some d) s) =
    Inr (found (network_numbers (prop_get E (psys s) ''ril.ecc.service.category.list'')) num \<or>
      found (published sim1) num \<or> found (published sim2) num \<or>
      found (customized_numbers (sim1 \<noteq> [] \<or> sim2 \<noteq> []) (mCustomizedEccList s)) num)"
  unfolding recognised [OF assms(4,5)] emergency_numbers_def Let_def bex_Un num_def [symmetric] dialable_listed [OF d] sim1_def sim2_def found_def
  by (simp only: disj_assoc)

text \<open>
  A number is recognised exactly when its dialled part is, perhaps with a plus at its end, one of the
  numbers of the network, of a published list, or of the customised list as far as it is in force.
\<close>

theorem emergency_number_iff:
  assumes "order_ok E" and "categories_ok (prop_get E (psys s) ''ril.ecc.service.category.list'')"
  shows "fst (isEmergencyNumberExt E (Some d) s) =
    Inr (\<exists>n \<in> emergency_numbers E s. extractNetworkPortionAlt E d = n \<or> extractNetworkPortionAlt E d = n @ ''+'')"
  using recognised [OF assms] unfolding matches_def by (simp only: eq_commute)

text \<open>
  Updating the published lists adds the customised numbers to each list, those for use without a SIM to a list
  that was empty, loses no number, touches no other property, and a second update publishes the same numbers.
\<close>

theorem update_publishes:
  assumes "props_ok E" and "no_comma (mCustomizedEccList s)" and "updateEmergencyNumbersProperty E s = (Inr (), s')"
  shows "(\<forall>key \<in> {''ril.ecclist'', ''ril.ecclist1''}.
      published (prop_get E (psys s') key) = published (prop_get E (psys s) key) \<union>
        (customized_numbers (prop_get E (psys s) key \<noteq> []) (mCustomizedEccList s) - {[]}) \<and>
      (\<forall>s''. proper_list (prop_get E (psys s) key) \<longrightarrow>
        updateEmergencyNumbersProperty E s' = (Inr (), s'') \<longrightarrow>
        published (prop_get E (psys s'') key) = published (prop_get E (psys s') key))) \<and>
    (\<forall>key. key \<notin> {''ril.ecclist'', ''ril.ecclist1''} \<longrightarrow> prop_get E (psys s') key = prop_get E (psys s) key) \<and>
    mCustomizedEccList s' = mCustomizedEccList s"
  using update_published [OF assms] update_again [OF assms] update_props(1) [OF assms(1,3)]
    update_props(2) [OF assms(1,3)]
  by (intro conjI ballI allI impI) (simp_all only: insert_iff empty_iff simp_thms if_False)

text \<open>
  C17: the update and the recognition agree: after the update exactly the numbers that were recognised before are
  recognised, and those for use without a SIM when one of the lists was empty.
\<close>

theorem update_recognises:
  fixes E :: "('k, 'x) props_env_scheme" and s :: "'k ecc"
  assumes "props_ok E" and "order_ok E" and "no_comma (mCustomizedEccList s)"
    and "categories_ok (prop_get E (psys s) ''ril.ecc.service.category.list'')"
    and "updateEmergencyNumbersProperty E s = (Inr (), s')" and "dialable (extractNetworkPortionAlt E d)"
    and "proper_list (prop_get E (psys s) ''ril.ecclist'')" and "proper_list (prop_get E (psys s) ''ril.ecclist1'')"
  shows "fst (isEmergencyNumberExt E (Some d) s') =
    Inr (fst (isEmergencyNumberExt E (Some d) s) = Inr True \<or>
      (prop_get E (psys s) ''ril.ecclist'' = [] \<or> prop_get E (psys s) ''ril.ecclist1'' = []) \<and>
      list_ex (\<lambda>e. matches (mEcc e) (extractNetworkPortionAlt E d)) (mCustomizedEccList s))"
proof -
  let ?L = "mCustomizedEccList s" and ?n = "extractNetworkPortionAlt E d"
  let ?p = "\<lambda>key. prop_get E (psys s) key"
  have all: "list_ex (\<lambda>e. matches (mEcc e) ?n) ?L \<longleftrightarrow> found (customized_numbers False ?L) ?n"
    using customized_match [of False ?L ?n] by (simp add: found_def)
  have new: "found (published (prop_get E (psys s') key)) ?n \<longleftrightarrow>
      found (published (?p key)) ?n \<or> found (customized_numbers (?p key \<noteq> []) ?L) ?n"
    if "key = ''ril.ecclist'' \<or> key = ''ril.ecclist1''" for key
    unfolding update_published [OF assms(1,3,5) that] found_Un
    unfolding found_def dialable_diff [OF assms(6)] ..
  have cats: "categories_ok (prop_get E (psys s') ''ril.ecc.service.category.list'')"
    using assms(4) by (simp add: update_props(1) [OF assms(1,5)])
  have same: "prop_get E (psys s') ''ril.ecc.service.category.list'' = ?p ''ril.ecc.service.category.list''"
    by (simp add: update_props(1) [OF assms(1,5)])
  have mono: "found (customized_numbers True ?L) ?n \<Longrightarrow> found (customized_numbers b ?L) ?n"
    "found (customized_numbers b ?L) ?n \<Longrightarrow> found (customized_numbers False ?L) ?n" for b
    by (erule found_mono [rotated], auto simp: customized_numbers_def)+
  have keep: "prop_get E (psys s') key \<noteq> []"
    if "key = ''ril.ecclist'' \<or> key = ''ril.ecclist1''" "?p key \<noteq> []" for key
  proof -
    have "published (?p key) \<noteq> {}" using that assms(7,8) by (auto simp: proper_list_def)
    with update_published [OF assms(1,3,5) that(1)] have "published (prop_get E (psys s') key) \<noteq> {}" by auto
    then show ?thesis by (auto simp: published_def java_split_def)
  qed
  show ?thesis
    unfolding recognised_dialable [OF assms(2) assms(4) assms(6)] all
      recognised_dialable [OF assms(2) cats assms(6)] new [OF disjI1 [OF refl]] new [OF disjI2 [OF refl]]
      update_props(2) [OF assms(1,5)] same
    using mono keep [OF disjI1 [OF refl]] keep [OF disjI2 [OF refl]]
    by (cases "?p ''ril.ecclist'' = []"; cases "?p ''ril.ecclist1'' = []") auto
qed

section \<open>The numbers set by law\<close>

lemma set_cta_length_find: "find_ecc num L \<le> length L"
  by (induction L) auto

lemma set_cta_Cons:
  "set_cta num (e # L) =
    (if mEcc e = num then \<lparr>mEcc = num, mCategory = ''0'', mCondition = ECC_FOR_MMI\<rparr> # L else e # set_cta num L)"
  by (simp add: set_cta_def Let_def)

lemma set_cta_find:
  "find (\<lambda>e. mEcc e = n) (set_cta num L) =
    (if n = num then Some \<lparr>mEcc = num, mCategory = ''0'', mCondition = ECC_FOR_MMI\<rparr> else find (\<lambda>e. mEcc e = n) L)"
proof (induction L)
  case Nil
  then show ?case by (simp add: set_cta_def)
next
  case (Cons e L)
  then show ?case by (auto simp: set_cta_Cons)
qed

lemma set_cta_others: "filter (\<lambda>e. mEcc e \<noteq> num) (set_cta num L) = filter (\<lambda>e. mEcc e \<noteq> num) L"
  by (induction L) (auto simp: set_cta_Cons, simp add: set_cta_def)

lemma fold_cta_find:
  "find (\<lambda>e. mEcc e = n) (fold set_cta nums L) =
    (if n \<in> set nums then Some \<lparr>mEcc = n, mCategory = ''0'', mCondition = ECC_FOR_MMI\<rparr> else find (\<lambda>e. mEcc e = n) L)"
  by (induction nums arbitrary: L) (auto simp: set_cta_find)

lemma fold_cta_others:
  "filter (\<lambda>e. mEcc e \<notin> set nums) (fold set_cta nums L) = filter (\<lambda>e. mEcc e \<notin> set nums) L"
proof (induction nums arbitrary: L)
  case (Cons num nums)
  have "filter (\<lambda>e. mEcc e \<notin> set (num # nums)) (fold set_cta (num # nums) L) =
      filter (\<lambda>e. mEcc e \<noteq> num) (filter (\<lambda>e. mEcc e \<notin> set nums) (fold set_cta nums (set_cta num L)))"
    by (simp add: conj_commute)
  also have "\<dots> = filter (\<lambda>e. mEcc e \<notin> set nums) (filter (\<lambda>e. mEcc e \<noteq> num) (set_cta num L))"
    unfolding Cons.IH by (simp add: conj_commute)
  also have "\<dots> = filter (\<lambda>e. mEcc e \<notin> set (num # nums)) L"
    unfolding set_cta_others by (simp add: conj_commute)
  finally show ?case .
qed simp

text \<open>
  C40: where the law asks for it and the document could be read, the first entry of each of the four numbers has
  category 0 and is for the dialler only, and the other entries stay as the document has them; a document that breaks
  off leaves the four numbers out.
\<close>

theorem numbers_set_by_law:
  fixes E :: "('k, 'x) props_env_scheme" and k :: 'k
  defines "L \<equiv> mCustomizedEccList (ecc_static_init E k)" and "doc \<equiv> parse_events (fst (xml_events E k)) None []"
  shows "if prop_get E k ''ro.mtk_cta_set'' = ''1'' \<and> \<not> snd (xml_events E k)
    then (\<forall>n. find (\<lambda>e. mEcc e = n) L =
        (if n \<in> {''120'', ''122'', ''110'', ''119''} then Some \<lparr>mEcc = n, mCategory = ''0'', mCondition = ECC_FOR_MMI\<rparr>
         else find (\<lambda>e. mEcc e = n) doc)) \<and>
      filter (\<lambda>e. mEcc e \<notin> {''120'', ''122'', ''110'', ''119''}) L =
        filter (\<lambda>e. mEcc e \<notin> {''120'', ''122'', ''110'', ''119''}) doc
    else L = doc"
proof -
  have nums: "{''120'', ''122'', ''110'', ''119''} = set emergencyCTAList" by (simp only: emergencyCTAList_def list.set)
  have L: "L = (if prop_get E k ''ro.mtk_cta_set'' = ''1'' \<and> \<not> snd (xml_events E k) then fold set_cta emergencyCTAList doc else doc)"
    by (simp add: L_def doc_def ecc_static_init_def parseEccList_def split_beta Let_def)
  show ?thesis unfolding nums L by (simp add: fold_cta_find fold_cta_others)
qed

section \<open>An example\<close>

text \<open>A platform whose state is the list of its properties, and which refuses a property of more than 91 characters.\<close>

definition props_demo :: "((string \<times> string) list) props_env" where
  "props_demo = \<lparr>prop_get = \<lambda>k key. (case map_of k key of None \<Rightarrow> [] | Some v \<Rightarrow> v),
     prop_set = \<lambda>k key v. (if 91 < length v then Inl Illegal_argument else Inr ((key, v) # k)),
     extractNetworkPortionAlt = filter (\<lambda>c. c \<noteq> CHR ''-'' \<and> c \<noteq> CHR '' ''),
     xml_events = \<lambda>k. ([], False),
     key_order = rev\<rparr>"

lemma props_demo_ok: "props_ok props_demo" "order_ok props_demo"
  by (auto simp: props_demo_def props_ok_def order_ok_def split: if_splits)

definition ecc_demo :: "((string \<times> string) list) ecc" where
  "ecc_demo = \<lparr>psys = [(''ril.ecc.service.category.list'', ''112,5;911,1''), (''ril.ecclist'', ''112,08'')],
     mCustomizedEccList = [\<lparr>mEcc = ''110'', mCategory = ''1'', mCondition = ''1''\<rparr>, \<lparr>mEcc = ''000'', mCategory = ''0'', mCondition = ''0''\<rparr>],
     mHashMapForNetworkEccCategory = [], sIsCtaSet = True\<rparr>"

lemma ecc_demo_cats: "categories_ok (prop_get props_demo (psys ecc_demo) ''ril.ecc.service.category.list'')"
proof -
  have "prop_get props_demo (psys ecc_demo) ''ril.ecc.service.category.list'' = ''112,5;911,1''" by code_simp
  moreover have "java_split CHR '';'' ''112,5;911,1'' = [''112,5'', ''911,1'']"
    "java_split CHR '','' ''112,5'' = [''112'', ''5'']" "java_split CHR '','' ''911,1'' = [''911'', ''1'']"
    "parse_int ''5'' = Some 5" "parse_int ''1'' = Some 1" by code_simp+
  ultimately show ?thesis unfolding categories_ok_def by simp
qed

definition ecc_demo' :: "((string \<times> string) list) ecc" where
  "ecc_demo' = ecc_demo\<lparr>psys := [(''ril.ecclist1'', ''110,000''), (''ril.ecclist'', ''112,08,110'')] @ psys ecc_demo\<rparr>"

lemma ecc_demo_update:
  "updateEmergencyNumbersProperty props_demo ecc_demo = (Inr (), ecc_demo')"
  "no_comma (mCustomizedEccList ecc_demo)"
  "dialable (extractNetworkPortionAlt props_demo ''000'')"
  by code_simp+

lemma ecc_demo_proper:
  "proper_list (prop_get props_demo (psys ecc_demo) ''ril.ecclist'')"
  "proper_list (prop_get props_demo (psys ecc_demo) ''ril.ecclist1'')"
proof -
  have get: "prop_get props_demo (psys ecc_demo) ''ril.ecclist'' = ''112,08''"
    "prop_get props_demo (psys ecc_demo) ''ril.ecclist1'' = []" by code_simp+
  have "java_split CHR '','' ''112,08'' = [''112'', ''08'']" by code_simp
  then have "''112'' \<in> published ''112,08''" unfolding published_def by simp
  with get show "proper_list (prop_get props_demo (psys ecc_demo) ''ril.ecclist'')"
    "proper_list (prop_get props_demo (psys ecc_demo) ''ril.ecclist1'')"
    unfolding proper_list_def by auto
qed

theorem emergency_number_iff_witness:
  "fst (isEmergencyNumberExt props_demo (Some ''11-2'') ecc_demo) =
    Inr (\<exists>n \<in> emergency_numbers props_demo ecc_demo.
      extractNetworkPortionAlt props_demo ''11-2'' = n \<or> extractNetworkPortionAlt props_demo ''11-2'' = n @ ''+'')"
  by (rule emergency_number_iff [OF props_demo_ok(2) ecc_demo_cats])

theorem update_publishes_witness:
  "published (prop_get props_demo (psys ecc_demo') ''ril.ecclist1'') =
     published (prop_get props_demo (psys ecc_demo) ''ril.ecclist1'') \<union>
       (customized_numbers (prop_get props_demo (psys ecc_demo) ''ril.ecclist1'' \<noteq> []) (mCustomizedEccList ecc_demo) - {[]})"
  using update_publishes [OF props_demo_ok(1) ecc_demo_update(2,1)] by blast

text \<open>The first list is published and the second is not: the number for use without a SIM is recognised after the update only.\<close>

theorem update_recognises_witness:
  "fst (isEmergencyNumberExt props_demo (Some ''000'') ecc_demo) = Inr False \<and>
   fst (isEmergencyNumberExt props_demo (Some ''000'') ecc_demo') = Inr True"
proof -
  have "fst (isEmergencyNumberExt props_demo (Some ''000'') ecc_demo) = Inr False" by code_simp
  moreover have "prop_get props_demo (psys ecc_demo) ''ril.ecclist1'' = []"
    "list_ex (\<lambda>e. matches (mEcc e) (extractNetworkPortionAlt props_demo ''000'')) (mCustomizedEccList ecc_demo)" by code_simp+
  ultimately show ?thesis
    using update_recognises [OF props_demo_ok ecc_demo_update(2) ecc_demo_cats ecc_demo_update(1,3) ecc_demo_proper] by simp
qed

end
