(* ===== verification/Ril.thy ===== *)
theory Ril
  imports Ecc_List
begin

text \<open>
  The radio layer of \<^verbatim>\<open>ril/telephony/java/com/android/internal/telephony/MediaTekRIL.java\<close>: the requests and the answers
  the class changes, over the emergency numbers of \<^verbatim>\<open>Ecc_List\<close>.
\<close>

section \<open>The platform\<close>

text \<open>
  The base class and the framework are parameters: reading a parcel, which is what is left to read of it; the table of pending
  requests; the operator of the SIM; the airplane mode; the parsers and the constants of the base class.
\<close>

record RILRequest =
  mSerial :: int
  mRequest :: int
  mResult :: "nat option"

record ('k, 'p, 'd) ril_env = "'k props_env" +
  readInt :: "'p \<Rightarrow> int \<times> 'p"
  readString :: "'p \<Rightarrow> string option \<times> 'p"
  readStringArray :: "'p \<Rightarrow> string option list option"
  dataAvail :: "'p \<Rightarrow> int"
  responseInts :: "'p \<Rightarrow> int list"
  responseStrings :: "'p \<Rightarrow> string option list option"
  responseSetupDataCall :: "'p \<Rightarrow> exn + 'd"
  cid_of :: "'d \<Rightarrow> int"
  request_get :: "'k \<Rightarrow> int \<Rightarrow> RILRequest option"
  request_remove :: "'k \<Rightarrow> int \<Rightarrow> RILRequest option \<times> 'k"
  getSimOperator :: "'k \<Rightarrow> string option"
  airplane_mode_on :: "'k \<Rightarrow> int"
  ussd_registered :: "'k \<Rightarrow> bool"
  RIL_REQUEST_SET_INITIAL_ATTACH_APN :: int
  RIL_REQUEST_SETUP_DATA_CALL :: int
  RIL_REQUEST_DATA_REGISTRATION_STATE :: int
  RIL_REQUEST_ALLOW_DATA :: int
  RIL_REQUEST_GET_SIM_STATUS :: int
  RIL_UNSOL_ON_USSD :: int
  REFRESH_RESULT_INIT :: int
  REFRESH_RESULT_RESET :: int

definition RIL_UNSOL_RESPONSE_PS_NETWORK_STATE_CHANGED :: int where "RIL_UNSOL_RESPONSE_PS_NETWORK_STATE_CHANGED = 3015"
definition RIL_UNSOL_RESPONSE_REGISTRATION_SUSPENDED :: int where "RIL_UNSOL_RESPONSE_REGISTRATION_SUSPENDED = 3024"
definition RIL_UNSOL_INCOMING_CALL_INDICATION :: int where "RIL_UNSOL_INCOMING_CALL_INDICATION = 3042"
definition RIL_UNSOL_CALL_INFO_INDICATION :: int where "RIL_UNSOL_CALL_INFO_INDICATION = 3049"
definition RIL_UNSOL_SET_ATTACH_APN :: int where "RIL_UNSOL_SET_ATTACH_APN = 3073"
definition RIL_REQUEST_MODEM_POWEROFF :: int where "RIL_REQUEST_MODEM_POWEROFF = 2010"
definition RIL_REQUEST_MODEM_POWERON :: int where "RIL_REQUEST_MODEM_POWERON = 2028"
definition RIL_REQUEST_RESUME_REGISTRATION :: int where "RIL_REQUEST_RESUME_REGISTRATION = 2065"
definition RIL_REQUEST_SET_CALL_INDICATION :: int where "RIL_REQUEST_SET_CALL_INDICATION = 2086"
definition RIL_REQUEST_EMERGENCY_DIAL :: int where "RIL_REQUEST_EMERGENCY_DIAL = 2087"
definition RIL_REQUEST_SET_ECC_SERVICE_CATEGORY :: int where "RIL_REQUEST_SET_ECC_SERVICE_CATEGORY = 2088"
definition REFRESH_SESSION_RESET :: int where "REFRESH_SESSION_RESET = 6"

lemmas vendor_unsol = RIL_UNSOL_RESPONSE_PS_NETWORK_STATE_CHANGED_def RIL_UNSOL_RESPONSE_REGISTRATION_SUSPENDED_def
  RIL_UNSOL_INCOMING_CALL_INDICATION_def RIL_UNSOL_CALL_INFO_INDICATION_def RIL_UNSOL_SET_ATTACH_APN_def

lemmas vendor_requests = RIL_REQUEST_MODEM_POWEROFF_def RIL_REQUEST_MODEM_POWERON_def RIL_REQUEST_RESUME_REGISTRATION_def
  RIL_REQUEST_SET_CALL_INDICATION_def RIL_REQUEST_EMERGENCY_DIAL_def RIL_REQUEST_SET_ECC_SERVICE_CATEGORY_def

text \<open>What a request carries, and the calls that leave the class, in their order.\<close>

datatype item =
    W_int int
  | W_string "string option"
  | W_strings "string option list option"
  | W_bytes "int list option"

record UUSInfo =
  getType :: int
  getDcs :: int
  getUserData :: "int list option"

datatype 'd answer =
    Null
  | Strings "string option list"
  | Data_call 'd

datatype ('p, 'd) ril_call =
    Send int "nat option" "item list"
  | Super_dial "string option" int "UUSInfo option" "nat option"
  | Super_deactivateDataCall int int "nat option"
  | Super_setRadioPower bool "nat option"
  | Super_iccIOForApp int int "string option" int int int "string option" "string option" "string option" "nat option"
  | Super_processUnsolicited 'p int
  | Super_processSolicited 'p int
  | Notify_call_state
  | Notify_voice_network
  | Notify_ussd "string option list"
  | Complete nat "'d answer" "exn option"

record ('k, 'p, 'd) ril =
  mEccList :: "'k ecc"
  dataCallCids :: "int list"
  out :: "('p, 'd) ril_call list"

definition emit :: "('p, 'd) ril_call \<Rightarrow> ('k, 'p, 'd) ril \<Rightarrow> ('k, 'p, 'd) ril" where
  "emit c s = s\<lparr>out := out s @ [c]\<rparr>"

abbreviation platform :: "('k, 'p, 'd) ril \<Rightarrow> 'k" where
  "platform s \<equiv> psys (mEccList s)"

definition new_MediaTekRIL :: "('k, 'p, 'd, 'x) ril_env_scheme \<Rightarrow> 'k \<Rightarrow> ('k, 'p, 'd) ril" where
  "new_MediaTekRIL E k = \<lparr>mEccList = ecc_static_init E k, dataCallCids = [-1, -1, -1, -1, -1], out = []\<rparr>"

text \<open>Setting a property, which may be refused.\<close>

definition set_property ::
  "('k, 'p, 'd, 'x) ril_env_scheme \<Rightarrow> string \<Rightarrow> string \<Rightarrow> ('k, 'p, 'd) ril \<Rightarrow> (exn + unit) \<times> ('k, 'p, 'd) ril" where
  "set_property E key v s =
     (case prop_set E (platform s) key v of
        Inl x \<Rightarrow> (Inl x, s)
      | Inr k \<Rightarrow> (Inr (), s\<lparr>mEccList := (mEccList s)\<lparr>psys := k\<rparr>\<rparr>))"

section \<open>Dialling\<close>

definition ecc_category_request :: "int \<Rightarrow> ('p, 'd) ril_call" where
  "ecc_category_request serviceCategory = Send RIL_REQUEST_SET_ECC_SERVICE_CATEGORY None [W_int 1, W_int serviceCategory]"

definition emergency_dial_request :: "string \<Rightarrow> int \<Rightarrow> UUSInfo option \<Rightarrow> nat option \<Rightarrow> ('p, 'd) ril_call" where
  "emergency_dial_request address clirMode uusInfo result =
     Send RIL_REQUEST_EMERGENCY_DIAL result
       ([W_string (Some address), W_int clirMode, W_int 0] @
        (case uusInfo of
           None \<Rightarrow> [W_int 0]
         | Some u \<Rightarrow> [W_int 1, W_int (getType u), W_int (getDcs u), W_bytes (getUserData u)]))"

definition dial ::
  "('k, 'p, 'd, 'x) ril_env_scheme \<Rightarrow> string option \<Rightarrow> int \<Rightarrow> UUSInfo option \<Rightarrow> nat option \<Rightarrow> ('k, 'p, 'd) ril \<Rightarrow>
    (exn + unit) \<times> ('k, 'p, 'd) ril" where
  "dial E address clirMode uusInfo result s =
     (case isEmergencyNumberExt E address (mEccList s) of
        (Inl x, l) \<Rightarrow> (Inl x, s\<lparr>mEccList := l\<rparr>)
      | (Inr emergency, l) \<Rightarrow>
          (let s1 = s\<lparr>mEccList := l\<rparr> in
           case address of
             Some number \<Rightarrow>
               (if emergency then
                  (case getServiceCategoryFromEcc E number l of
                     Inl x \<Rightarrow> (Inl x, s1)
                   | Inr serviceCategory \<Rightarrow>
                       (Inr (), emit (emergency_dial_request number clirMode uusInfo result)
                                  (emit (ecc_category_request serviceCategory) s1)))
                else (Inr (), emit (Super_dial address clirMode uusInfo result) s1))
           | None \<Rightarrow> (Inr (), emit (Super_dial address clirMode uusInfo result) s1)))"

section \<open>Data calls\<close>

text \<open>The first of the four slots that passes a test.\<close>

definition first_slot :: "(int \<Rightarrow> bool) \<Rightarrow> int list \<Rightarrow> nat option" where
  "first_slot P cids = find (\<lambda>i. P (cids ! i)) [0..<4]"

definition interface_id :: "int list \<Rightarrow> int" where
  "interface_id cids = (case first_slot (\<lambda>c. c < 0) cids of None \<Rightarrow> 0 | Some i \<Rightarrow> int i + 1)"

definition setupDataCall ::
  "('k, 'p, 'd, 'x) ril_env_scheme \<Rightarrow> int \<Rightarrow> int \<Rightarrow> string option \<Rightarrow> string option \<Rightarrow> string option \<Rightarrow> int \<Rightarrow> string option \<Rightarrow>
    nat option \<Rightarrow> ('k, 'p, 'd) ril \<Rightarrow> ('k, 'p, 'd) ril" where
  "setupDataCall E radioTechnology profile apn user password authType protocol result s =
     emit (Send (RIL_REQUEST_SETUP_DATA_CALL E) result
       [W_int 8, W_string (Some (fmt_d (sint (word_of_int (radioTechnology + 2) :: i32)))), W_string (Some (fmt_d profile)),
        W_string apn, W_string user, W_string password, W_string (Some (fmt_d authType)), W_string protocol,
        W_string (Some (fmt_d (interface_id (dataCallCids s))))]) s"

definition deactivateDataCall :: "int \<Rightarrow> int \<Rightarrow> nat option \<Rightarrow> ('k, 'p, 'd) ril \<Rightarrow> ('k, 'p, 'd) ril" where
  "deactivateDataCall cid reason result s =
     (let s1 = (case first_slot (\<lambda>c. c = cid) (dataCallCids s) of
                  None \<Rightarrow> s
                | Some i \<Rightarrow> s\<lparr>dataCallCids := (dataCallCids s)[i := -1]\<rparr>)
      in emit (Super_deactivateDataCall cid reason result) s1)"

definition fetchCidFromDataCall ::
  "('k, 'p, 'd, 'x) ril_env_scheme \<Rightarrow> 'p \<Rightarrow> ('k, 'p, 'd) ril \<Rightarrow> (exn + 'd) \<times> ('k, 'p, 'd) ril" where
  "fetchCidFromDataCall E p s =
     (case responseSetupDataCall E p of
        Inl x \<Rightarrow> (Inl x, s)
      | Inr ret \<Rightarrow>
          if 0 \<le> cid_of E ret then
            (case first_slot (\<lambda>c. c < 0) (dataCallCids s) of
               None \<Rightarrow> (Inr ret, s)
             | Some i \<Rightarrow> (Inr ret, s\<lparr>dataCallCids := (dataCallCids s)[i := cid_of E ret]\<rparr>))
          else (Inr ret, s))"

section \<open>Radio power\<close>

definition setRadioPower ::
  "('k, 'p, 'd, 'x) ril_env_scheme \<Rightarrow> bool \<Rightarrow> nat option \<Rightarrow> ('k, 'p, 'd) ril \<Rightarrow> (exn + unit) \<times> ('k, 'p, 'd) ril" where
  "setRadioPower E on result s =
     (let isInApm = (airplane_mode_on E (platform s) = 1);
          wasInApm = (prop_get E (platform s) ''persist.radio.airplane.mode.on'' = ''true'')
      in case set_property E ''persist.radio.airplane.mode.on'' (if isInApm then ''true'' else ''false'') s of
          (Inl x, s1) \<Rightarrow> (Inl x, s1)
        | (Inr _, s1) \<Rightarrow>
            if on \<and> wasInApm \<and> \<not> isInApm then
              (case set_property E ''gsm.ril.eboot'' ''0'' s1 of
                 (Inl x, s2) \<Rightarrow> (Inl x, s2)
               | (Inr _, s2) \<Rightarrow> (Inr (), emit (Send RIL_REQUEST_MODEM_POWERON result []) s2))
            else if \<not> on \<and> isInApm then
              (case set_property E ''gsm.ril.eboot'' ''1'' s1 of
                 (Inl x, s2) \<Rightarrow> (Inl x, s2)
               | (Inr _, s2) \<Rightarrow> (Inr (), emit (Send RIL_REQUEST_MODEM_POWEROFF result []) s2))
            else (Inr (), emit (Super_setRadioPower on result) s1))"

section \<open>Attaching and card access\<close>

text \<open>The message of the caller is not passed on.\<close>

definition setInitialAttachApn ::
  "('k, 'p, 'd, 'x) ril_env_scheme \<Rightarrow> string option \<Rightarrow> string option \<Rightarrow> int \<Rightarrow> string option \<Rightarrow> string option \<Rightarrow> nat option \<Rightarrow>
    ('k, 'p, 'd) ril \<Rightarrow> ('k, 'p, 'd) ril" where
  "setInitialAttachApn E apn protocol authType username password result s =
     emit (Send (RIL_REQUEST_SET_INITIAL_ATTACH_APN E) None
       [W_string apn, W_string protocol, W_int authType, W_string username, W_string password,
        W_string (getSimOperator E (platform s)), W_int 1, W_strings None]) s"

definition iccIOForApp ::
  "int \<Rightarrow> int \<Rightarrow> string option \<Rightarrow> int \<Rightarrow> int \<Rightarrow> int \<Rightarrow> string option \<Rightarrow> string option \<Rightarrow> string option \<Rightarrow> nat option \<Rightarrow>
    ('k, 'p, 'd) ril \<Rightarrow> ('k, 'p, 'd) ril" where
  "iccIOForApp command fileid path p1 p2 p3 data pin2 aid result s =
     emit (Super_iccIOForApp command fileid path p1 p2 (if command = 0xc0 \<and> p3 = 0 then 15 else p3) data pin2 aid result) s"

section \<open>Answers\<close>

text \<open>\<open>Integer.parseInt\<close> of an element of an array, which may be null or not there.\<close>

definition element :: "'a list \<Rightarrow> nat \<Rightarrow> exn + 'a" where
  "element xs i = (if i < length xs then Inr (xs ! i) else Inl Index_out_of_bounds)"

definition parse_element :: "string option list \<Rightarrow> nat \<Rightarrow> exn + int" where
  "parse_element xs i =
     (case element xs i of
        Inl x \<Rightarrow> Inl x
      | Inr None \<Rightarrow> Inl Number_format
      | Inr (Some t) \<Rightarrow> (case parse_int t of None \<Rightarrow> Inl Number_format | Some v \<Rightarrow> Inr v))"

record IccRefreshResponse =
  refreshResult :: int
  efId :: int
  aid :: "string option"

definition responseSimRefresh :: "('k, 'p, 'd, 'x) ril_env_scheme \<Rightarrow> 'p \<Rightarrow> exn + IccRefreshResponse" where
  "responseSimRefresh E p =
     (let (r, p1) = readInt E p;
          (rawefId, p2) = readString E p1
      in case (case rawefId of None \<Rightarrow> Some 0 | Some t \<Rightarrow> parse_int t) of
           None \<Rightarrow> Inl Number_format
         | Some ef \<Rightarrow>
             (let (a, _) = readString E p2 in
              Inr \<lparr>refreshResult =
                     (if REFRESH_RESULT_RESET E < r then
                        (if r = REFRESH_SESSION_RESET then REFRESH_RESULT_RESET E else REFRESH_RESULT_INIT E)
                      else r),
                   efId = ef, aid = a\<rparr>))"

definition fixupPSBearerDataRegistration ::
  "('k, 'p, 'd, 'x) ril_env_scheme \<Rightarrow> 'p \<Rightarrow> exn + string option list" where
  "fixupPSBearerDataRegistration E p =
     (case readStringArray E p of
        None \<Rightarrow> Inl Null_pointer
      | Some response \<Rightarrow>
          if 4 \<le> length response \<and> response ! 3 \<noteq> None then
            (case parse_element response 3 of
               Inl x \<Rightarrow> Inl x
             | Inr v \<Rightarrow> if 128 \<le> v then Inr (response[3 := Some ''15'']) else Inr response)
          else Inr response)"

definition refreshEmergencyList ::
  "('k, 'p, 'd, 'x) ril_env_scheme \<Rightarrow> ('k, 'p, 'd) ril \<Rightarrow> (exn + unit) \<times> ('k, 'p, 'd) ril" where
  "refreshEmergencyList E s =
     (let (r, l) = updateEmergencyNumbersProperty E (mEccList s) in (r, s\<lparr>mEccList := l\<rparr>))"

text \<open>The requests whose answers are kept from the base class, and what is done with each answer.\<close>

definition intercepted :: "('k, 'p, 'd, 'x) ril_env_scheme \<Rightarrow> int list" where
  "intercepted E = [RIL_REQUEST_EMERGENCY_DIAL, RIL_REQUEST_SET_ECC_SERVICE_CATEGORY, RIL_REQUEST_DATA_REGISTRATION_STATE E,
     RIL_REQUEST_SETUP_DATA_CALL E, RIL_REQUEST_ALLOW_DATA E]"

definition answer_of ::
  "('k, 'p, 'd, 'x) ril_env_scheme \<Rightarrow> int \<Rightarrow> 'p \<Rightarrow> ('k, 'p, 'd) ril \<Rightarrow> (exn + 'd answer) \<times> ('k, 'p, 'd) ril" where
  "answer_of E request p s =
     (if request = RIL_REQUEST_EMERGENCY_DIAL then (Inr Null, s)
      else if request = RIL_REQUEST_SET_ECC_SERVICE_CATEGORY then (Inr Null, s)
      else if request = RIL_REQUEST_DATA_REGISTRATION_STATE E then
        (case fixupPSBearerDataRegistration E p of Inl x \<Rightarrow> (Inl x, s) | Inr response \<Rightarrow> (Inr (Strings response), s))
      else if request = RIL_REQUEST_SETUP_DATA_CALL E then
        (case fetchCidFromDataCall E p s of (Inl x, s1) \<Rightarrow> (Inl x, s1) | (Inr ret, s1) \<Rightarrow> (Inr (Data_call ret), s1))
      else if request = RIL_REQUEST_ALLOW_DATA E then (Inr Null, emit Notify_voice_network s)
      else (Inl Library_exception, s))"

definition complete :: "RILRequest \<Rightarrow> 'd answer \<Rightarrow> exn option \<Rightarrow> ('k, 'p, 'd) ril \<Rightarrow> ('k, 'p, 'd) ril" where
  "complete rr ret x s = (case mResult rr of None \<Rightarrow> s | Some m \<Rightarrow> emit (Complete m ret x) s)"

text \<open>
  Forwarding gives the base class the parcel as it was at the start; what the base class returns is not modelled. The
  result is otherwise the request that was answered, if any.
\<close>

datatype solicited = Handled "RILRequest option" | Forwarded

definition go_up :: "'p \<Rightarrow> int \<Rightarrow> ('k, 'p, 'd) ril \<Rightarrow> (exn + solicited) \<times> ('k, 'p, 'd) ril" where
  "go_up p type s = (Inr Forwarded, emit (Super_processSolicited p type) s)"

definition processSolicited ::
  "('k, 'p, 'd, 'x) ril_env_scheme \<Rightarrow> 'p \<Rightarrow> int \<Rightarrow> ('k, 'p, 'd) ril \<Rightarrow> (exn + solicited) \<times> ('k, 'p, 'd) ril" where
  "processSolicited E p type s =
     (let (serial, p1) = readInt E p;
          (err, p2) = readInt E p1
      in case request_get E (platform s) serial of
           None \<Rightarrow> go_up p type s
         | Some tr \<Rightarrow>
             if mSerial tr = serial \<and> (err = 0 \<or> 0 < dataAvail E p2) then
               if mRequest tr \<in> set (intercepted E) then
                 (let (found, k) = request_remove E (platform s) serial;
                      s1 = s\<lparr>mEccList := (mEccList s)\<lparr>psys := k\<rparr>\<rparr>
                  in case found of
                       None \<Rightarrow> (Inr (Handled None), s1)
                     | Some rr \<Rightarrow>
                         (case answer_of E (mRequest rr) p2 s1 of
                            (Inl x, s2) \<Rightarrow> (Inl x, s2)
                          | (Inr ret, s2) \<Rightarrow> (Inr (Handled (Some rr)), complete rr ret None s2)))
               else if mRequest tr = RIL_REQUEST_GET_SIM_STATUS E then
                 (case refreshEmergencyList E s of
                    (Inl x, s1) \<Rightarrow> (Inr (Handled (Some tr)), complete tr Null (Some x) s1)
                  | (Inr _, s1) \<Rightarrow> go_up p type s1)
               else go_up p type s
             else go_up p type s)"

section \<open>Unsolicited messages\<close>

text \<open>A number of integers, with their count in front; a negative count is an exception.\<close>

fun read_ints :: "('p \<Rightarrow> int \<times> 'p) \<Rightarrow> nat \<Rightarrow> 'p \<Rightarrow> int list" where
  "read_ints rd 0 p = []"
| "read_ints rd (Suc n) p = (let (v, p1) = rd p in v # read_ints rd n p1)"

definition responseRegSuspended ::
  "('k, 'p, 'd, 'x) ril_env_scheme \<Rightarrow> 'p \<Rightarrow> ('k, 'p, 'd) ril \<Rightarrow> (exn + unit) \<times> ('k, 'p, 'd) ril" where
  "responseRegSuspended E p s =
     (let (numInts, p1) = readInt E p
      in if numInts < 0 then (Inl Negative_array_size, s)
         else case element (read_ints (readInt E) (nat numInts) p1) 0 of
             Inl x \<Rightarrow> (Inl x, s)
           | Inr session \<Rightarrow> (Inr (), emit (Send RIL_REQUEST_RESUME_REGISTRATION None [W_int 1, W_int session]) s))"

definition responseIncomingCallIndication ::
  "('k, 'p, 'd, 'x) ril_env_scheme \<Rightarrow> 'p \<Rightarrow> ('k, 'p, 'd) ril \<Rightarrow> (exn + unit) \<times> ('k, 'p, 'd) ril" where
  "responseIncomingCallIndication E p s =
     (case readStringArray E p of
        None \<Rightarrow> (Inl Null_pointer, s)
      | Some response \<Rightarrow>
          (case parse_element response 3 of
             Inl x \<Rightarrow> (Inl x, s)
           | Inr mode \<Rightarrow>
               (case parse_element response 0 of
                  Inl x \<Rightarrow> (Inl x, s)
                | Inr callId \<Rightarrow>
                    (case parse_element response 4 of
                       Inl x \<Rightarrow> (Inl x, s)
                     | Inr seqNum \<Rightarrow>
                         (Inr (), emit (Send RIL_REQUEST_SET_CALL_INDICATION None
                                    [W_int 3, W_int mode, W_int callId, W_int seqNum]) s)))))"

text \<open>Whether the answer is null, which it is for the end of a call.\<close>

definition responseCallProgress :: "('k, 'p, 'd, 'x) ril_env_scheme \<Rightarrow> 'p \<Rightarrow> exn + bool" where
  "responseCallProgress E p =
     (case readStringArray E p of
        None \<Rightarrow> Inl Null_pointer
      | Some response \<Rightarrow>
          if 2 \<le> length response then
            (case response ! 1 of None \<Rightarrow> Inl Null_pointer | Some t \<Rightarrow> Inr (t = ''129''))
          else Inr False)"

definition responseSetAttachApn :: "('k, 'p, 'd, 'x) ril_env_scheme \<Rightarrow> ('k, 'p, 'd) ril \<Rightarrow> ('k, 'p, 'd) ril" where
  "responseSetAttachApn E s = setInitialAttachApn E (Some []) (Some []) 0 (Some []) (Some []) None s"

text \<open>The strings of a USSD message: at least two, with the codes 2 to 5 turned into the normal end 0.\<close>

definition ussd_pad :: "string option list \<Rightarrow> exn + string option list" where
  "ussd_pad ret =
     (if length ret < 2 then (case element ret 0 of Inl x \<Rightarrow> Inl x | Inr c \<Rightarrow> Inr [c, None]) else Inr ret)"

definition ussd_code :: "string option list \<Rightarrow> exn + string option list" where
  "ussd_code resp =
     (if resp ! 0 \<noteq> None then
        (case parse_element resp 0 of
           Inl x \<Rightarrow> Inl x
         | Inr c \<Rightarrow> Inr (if 2 \<le> c \<and> c \<le> 5 then resp[0 := Some ''0''] else resp))
      else Inr resp)"

definition ussd_strings :: "string option list option \<Rightarrow> exn + string option list" where
  "ussd_strings ret =
     (case ret of
        None \<Rightarrow> Inl Null_pointer
      | Some r \<Rightarrow> (case ussd_pad r of Inl x \<Rightarrow> Inl x | Inr resp \<Rightarrow> ussd_code resp))"

definition processUnsolicited ::
  "('k, 'p, 'd, 'x) ril_env_scheme \<Rightarrow> 'p \<Rightarrow> int \<Rightarrow> ('k, 'p, 'd) ril \<Rightarrow> (exn + unit) \<times> ('k, 'p, 'd) ril" where
  "processUnsolicited E p type s =
     (let (response, p1) = readInt E p in
      if response = RIL_UNSOL_RESPONSE_REGISTRATION_SUSPENDED then responseRegSuspended E p1 s
      else if response = RIL_UNSOL_INCOMING_CALL_INDICATION then
        (case responseIncomingCallIndication E p1 s of
           (Inl x, s1) \<Rightarrow> (Inl x, s1)
         | (Inr _, s1) \<Rightarrow> (Inr (), emit Notify_call_state s1))
      else if response = RIL_UNSOL_CALL_INFO_INDICATION then
        (case responseCallProgress E p1 of
           Inl x \<Rightarrow> (Inl x, s)
         | Inr ended \<Rightarrow> (Inr (), if ended then emit Notify_call_state s else s))
      else if response = RIL_UNSOL_SET_ATTACH_APN then (Inr (), responseSetAttachApn E s)
      else if response = RIL_UNSOL_ON_USSD E then
        (case ussd_strings (responseStrings E p1) of
           Inl x \<Rightarrow> (Inl x, s)
         | Inr resp \<Rightarrow> (Inr (), if ussd_registered E (platform s) then emit (Notify_ussd resp) s else s))
      else if response = RIL_UNSOL_RESPONSE_PS_NETWORK_STATE_CHANGED then
        (case element (responseInts E p1) 0 of
           Inl x \<Rightarrow> (Inl x, s)
         | Inr v \<Rightarrow> (Inr (), if v \<noteq> 4 then emit Notify_voice_network s else s))
      else (Inr (), emit (Super_processUnsolicited p type) s))"

end
