(* ===== verification/Ril_Props.thy ===== *)
theory Ril_Props
  imports Ril Ecc_Props
begin

text \<open>
  The radio layer: how calls are dialled, which interface a data call gets, what becomes of an answer, and when the
  modem is switched.
\<close>

section \<open>Dialling\<close>

text \<open>The pairs of a number and a category the network sent.\<close>

definition network_categories :: "string \<Rightarrow> (string \<times> int) set" where
  "network_categories cats =
     {(num, v). \<exists>p \<in> set (java_split CHR '';'' cats). \<exists>cat. java_split CHR '','' p = [num, cat] \<and> parse_int cat = Some v}"

lemma update_subset: "set (AList.update k v m) \<subseteq> insert (k, v) (set m)"
  by (induction m) auto

lemma put_categories_pairs:
  "set (snd (put_categories ps m)) \<subseteq> set m \<union>
    {(num, v). \<exists>p \<in> set ps. \<exists>cat. java_split CHR '','' p = [num, cat] \<and> parse_int cat = Some v}"
proof (induction ps arbitrary: m)
  case (Cons p ps)
  show ?case
  proof (cases "p \<noteq> [] \<and> (\<exists>num cat. java_split CHR '','' p = [num, cat])")
    case True
    then obtain num cat where p: "p \<noteq> []" "java_split CHR '','' p = [num, cat]" by blast
    show ?thesis
    proof (cases "parse_int cat")
      case None
      with p show ?thesis by auto
    next
      case (Some v)
      with p Cons.IH [of "AList.update num v m"] update_subset [of num v m] show ?thesis by fastforce
    qed
  next
    case False
    then have "put_categories (p # ps) m = put_categories ps m" by (cases "p = []") (auto simp: two_case)
    with Cons.IH [of m] show ?thesis by auto
  qed
qed simp

text \<open>What a call to the recognition leaves in the map.\<close>

lemma recognition_map:
  assumes "categories_ok (prop_get E (psys l) ''ril.ecc.service.category.list'')"
  shows "set (mHashMapForNetworkEccCategory (snd (isEmergencyNumberExt E (Some d) l))) \<subseteq>
      network_categories (prop_get E (psys l) ''ril.ecc.service.category.list'')"
    and "fst ` set (mHashMapForNetworkEccCategory (snd (isEmergencyNumberExt E (Some d) l))) =
      network_numbers (prop_get E (psys l) ''ril.ecc.service.category.list'')"
    and "mCustomizedEccList (snd (isEmergencyNumberExt E (Some d) l)) = mCustomizedEccList l"
    and "psys (snd (isEmergencyNumberExt E (Some d) l)) = psys l"
proof -
  let ?cats = "prop_get E (psys l) ''ril.ecc.service.category.list''"
  let ?rm = "if ?cats = [] then (Inr (), []) else put_categories (java_split CHR '';'' ?cats) []"
  have rm: "fst ` set (snd ?rm) = network_numbers ?cats" "set (snd ?rm) \<subseteq> network_categories ?cats"
    using assms put_categories_ok [of "java_split CHR '';'' ?cats" "[]"]
      put_categories_pairs [of "java_split CHR '';'' ?cats" "[]"]
    by (auto simp: categories_ok_def network_numbers_def network_categories_def)
  have s: "snd (isEmergencyNumberExt E (Some d) l) = l\<lparr>mHashMapForNetworkEccCategory := snd ?rm\<rparr>"
    unfolding isEmergencyNumberExt_def option.case Let_def by (simp add: split_beta split: sum.splits)
  show "set (mHashMapForNetworkEccCategory (snd (isEmergencyNumberExt E (Some d) l))) \<subseteq> network_categories ?cats"
    "fst ` set (mHashMapForNetworkEccCategory (snd (isEmergencyNumberExt E (Some d) l))) = network_numbers ?cats"
    "mCustomizedEccList (snd (isEmergencyNumberExt E (Some d) l)) = mCustomizedEccList l"
    "psys (snd (isEmergencyNumberExt E (Some d) l)) = psys l"
    unfolding s using rm by simp_all
qed

text \<open>The category of an address: of a network number it matches, else of the first customised entry, else 0.\<close>

definition category_of :: "('k, 'x) props_env_scheme \<Rightarrow> 'k ecc \<Rightarrow> string \<Rightarrow> int \<Rightarrow> bool" where
  "category_of E l number c \<longleftrightarrow>
     (let cats = prop_get E (psys l) ''ril.ecc.service.category.list'' in
      if found (network_numbers cats) number then \<exists>n. (n, c) \<in> network_categories cats \<and> matches n number
      else case find (\<lambda>e. matches (mEcc e) number) (mCustomizedEccList l) of
          None \<Rightarrow> c = 0
        | Some e \<Rightarrow> parse_int (mCategory e) = Some c)"

lemma category_found:
  fixes E :: "('k, 'x) props_env_scheme" and l :: "'k ecc" and d :: string
  defines "l' \<equiv> snd (isEmergencyNumberExt E (Some d) l)"
  assumes "order_ok E" and "categories_ok (prop_get E (psys l) ''ril.ecc.service.category.list'')"
    and "\<forall>e \<in> set (mCustomizedEccList l). parse_int (mCategory e) \<noteq> None"
  obtains c where "getServiceCategoryFromEcc E number l' = Inr c" and "category_of E l number c"
proof -
  let ?m = "mHashMapForNetworkEccCategory l'"
  note m = recognition_map [OF assms(3), of d, folded l'_def]
  have keys: "set (key_order E (map fst ?m)) = fst ` set ?m" using assms(2) by (simp add: order_ok_def)
  show thesis
  proof (cases "find (\<lambda>num. matches num number \<and> map_of ?m num \<noteq> None) (key_order E (map fst ?m))")
    case (Some n)
    then have n: "matches n number" "map_of ?m n \<noteq> None" by (auto simp: find_Some_iff)
    then obtain c where c: "map_of ?m n = Some c" by auto
    then have "(n, c) \<in> set ?m" by (rule map_of_SomeD)
    with m(1,2) n(1) have "category_of E l number c"
      unfolding category_of_def Let_def found_def by force
    moreover have "getServiceCategoryFromEcc E number l' = Inr c"
      using Some c by (simp add: getServiceCategoryFromEcc_def)
    ultimately show thesis by (rule that [rotated])
  next
    case None
    have no: "\<not> found (network_numbers (prop_get E (psys l) ''ril.ecc.service.category.list'')) number"
      using None keys m(2) by (auto simp: find_None_iff found_def map_of_eq_None_iff)
    let ?f = "find (\<lambda>e. matches (mEcc e) number) (mCustomizedEccList l)"
    have "parse_int (mCategory e) \<noteq> None" if "?f = Some e" for e
      using that assms(4) by (metis find_Some_iff nth_mem)
    then obtain c where c: "case ?f of None \<Rightarrow> c = 0 | Some e \<Rightarrow> parse_int (mCategory e) = Some c"
      by (cases ?f) fastforce+
    have "getServiceCategoryFromEcc E number l' = Inr c"
      using c None m(3) by (cases ?f) (auto simp: getServiceCategoryFromEcc_def)
    moreover have "category_of E l number c" using c no by (simp add: category_of_def)
    ultimately show thesis by (rule that)
  qed
qed

text \<open>
  C16: an address is dialled as an emergency call exactly when its dialled part is an emergency number: first the
  category of the address is sent, then the emergency call with the caller's message; any other address goes to the base class.
\<close>

theorem dial_decides:
  assumes "order_ok E" and "categories_ok (prop_get E (platform s) ''ril.ecc.service.category.list'')"
    and "\<forall>e \<in> set (mCustomizedEccList (mEccList s)). parse_int (mCategory e) \<noteq> None"
  shows "\<exists>s'. dial E (Some a) clir uus m s = (Inr (), s') \<and> dataCallCids s' = dataCallCids s \<and> platform s' = platform s \<and>
    (if found (emergency_numbers E (mEccList s)) (extractNetworkPortionAlt E a)
     then \<exists>c. category_of E (mEccList s) a c \<and>
       out s' = out s @ [ecc_category_request c, emergency_dial_request a clir uus m]
     else out s' = out s @ [Super_dial (Some a) clir uus m])"
proof -
  obtain r l where rl: "isEmergencyNumberExt E (Some a) (mEccList s) = (r, l)" by force
  obtain c where c: "getServiceCategoryFromEcc E a l = Inr c" "category_of E (mEccList s) a c"
    using category_found [OF assms, of a a] rl by auto
  have r: "r = Inr (found (emergency_numbers E (mEccList s)) (extractNetworkPortionAlt E a))"
    using recognised [OF assms(1,2), of a] rl by (simp add: found_def)
  have "psys l = platform s" using recognition_map(4) [OF assms(2), of a] rl by simp
  then show ?thesis
    unfolding dial_def rl prod.case r sum.case Let_def option.case c(1) using c(2) by (auto simp: emit_def)
qed

section \<open>Data calls\<close>

lemma first_slot_Some:
  "first_slot P cids = Some i \<longleftrightarrow> i < 4 \<and> P (cids ! i) \<and> (\<forall>j < i. \<not> P (cids ! j))"
  unfolding first_slot_def find_Some_iff by auto

lemma first_slot_None: "first_slot P cids = None \<longleftrightarrow> (\<forall>i < 4. \<not> P (cids ! i))"
  by (auto simp: first_slot_def find_None_iff)

text \<open>
  Data calls one after the other: each is set up and answered before the next is set up. The calls that live are kept
  beside the state, each with the interface it was set up with.
\<close>

inductive data_step ::
  "('k, 'p, 'd, 'x) ril_env_scheme \<Rightarrow> ('k, 'p, 'd) ril \<times> (int \<times> int) list \<Rightarrow> ('k, 'p, 'd) ril \<times> (int \<times> int) list \<Rightarrow> bool"
  for E :: "('k, 'p, 'd, 'x) ril_env_scheme" where
  call_up: "fetchCidFromDataCall E p (setupDataCall E tech profile apn user pw auth prot m s) = (Inr d, s') \<Longrightarrow>
    0 \<le> cid_of E d \<Longrightarrow> cid_of E d \<notin> fst ` set live \<Longrightarrow>
    data_step E (s, live) (s', (cid_of E d, interface_id (dataCallCids s)) # live)"
| call_refused: "fetchCidFromDataCall E p (setupDataCall E tech profile apn user pw auth prot m s) = (Inr d, s') \<Longrightarrow>
    cid_of E d < 0 \<Longrightarrow> data_step E (s, live) (s', live)"
| call_failed: "fetchCidFromDataCall E p (setupDataCall E tech profile apn user pw auth prot m s) = (Inl x, s') \<Longrightarrow>
    data_step E (s, live) (s', live)"
| call_down: "0 \<le> cid \<Longrightarrow>
    data_step E (s, live) (deactivateDataCall cid reason m s, filter (\<lambda>(c, _). c \<noteq> cid) live)"
| call_other: "dataCallCids s' = dataCallCids s \<Longrightarrow> data_step E (s, live) (s', live)"

definition data_start :: "('k, 'p, 'd) ril \<times> (int \<times> int) list \<Rightarrow> bool" where
  "data_start x \<longleftrightarrow> dataCallCids (fst x) = [-1, -1, -1, -1, -1] \<and> snd x = []"

text \<open>The slots below the last hold exactly the live calls that have an interface.\<close>

definition slots_show :: "int list \<Rightarrow> (int \<times> int) list \<Rightarrow> bool" where
  "slots_show cids live \<longleftrightarrow> length cids = 5 \<and> distinct (map fst live) \<and>
     (\<forall>(c, j) \<in> set live. 0 \<le> c \<and> 0 \<le> j \<and> j \<le> 4 \<and> (j \<noteq> 0 \<longrightarrow> cids ! nat (j - 1) = c)) \<and>
     (\<forall>i < 4. 0 \<le> cids ! i \<longrightarrow> (cids ! i, int i + 1) \<in> set live)"

lemma setup_cids [simp]:
  "dataCallCids (setupDataCall E tech profile apn user pw auth prot m s) = dataCallCids s"
  by (simp add: setupDataCall_def emit_def)

lemma fetch_cids:
  "dataCallCids (snd (fetchCidFromDataCall E p s)) =
    (case responseSetupDataCall E p of
       Inl x \<Rightarrow> dataCallCids s
     | Inr d \<Rightarrow>
         (case first_slot (\<lambda>c. c < 0) (dataCallCids s) of
            None \<Rightarrow> dataCallCids s
          | Some i \<Rightarrow> if 0 \<le> cid_of E d then (dataCallCids s)[i := cid_of E d] else dataCallCids s))"
  by (simp add: fetchCidFromDataCall_def split: sum.split option.split)

lemma fetch_result: "fetchCidFromDataCall E p s = (r, s') \<Longrightarrow> responseSetupDataCall E p = r"
  by (auto simp: fetchCidFromDataCall_def split: sum.splits option.splits if_splits)

lemma deactivate_cids:
  "dataCallCids (deactivateDataCall cid reason m s) =
    (case first_slot (\<lambda>c. c = cid) (dataCallCids s) of
       None \<Rightarrow> dataCallCids s | Some i \<Rightarrow> (dataCallCids s)[i := -1])"
  by (simp add: deactivateDataCall_def emit_def Let_def split: option.split)

lemma slots_show_up:
  assumes "slots_show cids live" and "0 \<le> cid" and "cid \<notin> fst ` set live"
  shows "slots_show (case first_slot (\<lambda>c. c < 0) cids of None \<Rightarrow> cids | Some i \<Rightarrow> cids[i := cid])
    ((cid, interface_id cids) # live)"
proof (cases "first_slot (\<lambda>c. c < 0) cids")
  case None
  with assms show ?thesis by (auto simp: slots_show_def interface_id_def)
next
  case (Some i)
  then have i: "i < 4" "cids ! i < 0" by (auto simp: first_slot_Some)
  have "nat (j - 1) \<noteq> i" if "(c, j) \<in> set live" "j \<noteq> 0" for c j
    using assms(1) that i by (fastforce simp: slots_show_def)
  with assms Some i show ?thesis
    by (auto simp: slots_show_def interface_id_def nth_list_update)
qed

lemma slots_show_down:
  assumes "slots_show cids live" and "0 \<le> cid"
  shows "slots_show (case first_slot (\<lambda>c. c = cid) cids of None \<Rightarrow> cids | Some i \<Rightarrow> cids[i := -1])
    (filter (\<lambda>(c, _). c \<noteq> cid) live)"
proof (cases "first_slot (\<lambda>c. c = cid) cids")
  case None
  then have "cids ! i \<noteq> cid" if "i < 4" for i using that by (simp add: first_slot_None)
  with assms None show ?thesis by (auto simp: slots_show_def distinct_map_filter)
next
  case (Some i)
  then have i: "i < 4" "cids ! i = cid" by (auto simp: first_slot_Some)
  have dist: "distinct (map fst live)" using assms(1) by (simp add: slots_show_def)
  have only: "k = i" if "k < 4" "cids ! k = cid" for k
  proof -
    have "(cid, int k + 1) \<in> set live" "(cid, int i + 1) \<in> set live"
      using assms that i by (auto simp: slots_show_def)
    with dist have "int k + 1 = int i + 1" by (rule eq_key_imp_eq_value)
    then show ?thesis by simp
  qed
  have len: "length cids = 5" using assms(1) by (simp add: slots_show_def)
  have elem: "0 \<le> c \<and> 0 \<le> j \<and> j \<le> 4 \<and> (j \<noteq> 0 \<longrightarrow> cids[i := -1] ! nat (j - 1) = c)"
    if "(c, j) \<in> set live" "c \<noteq> cid" for c j
    using assms(1) that i(2) by (cases "i = nat (j - 1)") (auto simp: slots_show_def)
  have slot: "(cids[i := -1] ! k, int k + 1) \<in> set (filter (\<lambda>(c, _). c \<noteq> cid) live)"
    if "k < 4" "0 \<le> cids[i := -1] ! k" for k
  proof (cases "k = i")
    case True
    with that i(1) len show ?thesis by simp
  next
    case False
    with only [OF that(1)] assms(1) that show ?thesis by (auto simp: slots_show_def)
  qed
  have "slots_show (cids[i := -1]) (filter (\<lambda>(c, _). c \<noteq> cid) live)"
    unfolding slots_show_def
  proof (intro conjI)
    show "distinct (map fst (filter (\<lambda>(c, _). c \<noteq> cid) live))" using dist by (rule distinct_map_filter)
    show "\<forall>(c, j) \<in> set (filter (\<lambda>(c, _). c \<noteq> cid) live).
        0 \<le> c \<and> 0 \<le> j \<and> j \<le> 4 \<and> (j \<noteq> 0 \<longrightarrow> cids[i := -1] ! nat (j - 1) = c)"
      using elem by force
  qed (use slot len in auto)
  with Some show ?thesis by simp
qed

lemma data_step_slots:
  assumes "data_step E x y" and "slots_show (dataCallCids (fst x)) (snd x)"
  shows "slots_show (dataCallCids (fst y)) (snd y)"
  using assms
proof cases
  case (call_up p tech profile apn user pw auth prot m s d s' live)
  then have "dataCallCids s' = (case first_slot (\<lambda>c. c < 0) (dataCallCids s) of
      None \<Rightarrow> dataCallCids s | Some i \<Rightarrow> (dataCallCids s)[i := cid_of E d])"
    using fetch_cids [of E p "setupDataCall E tech profile apn user pw auth prot m s"] fetch_result [OF call_up(3)]
    by (simp split: option.split)
  with call_up slots_show_up assms(2) show ?thesis by simp
next
  case (call_refused p tech profile apn user pw auth prot m s d s' live)
  then have "dataCallCids s' = dataCallCids s"
    using fetch_cids [of E p "setupDataCall E tech profile apn user pw auth prot m s"] fetch_result [OF call_refused(3)]
    by (simp split: option.splits)
  with call_refused assms(2) show ?thesis by simp
next
  case (call_failed p tech profile apn user pw auth prot m s x s' live)
  then have "dataCallCids s' = dataCallCids s"
    using fetch_cids [of E p "setupDataCall E tech profile apn user pw auth prot m s"] fetch_result [OF call_failed(3)]
    by simp
  with call_failed assms(2) show ?thesis by simp
next
  case (call_down cid s reason m live)
  with assms(2) slots_show_down show ?thesis by (simp add: deactivate_cids)
next
  case (call_other s' s live)
  with assms(2) show ?thesis by simp
qed

lemma data_start_slots: "data_start x \<Longrightarrow> slots_show (dataCallCids (fst x)) (snd x)"
  by (auto simp: data_start_def slots_show_def less_Suc_eq numeral_eq_Suc)

interpretation data_calls: invariant_system data_start "data_step E" "\<lambda>x. slots_show (dataCallCids (fst x)) (snd x)" for E
  by unfold_locales (auto intro: data_start_slots data_step_slots)

lemma own_interfaces:
  assumes "slots_show cids live"
  shows "distinct (filter (\<lambda>j. j \<noteq> 0) (map snd live))"
proof -
  have dist: "distinct live" using assms by (simp add: slots_show_def distinct_map)
  have cid: "c = cids ! nat (j - 1)" if "(c, j) \<in> set live" "j \<noteq> 0" for c j
    using assms that by (auto simp: slots_show_def)
  have "inj_on snd (set (filter (\<lambda>x. snd x \<noteq> 0) live))"
  proof (rule inj_onI)
    fix x y assume xy: "x \<in> set (filter (\<lambda>x. snd x \<noteq> 0) live)" "y \<in> set (filter (\<lambda>x. snd x \<noteq> 0) live)" "snd x = snd y"
    have "(fst x, snd x) \<in> set live" "snd x \<noteq> 0" using xy(1) by simp_all
    moreover have "(fst y, snd x) \<in> set live" using xy(2,3) by simp
    ultimately have "fst x = fst y" using cid by metis
    with xy(3) show "x = y" by (simp add: prod_eq_iff)
  qed
  with dist show ?thesis by (simp add: filter_map distinct_map comp_def)
qed

lemma free_interface:
  assumes "slots_show cids live"
  shows "if {1, 2, 3, 4} \<subseteq> snd ` set live then interface_id cids = 0
    else interface_id cids \<in> {1, 2, 3, 4} - snd ` set live \<and> (\<forall>j \<in> {1, 2, 3, 4} - snd ` set live. interface_id cids \<le> j)"
proof -
  have used: "int i + 1 \<in> snd ` set live \<longleftrightarrow> 0 \<le> cids ! i" if "i < 4" for i
    using assms that by (force simp: slots_show_def)
  have ids: "{1, 2, 3, 4} = (\<lambda>i. int i + 1) ` {i. i < 4}"
    by (force simp: image_iff)
  show ?thesis
  proof (cases "first_slot (\<lambda>c. c < 0) cids")
    case None
    then have "{1, 2, 3, 4} \<subseteq> snd ` set live"
      unfolding ids using used by (auto simp: first_slot_None not_less)
    with None show ?thesis by (simp add: interface_id_def)
  next
    case (Some i)
    then have i: "i < 4" "cids ! i < 0" "\<And>j. j < i \<Longrightarrow> 0 \<le> cids ! j" by (auto simp: first_slot_Some not_less)
    then have free: "int i + 1 \<in> {1, 2, 3, 4} - snd ` set live"
      unfolding ids using used [of i] by auto
    have least: "int i \<le> int j" if "j < 4" "int j + 1 \<notin> snd ` set live" for j
      using i(3) [of j] used [OF that(1)] that(2) by force
    from free least Some show ?thesis
      unfolding ids by (auto simp: interface_id_def)
  qed
qed

text \<open>
  C18: as long as each data call is answered before the next is set up, no two live calls share an interface, a new
  call gets the smallest free one of the four, and none (0) only when all four are in use.
\<close>

theorem data_calls_have_own_interfaces:
  assumes "reach data_start (data_step E) (s, live)"
  shows "distinct (filter (\<lambda>j. j \<noteq> 0) (map snd live)) \<and>
    (if {1, 2, 3, 4} \<subseteq> snd ` set live then interface_id (dataCallCids s) = 0
     else interface_id (dataCallCids s) \<in> {1, 2, 3, 4} - snd ` set live \<and>
       (\<forall>j \<in> {1, 2, 3, 4} - snd ` set live. interface_id (dataCallCids s) \<le> j))"
proof -
  have slots: "slots_show (dataCallCids s) live" using data_calls.inv_reach [OF assms] by simp
  then show ?thesis using own_interfaces free_interface by blast
qed

section \<open>Radio power\<close>

lemma set_property_ok:
  assumes "props_ok E" and "set_property E key v s = (Inr (), s')"
  shows "prop_get E (platform s') other = (if other = key then v else prop_get E (platform s) other)" and "out s' = out s"
    and "dataCallCids s' = dataCallCids s"
  using assms unfolding props_ok_def set_property_def by (auto split: sum.splits)

lemma setRadioPower_calls:
  assumes "props_ok E" and "setRadioPower E on m s = (Inr (), s')"
  shows "out s' = out s @
      [if on \<and> prop_get E (platform s) ''persist.radio.airplane.mode.on'' = ''true'' \<and> airplane_mode_on E (platform s) \<noteq> 1
       then Send RIL_REQUEST_MODEM_POWERON m []
       else if \<not> on \<and> airplane_mode_on E (platform s) = 1 then Send RIL_REQUEST_MODEM_POWEROFF m []
       else Super_setRadioPower on m] \<and>
    prop_get E (platform s') ''gsm.ril.eboot'' =
      (if on \<and> prop_get E (platform s) ''persist.radio.airplane.mode.on'' = ''true'' \<and> airplane_mode_on E (platform s) \<noteq> 1 then ''0''
       else if \<not> on \<and> airplane_mode_on E (platform s) = 1 then ''1''
       else prop_get E (platform s) ''gsm.ril.eboot'') \<and>
    prop_get E (platform s') ''persist.radio.airplane.mode.on'' =
      (if airplane_mode_on E (platform s) = 1 then ''true'' else ''false'')"
proof -
  let ?apm = "airplane_mode_on E (platform s) = 1"
  let ?was = "prop_get E (platform s) ''persist.radio.airplane.mode.on'' = ''true''"
  from assms(2) obtain s1 where s1:
    "set_property E ''persist.radio.airplane.mode.on'' (if ?apm then ''true'' else ''false'') s = (Inr (), s1)"
    by (auto simp: setRadioPower_def Let_def split: prod.splits sum.splits)
  note p1 = set_property_ok [OF assms(1) s1]
  consider (power_on) "on" "?was" "\<not> ?apm" | (power_off) "\<not> on" "?apm" | (other) "\<not> (on \<and> ?was \<and> \<not> ?apm)" "\<not> (\<not> on \<and> ?apm)"
    by blast
  then show ?thesis
  proof cases
    case power_on
    with assms(2) s1 obtain s2 where s2: "set_property E ''gsm.ril.eboot'' ''0'' s1 = (Inr (), s2)"
      "s' = emit (Send RIL_REQUEST_MODEM_POWERON m []) s2"
      by (auto simp: setRadioPower_def Let_def split: prod.splits sum.splits)
    with power_on p1 set_property_ok [OF assms(1) s2(1)] show ?thesis by (simp add: emit_def)
  next
    case power_off
    with assms(2) s1 obtain s2 where s2: "set_property E ''gsm.ril.eboot'' ''1'' s1 = (Inr (), s2)"
      "s' = emit (Send RIL_REQUEST_MODEM_POWEROFF m []) s2"
      by (auto simp: setRadioPower_def Let_def split: prod.splits sum.splits)
    with power_off p1 set_property_ok [OF assms(1) s2(1)] show ?thesis by (simp add: emit_def)
  next
    case other
    then have "s' = emit (Super_setRadioPower on m) s1"
      using assms(2) s1 by (simp add: setRadioPower_def Let_def split: if_splits)
    with other p1 show ?thesis by (auto simp: emit_def)
  qed
qed

lemma setRadioPower_stores:
  assumes "props_ok E" and "setRadioPower E on m s = (Inr (), s')"
  shows "prop_get E (platform s') ''persist.radio.airplane.mode.on'' =
    (if airplane_mode_on E (platform s) = 1 then ''true'' else ''false'')"
  using setRadioPower_calls [OF assms] by blast

text \<open>
  C37: of two calls in a row, with the stored mode left alone between them, the second switches the modem on exactly when
  it asks for power and the airplane mode was on at the first and is off now, and off exactly when it asks for no power
  in airplane mode; every other call goes to the base class.
\<close>

theorem modem_follows_airplane_mode:
  assumes "props_ok E" and "setRadioPower E on1 m1 s1 = (Inr (), s2)"
    and "prop_get E (platform s2') ''persist.radio.airplane.mode.on'' = prop_get E (platform s2) ''persist.radio.airplane.mode.on''"
    and "setRadioPower E on2 m2 s2' = (Inr (), s3)"
  shows "out s3 = out s2' @
      [if on2 \<and> airplane_mode_on E (platform s1) = 1 \<and> airplane_mode_on E (platform s2') \<noteq> 1
       then Send RIL_REQUEST_MODEM_POWERON m2 []
       else if \<not> on2 \<and> airplane_mode_on E (platform s2') = 1 then Send RIL_REQUEST_MODEM_POWEROFF m2 []
       else Super_setRadioPower on2 m2] \<and>
    prop_get E (platform s3) ''gsm.ril.eboot'' =
      (if on2 \<and> airplane_mode_on E (platform s1) = 1 \<and> airplane_mode_on E (platform s2') \<noteq> 1 then ''0''
       else if \<not> on2 \<and> airplane_mode_on E (platform s2') = 1 then ''1''
       else prop_get E (platform s2') ''gsm.ril.eboot'')"
proof -
  have stored: "prop_get E (platform s2) ''persist.radio.airplane.mode.on'' =
      (if airplane_mode_on E (platform s1) = 1 then ''true'' else ''false'')"
    using assms(2) by (rule setRadioPower_stores [OF assms(1)])
  show ?thesis
    using setRadioPower_calls [OF assms(1,4)] unfolding assms(3) stored by simp
qed

section \<open>Answers\<close>

lemma answer_keeps:
  assumes "answer_of E request p s = (r, s')"
  shows "mEccList s' = mEccList s" and "\<exists>told. set told \<subseteq> {Notify_voice_network} \<and> out s' = out s @ told"
  using assms
  by (auto simp: answer_of_def fetchCidFromDataCall_def emit_def split: if_splits sum.splits option.splits)

text \<open>
  C23: the answer to an intercepted request that succeeded or carries data takes the request off the table and
  completes its message once, without an exception whatever the error code; if the answer cannot be read, the message
  is never completed. An answer with an error and no data goes to the base class, from the start of the parcel.
\<close>

theorem intercepted_answers:
  assumes "readInt E p = (serial, p1)" and "readInt E p1 = (err, p2)"
    and "request_get E (platform s) serial = Some tr" and "mSerial tr = serial" and "mRequest tr \<in> set (intercepted E)"
    and "request_remove E (platform s) serial = (Some tr, k)"
  shows "if err = 0 \<or> 0 < dataAvail E p2 then
      \<exists>r s' told. processSolicited E p type s = (r, s') \<and> platform s' = k \<and> set told \<subseteq> {Notify_voice_network} \<and>
        (case r of
           Inr h \<Rightarrow> h = Handled (Some tr) \<and> (\<exists>ret. out s' = out s @ told @
             (case mResult tr of None \<Rightarrow> [] | Some m \<Rightarrow> [Complete m ret None]))
         | Inl _ \<Rightarrow> out s' = out s @ told)
    else processSolicited E p type s = (Inr Forwarded, emit (Super_processSolicited p type) s)"
proof (cases "err = 0 \<or> 0 < dataAvail E p2")
  case True
  let ?s1 = "s\<lparr>mEccList := (mEccList s)\<lparr>psys := k\<rparr>\<rparr>"
  obtain r s2 where r: "answer_of E (mRequest tr) p2 ?s1 = (r, s2)" by force
  obtain told where told: "set told \<subseteq> {Notify_voice_network}" "out s2 = out s @ told"
    using answer_keeps(2) [OF r] by auto
  have plat: "platform s2 = k" using answer_keeps(1) [OF r] by simp
  have step: "processSolicited E p type s =
      (case r of Inl x \<Rightarrow> (Inl x, s2) | Inr ret \<Rightarrow> (Inr (Handled (Some tr)), complete tr ret None s2))"
    using assms True r by (simp add: processSolicited_def)
  show ?thesis
  proof (cases r)
    case (Inl x)
    with True step told plat show ?thesis by auto
  next
    case (Inr ret)
    with True step told plat show ?thesis
      by (auto simp: complete_def emit_def split: option.splits)
  qed
next
  case False
  with assms(1-3) show ?thesis by (simp add: processSolicited_def go_up_def)
qed

lemma parse_15: "parse_int ''15'' = Some 15"
  by code_simp

lemma parse_0: "parse_int ''0'' = Some 0"
  by code_simp

lemma fixup_result:
  assumes "fixupPSBearerDataRegistration E p = Inr r"
  obtains q where "readStringArray E p = Some q" and "length r = length q"
    and "\<And>i. i \<noteq> 3 \<Longrightarrow> r ! i = q ! i"
    and "\<And>t. 4 \<le> length r \<Longrightarrow> r ! 3 = Some t \<Longrightarrow> \<exists>v < 128. parse_int t = Some v"
proof -
  from assms obtain q where q: "readStringArray E p = Some q"
    by (auto simp: fixupPSBearerDataRegistration_def split: option.splits)
  show thesis
  proof (cases "4 \<le> length q \<and> q ! 3 \<noteq> None")
    case True
    with assms q obtain v where v: "parse_element q 3 = Inr v" "r = (if 128 \<le> v then q[3 := Some ''15''] else q)"
      by (auto simp: fixupPSBearerDataRegistration_def split: sum.splits if_splits)
    then have "\<exists>u < 128. parse_int t = Some u" if "r ! 3 = Some t" for t
      using that True by (auto simp: parse_element_def element_def parse_15 split: if_splits option.splits)
    with that q v(2) show thesis by simp
  next
    case False
    with assms q have "r = q" by (auto simp: fixupPSBearerDataRegistration_def)
    with that q False show thesis by auto
  qed
qed

lemma ussd_result:
  assumes "ussd_strings ret = Inr u"
  shows "2 \<le> length u" and "u ! 0 = Some t \<Longrightarrow> \<exists>v. parse_int t = Some v \<and> (v < 2 \<or> 5 < v)"
proof -
  from assms obtain r w where w: "ussd_pad r = Inr w" "ussd_code w = Inr u"
    by (auto simp: ussd_strings_def split: option.splits sum.splits)
  from w(1) have two: "2 \<le> length w" by (auto simp: ussd_pad_def split: if_splits sum.splits)
  with w(2) show "2 \<le> length u" by (auto simp: ussd_code_def split: if_splits sum.splits)
  have "0 < length w" using two by linarith
  with w(2) show "u ! 0 = Some t \<Longrightarrow> \<exists>v. parse_int t = Some v \<and> (v < 2 \<or> 5 < v)"
    by (auto simp: ussd_code_def parse_element_def element_def parse_0 split: if_splits sum.splits option.splits)
qed

text \<open>
  The codes of the vendor do not reach the framework: a registration comes with a radio technology below 128 and
  is otherwise unchanged, a refresh with a result up to the reset, a USSD message with no code from 2 to 5.
\<close>

theorem vendor_codes_mapped:
  shows "(\<forall>r. fixupPSBearerDataRegistration E p = Inr r \<longrightarrow>
      (\<exists>q. readStringArray E p = Some q \<and> length r = length q \<and> (\<forall>i. i \<noteq> 3 \<longrightarrow> r ! i = q ! i)) \<and>
      (\<forall>t. 4 \<le> length r \<longrightarrow> r ! 3 = Some t \<longrightarrow> (\<exists>v < 128. parse_int t = Some v))) \<and>
    (\<forall>a. responseSimRefresh E p = Inr a \<longrightarrow> REFRESH_RESULT_INIT E \<le> REFRESH_RESULT_RESET E \<longrightarrow>
      refreshResult a \<le> REFRESH_RESULT_RESET E) \<and>
    (\<forall>u. ussd_strings ret = Inr u \<longrightarrow>
      2 \<le> length u \<and> (\<forall>t. u ! 0 = Some t \<longrightarrow> (\<exists>v. parse_int t = Some v \<and> (v < 2 \<or> 5 < v))))"
proof (intro conjI allI impI)
  fix r assume r: "fixupPSBearerDataRegistration E p = Inr r"
  then show "\<exists>q. readStringArray E p = Some q \<and> length r = length q \<and> (\<forall>i. i \<noteq> 3 \<longrightarrow> r ! i = q ! i)"
    by (rule fixup_result) blast
  show "\<exists>v < 128. parse_int t = Some v" if "4 \<le> length r" "r ! 3 = Some t" for t
    using that by (rule_tac fixup_result [OF r]) blast
next
  fix a assume "responseSimRefresh E p = Inr a" "REFRESH_RESULT_INIT E \<le> REFRESH_RESULT_RESET E"
  then show "refreshResult a \<le> REFRESH_RESULT_RESET E"
    by (auto simp: responseSimRefresh_def Let_def split: prod.splits option.splits if_splits)
next
  fix u assume "ussd_strings ret = Inr u"
  then show "2 \<le> length u" "\<And>t. u ! 0 = Some t \<Longrightarrow> \<exists>v. parse_int t = Some v \<and> (v < 2 \<or> 5 < v)"
    by (rule ussd_result)+
qed

section \<open>An example\<close>

text \<open>A platform on the properties of \<^verbatim>\<open>props_demo\<close>, whose parcels are lists of integers, with one pending set-up.\<close>

definition demo_request :: RILRequest where
  "demo_request = \<lparr>mSerial = 7, mRequest = 27, mResult = Some 1\<rparr>"

definition ril_demo :: "((string \<times> string) list, int list, int) ril_env" where
  "ril_demo = \<lparr>prop_get = prop_get props_demo, prop_set = prop_set props_demo,
     extractNetworkPortionAlt = extractNetworkPortionAlt props_demo, xml_events = xml_events props_demo,
     key_order = key_order props_demo,
     readInt = \<lambda>p. (case p of [] \<Rightarrow> (0, []) | v # q \<Rightarrow> (v, q)), readString = \<lambda>p. (None, p),
     readStringArray = \<lambda>p. Some [Some ''1'', None, None, Some ''131''], dataAvail = \<lambda>p. 4 * int (length p),
     responseInts = id, responseStrings = \<lambda>p. Some [Some ''3''],
     responseSetupDataCall = \<lambda>p. (case p of [] \<Rightarrow> Inl Library_exception | v # q \<Rightarrow> Inr v), cid_of = id,
     request_get = \<lambda>k serial. if serial = 7 then Some demo_request else None,
     request_remove = \<lambda>k serial. (Some demo_request, k),
     getSimOperator = \<lambda>k. None, airplane_mode_on = \<lambda>k. if map_of k ''airplane'' = Some ''1'' then 1 else 0,
     ussd_registered = \<lambda>k. True,
     RIL_REQUEST_SET_INITIAL_ATTACH_APN = 111, RIL_REQUEST_SETUP_DATA_CALL = 27, RIL_REQUEST_DATA_REGISTRATION_STATE = 21,
     RIL_REQUEST_ALLOW_DATA = 123, RIL_REQUEST_GET_SIM_STATUS = 1, RIL_UNSOL_ON_USSD = 1006,
     REFRESH_RESULT_INIT = 1, REFRESH_RESULT_RESET = 2\<rparr>"

definition ril_start :: "((string \<times> string) list, int list, int) ril" where
  "ril_start = \<lparr>mEccList = ecc_demo, dataCallCids = [-1, -1, -1, -1, -1], out = []\<rparr>"

lemma ril_demo_ok: "props_ok ril_demo" "order_ok ril_demo"
  using props_demo_ok by (simp_all add: ril_demo_def props_ok_def order_ok_def)

lemma ril_demo_cats: "categories_ok (prop_get ril_demo (platform ril_start) ''ril.ecc.service.category.list'')"
  using ecc_demo_cats by (simp add: ril_demo_def ril_start_def)

lemma ril_demo_numbers: "\<forall>e \<in> set (mCustomizedEccList (mEccList ril_start)). parse_int (mCategory e) \<noteq> None"
  by code_simp

text \<open>
  Two set-ups before the first answer ask for the same interface, although the two answers are kept in two slots.
\<close>

theorem overlapping_setups_share_interface:
  "let s1 = setupDataCall ril_demo 1 0 None None None 0 None None ril_start;
       s2 = setupDataCall ril_demo 1 0 None None None 0 None None s1;
       s3 = snd (fetchCidFromDataCall ril_demo [5] s2);
       s4 = snd (fetchCidFromDataCall ril_demo [6] s3)
   in out s2 ! 0 = out s2 ! 1 \<and> dataCallCids s4 = [5, 6, -1, -1, -1]"
  by code_simp

theorem dial_decides_witness:
  "\<exists>s' c. dial ril_demo (Some ''11-2'') 0 None None ril_start = (Inr (), s') \<and>
    category_of ril_demo (mEccList ril_start) ''11-2'' c \<and>
    out s' = [ecc_category_request c, emergency_dial_request ''11-2'' 0 None None]"
proof -
  have "fst (isEmergencyNumberExt ril_demo (Some ''11-2'') (mEccList ril_start)) = Inr True" by code_simp
  from trans [OF recognised [OF ril_demo_ok(2) ril_demo_cats, of "''11-2''", symmetric] this]
  have "found (emergency_numbers ril_demo (mEccList ril_start)) (extractNetworkPortionAlt ril_demo ''11-2'')"
    unfolding found_def by (simp only: sum.inject simp_thms)
  moreover have "out ril_start = []" by (simp add: ril_start_def)
  ultimately show ?thesis
    using dial_decides [OF ril_demo_ok(2) ril_demo_cats ril_demo_numbers, of "''11-2''" 0 None None]
    by (simp only: if_True append_Nil) blast
qed

theorem data_calls_have_own_interfaces_witness:
  "interface_id (dataCallCids ril_start) = 1"
proof -
  have "data_start (ril_start, [])" by (simp add: data_start_def ril_start_def)
  then have "reach data_start (data_step ril_demo) (ril_start, [])" by (rule reach_init)
  from data_calls_have_own_interfaces [OF this] show ?thesis by auto
qed

definition ril_apm :: "((string \<times> string) list, int list, int) ril" where
  "ril_apm = ril_start\<lparr>mEccList := (mEccList ril_start)\<lparr>psys := [(''airplane'', ''1'')]\<rparr>\<rparr>"

definition ril_off :: "((string \<times> string) list, int list, int) ril" where
  "ril_off = snd (setRadioPower ril_demo False None ril_apm)"

definition ril_back :: "((string \<times> string) list, int list, int) ril" where
  "ril_back = ril_off\<lparr>mEccList := (mEccList ril_off)\<lparr>psys := (''airplane'', ''0'') # platform ril_off\<rparr>\<rparr>"

text \<open>The modem is switched off in airplane mode, and on again after it.\<close>

theorem modem_follows_airplane_mode_witness:
  "out (snd (setRadioPower ril_demo True (Some 3) ril_back)) =
    [Send RIL_REQUEST_MODEM_POWEROFF None [], Send RIL_REQUEST_MODEM_POWERON (Some 3) []]"
proof -
  have off: "platform ril_off = [(''gsm.ril.eboot'', ''1''), (''persist.radio.airplane.mode.on'', ''true''), (''airplane'', ''1'')]"
    "out ril_off = [Send RIL_REQUEST_MODEM_POWEROFF None []]" by code_simp+
  have first: "setRadioPower ril_demo False None ril_apm = (Inr (), ril_off)"
    unfolding ril_off_def prod_eq_iff by (simp, code_simp)
  have second: "setRadioPower ril_demo True (Some 3) ril_back = (Inr (), snd (setRadioPower ril_demo True (Some 3) ril_back))"
    unfolding prod_eq_iff by (simp, code_simp)
  have plat: "platform ril_back = (''airplane'', ''0'') # platform ril_off" by (simp add: ril_back_def)
  have same: "prop_get ril_demo (platform ril_back) ''persist.radio.airplane.mode.on'' =
      prop_get ril_demo (platform ril_off) ''persist.radio.airplane.mode.on''"
    unfolding plat by (simp add: ril_demo_def props_demo_def)
  have modes: "airplane_mode_on ril_demo (platform ril_apm) = 1" "airplane_mode_on ril_demo (platform ril_back) = 0"
    unfolding plat by (simp_all add: ril_demo_def ril_apm_def)
  have before: "out ril_back = [Send RIL_REQUEST_MODEM_POWEROFF None []]"
    using off(2) by (simp add: ril_back_def)
  show ?thesis
    using modem_follows_airplane_mode [OF ril_demo_ok(1) first same second] modes before by simp
qed

text \<open>A set-up answered with the error 1 and data is completed without an exception.\<close>

theorem intercepted_answers_witness:
  "\<exists>told ret. set told \<subseteq> {Notify_voice_network} \<and>
    out (snd (processSolicited ril_demo [7, 1, 5] 0 ril_start)) = told @ [Complete 1 ret None]"
proof -
  have p: "readInt ril_demo [7, 1, 5] = (7, [1, 5])" "readInt ril_demo [1, 5] = (1, [5])"
    "request_get ril_demo (platform ril_start) 7 = Some demo_request" "mSerial demo_request = 7"
    "request_remove ril_demo (platform ril_start) 7 = (Some demo_request, platform ril_start)"
    by (simp_all add: ril_demo_def demo_request_def)
  have "mRequest demo_request \<in> set (intercepted ril_demo)" by (simp add: demo_request_def intercepted_def ril_demo_def)
  from intercepted_answers [OF p(1-4) this p(5), of 0] obtain r s' told where
    s': "processSolicited ril_demo [7, 1, 5] 0 ril_start = (r, s')" "set told \<subseteq> {Notify_voice_network}"
      "case r of
         Inr h \<Rightarrow> h = Handled (Some demo_request) \<and> (\<exists>ret. out s' = out ril_start @ told @
           (case mResult demo_request of None \<Rightarrow> [] | Some m \<Rightarrow> [Complete m ret None]))
       | Inl _ \<Rightarrow> out s' = out ril_start @ told"
    by (auto simp: ril_demo_def)
  have "fst (processSolicited ril_demo [7, 1, 5] 0 ril_start) = Inr (Handled (Some demo_request))" by code_simp
  with s' show ?thesis by (auto simp: demo_request_def ril_start_def)
qed

theorem vendor_codes_mapped_witness:
  "\<exists>r t v. fixupPSBearerDataRegistration ril_demo [] = Inr r \<and> r ! 3 = Some t \<and> parse_int t = Some v \<and> v < 128"
proof -
  have r: "fixupPSBearerDataRegistration ril_demo [] = Inr [Some ''1'', None, None, Some ''15'']" by code_simp
  with vendor_codes_mapped [of ril_demo "[]" None]
  have "\<exists>v < 128. parse_int ''15'' = Some v" by (auto simp: r)
  with r show ?thesis by auto
qed

end
