(* ===== verification/Platform_Shims.thy ===== *)
theory Platform_Shims
  imports Prelude
begin

text \<open>
  The small pieces of the platform: the C++ shims of \<^verbatim>\<open>libshims\<close> that give proprietary libraries the functions they
  were linked against, and the colour calibration of \<^verbatim>\<open>cmhw\<close>. What they pass their calls on to is a parameter.
\<close>

section \<open>C++ shims\<close>

text \<open>
  The constructor with four arguments is gone from the platform; the shim calls the one that also takes the name of
  the requester. Object and world are those of the caller.
\<close>

type_synonym ('o, 'w) graphic_buffer_ctor = "'o \<Rightarrow> u32 \<Rightarrow> u32 \<Rightarrow> i32 \<Rightarrow> u32 \<Rightarrow> string \<Rightarrow> 'w \<Rightarrow> 'w"

definition GraphicBuffer_C1Ejjij ::
  "('o, 'w) graphic_buffer_ctor \<Rightarrow> 'o \<Rightarrow> u32 \<Rightarrow> u32 \<Rightarrow> i32 \<Rightarrow> u32 \<Rightarrow> 'w \<Rightarrow> 'w" where
  "GraphicBuffer_C1Ejjij ctor pthis inWidth inHeight inFormat inUsage w =
     ctor pthis inWidth inHeight inFormat inUsage ''<Unknown>'' w"

text \<open>Two functions with an empty body: whatever their callers expect as a result stays as it was.\<close>

definition IDumpTunnel_asInterface :: "'w \<Rightarrow> 'w" where
  "IDumpTunnel_asInterface w = w"

definition CameraMetadata_getTagFromName :: "'w \<Rightarrow> 'w" where
  "CameraMetadata_getTagFromName w = w"

section \<open>Colour calibration\<close>

text \<open>The helpers of the platform for reading and writing a file of one line. Reading gives null when it fails.\<close>

record 'k file_utils =
  isFileWritable :: "'k \<Rightarrow> string \<Rightarrow> bool"
  readOneLine :: "'k \<Rightarrow> string \<Rightarrow> string option"
  writeLine :: "'k \<Rightarrow> string \<Rightarrow> string \<Rightarrow> bool \<times> 'k"

definition COLOR_FILE :: string where "COLOR_FILE = ''/sys/devices/platform/mtk_disp_mgr.0/rgb''"

definition isSupported :: "('k, 'x) file_utils_scheme \<Rightarrow> 'k \<Rightarrow> bool" where
  "isSupported F k = isFileWritable F k COLOR_FILE"

definition getMaxValue :: int where "getMaxValue = 2000"
definition getMinValue :: int where "getMinValue = 0"
definition getDefValue :: int where "getDefValue = getMaxValue"

definition getCurColors :: "('k, 'x) file_utils_scheme \<Rightarrow> 'k \<Rightarrow> string option" where
  "getCurColors F k = readOneLine F k COLOR_FILE"

text \<open>The text is written as it is: the bounds are for the caller.\<close>

definition setColors :: "('k, 'x) file_utils_scheme \<Rightarrow> string \<Rightarrow> 'k \<Rightarrow> bool \<times> 'k" where
  "setColors F colors k = writeLine F k COLOR_FILE colors"

end
