(* ===== verification/Spec2Isabelle.thy ===== *)
theory Spec2Isabelle
  imports Lights_Props Power_Props NetUtils_Props Wifi_Stats_Props Wifi_P2p_Props Wifi_Props Wifi_Message_Props
    Wifi_Stats_Command Wifi_Layout Lights_Threads Power_Threads Hal_Modules Doze_Props Doze_Settings_Props
    Ecc_Props Ril_Props Platform_Shims
begin

text \<open>
  A verification library for the device code of the MediaTek platform. The program is a collection of
  small native libraries that an Android system loads: a lights module, a power module, a shim that supplies
  functions of the network utilities, and the vendor library of wpa_supplicant; and of Java code: an application
  for gestures while the display is off, and the radio layer with its emergency numbers. The native libraries do not call
  each other; each talks to the kernel, and the Wi-Fi library to the supplicant it is linked with. The radio layer asks
  the emergency numbers before it dials, and updates them when the state of the SIM arrives.

  \<^bold>\<open>What is shared.\<close>
  \<^item> \<^verbatim>\<open>Prelude\<close>: word types, the faults a C function can run into, the collections of rewrite rules, reachable
    states, and the locale \<^verbatim>\<open>invariant_system\<close>: an initial condition and steps that keep an invariant.
    It is interpreted by the components on their own step relations.
  \<^item> \<^verbatim>\<open>CText\<close>: the text functions of the C library (\<^verbatim>\<open>printf\<close> conversions, bounded copies, comparisons,
    \<^verbatim>\<open>strstr\<close>, \<^verbatim>\<open>strtol\<close>), with the lemmas that numbers read back as they are printed.
  \<^item> \<^verbatim>\<open>Posix\<close>: the operating system as a record of functions over an abstract kernel state. It is a
    parameter of every operation; the world records each call with its result in a trace, and
    descriptors in use, live heap blocks and file contents are read off the trace.

  \<^bold>\<open>Lights\<close> (\<^verbatim>\<open>liblights/lights.c\<close>).
  \<^verbatim>\<open>Lights\<close> has the static variables as a record and one definition per function. \<^verbatim>\<open>Lights_Led\<close> has the lemmas
  of the two LED functions, \<^verbatim>\<open>Lights_Hal\<close> those of the handlers, and \<^verbatim>\<open>Lights_Props\<close> the properties: in every
  reachable state the LEDs follow the light in force, calls refine an abstract specification of the
  static variables, return exactly when the mutex is free, and leave no descriptor open.
  A result \<^const>\<open>None\<close> means that a call does not return (the mutex is held, or a sleep is interrupted
  forever); the wait for a timer node looks at most eleven times, so it needs no fuel. A call there runs
  alone. \<^verbatim>\<open>Lights_Progs\<close> has the same functions a second time, as programs (a codatatype) whose steps are
  single system calls, single accesses to a static variable and the operations on the mutex; a program that runs to its
  end without interruption does what the function does (\<^verbatim>\<open>runs_set_light\<close>). \<^verbatim>\<open>Lights_Threads\<close> has any number of threads that
  run these programs step by step between each other. Its rules know nothing of the mutex; since every function takes
  it before its first access and frees it with its last, every interleaving is a sequence of calls, so that what holds
  after calls in sequence holds for threads. The kernel acts inside its calls, on a state of its own.
  \<^verbatim>\<open>Hal_Modules\<close> has the tables through which the framework finds this module and the power module, and a client that
  knows nothing else: the blocks on the heap are exactly those of the devices it holds.

  \<^bold>\<open>Power\<close> (\<^verbatim>\<open>power/power.c\<close>): \<^verbatim>\<open>Power_Hal\<close> and \<^verbatim>\<open>Power_Props\<close>. The recorded profile and the published
  property agree in every reachable state. \<^verbatim>\<open>Power_Threads\<close> has the steps of a profile change one by one, since the module
  takes no lock: hints that do not overlap keep the agreement, two at the same time need not.

  \<^bold>\<open>Network utilities\<close> (\<^verbatim>\<open>libshims/netutils.c\<close>): \<^verbatim>\<open>NetUtils\<close> and \<^verbatim>\<open>NetUtils_Props\<close>. The throttle command, two
  device requests and two switches, each with what it sends and which resources it gives back. The locales
  \<^verbatim>\<open>control_call\<close> and \<^verbatim>\<open>switch\<close> state what the two requests and the two switches have in common.
  The connection is retried while it is interrupted; \<^const>\<open>None\<close> means that this never ends.

  \<^bold>\<open>Wi-Fi driver library\<close> (\<^verbatim>\<open>wpa_supplicant_8_lib\<close>).
  \<^item> \<^verbatim>\<open>Wifi_Data\<close>: the structures of the header, with their bytes as they lie in memory. A byte that was
    never set, or lies outside its object, is \<^const>\<open>None\<close>.
  \<^item> \<^verbatim>\<open>Wifi_Testmode\<close>: the environment (libnl, the supplicant's functions and constants, build options), the
    state (two static variables and the supplicant's objects), the test mode message, and the station statistics.
  \<^item> \<^verbatim>\<open>Wifi_P2p\<close>: capabilities, channels and the shared radio.
  \<^item> \<^verbatim>\<open>Wifi_Driver\<close>: which command a text is (\<^verbatim>\<open>classify\<close>, the chain of comparisons in its order), what each
    command does (\<^verbatim>\<open>do_...\<close>, composed in \<^verbatim>\<open>run_cmd\<close>), and the private command that the others end in.
  \<^item> \<^verbatim>\<open>Wifi_Layout\<close>: all structures of the header as C types, the layout the platform's rules give them, and that the bytes
    of \<^verbatim>\<open>Wifi_Data\<close> are that layout.
  \<^item> \<^verbatim>\<open>Wifi_Stats_Props\<close>, \<^verbatim>\<open>Wifi_P2p_Props\<close>, \<^verbatim>\<open>Wifi_Props\<close>, \<^verbatim>\<open>Wifi_Message_Props\<close>: the properties. The locale
    \<^verbatim>\<open>stat_field\<close> is interpreted for each of the 37 attributes of the statistics.
  \<^item> \<^verbatim>\<open>Wifi_Stats_Command\<close>: the statistics command as a whole, from the text of the command to the reply and the log.

  \<^bold>\<open>Doze\<close> (\<^verbatim>\<open>doze/src\<close>): \<^verbatim>\<open>Doze\<close> and \<^verbatim>\<open>Doze_Props\<close>. The settings, the two sensors, the service and the
  callbacks that start it, over a record of the framework's functions; the calls are recorded, and which sensors are
  listened to and how often the display is woken is read off them. The pulses of the proximity sensor are those of a
  reference on two consecutive events, the tilt sensor keeps its distance, and the listeners follow the display in every
  reachable state of the service. A Java \<^verbatim>\<open>long\<close> is a 64-bit word. \<^verbatim>\<open>Doze_Settings\<close> and \<^verbatim>\<open>Doze_Settings_Props\<close> are the
  settings page: its members, null before they are set, the switch, and the help dialog. The page, the setting and the
  last request to the service agree while writes are accepted, and the help is shown until it was cancelled once.

  \<^bold>\<open>Emergency numbers\<close> (\<^verbatim>\<open>ril/.../MtkEccList.java\<close>). \<^verbatim>\<open>Java_Text\<close> has \<^verbatim>\<open>split\<close>, \<^verbatim>\<open>join\<close>, \<^verbatim>\<open>parseInt\<close> and the
  exceptions, which are the left side of a sum. \<^verbatim>\<open>Ecc_List\<close> is the class: reading the list, recognising a number,
  its category, publishing the list. \<^verbatim>\<open>Ecc_Props\<close>: which numbers are recognised, what the update publishes, and that the
  two agree. The property service, the events of the XML parser and the order of a hash map are parameters.

  \<^bold>\<open>Radio layer\<close> (\<^verbatim>\<open>ril/.../MediaTekRIL.java\<close>): \<^verbatim>\<open>Ril\<close> and \<^verbatim>\<open>Ril_Props\<close>. Requests, answers and unsolicited messages;
  the base class, its table of requests and the parcels are parameters, and what leaves the class is recorded in its
  order. The properties: how a call is dialled, which interface a data call gets (the locale \<^verbatim>\<open>invariant_system\<close> again, on
  calls set up one after the other), what becomes of an answer, when the modem is switched, and how codes are mapped.

  \<^bold>\<open>Small pieces\<close> (\<^verbatim>\<open>libshims/*.cpp\<close>, \<^verbatim>\<open>cmhw\<close>): \<^verbatim>\<open>Platform_Shims\<close> has the forwarding constructor, the two functions with an
  empty body, and the colour calibration over the platform's file helpers, with no property of their own.

  A fault after which nothing is known of the program (a null pointer, a write past an array or any other object) is the
  left side of a sum; the undefined behaviours that only yield unknown values, reads of bytes that were never set or lie
  behind an object, are collected in the member \<^verbatim>\<open>ub\<close> of the state, and execution goes on. So the packet filter command ends in a
  fault with its first word, and nothing is claimed of what it would send.
  A netlink message is counted in the member \<^verbatim>\<open>nl_msgs\<close> from \<^verbatim>\<open>nlmsg_alloc\<close> until it is freed or handed to
  \<^verbatim>\<open>send_and_recv_msgs\<close>, which frees it. A copy into a member of the statistics takes the size the code passes, and a
  size too large shows in a member that is longer than its array.

  \<^bold>\<open>Bounds.\<close> The arrays have the sizes of the code: 20 characters for a number and for a string written to an LED
  file, 11 for a country request, 100 bytes for a message, 512 for a private command. The printed
  statistics need at most 604 characters, so a reply buffer of 605 bytes holds them; a line of the log at most 195.

  \<^bold>\<open>Not modelled.\<close> Debug output, except where it reads memory that was not set and where it is all a function does (the
  lines of the statistics); the unused BLUE constants of the lights module. The structures of the Wi-Fi header that no function
  of the repository uses have a layout but no operations. Threads of the Java code: the callbacks run one after the
  other. The titles, texts and layouts of the doze settings page, and log texts. A data race on the recorded power
  profile is modelled as steps that come between each other, not as the undefined behaviour it is in C. Policies, resources,
  init scripts and build files.
\<close>

end
